(* ===== verification/Prelude.thy ===== *)
theory Prelude
  imports Main "HOL-Library.Word" "HOL-Library.AList" "HOL-Library.Sublist" "HOL-Library.Multiset"
begin

text \<open>
  Shared vocabulary of the development: Go's machine integers, its \<open>time\<close> package at
  nanosecond precision, Go maps as association lists together with the unspecified order of
  a \<open>range\<close> loop, the error values a Kubernetes client returns, and the generic lemmas on
  folds and maps that the component theories share. The \<^theory_text>\<open>named_theorems\<close>
  collections \<open>gomap\<close> and \<open>gotime\<close> gather the facts the component proofs use.
\<close>

named_theorems gomap \<open>lookups and keys of Go maps\<close>
named_theorems gotime \<open>durations that fit into 64 bits\<close>

section \<open>Machine integers\<close>

type_synonym int32 = "32 word"

text \<open>A signed 64-bit result: the wrap-around of Go's \<open>int64\<close> arithmetic on \<open>int\<close>.\<close>

definition wrap64 :: "int \<Rightarrow> int" where
  "wrap64 x = signed_take_bit 63 x"

lemma wrap64_id [gotime]: "- (2 ^ 63) \<le> x \<Longrightarrow> x < 2 ^ 63 \<Longrightarrow> wrap64 x = x"
  by (simp add: wrap64_def signed_take_bit_int_eq_self)

lemma sint32_bounds: "- (2 ^ 31) \<le> sint (w :: int32)" "sint (w :: int32) < 2 ^ 31"
  using sint_greater_eq [of w] sint_less [of w] by simp_all

section \<open>Time\<close>

text \<open>
  An instant is a number of nanoseconds since the Unix epoch; Go's zero \<open>time.Time\<close> is
  January 1 of year 1. A duration is a signed 64-bit number of nanoseconds, and
  \<open>Time.Sub\<close> saturates instead of wrapping around.
\<close>

type_synonym gtime = int
type_synonym duration = int

definition zero_time :: gtime where
  "zero_time = - 62135596800 * 1000000000"

definition Second :: duration where
  "Second = 1000000000"

definition max_duration :: duration where
  "max_duration = 2 ^ 63 - 1"

definition min_duration :: duration where
  "min_duration = - (2 ^ 63)"

definition time_sub :: "gtime \<Rightarrow> gtime \<Rightarrow> duration" where
  "time_sub t u = max min_duration (min max_duration (t - u))"

definition time_is_zero :: "gtime \<Rightarrow> bool" where
  "time_is_zero t \<longleftrightarrow> t = zero_time"

text \<open>\<open>time.Duration(n) * time.Second\<close> for an \<open>int32\<close> count of seconds.\<close>

definition seconds32 :: "int32 \<Rightarrow> duration" where
  "seconds32 n = wrap64 (sint n * Second)"

lemma seconds32_eq [gotime]: "seconds32 n = sint n * Second"
proof -
  have "- (2 ^ 63) \<le> sint n * Second" "sint n * Second < 2 ^ 63"
    using sint32_bounds [of n] by (auto simp: Second_def)
  then show ?thesis by (simp add: seconds32_def wrap64_id)
qed

lemma time_sub_le_iff:
  assumes "min_duration \<le> d" "d < max_duration"
  shows "time_sub t u \<le> d \<longleftrightarrow> t - u \<le> d"
  using assms by (auto simp: time_sub_def min_def max_def)

lemma time_sub_less_iff:
  assumes "min_duration < d" "d \<le> max_duration"
  shows "time_sub t u < d \<longleftrightarrow> t - u < d"
  using assms by (auto simp: time_sub_def min_def max_def)

lemma seconds32_range: "min_duration < seconds32 n" "seconds32 n < max_duration"
  using sint32_bounds [of n]
  by (auto simp: seconds32_eq Second_def min_duration_def max_duration_def)

lemmas seconds32_compare [gotime] =
  time_sub_le_iff [OF less_imp_le [OF seconds32_range(1)] seconds32_range(2)]
  time_sub_less_iff [OF seconds32_range(1) less_imp_le [OF seconds32_range(2)]]

section \<open>Errors of the client\<close>

text \<open>
  The error classes the code distinguishes with the \<open>apierrors\<close> predicates, any other
  error, and \<open>fmt.Errorf\<close> with its \<open>%w\<close> verb, which wraps an error under a message.
\<close>

datatype go_error =
    NotFound
  | Conflict
  | AlreadyExists
  | OtherErr string
  | WrapErr string go_error

fun err_root :: "go_error \<Rightarrow> go_error" where
  "err_root (WrapErr m e) = err_root e"
| "err_root e = e"

definition IsNotFound :: "go_error \<Rightarrow> bool" where
  "IsNotFound e \<longleftrightarrow> err_root e = NotFound"

definition IsConflict :: "go_error \<Rightarrow> bool" where
  "IsConflict e \<longleftrightarrow> err_root e = Conflict"

definition IsAlreadyExists :: "go_error \<Rightarrow> bool" where
  "IsAlreadyExists e \<longleftrightarrow> err_root e = AlreadyExists"

text \<open>What a reconciler returns when there is no error: \<open>ctrl.Result\<close>.\<close>

record ctrl_result =
  Requeue :: bool
  RequeueAfter :: duration

definition empty_result :: ctrl_result where
  "empty_result = \<lparr>Requeue = False, RequeueAfter = 0\<rparr>"

definition requeue_now :: ctrl_result where
  "requeue_now = \<lparr>Requeue = True, RequeueAfter = 0\<rparr>"

definition requeue_after :: "duration \<Rightarrow> ctrl_result" where
  "requeue_after d = \<lparr>Requeue = False, RequeueAfter = d\<rparr>"

section \<open>Go maps\<close>

text \<open>
  A Go map with string keys is an association list: a store overwrites the entry of a
  present key in place and appends a new key, so two maps built from a common map by stores
  are equal as lists exactly when they are equal as maps.
\<close>

type_synonym 'v gomap = "(string \<times> 'v) list"

definition gm_get :: "'v gomap \<Rightarrow> string \<Rightarrow> 'v option" where
  "gm_get m k = map_of m k"

definition gm_put :: "'v gomap \<Rightarrow> string \<Rightarrow> 'v \<Rightarrow> 'v gomap" where
  "gm_put m k v = AList.update k v m"

definition gm_keys :: "'v gomap \<Rightarrow> string list" where
  "gm_keys m = map fst m"

definition gm_wf :: "'v gomap \<Rightarrow> bool" where
  "gm_wf m \<longleftrightarrow> distinct (gm_keys m)"

text \<open>
  The laws of a keyed store that the components rely on, with the lemmas they share: the
  result of storing a sequence of entries is the last entry stored under each key.
\<close>

locale keyed_store =
  fixes get :: "'m \<Rightarrow> 'k \<Rightarrow> 'v option"
    and put :: "'m \<Rightarrow> 'k \<Rightarrow> 'v \<Rightarrow> 'm"
    and wf :: "'m \<Rightarrow> bool"
  assumes get_put: "get (put m k v) k' = (if k' = k then Some v else get m k')"
    and wf_put: "wf m \<Longrightarrow> wf (put m k v)"
begin

lemma get_put_same: "get (put m k v) k = Some v"
  by (simp add: get_put)

lemma get_put_other: "k' \<noteq> k \<Longrightarrow> get (put m k v) k' = get m k'"
  by (simp add: get_put)

lemma wf_fold_put: "wf m \<Longrightarrow> wf (fold (\<lambda>x m. put m (f x) (g x)) xs m)"
  by (induction xs arbitrary: m) (simp_all add: wf_put)

lemma get_fold_put:
  "get (fold (\<lambda>x m. put m (f x) (g x)) xs m) k =
     (case filter (\<lambda>x. f x = k) xs of [] \<Rightarrow> get m k | ys \<Rightarrow> Some (g (last ys)))"
proof (induction xs arbitrary: m)
  case Nil
  then show ?case by simp
next
  case (Cons x xs)
  show ?case
    by (simp add: Cons.IH get_put split: list.split)
qed

lemma get_fold_put_None:
  "get (fold (\<lambda>x m. put m (f x) (g x)) xs m) k = None \<longleftrightarrow>
     get m k = None \<and> k \<notin> f ` set xs"
  by (induction xs arbitrary: m) (auto simp: get_put)

lemma get_fold_put_distinct:
  assumes "distinct (map f xs)" "x \<in> set xs"
  shows "get (fold (\<lambda>x m. put m (f x) (g x)) xs m) (f x) = Some (g x)"
proof -
  have "filter (\<lambda>y. f y = f x) xs = [x]"
    using assms by (induction xs) (auto simp: filter_empty_conv image_iff)
  then show ?thesis by (simp add: get_fold_put)
qed

end

interpretation gm: keyed_store gm_get gm_put gm_wf
  by unfold_locales
    (simp_all add: gm_get_def gm_put_def update_conv' gm_wf_def gm_keys_def distinct_update)

lemma gm_keys_put_set [gomap]: "set (gm_keys (gm_put m k v)) = insert k (set (gm_keys m))"
  by (simp add: gm_keys_def gm_put_def update_conv' flip: dom_map_of_conv_image_fst)

lemma gm_get_None [gomap]: "gm_get m k = None \<longleftrightarrow> k \<notin> set (gm_keys m)"
  by (simp add: gm_get_def gm_keys_def map_of_eq_None_iff)

lemma gm_put_not_Nil [gomap]: "gm_put m k v \<noteq> []"
  by (cases m) (auto simp: gm_put_def)

text \<open>
  The iteration order of \<open>for k, v := range m\<close> is unspecified in Go. A loop takes the
  order as an oracle: a function from the list of keys to a rearrangement of it.
\<close>

type_synonym iter_order = "string list \<Rightarrow> string list"

definition iter_ok :: "iter_order \<Rightarrow> bool" where
  "iter_ok it \<longleftrightarrow> (\<forall>ks. mset (it ks) = mset ks)"

definition range_map :: "iter_order \<Rightarrow> 'v gomap \<Rightarrow> (string \<times> 'v) list" where
  "range_map it m =
     concat (map (\<lambda>k. case gm_get m k of None \<Rightarrow> [] | Some v \<Rightarrow> [(k, v)]) (it (gm_keys m)))"

lemma set_iter [gomap]: "iter_ok it \<Longrightarrow> set (it ks) = set ks"
  by (metis iter_ok_def mset_eq_setD)

lemma set_range_map [gomap]:
  assumes "iter_ok it"
  shows "set (range_map it m) = {(k, v). gm_get m k = Some v}"
proof -
  have "k \<in> set (gm_keys m)" if "gm_get m k = Some v" for k v
    using that gm_get_None [of m k] by auto
  then show ?thesis
    using assms by (auto simp: range_map_def set_iter split: option.splits)
qed

lemma iter_ok_id: "iter_ok (\<lambda>ks. ks)"
  by (simp add: iter_ok_def)

lemma iter_ok_rev: "iter_ok rev"
  by (simp add: iter_ok_def)

section \<open>Folds\<close>

lemma fold_frame: "(\<And>x e. x \<in> set xs \<Longrightarrow> p (f x e) = p e) \<Longrightarrow> p (fold f xs e) = p e"
  by (induction xs arbitrary: e) auto

lemma fold_invariant_on:
  "(\<And>x e. x \<in> set xs \<Longrightarrow> P e \<Longrightarrow> P (f x e)) \<Longrightarrow> P e \<Longrightarrow> P (fold f xs e)"
  by (induction xs arbitrary: e) auto

lemma fold_commute_proj:
  "(\<And>x e. p (f x e) = g x (p e)) \<Longrightarrow> p (fold f xs e) = fold g xs (p e)"
  by (induction xs arbitrary: e) auto

section \<open>Transition systems\<close>

text \<open>An invariant of a transition system holds in every state a run reaches.\<close>

locale invariant_system =
  fixes start :: "'s \<Rightarrow> bool"
    and step :: "'s \<Rightarrow> 's \<Rightarrow> bool"
    and inv :: "'s \<Rightarrow> bool"
  assumes start_inv: "start s \<Longrightarrow> inv s"
    and step_inv: "inv s \<Longrightarrow> step s t \<Longrightarrow> inv t"
begin

lemma run_inv: "step\<^sup>*\<^sup>* s t \<Longrightarrow> inv s \<Longrightarrow> inv t"
  by (induction rule: rtranclp_induct) (auto intro: step_inv)

lemma reachable_inv: "start s \<Longrightarrow> step\<^sup>*\<^sup>* s t \<Longrightarrow> inv t"
  by (blast intro: start_inv run_inv)

end

end
