(* ===== verification/GoText.thy ===== *)
theory GoText
  imports Prelude "HOL-Library.Char_ord" "HOL-Library.List_Lexorder"
begin

text \<open>
  The string operations of Go's \<open>fmt\<close>, \<open>strings\<close>, \<open>sort\<close> and \<open>encoding/hex\<close> packages
  that the operator uses. A Go string is its list of bytes; case mapping is modelled on the
  ASCII range, where the operator's identifiers (Kubernetes names, phases, roles) live.
\<close>

section \<open>Decimal numbers\<close>

definition digit_char :: "nat \<Rightarrow> char" where
  "digit_char n = char_of (48 + n)"

fun natoa :: "nat \<Rightarrow> string" where
  "natoa n = (if n < 10 then [digit_char n] else natoa (n div 10) @ [digit_char (n mod 10)])"

declare natoa.simps [simp del]

text \<open>The \<open>%d\<close> verb.\<close>

definition itoa :: "int \<Rightarrow> string" where
  "itoa i = (if i < 0 then CHR ''-'' # natoa (nat (- i)) else natoa (nat i))"

text \<open>The \<open>%d\<close> verb on an \<open>int32\<close>.\<close>

definition itoa32 :: "int32 \<Rightarrow> string" where
  "itoa32 w = itoa (sint w)"

text \<open>Reading the digits back: \<open>natoa\<close> has a left inverse, so it is injective.\<close>

definition digit_val :: "char \<Rightarrow> nat" where
  "digit_val c = of_char c - 48"

definition atonat :: "string \<Rightarrow> nat" where
  "atonat s = foldl (\<lambda>n c. 10 * n + digit_val c) 0 s"

lemma digit_val_digit_char: "n < 10 \<Longrightarrow> digit_val (digit_char n) = n"
  by (simp add: digit_val_def digit_char_def)

lemma atonat_natoa: "atonat (natoa n) = n"
proof (induction n rule: natoa.induct)
  case (1 n)
  show ?case
  proof (cases "n < 10")
    case True
    then show ?thesis by (simp add: natoa.simps [of n] atonat_def digit_val_digit_char)
  next
    case False
    then have "atonat (natoa n) = 10 * atonat (natoa (n div 10)) + n mod 10"
      by (simp add: natoa.simps [of n] atonat_def digit_val_digit_char)
    with False "1.IH" show ?thesis by simp
  qed
qed

lemma natoa_digits: "c \<in> set (natoa n) \<Longrightarrow> 48 \<le> (of_char c :: nat) \<and> (of_char c :: nat) \<le> 57"
proof (induction n rule: natoa.induct)
  case (1 n)
  then show ?case
    by (cases "n < 10") (auto simp: natoa.simps [of n] digit_char_def)
qed

lemma itoa_inject: "itoa i = itoa j \<longleftrightarrow> i = j"
proof
  have no_sign: "natoa n \<noteq> CHR ''-'' # s" for n s
    using natoa_digits [of "CHR ''-''" n] by auto
  have inj: "natoa m = natoa n \<Longrightarrow> m = n" for m n
    by (metis atonat_natoa)
  assume "itoa i = itoa j"
  then show "i = j"
    by (auto simp: itoa_def no_sign no_sign [symmetric] dest!: inj split: if_splits)
qed simp

section \<open>Booleans and string lists\<close>

text \<open>The \<open>%v\<close> verb on a \<open>bool\<close> and on a \<open>[]string\<close>.\<close>

definition boolv :: "bool \<Rightarrow> string" where
  "boolv b = (if b then ''true'' else ''false'')"

fun join :: "string \<Rightarrow> string list \<Rightarrow> string" where
  "join sep [] = []"
| "join sep [x] = x"
| "join sep (x # y # ys) = x @ sep @ join sep (y # ys)"

definition stringsv :: "string list \<Rightarrow> string" where
  "stringsv xs = ''['' @ join '' '' xs @ '']''"

section \<open>Case mapping\<close>

definition lower_char :: "char \<Rightarrow> char" where
  "lower_char c =
     (let n = (of_char c :: nat) in if 65 \<le> n \<and> n \<le> 90 then char_of (n + 32) else c)"

definition to_lower :: "string \<Rightarrow> string" where
  "to_lower s = map lower_char s"

definition equal_fold :: "string \<Rightarrow> string \<Rightarrow> bool" where
  "equal_fold s t \<longleftrightarrow> to_lower s = to_lower t"

lemma lower_char_idem [simp]: "lower_char (lower_char c) = lower_char c"
  by (auto simp: lower_char_def Let_def)

lemma to_lower_idem [simp]: "to_lower (to_lower s) = to_lower s"
  by (simp add: to_lower_def)

lemma equal_fold_refl [simp]: "equal_fold s s"
  by (simp add: equal_fold_def)

lemma equal_fold_sym: "equal_fold s t \<longleftrightarrow> equal_fold t s"
  by (auto simp: equal_fold_def)

lemma equal_fold_trans: "equal_fold s t \<Longrightarrow> equal_fold t u \<Longrightarrow> equal_fold s u"
  by (simp add: equal_fold_def)

text \<open>\<open>strings.HasPrefix\<close> and \<open>strings.Contains\<close> are the library's \<open>prefix\<close> and
  \<open>sublist\<close>.\<close>

definition has_prefix :: "string \<Rightarrow> string \<Rightarrow> bool" where
  "has_prefix s p \<longleftrightarrow> prefix p s"

definition str_contains :: "string \<Rightarrow> string \<Rightarrow> bool" where
  "str_contains s t \<longleftrightarrow> sublist t s"

section \<open>Splitting and trimming\<close>

text \<open>\<open>strings.Split\<close> at a one-character separator.\<close>

fun split_at :: "char \<Rightarrow> string \<Rightarrow> string list" where
  "split_at c [] = [[]]"
| "split_at c (x # xs) =
     (if x = c then [] # split_at c xs
      else case split_at c xs of [] \<Rightarrow> [[x]] | p # ps \<Rightarrow> (x # p) # ps)"

lemma join_split_at: "join [c] (split_at c s) = s"
proof (induction s)
  case (Cons x s)
  have ne: "split_at c s \<noteq> []" by (cases s) (auto split: list.split)
  then obtain p ps where ps: "split_at c s = p # ps" by (cases "split_at c s") auto
  show ?case
    using Cons ps by (cases ps) auto
qed simp

lemma split_at_no_sep: "c \<notin> set s \<Longrightarrow> split_at c s = [s]"
  by (induction s) auto

lemma split_at_append:
  "c \<notin> set s \<Longrightarrow> split_at c (s @ c # t) = s # split_at c t"
  by (induction s) auto

lemma split_at_join:
  "ps \<noteq> [] \<Longrightarrow> \<forall>p\<in>set ps. c \<notin> set p \<Longrightarrow> split_at c (join [c] ps) = ps"
  by (induction "[c]" ps rule: join.induct) (simp_all add: split_at_no_sep split_at_append)

text \<open>\<open>strings.SplitN(s, c, 2)\<close>: at the first separator only.\<close>

definition split2 :: "char \<Rightarrow> string \<Rightarrow> string list" where
  "split2 c s =
     (case dropWhile (\<lambda>x. x \<noteq> c) s of
        [] \<Rightarrow> [s]
      | _ # r \<Rightarrow> [takeWhile (\<lambda>x. x \<noteq> c) s, r])"

lemma split2_no_sep: "c \<notin> set s \<Longrightarrow> split2 c s = [s]"
proof -
  assume "c \<notin> set s"
  then have "dropWhile (\<lambda>x. x \<noteq> c) s = []" by (auto simp: dropWhile_eq_Nil_conv)
  then show ?thesis unfolding split2_def by (simp only: list.case)
qed

lemma split2_append: "c \<notin> set s \<Longrightarrow> split2 c (s @ c # t) = [s, t]"
proof -
  assume c: "c \<notin> set s"
  then have "dropWhile (\<lambda>x. x \<noteq> c) (s @ c # t) = c # t" "takeWhile (\<lambda>x. x \<noteq> c) (s @ c # t) = s"
    by (auto intro: dropWhile_append2 [THEN trans] takeWhile_append2 [THEN trans])
  then show ?thesis by (simp add: split2_def)
qed

text \<open>\<open>strings.TrimSpace\<close> on ASCII text.\<close>

definition is_space :: "char \<Rightarrow> bool" where
  "is_space c \<longleftrightarrow> (let n = (of_char c :: nat) in n = 32 \<or> 9 \<le> n \<and> n \<le> 13)"

definition trim_space :: "string \<Rightarrow> string" where
  "trim_space s = rev (dropWhile is_space (rev (dropWhile is_space s)))"

lemma trim_space_Nil [simp]: "trim_space [] = []"
  by (simp add: trim_space_def)

lemma trim_space_id:
  assumes "s \<noteq> []" "\<not> is_space (hd s)" "\<not> is_space (last s)"
  shows "trim_space s = s"
proof -
  have dw: "dropWhile is_space t = t" if "t \<noteq> []" "\<not> is_space (hd t)" for t
    using that by (cases t) simp_all
  show ?thesis
    using assms dw [of s] dw [of "rev s"] by (simp add: trim_space_def hd_rev)
qed

section \<open>Hexadecimal digits\<close>

definition hex_digit :: "nat \<Rightarrow> char" where
  "hex_digit n = (if n < 10 then char_of (48 + n) else char_of (87 + n))"

definition hex_byte :: "8 word \<Rightarrow> string" where
  "hex_byte b = [hex_digit (unat b div 16), hex_digit (unat b mod 16)]"

definition hex_encode :: "8 word list \<Rightarrow> string" where
  "hex_encode bs = concat (map hex_byte bs)"

lemma length_hex_encode [simp]: "length (hex_encode bs) = 2 * length bs"
  by (induction bs) (simp_all add: hex_encode_def hex_byte_def)

text \<open>The bytes of a string, as \<open>[]byte(s)\<close>.\<close>

definition bytes_of :: "string \<Rightarrow> 8 word list" where
  "bytes_of s = map (\<lambda>c. of_nat (of_char c)) s"

lemma length_bytes_of [simp]: "length (bytes_of s) = length s"
  by (simp add: bytes_of_def)

end
