(* ===== verification/ApiTypes.thy ===== *)
theory ApiTypes
  imports GoText
begin

text \<open>
  The custom resources of \<open>api/v1alpha1/propagationstatus_types.go\<close>: one record per Go
  struct, its fields in the order of the source under a prefix that names the struct. A
  \<open>metav1.Time\<close> is an instant, an \<open>int32\<close> a 32-bit word read as signed, a slice a list
  (nil and empty slices coincide, as every reader of the code treats them alike), a pointer
  an option, and a map that the code compares with nil an optional association list. The
  metadata the code reads (name, namespace, generation, deletion timestamp) is part of the
  object records.
\<close>

section \<open>Observability data of a report\<close>

record EventSummary =
  esReason :: string
  esMessage :: string
  esCount :: int32
  esLastObservedAt :: gtime
  esInvolvedObject :: string

record ObjectChangeSummary =
  ocKind :: string
  ocName :: string
  ocChangeType :: string
  ocChangedFields :: "string list"

record DependencyRef =
  drKind :: string
  drName :: string
  drReady :: bool
  drNote :: string

section \<open>Validation gates\<close>

datatype GateStatus = GateStatusTrue | GateStatusFalse | GateStatusUnknown

definition gate_status_string :: "GateStatus \<Rightarrow> string" where
  "gate_status_string s =
     (case s of GateStatusTrue \<Rightarrow> ''True'' | GateStatusFalse \<Rightarrow> ''False''
      | GateStatusUnknown \<Rightarrow> ''Unknown'')"

record EvidenceRef =
  erSource :: string
  erURI :: string
  erSHA256 :: string
  erCapturedAt :: gtime
  erWindowStart :: gtime
  erWindowEnd :: gtime
  erContentType :: string
  erQuery :: string
  erCollectionID :: string

record GateResult =
  grName :: string
  grStatus :: GateStatus
  grReason :: string
  grMessage :: string
  grObservedAt :: gtime
  grEvidence :: "EvidenceRef list"

section \<open>Platform observation\<close>

record VirtualizationImpactStatus =
  viHyperConvergedHealth :: string
  viVirtHandlerReady :: bool
  viActiveMigrations :: int32
  viStalledMigrations :: int32
  viUnmigratableVMIs :: int32

text \<open>\<open>Paused\<close> and \<open>Conditions\<close> of a pool are never read or written by the operator and
  are left out.\<close>

record MachineConfigPoolStatus =
  mcpName :: string
  mcpMachineCount :: int32
  mcpReadyMachineCount :: int32
  mcpUpdatedNodeCount :: int32
  mcpUpdatingNodeCount :: int32
  mcpUnavailableNodeCount :: int32
  mcpDegradedNodeCount :: int32
  mcpCurrentRenderedConfig :: string
  mcpDesiredRenderedConfig :: string
  mcpPhase :: string

record ClusterOperatorStatus =
  coName :: string
  coAvailable :: bool
  coDegraded :: bool
  coProgressing :: bool
  coVersion :: string

record VirtualizationWorkloadSummary =
  vwTotalVMIs :: int32
  vwRunningVMIs :: int32
  vwLiveMigratableVMIs :: int32
  vwActiveMigrations :: int32
  vwStalledMigrations :: int32
  vwUnmigratableVMIs :: int32

datatype EvidenceSeverity = SeverityInfo | SeverityWarning | SeverityCritical

text \<open>Severities are ordered, so that \<open>at least a warning\<close> and the worst of a list can be stated
  with the library's orders.\<close>

fun severity_rank :: "EvidenceSeverity \<Rightarrow> nat" where
  "severity_rank SeverityInfo = 0"
| "severity_rank SeverityWarning = 1"
| "severity_rank SeverityCritical = 2"

lemma severity_rank_inject [simp]: "severity_rank a = severity_rank b \<longleftrightarrow> a = b"
  by (cases a; cases b) simp_all

instantiation EvidenceSeverity :: linorder
begin

definition less_eq_EvidenceSeverity :: "EvidenceSeverity \<Rightarrow> EvidenceSeverity \<Rightarrow> bool" where
  "less_eq_EvidenceSeverity a b \<longleftrightarrow> severity_rank a \<le> severity_rank b"

definition less_EvidenceSeverity :: "EvidenceSeverity \<Rightarrow> EvidenceSeverity \<Rightarrow> bool" where
  "less_EvidenceSeverity a b \<longleftrightarrow> severity_rank a < severity_rank b"

instance
  by standard (auto simp: less_eq_EvidenceSeverity_def less_EvidenceSeverity_def
    simp flip: severity_rank_inject)

end

lemma severity_at_least_warning: "SeverityWarning \<le> s \<longleftrightarrow> s \<noteq> SeverityInfo"
  by (cases s) (simp_all add: less_eq_EvidenceSeverity_def)

record CorrelatedEvidence =
  ceTimestamp :: gtime
  ceComponent :: string
  ceObjectID :: string
  ceEventType :: string
  ceMessage :: string
  ceSeverity :: EvidenceSeverity
  ceSource :: string

record ResourceNodeStatus =
  rnID :: string
  rnKind :: string
  rnNamespace :: string
  rnName :: string
  rnState :: string
  rnParentIDs :: "string list"
  rnBlockedBy :: string

record TopologicalDAGResult =
  tdEvaluated :: bool
  tdHealthy :: bool
  tdBlockedReason :: string
  tdNodes :: "ResourceNodeStatus list"

record CausalNode =
  cnStage :: string
  cnResource :: string
  cnStatus :: string
  cnRootCauseOf :: "string list"
  cnImpactedBy :: string

record DependencyGraphResult =
  dgHealthy :: bool
  dgRootCauseResource :: string
  dgRootCauseSummary :: string
  dgNodes :: "CausalNode list"

record ClusterVersionStatus =
  cvVersion :: string
  cvDesiredVersion :: string
  cvProgressing :: bool
  cvAvailable :: bool
  cvChannel :: string

text \<open>\<open>KubeVirtOperatorStatus\<close>, \<open>CDIOperatorStatus\<close> and \<open>SSPOperatorStatus\<close> have the same
  fields.\<close>

record OperatorDeployStatus =
  odPhase :: string
  odTargetVersion :: string
  odObservedVersion :: string
  odReady :: bool

type_synonym KubeVirtOperatorStatus = OperatorDeployStatus
type_synonym CDIOperatorStatus = OperatorDeployStatus
type_synonym SSPOperatorStatus = OperatorDeployStatus

record NodeMaintenanceStatus =
  nmActiveMaintenanceNodes :: int32
  nmMaintenanceNodeNames :: "string list"

record MigrationPolicyStatus =
  mpName :: string
  mpBandwidthPerMigration :: string
  mpAllowAutoConverge :: bool

record PlatformObservationStatus =
  poClusterOperators :: "ClusterOperatorStatus list"
  poMachineConfigPools :: "MachineConfigPoolStatus list"
  poVirtHealth :: VirtualizationImpactStatus
  poVirtWorkloads :: VirtualizationWorkloadSummary
  poClusterVersion :: ClusterVersionStatus
  poKubeVirt :: KubeVirtOperatorStatus
  poCDI :: CDIOperatorStatus
  poSSP :: SSPOperatorStatus
  poNodeMaintenance :: NodeMaintenanceStatus
  poMigrationPolicies :: "MigrationPolicyStatus list"
  poDependencyGraph :: DependencyGraphResult
  poTopologicalDAG :: TopologicalDAGResult
  poCorrelatedEvidence :: "CorrelatedEvidence list"
  poObservedAt :: gtime

record BaselineSnapshot =
  bsCapturedAt :: gtime
  bsClusterVersion :: string
  bsMachineConfigPoolHash :: string
  bsKubeVirtVersion :: string
  bsCDIVersion :: string
  bsSSPVersion :: string
  bsClusterOperatorDigest :: string

section \<open>Zero values\<close>

definition zero_VirtualizationImpactStatus :: VirtualizationImpactStatus where
  "zero_VirtualizationImpactStatus =
     \<lparr>viHyperConvergedHealth = '''', viVirtHandlerReady = False, viActiveMigrations = 0,
      viStalledMigrations = 0, viUnmigratableVMIs = 0\<rparr>"

definition zero_MachineConfigPoolStatus :: MachineConfigPoolStatus where
  "zero_MachineConfigPoolStatus =
     \<lparr>mcpName = '''', mcpMachineCount = 0, mcpReadyMachineCount = 0, mcpUpdatedNodeCount = 0,
      mcpUpdatingNodeCount = 0, mcpUnavailableNodeCount = 0, mcpDegradedNodeCount = 0,
      mcpCurrentRenderedConfig = '''', mcpDesiredRenderedConfig = '''', mcpPhase = ''''\<rparr>"

definition zero_VirtualizationWorkloadSummary :: VirtualizationWorkloadSummary where
  "zero_VirtualizationWorkloadSummary =
     \<lparr>vwTotalVMIs = 0, vwRunningVMIs = 0, vwLiveMigratableVMIs = 0, vwActiveMigrations = 0,
      vwStalledMigrations = 0, vwUnmigratableVMIs = 0\<rparr>"

definition zero_ClusterVersionStatus :: ClusterVersionStatus where
  "zero_ClusterVersionStatus =
     \<lparr>cvVersion = '''', cvDesiredVersion = '''', cvProgressing = False, cvAvailable = False,
      cvChannel = ''''\<rparr>"

definition zero_OperatorDeployStatus :: OperatorDeployStatus where
  "zero_OperatorDeployStatus =
     \<lparr>odPhase = '''', odTargetVersion = '''', odObservedVersion = '''', odReady = False\<rparr>"

definition zero_NodeMaintenanceStatus :: NodeMaintenanceStatus where
  "zero_NodeMaintenanceStatus = \<lparr>nmActiveMaintenanceNodes = 0, nmMaintenanceNodeNames = []\<rparr>"

definition zero_DependencyGraphResult :: DependencyGraphResult where
  "zero_DependencyGraphResult =
     \<lparr>dgHealthy = False, dgRootCauseResource = '''', dgRootCauseSummary = '''', dgNodes = []\<rparr>"

definition zero_TopologicalDAGResult :: TopologicalDAGResult where
  "zero_TopologicalDAGResult =
     \<lparr>tdEvaluated = False, tdHealthy = False, tdBlockedReason = '''', tdNodes = []\<rparr>"

definition zero_PlatformObservationStatus :: PlatformObservationStatus where
  "zero_PlatformObservationStatus =
     \<lparr>poClusterOperators = [], poMachineConfigPools = [],
      poVirtHealth = zero_VirtualizationImpactStatus,
      poVirtWorkloads = zero_VirtualizationWorkloadSummary,
      poClusterVersion = zero_ClusterVersionStatus, poKubeVirt = zero_OperatorDeployStatus,
      poCDI = zero_OperatorDeployStatus, poSSP = zero_OperatorDeployStatus,
      poNodeMaintenance = zero_NodeMaintenanceStatus, poMigrationPolicies = [],
      poDependencyGraph = zero_DependencyGraphResult,
      poTopologicalDAG = zero_TopologicalDAGResult, poCorrelatedEvidence = [],
      poObservedAt = zero_time\<rparr>"

section \<open>ClusterAppReport\<close>

record ClusterAppReportSpec =
  rsClusterName :: string
  rsAppName :: string
  rsAppNamespace :: string
  rsObservedRevision :: string
  rsSyncStatus :: string
  rsHealth :: string
  rsMCPStatus :: MachineConfigPoolStatus
  rsVirtStatus :: VirtualizationImpactStatus
  rsPlatformObservation :: PlatformObservationStatus
  rsObservedAt :: gtime
  rsRecentEvents :: "EventSummary list"
  rsTailLogs :: "string list"
  rsObjectChanges :: "ObjectChangeSummary list"
  rsDependencies :: "DependencyRef list"

record ClusterAppReport =
  carName :: string
  carNamespace :: string
  carLabels :: "string gomap"
  carSpec :: ClusterAppReportSpec

section \<open>PropagationStatus\<close>

record PropagationStatusSpec =
  psAppName :: string
  psAppNamespace :: string
  psExpectedRevision :: string
  psTargetClusters :: "string list"
  psLagThresholdSeconds :: int32
  psStaleReportThresholdSeconds :: int32
  psParentApp :: string
  psRootApp :: string

record ClusterRevisionState =
  csClusterName :: string
  csAppNamespace :: string
  csObservedRevision :: string
  csSyncStatus :: string
  csHealth :: string
  csObservedAt :: gtime
  csSawReportSinceChgStart :: bool
  csMCPStatus :: MachineConfigPoolStatus
  csVirtStatus :: VirtualizationImpactStatus
  csPlatformObservation :: PlatformObservationStatus
  csState :: string
  csRecentEvents :: "EventSummary list"
  csObjectChanges :: "ObjectChangeSummary list"
  csDependencies :: "DependencyRef list"

definition zero_ClusterRevisionState :: ClusterRevisionState where
  "zero_ClusterRevisionState =
     \<lparr>csClusterName = '''', csAppNamespace = '''', csObservedRevision = '''',
      csSyncStatus = '''', csHealth = '''', csObservedAt = zero_time,
      csSawReportSinceChgStart = False, csMCPStatus = zero_MachineConfigPoolStatus,
      csVirtStatus = zero_VirtualizationImpactStatus,
      csPlatformObservation = zero_PlatformObservationStatus, csState = '''',
      csRecentEvents = [], csObjectChanges = [], csDependencies = []\<rparr>"

text \<open>\<open>metav1.Condition\<close>, with the fields the operator writes.\<close>

record Condition =
  condType :: string
  condStatus :: bool
  condReason :: string
  condMessage :: string

record PropagationStatusStatus =
  pssPhase :: string
  pssClusterStates :: "ClusterRevisionState list"
  pssExpectedRevisionSince :: gtime
  pssLastExpectedRevision :: string
  pssDivergedClusters :: "string list"
  pssLaggingClusters :: "string list"
  pssStaleClusters :: "string list"
  pssMissingClusters :: "string list"
  pssObservedGeneration :: int
  pssConditions :: "Condition list"

record PropagationStatus =
  psName :: string
  psNamespace :: string
  psGeneration :: int
  psDeletionTimestamp :: "gtime option"
  psSpec :: PropagationStatusSpec
  psStatus :: PropagationStatusStatus

section \<open>ChangeWindow\<close>

record HardRefreshConfig =
  hrMaxAttempts :: int32
  hrWaitBetweenSeconds :: int32
  hrActionExecutionMode :: string

record ChangeWindowSpec =
  cwCHGNumber :: string
  cwReleaseTag :: string
  cwBaselineRevision :: string
  cwExpectedRevision :: string
  cwRootApp :: string
  cwImpactedApps :: "string list"
  cwTargetNamespaces :: "string list"
  cwStartTime :: gtime
  cwEndTime :: gtime
  cwStabilizationPeriodSeconds :: int32
  cwStaleReportThresholdSeconds :: int32
  cwEvidenceRepoURL :: string
  cwHardRefresh :: HardRefreshConfig

record SilentClusterState =
  scApp :: string
  scCluster :: string
  scState :: string
  scLastSeenAt :: gtime
  scSilentForSeconds :: int

record ActionAttemptHistory =
  ahAttempt :: int32
  ahType :: string
  ahTriggeredAt :: gtime
  ahTriggerResult :: string
  ahLogRef :: string
  ahLogSummary :: string
  ahTailLogs :: "string list"

record ActionRecord =
  arApp :: string
  arCluster :: string
  arAttempts :: int32
  arMaxAttempts :: int32
  arResult :: string
  arLastAttemptAt :: gtime
  arNextEligibleAt :: gtime
  arHistory :: "ActionAttemptHistory list"

record ValidationResult =
  vrAllChangesApplied :: bool
  vrHealthCheckPassed :: bool
  vrMCPUpdatedOnTime :: bool
  vrEventsClean :: bool
  vrObjectsConverged :: bool
  vrDependenciesReady :: bool
  vrVirtImpactPassed :: bool
  vrClusterOperatorsHealthy :: bool
  vrGateResults :: "GateResult list"
  vrIssuesFound :: "string list"
  vrPassed :: bool

definition zero_ValidationResult :: ValidationResult where
  "zero_ValidationResult =
     \<lparr>vrAllChangesApplied = False, vrHealthCheckPassed = False, vrMCPUpdatedOnTime = False,
      vrEventsClean = False, vrObjectsConverged = False, vrDependenciesReady = False,
      vrVirtImpactPassed = False, vrClusterOperatorsHealthy = False, vrGateResults = [],
      vrIssuesFound = [], vrPassed = False\<rparr>"

record TimelineEntry =
  tlTimestamp :: gtime
  tlStage :: string
  tlCategory :: string
  tlResource :: string
  tlEvent :: string
  tlDescription :: string
  tlCausalImpact :: string

definition PhaseScheduled :: string where
  [simp]: "PhaseScheduled = ''Scheduled''"
definition PhaseBaselineCaptured :: string where
  [simp]: "PhaseBaselineCaptured = ''BaselineCaptured''"
definition PhaseWaitingForChange :: string where
  [simp]: "PhaseWaitingForChange = ''WaitingForChange''"
definition PhaseExecuting :: string where
  [simp]: "PhaseExecuting = ''Executing''"
definition PhasePlatformRecovering :: string where
  [simp]: "PhasePlatformRecovering = ''PlatformRecovering''"
definition PhaseValidationRunning :: string where
  [simp]: "PhaseValidationRunning = ''ValidationRunning''"
definition PhaseSucceeded :: string where
  [simp]: "PhaseSucceeded = ''Succeeded''"
definition PhaseFailed :: string where
  [simp]: "PhaseFailed = ''Failed''"
definition PhaseTimedOut :: string where
  [simp]: "PhaseTimedOut = ''TimedOut''"

record SignedAuditReport =
  saReportID :: string
  saWindowID :: string
  saTimestamp :: gtime
  saBaselineDigest :: string
  saEvidenceChecksumSHA256 :: string
  saHMACSignature :: string
  saOverallResult :: string
  saGateResults :: "GateResult list"

record AppClusterStateMap =
  acPhase :: string
  acClusterStates :: "ClusterRevisionState list"

record ChangeWindowStatus =
  stPhase :: string
  stOverallStatus :: string
  stSilentClusters :: "SilentClusterState list"
  stActions :: "ActionRecord gomap option"
  stValidation :: ValidationResult
  stStabilizationStartedAt :: "gtime option"
  stLastReportedAt :: gtime
  stAppStates :: "AppClusterStateMap gomap option"
  stBaseline :: "BaselineSnapshot option"
  stSignedReport :: "SignedAuditReport option"
  stTimeline :: "TimelineEntry list"

definition zero_ChangeWindowStatus :: ChangeWindowStatus where
  "zero_ChangeWindowStatus =
     \<lparr>stPhase = '''', stOverallStatus = '''', stSilentClusters = [], stActions = None,
      stValidation = zero_ValidationResult, stStabilizationStartedAt = None,
      stLastReportedAt = zero_time, stAppStates = None, stBaseline = None,
      stSignedReport = None, stTimeline = []\<rparr>"

record ChangeWindow =
  chgName :: string
  chgNamespace :: string
  chgDeletionTimestamp :: "gtime option"
  chgSpec :: ChangeWindowSpec
  chgStatus :: ChangeWindowStatus

end
