(* ===== verification/Gates.thy ===== *)
theory Gates
  imports ApiTypes
begin

text \<open>
  \<open>evaluateGates\<close> of \<open>internal/controller/changewindow_controller.go\<close>: the eleven tri-state
  validation gates of a change window. The loop body is split into one block per gate, each
  a function on the gate and the list of issues found so far, and \<open>eval_cluster\<close> runs the
  blocks in the order of the source. A block that only ever lowers its gate is an instance of
  the locale \<open>sticky_gate\<close>; the two blocks that overwrite the verdict of earlier clusters are
  instances of \<open>last_wins_gate\<close>. The order in which Go ranges over the map of applications is
  the parameter \<open>it\<close>.
\<close>

section \<open>Folding verdicts into a gate\<close>

locale gate_fold =
  fixes upd :: "'o \<Rightarrow> 'e \<Rightarrow> 'e"
    and st :: "'e \<Rightarrow> GateStatus"
    and v :: "'o \<Rightarrow> GateStatus \<Rightarrow> GateStatus"
  assumes st_upd: "st (upd x e) = v x (st e)"
begin

lemma st_fold: "st (fold upd xs e) = fold v xs (st e)"
  by (rule fold_commute_proj) (rule st_upd)

end

text \<open>Once a bad observation was made the gate cannot become \<open>True\<close> again.\<close>

locale sticky_gate = gate_fold +
  fixes bad :: "'a \<Rightarrow> bool"
  assumes v_good: "\<not> bad x \<Longrightarrow> v x s = s"
    and v_bad: "bad x \<Longrightarrow> v x s \<noteq> GateStatusTrue"
begin

lemma fold_good: "(\<And>x. x \<in> set xs \<Longrightarrow> \<not> bad x) \<Longrightarrow> fold v xs s = s"
  by (induction xs) (auto simp: v_good)

lemma fold_v_not_true: "s \<noteq> GateStatusTrue \<Longrightarrow> fold v xs s \<noteq> GateStatusTrue"
proof (induction xs arbitrary: s)
  case (Cons x xs)
  then show ?case by (cases "bad x") (auto simp: v_good v_bad)
qed simp

lemma fold_v_true_iff:
  "fold v xs s = GateStatusTrue \<longleftrightarrow> s = GateStatusTrue \<and> (\<forall>x\<in>set xs. \<not> bad x)"
proof (induction xs arbitrary: s)
  case (Cons x xs)
  then show ?case by (cases "bad x") (auto simp: v_good v_bad)
qed simp

lemma st_fold_true_iff:
  "st (fold upd xs e) = GateStatusTrue \<longleftrightarrow> st e = GateStatusTrue \<and> (\<forall>x\<in>set xs. \<not> bad x)"
  by (simp add: st_fold fold_v_true_iff)

end

text \<open>A bad observation makes the gate \<open>False\<close>, whatever it was.\<close>

locale failing_gate = sticky_gate +
  assumes v_fails: "bad x \<Longrightarrow> v x s = GateStatusFalse"
begin

lemma fold_v_eq:
  "fold v xs s = (if \<exists>x\<in>set xs. bad x then GateStatusFalse else s)"
proof (induction xs arbitrary: s)
  case (Cons x xs)
  then show ?case by (cases "bad x") (auto simp: v_good v_fails)
qed simp

lemma st_fold_eq:
  "st (fold upd xs e) = (if \<exists>x\<in>set xs. bad x then GateStatusFalse else st e)"
  by (simp add: st_fold fold_v_eq)

end

text \<open>An observation that yields a verdict overwrites the gate.\<close>

locale last_wins_gate = gate_fold +
  fixes verdict :: "'a \<Rightarrow> GateStatus option"
  assumes v_verdict: "v x s = (case verdict x of None \<Rightarrow> s | Some s' \<Rightarrow> s')"
begin

lemma st_fold_last:
  "st (fold upd xs e) =
     (case rev (List.map_filter verdict xs) of [] \<Rightarrow> st e | s # _ \<Rightarrow> s)"
proof (induction xs rule: rev_induct)
  case Nil
  then show ?case by simp
next
  case (snoc x xs)
  then show ?case
    by (cases "verdict x") (simp_all add: st_upd v_verdict map_filter_def)
qed

end

section \<open>The gates and their initial values\<close>

definition mk_gate ::
  "string \<Rightarrow> GateStatus \<Rightarrow> string \<Rightarrow> string \<Rightarrow> gtime \<Rightarrow> GateResult" where
  "mk_gate n s r m t =
     \<lparr>grName = n, grStatus = s, grReason = r, grMessage = m, grObservedAt = t, grEvidence = []\<rparr>"

record gate_env =
  geClusterOps :: GateResult
  geAllChanges :: GateResult
  geHealth :: GateResult
  geMCP :: GateResult
  geEvents :: GateResult
  geObjects :: GateResult
  geDeps :: GateResult
  geVirt :: GateResult
  geClusterVersion :: GateResult
  gePlatformOps :: GateResult
  geNodeMaint :: GateResult
  geIssues :: "string list"
  geTotalClusterStates :: nat
  geObservedAnyClusterOps :: bool
  geObservedAnyMCP :: bool
  geObservedAnyVirt :: bool

definition init_gates :: "gtime \<Rightarrow> gate_env" where
  "init_gates now =
     \<lparr>geClusterOps = mk_gate ''ClusterOperatorsHealthy'' GateStatusTrue
        ''AllClusterOperatorsHealthy''
        ''All OpenShift ClusterOperators report Available=True and Degraded=False'' now,
      geAllChanges = mk_gate ''AllChangesApplied'' GateStatusTrue ''AllClustersInSync''
        ''All target cluster applications report InSync'' now,
      geHealth = mk_gate ''HealthCheckPassed'' GateStatusTrue ''AllWorkloadsHealthy''
        ''All target cluster workloads report Healthy'' now,
      geMCP = mk_gate ''MCPUpdatedOnTime'' GateStatusTrue ''MachineConfigPoolConverged''
        ''MachineConfigPool rollout updated and non-degraded'' now,
      geEvents = mk_gate ''EventsClean'' GateStatusTrue ''NoNewWarningEvents''
        ''No unresolved warning events observed during window'' now,
      geObjects = mk_gate ''ObjectsConverged'' GateStatusTrue ''AllObjectsConverged''
        ''All declared objects synced without failure'' now,
      geDeps = mk_gate ''DependenciesReady'' GateStatusTrue ''AllDependenciesReady''
        ''All referenced external dependencies are ready'' now,
      geVirt = mk_gate ''VirtImpactPassed'' GateStatusTrue ''VirtualizationPlatformHealthy''
        ''HyperConverged healthy and no stalled migrations'' now,
      geClusterVersion = mk_gate ''ClusterVersionStable'' GateStatusUnknown
        ''ClusterVersionNotReported'' ''ClusterVersion telemetry was not observed'' now,
      gePlatformOps = mk_gate ''PlatformOperatorsDeployed'' GateStatusUnknown
        ''PlatformOperatorsNotReported''
        ''KubeVirt/CDI/SSP operator telemetry was not observed'' now,
      geNodeMaint = mk_gate ''NoActiveNodeMaintenance'' GateStatusTrue ''NoMaintenanceNodes''
        ''No active NodeMaintenance objects detected'' now,
      geIssues = [], geTotalClusterStates = 0, geObservedAnyClusterOps = False,
      geObservedAnyMCP = False, geObservedAnyVirt = False\<rparr>"

definition set_gate :: "GateStatus \<Rightarrow> string \<Rightarrow> string \<Rightarrow> GateResult \<Rightarrow> GateResult" where
  "set_gate s r m g = g\<lparr>grStatus := s, grReason := r, grMessage := m\<rparr>"

lemma set_gate_simps [simp]:
  "grStatus (set_gate s r m g) = s" "grName (set_gate s r m g) = grName g"
  "grReason (set_gate s r m g) = r" "grMessage (set_gate s r m g) = m"
  "grObservedAt (set_gate s r m g) = grObservedAt g"
  by (simp_all add: set_gate_def)

text \<open>The guard on an empty \<open>spec.impactedApps\<close>.\<close>

definition scope_gate :: "ChangeWindow \<Rightarrow> gate_env \<Rightarrow> gate_env" where
  "scope_gate chg e =
     (if cwImpactedApps (chgSpec chg) = [] then
        e\<lparr>geAllChanges := set_gate GateStatusUnknown ''NoImpactedAppsConfigured''
             ''spec.impactedApps is empty; platform target scope missing'' (geAllChanges e),
          geIssues := geIssues e
             @ [''spec.impactedApps is empty; validation cannot execute without scope'']\<rparr>
      else e)"

section \<open>One block per gate\<close>

type_synonym gate_acc = "GateResult \<times> string list"

definition fail_gate :: "string \<Rightarrow> string \<Rightarrow> string \<Rightarrow> gate_acc \<Rightarrow> gate_acc" where
  "fail_gate r m issue ga =
     (set_gate GateStatusFalse r m (fst ga), snd ga @ [issue])"

definition at_cluster :: "string \<Rightarrow> ClusterRevisionState \<Rightarrow> string \<Rightarrow> string" where
  "at_cluster app cs s = app @ ''/'' @ csClusterName cs @ '': '' @ s"

definition co_bad :: "ClusterOperatorStatus \<Rightarrow> bool" where
  "co_bad co \<longleftrightarrow> coDegraded co \<or> \<not> coAvailable co"

definition clusterOps_item ::
  "string \<Rightarrow> ClusterRevisionState \<Rightarrow> ClusterOperatorStatus \<Rightarrow> gate_acc \<Rightarrow> gate_acc" where
  "clusterOps_item app cs co ga =
     (if co_bad co then
        fail_gate ''ClusterOperatorDegradedOrUnavailable''
          (''ClusterOperator '' @ coName co @ '' is degraded='' @ boolv (coDegraded co)
             @ '', available='' @ boolv (coAvailable co))
          (at_cluster app cs (''ClusterOperator '' @ coName co @ '' degraded/unavailable'')) ga
      else ga)"

definition clusterOps_block ::
  "string \<Rightarrow> ClusterRevisionState \<Rightarrow> gate_acc \<Rightarrow> gate_acc" where
  "clusterOps_block app cs ga =
     fold (clusterOps_item app cs) (poClusterOperators (csPlatformObservation cs)) ga"

definition allChanges_block ::
  "string \<Rightarrow> ClusterRevisionState \<Rightarrow> gate_acc \<Rightarrow> gate_acc" where
  "allChanges_block app cs ga =
     (if csState cs \<noteq> ''InSync'' then
        fail_gate ''ClusterNotInSync''
          (''App '' @ app @ '' on cluster '' @ csClusterName cs @ '' is '' @ csState cs)
          (at_cluster app cs (''state is '' @ csState cs)) ga
      else ga)"

definition health_block ::
  "string \<Rightarrow> ClusterRevisionState \<Rightarrow> gate_acc \<Rightarrow> gate_acc" where
  "health_block app cs ga =
     (if csHealth cs \<noteq> ''Healthy'' then
        ((if csHealth cs = '''' \<or> csHealth cs = ''Unknown'' then
            (if grStatus (fst ga) \<noteq> GateStatusFalse then
               set_gate GateStatusUnknown ''WorkloadHealthUnknown''
                 (''App '' @ app @ '' on cluster '' @ csClusterName cs @ '' health is unknown'')
                 (fst ga)
             else fst ga)
          else
            set_gate GateStatusFalse ''WorkloadUnhealthy''
              (''App '' @ app @ '' on cluster '' @ csClusterName cs @ '' health is ''
                 @ csHealth cs) (fst ga)),
         snd ga @ [at_cluster app cs (''health is '' @ csHealth cs)])
      else ga)"

definition mcp_reported :: "MachineConfigPoolStatus \<Rightarrow> bool" where
  "mcp_reported mcp \<longleftrightarrow> mcpName mcp \<noteq> '''' \<or> mcpPhase mcp \<noteq> ''''"

definition mcp_block ::
  "string \<Rightarrow> ClusterRevisionState \<Rightarrow> gate_acc \<Rightarrow> gate_acc" where
  "mcp_block app cs ga =
     (let mcp = csMCPStatus cs; nm = mcpName mcp in
      if mcp_reported mcp then
        (if mcpPhase mcp = ''Degraded'' \<or> sint (mcpDegradedNodeCount mcp) > 0 then
           fail_gate ''MCPDegraded''
             (''MachineConfigPool '' @ nm @ '' has '' @ itoa32 (mcpDegradedNodeCount mcp)
                @ '' degraded nodes'')
             (at_cluster app cs (''MCP '' @ nm @ '' degraded'')) ga
         else if mcpPhase mcp = ''Updating'' \<or> sint (mcpUpdatingNodeCount mcp) > 0
             \<or> sint (mcpUnavailableNodeCount mcp) > 0 then
           fail_gate ''MCPUpdatingOrUnavailable''
             (''MachineConfigPool '' @ nm @ '' updating='' @ itoa32 (mcpUpdatingNodeCount mcp)
                @ '', unavailable='' @ itoa32 (mcpUnavailableNodeCount mcp))
             (at_cluster app cs (''MCP '' @ nm @ '' updating/unavailable'')) ga
         else if sint (mcpMachineCount mcp) > 0
             \<and> sint (mcpReadyMachineCount mcp) < sint (mcpMachineCount mcp) then
           fail_gate ''MCPNodesNotReady''
             (''MachineConfigPool '' @ nm @ '' ready count '' @ itoa32 (mcpReadyMachineCount mcp)
                @ '' < total '' @ itoa32 (mcpMachineCount mcp))
             (at_cluster app cs (''MCP '' @ nm @ '' not all nodes ready'')) ga
         else if mcpDesiredRenderedConfig mcp \<noteq> '''' \<and> mcpCurrentRenderedConfig mcp \<noteq> ''''
             \<and> mcpDesiredRenderedConfig mcp \<noteq> mcpCurrentRenderedConfig mcp then
           fail_gate ''MCPConfigMismatch''
             (''MachineConfigPool '' @ nm @ '' current config '' @ mcpCurrentRenderedConfig mcp
                @ '' does not match desired '' @ mcpDesiredRenderedConfig mcp)
             (at_cluster app cs (''MCP '' @ nm @ '' config mismatch'')) ga
         else ga)
      else ga)"

definition event_in_window :: "gtime \<Rightarrow> EventSummary \<Rightarrow> bool" where
  "event_in_window windowStart ev \<longleftrightarrow>
     esLastObservedAt ev > windowStart \<or> esLastObservedAt ev = windowStart"

definition events_item ::
  "gtime \<Rightarrow> string \<Rightarrow> ClusterRevisionState \<Rightarrow> EventSummary \<Rightarrow> gate_acc \<Rightarrow> gate_acc" where
  "events_item windowStart app cs ev ga =
     (if event_in_window windowStart ev then
        fail_gate ''WarningEventsObserved''
          (''Warning event '' @ esReason ev @ '' on '' @ esInvolvedObject ev @ '': ''
             @ esMessage ev)
          (at_cluster app cs (''Warning event '' @ esReason ev @ '' on '' @ esInvolvedObject ev))
          ga
      else ga)"

definition events_block ::
  "gtime \<Rightarrow> string \<Rightarrow> ClusterRevisionState \<Rightarrow> gate_acc \<Rightarrow> gate_acc" where
  "events_block windowStart app cs ga =
     fold (events_item windowStart app cs) (csRecentEvents cs) ga"

definition change_failed :: "ObjectChangeSummary \<Rightarrow> bool" where
  "change_failed oc \<longleftrightarrow>
     (let ct = to_lower (ocChangeType oc) in
      ct = ''failed'' \<or> ct = ''syncfailed'' \<or> ct = ''error'' \<or> ct = ''syncerror''
      \<or> has_prefix ct ''fail'')"

definition objects_item ::
  "string \<Rightarrow> ClusterRevisionState \<Rightarrow> ObjectChangeSummary \<Rightarrow> gate_acc \<Rightarrow> gate_acc" where
  "objects_item app cs oc ga =
     (if change_failed oc then
        fail_gate ''ObjectSyncFailed''
          (''Resource '' @ ocKind oc @ ''/'' @ ocName oc @ '' failed sync ('' @ ocChangeType oc
             @ '')'')
          (at_cluster app cs (''object '' @ ocKind oc @ ''/'' @ ocName oc @ '' failed sync'')) ga
      else ga)"

definition objects_block ::
  "string \<Rightarrow> ClusterRevisionState \<Rightarrow> gate_acc \<Rightarrow> gate_acc" where
  "objects_block app cs ga = fold (objects_item app cs) (csObjectChanges cs) ga"

definition deps_item ::
  "string \<Rightarrow> ClusterRevisionState \<Rightarrow> DependencyRef \<Rightarrow> gate_acc \<Rightarrow> gate_acc" where
  "deps_item app cs dep ga =
     (if \<not> drReady dep then
        fail_gate ''DependencyNotReady''
          (''Dependency '' @ drKind dep @ ''/'' @ drName dep @ '' not ready ('' @ drNote dep
             @ '')'')
          (at_cluster app cs (''dependency '' @ drKind dep @ ''/'' @ drName dep @ '' not ready''))
          ga
      else ga)"

definition deps_block ::
  "string \<Rightarrow> ClusterRevisionState \<Rightarrow> gate_acc \<Rightarrow> gate_acc" where
  "deps_block app cs ga = fold (deps_item app cs) (csDependencies cs) ga"

definition virt_observed :: "VirtualizationImpactStatus \<Rightarrow> bool" where
  "virt_observed virt \<longleftrightarrow>
     viHyperConvergedHealth virt \<noteq> '''' \<and> viHyperConvergedHealth virt \<noteq> ''Unknown''"

definition virt_block ::
  "string \<Rightarrow> ClusterRevisionState \<Rightarrow> gate_acc \<Rightarrow> gate_acc" where
  "virt_block app cs ga0 =
     (let virt = csVirtStatus cs;
          ga1 = (if viHyperConvergedHealth virt = ''Degraded'' then
                   fail_gate ''HyperConvergedDegraded''
                     ''OpenShift Virtualization HyperConverged deployment is degraded''
                     (at_cluster app cs ''HyperConverged degraded'') ga0
                 else ga0);
          ga2 = (if \<not> viVirtHandlerReady virt then
                   fail_gate ''VirtHandlerNotReady'' ''virt-handler DaemonSet is not ready''
                     (at_cluster app cs ''virt-handler unready'') ga1
                 else ga1);
          ga3 = (if sint (viStalledMigrations virt) > 0 then
                   fail_gate ''StalledMigrations''
                     (itoa32 (viStalledMigrations virt) @ '' stalled VMI migrations observed'')
                     (at_cluster app cs
                        (itoa32 (viStalledMigrations virt) @ '' stalled migrations'')) ga2
                 else ga2)
      in if sint (viUnmigratableVMIs virt) > 0 then
           fail_gate ''UnmigratableVMIs''
             (itoa32 (viUnmigratableVMIs virt) @ '' unmigratable VMIs observed on target nodes'')
             (at_cluster app cs (itoa32 (viUnmigratableVMIs virt) @ '' unmigratable VMIs'')) ga3
         else ga3)"

definition clusterVersion_block ::
  "string \<Rightarrow> ClusterRevisionState \<Rightarrow> gate_acc \<Rightarrow> gate_acc" where
  "clusterVersion_block app cs ga =
     (let cv = poClusterVersion (csPlatformObservation cs) in
      if cvVersion cv \<noteq> '''' \<or> cvDesiredVersion cv \<noteq> '''' then
        (if cvProgressing cv then
           fail_gate ''ClusterVersionProgressing''
             (''ClusterVersion is upgrading from '' @ cvVersion cv @ '' to ''
                @ cvDesiredVersion cv)
             (at_cluster app cs ''ClusterVersion upgrading'') ga
         else if cvAvailable cv then
           (set_gate GateStatusTrue ''ClusterVersionStable''
              (''ClusterVersion '' @ cvVersion cv @ '' is stable and available'') (fst ga), snd ga)
         else
           fail_gate ''ClusterVersionNotAvailable'' ''ClusterVersion is not Available''
             (at_cluster app cs ''ClusterVersion not available'') ga)
      else ga)"

definition platformOps_block ::
  "string \<Rightarrow> ClusterRevisionState \<Rightarrow> gate_acc \<Rightarrow> gate_acc" where
  "platformOps_block app cs ga =
     (let kv = poKubeVirt (csPlatformObservation cs);
          cdi = poCDI (csPlatformObservation cs);
          ssp = poSSP (csPlatformObservation cs) in
      if odPhase kv \<noteq> '''' \<and> odPhase kv \<noteq> ''Unknown'' then
        (if odReady kv \<and> odReady cdi \<and> odReady ssp then
           (set_gate GateStatusTrue ''AllPlatformOperatorsDeployed''
              ''KubeVirt, CDI, and SSP operators are all Deployed'' (fst ga), snd ga)
         else
           (let notReady =
                  (if \<not> odReady kv then [''KubeVirt('' @ odPhase kv @ '')''] else [])
                  @ (if \<not> odReady cdi then [''CDI('' @ odPhase cdi @ '')''] else [])
                  @ (if \<not> odReady ssp then [''SSP('' @ odPhase ssp @ '')''] else [])
            in fail_gate ''PlatformOperatorNotDeployed''
                 (''Platform operators not deployed: '' @ join '', '' notReady)
                 (at_cluster app cs
                    (''platform operators not deployed: '' @ join '', '' notReady)) ga))
      else ga)"

definition nodeMaint_block ::
  "string \<Rightarrow> ClusterRevisionState \<Rightarrow> gate_acc \<Rightarrow> gate_acc" where
  "nodeMaint_block app cs ga =
     (let n = nmActiveMaintenanceNodes (poNodeMaintenance (csPlatformObservation cs)) in
      if sint n > 0 then
        fail_gate ''ActiveNodeMaintenance'' (itoa32 n @ '' nodes under active maintenance'')
          (at_cluster app cs (itoa32 n @ '' nodes under maintenance'')) ga
      else ga)"

section \<open>The loop over applications and clusters\<close>

definition eval_cluster ::
  "gtime \<Rightarrow> string \<Rightarrow> ClusterRevisionState \<Rightarrow> gate_env \<Rightarrow> gate_env" where
  "eval_cluster windowStart app cs e =
     (let (co, i1) = clusterOps_block app cs (geClusterOps e, geIssues e);
          (ac, i2) = allChanges_block app cs (geAllChanges e, i1);
          (he, i3) = health_block app cs (geHealth e, i2);
          (mc, i4) = mcp_block app cs (geMCP e, i3);
          (ev, i5) = events_block windowStart app cs (geEvents e, i4);
          (ob, i6) = objects_block app cs (geObjects e, i5);
          (de, i7) = deps_block app cs (geDeps e, i6);
          (vi, i8) = virt_block app cs (geVirt e, i7);
          (cv, i9) = clusterVersion_block app cs (geClusterVersion e, i8);
          (pl, i10) = platformOps_block app cs (gePlatformOps e, i9);
          (nm, i11) = nodeMaint_block app cs (geNodeMaint e, i10)
      in \<lparr>geClusterOps = co, geAllChanges = ac, geHealth = he, geMCP = mc, geEvents = ev,
          geObjects = ob, geDeps = de, geVirt = vi, geClusterVersion = cv,
          gePlatformOps = pl, geNodeMaint = nm, geIssues = i11,
          geTotalClusterStates = Suc (geTotalClusterStates e),
          geObservedAnyClusterOps = (geObservedAnyClusterOps e
             \<or> poClusterOperators (csPlatformObservation cs) \<noteq> []),
          geObservedAnyMCP = (geObservedAnyMCP e \<or> mcp_reported (csMCPStatus cs)),
          geObservedAnyVirt = (geObservedAnyVirt e \<or> virt_observed (csVirtStatus cs))\<rparr>)"

definition missing_app :: "string \<Rightarrow> gate_env \<Rightarrow> gate_env" where
  "missing_app app e =
     e\<lparr>geAllChanges := set_gate GateStatusUnknown ''MissingAppPropagationStatus''
          (''No cluster propagation status found for app '' @ app) (geAllChanges e),
       geIssues := geIssues e @ [app @ '': missing cluster propagation status'']\<rparr>"

definition eval_app ::
  "bool \<Rightarrow> gtime \<Rightarrow> string \<times> AppClusterStateMap \<Rightarrow> gate_env \<Rightarrow> gate_env" where
  "eval_app isHub windowStart a e =
     (let states = acClusterStates (snd a);
          e' = (if states = [] \<and> \<not> isHub then missing_app (fst a) e else e)
      in fold (eval_cluster windowStart (fst a)) states e')"

section \<open>After the loop\<close>

definition unobserved_gates :: "gate_env \<Rightarrow> gate_env" where
  "unobserved_gates e =
     e\<lparr>geClusterOps := (if geObservedAnyClusterOps e then geClusterOps e
          else set_gate GateStatusUnknown ''ClusterOperatorsNotReported''
            ''OpenShift ClusterOperator telemetry was not observed for any cluster''
            (geClusterOps e)),
       geMCP := (if geObservedAnyMCP e then geMCP e
          else set_gate GateStatusUnknown ''MCPStatusNotReported''
            ''MachineConfigPool telemetry was not observed for any cluster'' (geMCP e)),
       geVirt := (if geObservedAnyVirt e then geVirt e
          else set_gate GateStatusUnknown ''VirtStatusNotReported''
            ''Virtualization telemetry was not observed or HyperConverged status is unknown''
            (geVirt e))\<rparr>"

definition no_cluster_states :: "gate_env \<Rightarrow> gate_env" where
  "no_cluster_states e =
     (if geTotalClusterStates e = 0 then
        e\<lparr>geClusterOps := (geClusterOps e)\<lparr>grStatus := GateStatusUnknown\<rparr>,
          geAllChanges := set_gate GateStatusUnknown ''NoClusterStatesObserved''
            ''No per-cluster state reports were observed'' (geAllChanges e),
          geHealth := (geHealth e)\<lparr>grStatus := GateStatusUnknown\<rparr>,
          geMCP := (geMCP e)\<lparr>grStatus := GateStatusUnknown\<rparr>,
          geEvents := (geEvents e)\<lparr>grStatus := GateStatusUnknown\<rparr>,
          geObjects := (geObjects e)\<lparr>grStatus := GateStatusUnknown\<rparr>,
          geDeps := (geDeps e)\<lparr>grStatus := GateStatusUnknown\<rparr>,
          geVirt := (geVirt e)\<lparr>grStatus := GateStatusUnknown\<rparr>,
          geIssues := geIssues e @ [''No cluster reports available to validate change'']\<rparr>
      else e)"

definition silent_issue :: "SilentClusterState \<Rightarrow> string" where
  "silent_issue s =
     scApp s @ ''/'' @ scCluster s @ '': cluster reporting silent ('' @ scState s @ '')''"

definition preserveObservedAt :: "GateResult list \<Rightarrow> GateResult \<Rightarrow> GateResult" where
  "preserveObservedAt prev gate =
     (case find (\<lambda>p. grName p = grName gate) prev of
        None \<Rightarrow> gate
      | Some p \<Rightarrow>
          if grStatus p = grStatus gate \<and> grReason p = grReason gate
             \<and> grMessage p = grMessage gate \<and> \<not> time_is_zero (grObservedAt p)
          then gate\<lparr>grObservedAt := grObservedAt p\<rparr> else gate)"

definition gate_list :: "gate_env \<Rightarrow> GateResult list" where
  "gate_list e =
     [geClusterVersion e, geClusterOps e, gePlatformOps e, geMCP e, geNodeMaint e,
      geAllChanges e, geHealth e, geEvents e, geObjects e, geDeps e, geVirt e]"

definition app_states :: "ChangeWindow \<Rightarrow> AppClusterStateMap gomap" where
  "app_states chg = (case stAppStates (chgStatus chg) of None \<Rightarrow> [] | Some m \<Rightarrow> m)"

text \<open>The gates when the loop is over, before their observation times are carried over.\<close>

definition gates_after_loop ::
  "bool \<Rightarrow> iter_order \<Rightarrow> ChangeWindow \<Rightarrow> gtime \<Rightarrow> gate_env" where
  "gates_after_loop isHub it chg now =
     no_cluster_states (unobserved_gates
       (fold (eval_app isHub (cwStartTime (chgSpec chg))) (range_map it (app_states chg))
         (scope_gate chg (init_gates now))))"

definition evaluateGates ::
  "bool \<Rightarrow> iter_order \<Rightarrow> ChangeWindow \<Rightarrow> gtime \<Rightarrow> ValidationResult \<times> string list" where
  "evaluateGates isHub it chg now =
     (let e = gates_after_loop isHub it chg now;
          silent = stSilentClusters (chgStatus chg);
          issues = geIssues e @ map silent_issue silent;
          gateResults =
            map (preserveObservedAt (vrGateResults (stValidation (chgStatus chg)))) (gate_list e);
          allTrue = list_all (\<lambda>g. grStatus g = GateStatusTrue) gateResults;
          passed = (allTrue \<and> silent = [] \<and> cwImpactedApps (chgSpec chg) \<noteq> [])
      in (\<lparr>vrAllChangesApplied = (grStatus (geAllChanges e) = GateStatusTrue),
           vrHealthCheckPassed = (grStatus (geHealth e) = GateStatusTrue),
           vrMCPUpdatedOnTime = (grStatus (geMCP e) = GateStatusTrue),
           vrEventsClean = (grStatus (geEvents e) = GateStatusTrue),
           vrObjectsConverged = (grStatus (geObjects e) = GateStatusTrue),
           vrDependenciesReady = (grStatus (geDeps e) = GateStatusTrue),
           vrVirtImpactPassed = (grStatus (geVirt e) = GateStatusTrue),
           vrClusterOperatorsHealthy = (grStatus (geClusterOps e) = GateStatusTrue),
           vrGateResults = gateResults, vrIssuesFound = issues, vrPassed = passed\<rparr>,
          issues))"

end
