(* ===== verification/GateSpec.thy ===== *)
theory GateSpec
  imports Gates
begin

text \<open>
  What the eleven gates mean, without loops: \<open>gate_spec\<close> reads the verdict of every gate off
  the observations of the loop (which clusters were visited in which order, and which
  applications had none), and \<open>gates_refine\<close> shows that \<open>evaluateGates\<close> computes it. The
  blocks are interpreted as instances of the locales of theory \<open>Gates\<close>, so the closed form
  of each gate is a fact of its locale.
\<close>

section \<open>The loop as a sequence of observations\<close>

datatype loop_event = AppMissing string | Cluster string ClusterRevisionState

definition app_events :: "bool \<Rightarrow> string \<times> AppClusterStateMap \<Rightarrow> loop_event list" where
  "app_events isHub a =
     (let states = acClusterStates (snd a) in
      (if states = [] \<and> \<not> isHub then [AppMissing (fst a)] else [])
      @ map (Cluster (fst a)) states)"

definition loop_events :: "bool \<Rightarrow> (string \<times> AppClusterStateMap) list \<Rightarrow> loop_event list" where
  "loop_events isHub as = concat (map (app_events isHub) as)"

fun eval_event :: "gtime \<Rightarrow> loop_event \<Rightarrow> gate_env \<Rightarrow> gate_env" where
  "eval_event ws (AppMissing a) e = missing_app a e"
| "eval_event ws (Cluster a cs) e = eval_cluster ws a cs e"

lemma fold_Cluster: "fold (eval_event ws) (map (Cluster a) cs) e = fold (eval_cluster ws a) cs e"
  by (induction cs arbitrary: e) simp_all

lemma eval_app_events: "eval_app isHub ws a e = fold (eval_event ws) (app_events isHub a) e"
  by (simp add: eval_app_def app_events_def Let_def fold_Cluster)

lemma fold_eval_app:
  "fold (eval_app isHub ws) as e = fold (eval_event ws) (loop_events isHub as) e"
  by (induction as arbitrary: e) (simp_all add: loop_events_def eval_app_events)

section \<open>What a cluster must satisfy\<close>

definition mcp_bad :: "MachineConfigPoolStatus \<Rightarrow> bool" where
  "mcp_bad mcp \<longleftrightarrow> mcp_reported mcp \<and>
     (mcpPhase mcp = ''Degraded'' \<or> sint (mcpDegradedNodeCount mcp) > 0
      \<or> mcpPhase mcp = ''Updating'' \<or> sint (mcpUpdatingNodeCount mcp) > 0
      \<or> sint (mcpUnavailableNodeCount mcp) > 0
      \<or> sint (mcpMachineCount mcp) > 0 \<and> sint (mcpReadyMachineCount mcp) < sint (mcpMachineCount mcp)
      \<or> mcpDesiredRenderedConfig mcp \<noteq> '''' \<and> mcpCurrentRenderedConfig mcp \<noteq> ''''
        \<and> mcpDesiredRenderedConfig mcp \<noteq> mcpCurrentRenderedConfig mcp)"

definition virt_bad :: "VirtualizationImpactStatus \<Rightarrow> bool" where
  "virt_bad virt \<longleftrightarrow> viHyperConvergedHealth virt = ''Degraded'' \<or> \<not> viVirtHandlerReady virt
     \<or> sint (viStalledMigrations virt) > 0 \<or> sint (viUnmigratableVMIs virt) > 0"

definition health_unknown :: "ClusterRevisionState \<Rightarrow> bool" where
  "health_unknown cs \<longleftrightarrow> csHealth cs = '''' \<or> csHealth cs = ''Unknown''"

definition unhealthy :: "ClusterRevisionState \<Rightarrow> bool" where
  "unhealthy cs \<longleftrightarrow> csHealth cs \<noteq> ''Healthy'' \<and> \<not> health_unknown cs"

definition ops_bad :: "ClusterRevisionState \<Rightarrow> bool" where
  "ops_bad cs \<longleftrightarrow> list_ex co_bad (poClusterOperators (csPlatformObservation cs))"

definition events_bad :: "gtime \<Rightarrow> ClusterRevisionState \<Rightarrow> bool" where
  "events_bad ws cs \<longleftrightarrow> list_ex (event_in_window ws) (csRecentEvents cs)"

definition objects_bad :: "ClusterRevisionState \<Rightarrow> bool" where
  "objects_bad cs \<longleftrightarrow> list_ex change_failed (csObjectChanges cs)"

definition deps_bad :: "ClusterRevisionState \<Rightarrow> bool" where
  "deps_bad cs \<longleftrightarrow> list_ex (\<lambda>d. \<not> drReady d) (csDependencies cs)"

definition maint_bad :: "ClusterRevisionState \<Rightarrow> bool" where
  "maint_bad cs \<longleftrightarrow>
     sint (nmActiveMaintenanceNodes (poNodeMaintenance (csPlatformObservation cs))) > 0"

definition cv_verdict :: "ClusterRevisionState \<Rightarrow> GateStatus option" where
  "cv_verdict cs =
     (let cv = poClusterVersion (csPlatformObservation cs) in
      if cvVersion cv = '''' \<and> cvDesiredVersion cv = '''' then None
      else if cvAvailable cv \<and> \<not> cvProgressing cv then Some GateStatusTrue
      else Some GateStatusFalse)"

definition platform_verdict :: "ClusterRevisionState \<Rightarrow> GateStatus option" where
  "platform_verdict cs =
     (let po = csPlatformObservation cs in
      if odPhase (poKubeVirt po) = '''' \<or> odPhase (poKubeVirt po) = ''Unknown'' then None
      else if odReady (poKubeVirt po) \<and> odReady (poCDI po) \<and> odReady (poSSP po)
      then Some GateStatusTrue else Some GateStatusFalse)"

fun on_cluster :: "'b \<Rightarrow> (ClusterRevisionState \<Rightarrow> 'b) \<Rightarrow> loop_event \<Rightarrow> 'b" where
  "on_cluster d f (AppMissing a) = d"
| "on_cluster d f (Cluster a cs) = f cs"

abbreviation at_some :: "(ClusterRevisionState \<Rightarrow> bool) \<Rightarrow> loop_event \<Rightarrow> bool" where
  "at_some \<equiv> on_cluster False"

fun sync_verdict :: "loop_event \<Rightarrow> GateStatus option" where
  "sync_verdict (AppMissing a) = Some GateStatusUnknown"
| "sync_verdict (Cluster a cs) =
     (if csState cs \<noteq> ''InSync'' then Some GateStatusFalse else None)"

section \<open>The status of each gate\<close>

definition fails_if :: "bool \<Rightarrow> GateStatus" where
  "fails_if b = (if b then GateStatusFalse else GateStatusTrue)"

definition known_if :: "bool \<Rightarrow> GateStatus \<Rightarrow> GateStatus" where
  "known_if b s = (if b then s else GateStatusUnknown)"

definition last_verdict :: "(loop_event \<Rightarrow> GateStatus option) \<Rightarrow> loop_event list \<Rightarrow> GateStatus \<Rightarrow> GateStatus" where
  "last_verdict f evs s = (case rev (List.map_filter f evs) of [] \<Rightarrow> s | v # _ \<Rightarrow> v)"

definition gate_spec :: "ChangeWindow \<Rightarrow> loop_event list \<Rightarrow> GateStatus list" where
  "gate_spec chg evs =
     (let some = (\<lambda>p. list_ex (at_some p) evs);
          ws = cwStartTime (chgSpec chg);
          clusters = some (\<lambda>cs. True);
          scope = known_if (cwImpactedApps (chgSpec chg) \<noteq> []) GateStatusTrue
      in [last_verdict (on_cluster None cv_verdict) evs GateStatusUnknown,
          known_if (some (\<lambda>cs. poClusterOperators (csPlatformObservation cs) \<noteq> []))
            (fails_if (some ops_bad)),
          last_verdict (on_cluster None platform_verdict) evs GateStatusUnknown,
          known_if (some (\<lambda>cs. mcp_reported (csMCPStatus cs)))
            (fails_if (some (\<lambda>cs. mcp_bad (csMCPStatus cs)))),
          fails_if (some maint_bad),
          known_if clusters (last_verdict sync_verdict evs scope),
          known_if clusters
            (if some unhealthy then GateStatusFalse
             else if some health_unknown then GateStatusUnknown else GateStatusTrue),
          known_if clusters (fails_if (some (events_bad ws))),
          known_if clusters (fails_if (some objects_bad)),
          known_if clusters (fails_if (some deps_bad)),
          known_if (some (\<lambda>cs. virt_observed (csVirtStatus cs)))
            (fails_if (some (\<lambda>cs. virt_bad (csVirtStatus cs))))])"

section \<open>The blocks compute the verdicts\<close>

abbreviation acc_status :: "gate_acc \<Rightarrow> GateStatus" where
  "acc_status ga \<equiv> grStatus (fst ga)"

lemma fail_gate_simps [simp]:
  "acc_status (fail_gate r m i ga) = GateStatusFalse"
  "grName (fst (fail_gate r m i ga)) = grName (fst ga)"
  "snd (fail_gate r m i ga) = snd ga @ [i]"
  by (simp_all add: fail_gate_def)

interpretation ops_item: failing_gate "clusterOps_item app cs" acc_status
  "\<lambda>co s. if co_bad co then GateStatusFalse else s" co_bad for app cs
  by unfold_locales (auto simp: clusterOps_item_def)

interpretation ev_item: failing_gate "events_item ws app cs" acc_status
  "\<lambda>ev s. if event_in_window ws ev then GateStatusFalse else s" "event_in_window ws" for ws app cs
  by unfold_locales (auto simp: events_item_def)

interpretation ob_item: failing_gate "objects_item app cs" acc_status
  "\<lambda>oc s. if change_failed oc then GateStatusFalse else s" change_failed for app cs
  by unfold_locales (auto simp: objects_item_def)

interpretation de_item: failing_gate "deps_item app cs" acc_status
  "\<lambda>d s. if \<not> drReady d then GateStatusFalse else s" "\<lambda>d. \<not> drReady d" for app cs
  by unfold_locales (auto simp: deps_item_def)

named_theorems block_status \<open>the status a block leaves in its gate\<close>

lemma clusterOps_block_status [block_status]:
  "acc_status (clusterOps_block app cs ga) =
     (if ops_bad cs then GateStatusFalse else acc_status ga)"
  by (simp add: clusterOps_block_def ops_item.st_fold_eq ops_bad_def list_ex_iff)

lemma allChanges_block_status [block_status]:
  "acc_status (allChanges_block app cs ga) =
     (if csState cs \<noteq> ''InSync'' then GateStatusFalse else acc_status ga)"
  by (simp add: allChanges_block_def)

lemma health_block_status [block_status]:
  "acc_status (health_block app cs ga) =
     (if unhealthy cs then GateStatusFalse
      else if health_unknown cs \<and> acc_status ga \<noteq> GateStatusFalse then GateStatusUnknown
      else acc_status ga)"
  by (auto simp: health_block_def unhealthy_def health_unknown_def)

lemma mcp_block_status [block_status]:
  "acc_status (mcp_block app cs ga) =
     (if mcp_bad (csMCPStatus cs) then GateStatusFalse else acc_status ga)"
  by (simp add: mcp_block_def mcp_bad_def Let_def)

lemma events_block_status [block_status]:
  "acc_status (events_block ws app cs ga) =
     (if events_bad ws cs then GateStatusFalse else acc_status ga)"
  by (simp add: events_block_def ev_item.st_fold_eq events_bad_def list_ex_iff)

lemma objects_block_status [block_status]:
  "acc_status (objects_block app cs ga) =
     (if objects_bad cs then GateStatusFalse else acc_status ga)"
  by (simp add: objects_block_def ob_item.st_fold_eq objects_bad_def list_ex_iff)

lemma deps_block_status [block_status]:
  "acc_status (deps_block app cs ga) =
     (if deps_bad cs then GateStatusFalse else acc_status ga)"
  by (simp add: deps_block_def de_item.st_fold_eq deps_bad_def list_ex_iff)

lemma virt_block_status [block_status]:
  "acc_status (virt_block app cs ga) =
     (if virt_bad (csVirtStatus cs) then GateStatusFalse else acc_status ga)"
  by (simp add: virt_block_def virt_bad_def Let_def)

lemma clusterVersion_block_status [block_status]:
  "acc_status (clusterVersion_block app cs ga) =
     (case cv_verdict cs of None \<Rightarrow> acc_status ga | Some s \<Rightarrow> s)"
  by (simp add: clusterVersion_block_def cv_verdict_def Let_def)

lemma platformOps_block_status [block_status]:
  "acc_status (platformOps_block app cs ga) =
     (case platform_verdict cs of None \<Rightarrow> acc_status ga | Some s \<Rightarrow> s)"
  by (simp add: platformOps_block_def platform_verdict_def Let_def)

lemma nodeMaint_block_status [block_status]:
  "acc_status (nodeMaint_block app cs ga) =
     (if maint_bad cs then GateStatusFalse else acc_status ga)"
  by (simp add: nodeMaint_block_def maint_bad_def Let_def)

text \<open>The gates of a cluster step, one block each.\<close>

lemma eval_cluster_status [block_status]:
  "grStatus (geClusterOps (eval_cluster ws a cs e)) =
     (if ops_bad cs then GateStatusFalse else grStatus (geClusterOps e))"
  "grStatus (geAllChanges (eval_cluster ws a cs e)) =
     (if csState cs \<noteq> ''InSync'' then GateStatusFalse else grStatus (geAllChanges e))"
  "grStatus (geHealth (eval_cluster ws a cs e)) =
     (if unhealthy cs then GateStatusFalse
      else if health_unknown cs \<and> grStatus (geHealth e) \<noteq> GateStatusFalse then GateStatusUnknown
      else grStatus (geHealth e))"
  "grStatus (geMCP (eval_cluster ws a cs e)) =
     (if mcp_bad (csMCPStatus cs) then GateStatusFalse else grStatus (geMCP e))"
  "grStatus (geEvents (eval_cluster ws a cs e)) =
     (if events_bad ws cs then GateStatusFalse else grStatus (geEvents e))"
  "grStatus (geObjects (eval_cluster ws a cs e)) =
     (if objects_bad cs then GateStatusFalse else grStatus (geObjects e))"
  "grStatus (geDeps (eval_cluster ws a cs e)) =
     (if deps_bad cs then GateStatusFalse else grStatus (geDeps e))"
  "grStatus (geVirt (eval_cluster ws a cs e)) =
     (if virt_bad (csVirtStatus cs) then GateStatusFalse else grStatus (geVirt e))"
  "grStatus (geClusterVersion (eval_cluster ws a cs e)) =
     (case cv_verdict cs of None \<Rightarrow> grStatus (geClusterVersion e) | Some s \<Rightarrow> s)"
  "grStatus (gePlatformOps (eval_cluster ws a cs e)) =
     (case platform_verdict cs of None \<Rightarrow> grStatus (gePlatformOps e) | Some s \<Rightarrow> s)"
  "grStatus (geNodeMaint (eval_cluster ws a cs e)) =
     (if maint_bad cs then GateStatusFalse else grStatus (geNodeMaint e))"
  by (simp_all only: eval_cluster_def Let_def split_beta gate_env.simps block_status fst_conv)

lemma eval_cluster_observed:
  "geTotalClusterStates (eval_cluster ws a cs e) = Suc (geTotalClusterStates e)"
  "geObservedAnyClusterOps (eval_cluster ws a cs e) \<longleftrightarrow> geObservedAnyClusterOps e
     \<or> poClusterOperators (csPlatformObservation cs) \<noteq> []"
  "geObservedAnyMCP (eval_cluster ws a cs e) \<longleftrightarrow>
     geObservedAnyMCP e \<or> mcp_reported (csMCPStatus cs)"
  "geObservedAnyVirt (eval_cluster ws a cs e) \<longleftrightarrow>
     geObservedAnyVirt e \<or> virt_observed (csVirtStatus cs)"
  by (simp_all only: eval_cluster_def Let_def split_beta gate_env.simps)

section \<open>The gates as instances of the folds\<close>

lemma missing_app_simps [simp]:
  "geClusterOps (missing_app a e) = geClusterOps e" "geHealth (missing_app a e) = geHealth e"
  "geMCP (missing_app a e) = geMCP e" "geEvents (missing_app a e) = geEvents e"
  "geObjects (missing_app a e) = geObjects e" "geDeps (missing_app a e) = geDeps e"
  "geVirt (missing_app a e) = geVirt e" "geClusterVersion (missing_app a e) = geClusterVersion e"
  "gePlatformOps (missing_app a e) = gePlatformOps e"
  "geNodeMaint (missing_app a e) = geNodeMaint e"
  "geTotalClusterStates (missing_app a e) = geTotalClusterStates e"
  "geObservedAnyClusterOps (missing_app a e) = geObservedAnyClusterOps e"
  "geObservedAnyMCP (missing_app a e) = geObservedAnyMCP e"
  "geObservedAnyVirt (missing_app a e) = geObservedAnyVirt e"
  "grStatus (geAllChanges (missing_app a e)) = GateStatusUnknown"
  by (simp_all add: missing_app_def)

lemma event_cases:
  assumes "\<And>a. P (AppMissing a)" "\<And>a cs. P (Cluster a cs)"
  shows "P x"
  using assms by (cases x) auto

interpretation gOps: failing_gate "eval_event ws" "\<lambda>e. grStatus (geClusterOps e)"
  "\<lambda>x s. if at_some ops_bad x then GateStatusFalse else s" "at_some ops_bad" for ws
  by unfold_locales (rule event_cases, simp_all add: block_status)

interpretation gMCP: failing_gate "eval_event ws" "\<lambda>e. grStatus (geMCP e)"
  "\<lambda>x s. if at_some (\<lambda>cs. mcp_bad (csMCPStatus cs)) x then GateStatusFalse else s"
  "at_some (\<lambda>cs. mcp_bad (csMCPStatus cs))" for ws
  by unfold_locales (rule event_cases, simp_all add: block_status)

interpretation gEvents: failing_gate "eval_event ws" "\<lambda>e. grStatus (geEvents e)"
  "\<lambda>x s. if at_some (events_bad ws) x then GateStatusFalse else s" "at_some (events_bad ws)" for ws
  by unfold_locales (rule event_cases, simp_all add: block_status)

interpretation gObjects: failing_gate "eval_event ws" "\<lambda>e. grStatus (geObjects e)"
  "\<lambda>x s. if at_some objects_bad x then GateStatusFalse else s" "at_some objects_bad" for ws
  by unfold_locales (rule event_cases, simp_all add: block_status)

interpretation gDeps: failing_gate "eval_event ws" "\<lambda>e. grStatus (geDeps e)"
  "\<lambda>x s. if at_some deps_bad x then GateStatusFalse else s" "at_some deps_bad" for ws
  by unfold_locales (rule event_cases, simp_all add: block_status)

interpretation gVirt: failing_gate "eval_event ws" "\<lambda>e. grStatus (geVirt e)"
  "\<lambda>x s. if at_some (\<lambda>cs. virt_bad (csVirtStatus cs)) x then GateStatusFalse else s"
  "at_some (\<lambda>cs. virt_bad (csVirtStatus cs))" for ws
  by unfold_locales (rule event_cases, simp_all add: block_status)

interpretation gMaint: failing_gate "eval_event ws" "\<lambda>e. grStatus (geNodeMaint e)"
  "\<lambda>x s. if at_some maint_bad x then GateStatusFalse else s" "at_some maint_bad" for ws
  by unfold_locales (rule event_cases, simp_all add: block_status)

definition health_v :: "loop_event \<Rightarrow> GateStatus \<Rightarrow> GateStatus" where
  "health_v x s =
     (if at_some unhealthy x then GateStatusFalse
      else if at_some health_unknown x \<and> s \<noteq> GateStatusFalse then GateStatusUnknown else s)"

lemma health_not_Healthy: "health_unknown cs \<Longrightarrow> \<not> unhealthy cs"
  by (simp add: unhealthy_def)

interpretation gHealth: sticky_gate "eval_event ws" "\<lambda>e. grStatus (geHealth e)" health_v
  "\<lambda>x. at_some unhealthy x \<or> at_some health_unknown x" for ws
  by unfold_locales (rule event_cases, auto simp: block_status health_v_def)

interpretation gSync: last_wins_gate "eval_event ws" "\<lambda>e. grStatus (geAllChanges e)"
  "\<lambda>x s. case sync_verdict x of None \<Rightarrow> s | Some s' \<Rightarrow> s'" sync_verdict for ws
  by unfold_locales (rule event_cases, simp_all add: block_status)

interpretation gCV: last_wins_gate "eval_event ws" "\<lambda>e. grStatus (geClusterVersion e)"
  "\<lambda>x s. case on_cluster None cv_verdict x of None \<Rightarrow> s | Some s' \<Rightarrow> s'"
  "on_cluster None cv_verdict" for ws
  by unfold_locales (rule event_cases, simp_all add: block_status)

interpretation gPlat: last_wins_gate "eval_event ws" "\<lambda>e. grStatus (gePlatformOps e)"
  "\<lambda>x s. case on_cluster None platform_verdict x of None \<Rightarrow> s | Some s' \<Rightarrow> s'"
  "on_cluster None platform_verdict" for ws
  by unfold_locales (rule event_cases, simp_all add: block_status)

text \<open>The three-valued health gate: one unhealthy cluster fails it, else one unknown cluster
  leaves it unknown.\<close>

lemma fold_health_v:
  "fold health_v evs s =
     (if list_ex (at_some unhealthy) evs then GateStatusFalse
      else if list_ex (at_some health_unknown) evs \<and> s \<noteq> GateStatusFalse then GateStatusUnknown
      else s)"
proof (induction evs arbitrary: s)
  case (Cons x evs)
  then show ?case
    by (cases x) (auto simp: health_v_def dest: health_not_Healthy)
qed simp

lemma eval_event_total:
  "geTotalClusterStates (eval_event ws x e) =
     geTotalClusterStates e + (if at_some (\<lambda>cs. True) x then 1 else 0)"
  by (cases x) (simp_all add: eval_cluster_observed)

lemma fold_total:
  "geTotalClusterStates (fold (eval_event ws) evs e) = 0 \<longleftrightarrow>
     geTotalClusterStates e = 0 \<and> \<not> list_ex (at_some (\<lambda>cs. True)) evs"
  by (induction evs arbitrary: e) (auto simp: eval_event_total)

text \<open>The three observation flags share one law.\<close>

locale observed_flag =
  fixes flag :: "gate_env \<Rightarrow> bool" and obs :: "ClusterRevisionState \<Rightarrow> bool"
  assumes flag_missing: "flag (missing_app a e) = flag e"
    and flag_cluster: "flag (eval_cluster ws a cs e) \<longleftrightarrow> flag e \<or> obs cs"
begin

lemma flag_fold:
  "flag (fold (eval_event ws) evs e) \<longleftrightarrow> flag e \<or> list_ex (at_some obs) evs"
proof (induction evs arbitrary: e)
  case (Cons x evs)
  then show ?case by (cases x) (simp_all add: flag_missing flag_cluster disj_assoc)
qed simp

end

interpretation obsOps: observed_flag geObservedAnyClusterOps
  "\<lambda>cs. poClusterOperators (csPlatformObservation cs) \<noteq> []"
  by unfold_locales (simp_all add: eval_cluster_observed)

interpretation obsMCP: observed_flag geObservedAnyMCP "\<lambda>cs. mcp_reported (csMCPStatus cs)"
  by unfold_locales (simp_all add: eval_cluster_observed)

interpretation obsVirt: observed_flag geObservedAnyVirt "\<lambda>cs. virt_observed (csVirtStatus cs)"
  by unfold_locales (simp_all add: eval_cluster_observed)

section \<open>Refinement\<close>

lemma preserveObservedAt_simps [simp]:
  "grStatus (preserveObservedAt prev g) = grStatus g"
  "grName (preserveObservedAt prev g) = grName g"
  "grReason (preserveObservedAt prev g) = grReason g"
  "grMessage (preserveObservedAt prev g) = grMessage g"
  by (simp_all add: preserveObservedAt_def split: option.splits)

lemma init_gates_simps:
  "grStatus (geClusterVersion (init_gates now)) = GateStatusUnknown"
  "grStatus (geClusterOps (init_gates now)) = GateStatusTrue"
  "grStatus (gePlatformOps (init_gates now)) = GateStatusUnknown"
  "grStatus (geMCP (init_gates now)) = GateStatusTrue"
  "grStatus (geNodeMaint (init_gates now)) = GateStatusTrue"
  "grStatus (geAllChanges (init_gates now)) = GateStatusTrue"
  "grStatus (geHealth (init_gates now)) = GateStatusTrue"
  "grStatus (geEvents (init_gates now)) = GateStatusTrue"
  "grStatus (geObjects (init_gates now)) = GateStatusTrue"
  "grStatus (geDeps (init_gates now)) = GateStatusTrue"
  "grStatus (geVirt (init_gates now)) = GateStatusTrue"
  "geTotalClusterStates (init_gates now) = 0"
  "geObservedAnyClusterOps (init_gates now) = False"
  "geObservedAnyMCP (init_gates now) = False"
  "geObservedAnyVirt (init_gates now) = False"
  by (simp_all only: init_gates_def mk_gate_def gate_env.simps GateResult.simps)

lemma scope_gate_simps:
  "geClusterOps (scope_gate chg e) = geClusterOps e" "geHealth (scope_gate chg e) = geHealth e"
  "geMCP (scope_gate chg e) = geMCP e" "geEvents (scope_gate chg e) = geEvents e"
  "geObjects (scope_gate chg e) = geObjects e" "geDeps (scope_gate chg e) = geDeps e"
  "geVirt (scope_gate chg e) = geVirt e" "geClusterVersion (scope_gate chg e) = geClusterVersion e"
  "gePlatformOps (scope_gate chg e) = gePlatformOps e"
  "geNodeMaint (scope_gate chg e) = geNodeMaint e"
  "geTotalClusterStates (scope_gate chg e) = geTotalClusterStates e"
  "geObservedAnyClusterOps (scope_gate chg e) = geObservedAnyClusterOps e"
  "geObservedAnyMCP (scope_gate chg e) = geObservedAnyMCP e"
  "geObservedAnyVirt (scope_gate chg e) = geObservedAnyVirt e"
  "grStatus (geAllChanges (scope_gate chg e)) =
     (if cwImpactedApps (chgSpec chg) = [] then GateStatusUnknown else grStatus (geAllChanges e))"
  by (simp_all add: scope_gate_def)

lemma some_cluster: "list_ex (at_some P) evs \<Longrightarrow> list_ex (at_some (\<lambda>cs. True)) evs"
proof (induction evs)
  case (Cons x evs)
  then show ?case by (cases x) auto
qed simp

definition window_events :: "bool \<Rightarrow> iter_order \<Rightarrow> ChangeWindow \<Rightarrow> loop_event list" where
  "window_events isHub it chg = loop_events isHub (range_map it (app_states chg))"

lemma after_loop_status:
  fixes e :: gate_env
  defines "e' \<equiv> no_cluster_states (unobserved_gates e)"
  shows "grStatus (geClusterVersion e') = grStatus (geClusterVersion e)"
    "grStatus (gePlatformOps e') = grStatus (gePlatformOps e)"
    "grStatus (geNodeMaint e') = grStatus (geNodeMaint e)"
    "grStatus (geClusterOps e') = known_if (geTotalClusterStates e \<noteq> 0)
       (known_if (geObservedAnyClusterOps e) (grStatus (geClusterOps e)))"
    "grStatus (geMCP e') = known_if (geTotalClusterStates e \<noteq> 0)
       (known_if (geObservedAnyMCP e) (grStatus (geMCP e)))"
    "grStatus (geVirt e') = known_if (geTotalClusterStates e \<noteq> 0)
       (known_if (geObservedAnyVirt e) (grStatus (geVirt e)))"
    "grStatus (geAllChanges e') = known_if (geTotalClusterStates e \<noteq> 0) (grStatus (geAllChanges e))"
    "grStatus (geHealth e') = known_if (geTotalClusterStates e \<noteq> 0) (grStatus (geHealth e))"
    "grStatus (geEvents e') = known_if (geTotalClusterStates e \<noteq> 0) (grStatus (geEvents e))"
    "grStatus (geObjects e') = known_if (geTotalClusterStates e \<noteq> 0) (grStatus (geObjects e))"
    "grStatus (geDeps e') = known_if (geTotalClusterStates e \<noteq> 0) (grStatus (geDeps e))"
  by (simp_all add: e'_def no_cluster_states_def unobserved_gates_def known_if_def)

lemmas loop_status =
  gOps.st_fold_eq gMCP.st_fold_eq gEvents.st_fold_eq gObjects.st_fold_eq gDeps.st_fold_eq
  gVirt.st_fold_eq gMaint.st_fold_eq gHealth.st_fold fold_health_v gSync.st_fold_last
  gCV.st_fold_last gPlat.st_fold_last obsOps.flag_fold obsMCP.flag_fold obsVirt.flag_fold
  fold_total scope_gate_simps

lemma loop_status_at:
  fixes chg :: ChangeWindow and now :: gtime and evs :: "loop_event list"
  defines "ws \<equiv> cwStartTime (chgSpec chg)"
  defines "e \<equiv> fold (eval_event ws) evs (scope_gate chg (init_gates now))"
  shows "grStatus (geClusterVersion e) = last_verdict (on_cluster None cv_verdict) evs GateStatusUnknown"
    "grStatus (gePlatformOps e) = last_verdict (on_cluster None platform_verdict) evs GateStatusUnknown"
    "grStatus (geNodeMaint e) = fails_if (list_ex (at_some maint_bad) evs)"
    "grStatus (geClusterOps e) = fails_if (list_ex (at_some ops_bad) evs)"
    "grStatus (geMCP e) = fails_if (list_ex (at_some (\<lambda>cs. mcp_bad (csMCPStatus cs))) evs)"
    "grStatus (geVirt e) = fails_if (list_ex (at_some (\<lambda>cs. virt_bad (csVirtStatus cs))) evs)"
    "grStatus (geEvents e) = fails_if (list_ex (at_some (events_bad ws)) evs)"
    "grStatus (geObjects e) = fails_if (list_ex (at_some objects_bad) evs)"
    "grStatus (geDeps e) = fails_if (list_ex (at_some deps_bad) evs)"
    "grStatus (geAllChanges e) = last_verdict sync_verdict evs
       (known_if (cwImpactedApps (chgSpec chg) \<noteq> []) GateStatusTrue)"
    "grStatus (geHealth e) =
       (if list_ex (at_some unhealthy) evs then GateStatusFalse
        else if list_ex (at_some health_unknown) evs then GateStatusUnknown else GateStatusTrue)"
    "geTotalClusterStates e \<noteq> 0 \<longleftrightarrow> list_ex (at_some (\<lambda>cs. True)) evs"
    "geObservedAnyClusterOps e \<longleftrightarrow>
       list_ex (at_some (\<lambda>cs. poClusterOperators (csPlatformObservation cs) \<noteq> [])) evs"
    "geObservedAnyMCP e \<longleftrightarrow> list_ex (at_some (\<lambda>cs. mcp_reported (csMCPStatus cs))) evs"
    "geObservedAnyVirt e \<longleftrightarrow> list_ex (at_some (\<lambda>cs. virt_observed (csVirtStatus cs))) evs"
  by (simp_all add: e_def loop_status init_gates_simps last_verdict_def fails_if_def known_if_def
      list_ex_iff split: list.split)

lemma known_if_some_cluster:
  "known_if (list_ex (at_some (\<lambda>cs. True)) evs) (known_if (list_ex (at_some P) evs) s) =
     known_if (list_ex (at_some P) evs) s"
  using some_cluster [of P evs] by (auto simp: known_if_def)

lemma gates_after_loop_status:
  "map grStatus (gate_list (gates_after_loop isHub it chg now)) =
     gate_spec chg (window_events isHub it chg)"
  unfolding gates_after_loop_def fold_eval_app window_events_def gate_list_def gate_spec_def Let_def
  by (simp only: list.map after_loop_status loop_status_at known_if_some_cluster)

text \<open>\<open>evaluateGates\<close> reports exactly the specified verdicts, in the order of the gates.\<close>

lemma gates_refine_status:
  "map grStatus (vrGateResults (fst (evaluateGates isHub it chg now))) =
     gate_spec chg (window_events isHub it chg)"
  unfolding gates_after_loop_status [of isHub it chg now, symmetric]
  by (simp add: evaluateGates_def Let_def)

lemma evaluateGates_passed:
  "vrPassed (fst (evaluateGates isHub it chg now)) \<longleftrightarrow>
     list_all (\<lambda>s. s = GateStatusTrue) (gate_spec chg (window_events isHub it chg))
     \<and> stSilentClusters (chgStatus chg) = [] \<and> cwImpactedApps (chgSpec chg) \<noteq> []"
  unfolding gates_after_loop_status [of isHub it chg now, symmetric]
  by (simp add: evaluateGates_def Let_def list.pred_map comp_def)

end
