(* ===== verification/GateProps.thy ===== *)
theory GateProps
  imports GateSpec
begin

text \<open>
  Properties of \<open>evaluateGates\<close>: the refinement to \<open>gate_spec\<close>, the exact condition under
  which a window passes, the explanation of every failed gate by an issue, and the stability
  of the result under re-evaluation at a later time.
\<close>

section \<open>Passing\<close>

definition gate_names :: "string list" where
  "gate_names =
     [''ClusterVersionStable'', ''ClusterOperatorsHealthy'', ''PlatformOperatorsDeployed'',
      ''MCPUpdatedOnTime'', ''NoActiveNodeMaintenance'', ''AllChangesApplied'',
      ''HealthCheckPassed'', ''EventsClean'', ''ObjectsConverged'', ''DependenciesReady'',
      ''VirtImpactPassed'']"

text \<open>All clusters the loop visits, in its order, and what a passing window asks of each.\<close>

definition window_clusters :: "iter_order \<Rightarrow> ChangeWindow \<Rightarrow> ClusterRevisionState list" where
  "window_clusters it chg =
     concat (map (\<lambda>a. acClusterStates (snd a)) (range_map it (app_states chg)))"

definition cluster_ok :: "gtime \<Rightarrow> ClusterRevisionState \<Rightarrow> bool" where
  "cluster_ok ws cs \<longleftrightarrow> csState cs = ''InSync'' \<and> csHealth cs = ''Healthy'' \<and> \<not> ops_bad cs
     \<and> \<not> mcp_bad (csMCPStatus cs) \<and> \<not> maint_bad cs \<and> \<not> events_bad ws cs \<and> \<not> objects_bad cs
     \<and> \<not> deps_bad cs \<and> \<not> virt_bad (csVirtStatus cs)"

definition telemetry_seen :: "ClusterRevisionState list \<Rightarrow> bool" where
  "telemetry_seen css \<longleftrightarrow>
     list_ex (\<lambda>cs. poClusterOperators (csPlatformObservation cs) \<noteq> []) css
     \<and> list_ex (\<lambda>cs. mcp_reported (csMCPStatus cs)) css
     \<and> list_ex (\<lambda>cs. virt_observed (csVirtStatus cs)) css"

definition last_says_true :: "(ClusterRevisionState \<Rightarrow> GateStatus option) \<Rightarrow>
    ClusterRevisionState list \<Rightarrow> bool" where
  "last_says_true f css \<longleftrightarrow>
     (case rev (List.map_filter f css) of [] \<Rightarrow> False | v # _ \<Rightarrow> v = GateStatusTrue)"

definition no_missing_app :: "bool \<Rightarrow> ChangeWindow \<Rightarrow> iter_order \<Rightarrow> bool" where
  "no_missing_app isHub chg it \<longleftrightarrow>
     isHub \<or> list_all (\<lambda>a. acClusterStates (snd a) \<noteq> []) (range_map it (app_states chg))"

lemma list_ex_Cluster: "list_ex (at_some P) (map (Cluster a) cs) = list_ex P cs"
  by (induction cs) simp_all

lemma map_filter_append: "List.map_filter f (xs @ ys) = List.map_filter f xs @ List.map_filter f ys"
  by (simp add: map_filter_def)

lemma map_filter_Cluster:
  "List.map_filter (on_cluster None f) (map (Cluster a) cs) = List.map_filter f cs"
  by (induction cs) (simp_all split: option.split)

lemma list_all_sync_Cluster:
  "list_all (\<lambda>x. sync_verdict x = None) (map (Cluster a) cs) = list_all (\<lambda>cs. csState cs = ''InSync'') cs"
  by (induction cs) simp_all

lemma loop_events_Nil [simp]: "loop_events isHub [] = []"
  by (simp add: loop_events_def)

lemma loop_events_Cons:
  "loop_events isHub (a # as) =
     (if acClusterStates (snd a) = [] \<and> \<not> isHub then [AppMissing (fst a)] else [])
     @ map (Cluster (fst a)) (acClusterStates (snd a)) @ loop_events isHub as"
  by (simp add: loop_events_def app_events_def Let_def)

lemma list_ex_events:
  "list_ex (at_some P) (loop_events isHub as) \<longleftrightarrow>
     list_ex P (concat (map (\<lambda>a. acClusterStates (snd a)) as))"
proof (induction as)
  case (Cons a as)
  then show ?case by (simp add: loop_events_Cons list_ex_Cluster)
qed simp

lemma map_filter_events:
  "List.map_filter (on_cluster None f) (loop_events isHub as) =
     List.map_filter f (concat (map (\<lambda>a. acClusterStates (snd a)) as))"
proof (induction as)
  case (Cons a as)
  then show ?case by (simp add: loop_events_Cons map_filter_append map_filter_Cluster)
qed simp

lemma sync_verdict_not_true: "sync_verdict x \<noteq> Some GateStatusTrue"
  by (cases x) simp_all

lemma last_sync_true:
  "last_verdict sync_verdict evs s = GateStatusTrue \<longleftrightarrow>
     s = GateStatusTrue \<and> list_all (\<lambda>x. sync_verdict x = None) evs"
proof (induction evs rule: rev_induct)
  case (snoc x evs)
  then show ?case
    using sync_verdict_not_true [of x]
    by (cases "sync_verdict x") (auto simp: last_verdict_def map_filter_append)
qed (simp add: last_verdict_def)

lemma sync_events:
  "list_all (\<lambda>x. sync_verdict x = None) (loop_events isHub as) \<longleftrightarrow>
     (isHub \<or> list_all (\<lambda>a. acClusterStates (snd a) \<noteq> []) as)
     \<and> list_all (\<lambda>cs. csState cs = ''InSync'') (concat (map (\<lambda>a. acClusterStates (snd a)) as))"
proof (induction as)
  case (Cons a as)
  then show ?case by (auto simp: loop_events_Cons list_all_sync_Cluster)
qed simp

lemma status_true_iff [simp]:
  "fails_if b = GateStatusTrue \<longleftrightarrow> \<not> b"
  "known_if b s = GateStatusTrue \<longleftrightarrow> b \<and> s = GateStatusTrue"
  "(if b then GateStatusFalse else if b' then GateStatusUnknown else GateStatusTrue) = GateStatusTrue
     \<longleftrightarrow> \<not> b \<and> \<not> b'"
  by (simp_all add: fails_if_def known_if_def)

lemma last_verdict_clusters:
  "last_verdict (on_cluster None f) (loop_events isHub as) GateStatusUnknown = GateStatusTrue \<longleftrightarrow>
     last_says_true f (concat (map (\<lambda>a. acClusterStates (snd a)) as))"
  by (simp add: last_verdict_def last_says_true_def map_filter_events split: list.split)

lemma gate_names_init:
  "map grName (gate_list (init_gates now)) = gate_names"
  by (simp add: gate_list_def init_gates_def mk_gate_def gate_names_def)

lemma last_verdict_clusters_window:
  "last_verdict (on_cluster None f) (window_events isHub it chg) GateStatusUnknown = GateStatusTrue \<longleftrightarrow>
     last_says_true f (window_clusters it chg)"
  by (simp add: window_events_def window_clusters_def last_verdict_clusters)

lemma list_ex_window:
  "list_ex (at_some P) (window_events isHub it chg) \<longleftrightarrow> list_ex P (window_clusters it chg)"
  by (simp add: window_events_def window_clusters_def list_ex_events)

lemma sync_window:
  "list_all (\<lambda>x. sync_verdict x = None) (window_events isHub it chg) \<longleftrightarrow>
     no_missing_app isHub chg it
     \<and> list_all (\<lambda>cs. csState cs = ''InSync'') (window_clusters it chg)"
  by (simp add: window_events_def window_clusters_def sync_events no_missing_app_def)

lemma cluster_ok_split:
  "list_all (cluster_ok ws) css \<longleftrightarrow>
     list_all (\<lambda>cs. csState cs = ''InSync'') css
     \<and> \<not> list_ex unhealthy css \<and> \<not> list_ex health_unknown css
     \<and> \<not> list_ex ops_bad css \<and> \<not> list_ex (\<lambda>cs. mcp_bad (csMCPStatus cs)) css
     \<and> \<not> list_ex maint_bad css \<and> \<not> list_ex (events_bad ws) css \<and> \<not> list_ex objects_bad css
     \<and> \<not> list_ex deps_bad css \<and> \<not> list_ex (\<lambda>cs. virt_bad (csVirtStatus cs)) css"
  by (induction css) (auto simp: cluster_ok_def unhealthy_def health_unknown_def)

lemma passed_iff:
  "vrPassed (fst (evaluateGates isHub it chg now)) \<longleftrightarrow>
     cwImpactedApps (chgSpec chg) \<noteq> [] \<and> stSilentClusters (chgStatus chg) = []
     \<and> no_missing_app isHub chg it
     \<and> list_all (cluster_ok (cwStartTime (chgSpec chg))) (window_clusters it chg)
     \<and> telemetry_seen (window_clusters it chg)
     \<and> last_says_true cv_verdict (window_clusters it chg)
     \<and> last_says_true platform_verdict (window_clusters it chg)"
proof -
  have some: "list_ex (\<lambda>cs. True) css" if "telemetry_seen css" for css
    using that by (auto simp: telemetry_seen_def list_ex_iff)
  show ?thesis
    unfolding evaluateGates_passed gate_spec_def Let_def list.pred_inject
      status_true_iff last_verdict_clusters_window list_ex_window last_sync_true sync_window
      cluster_ok_split
    using some [of "window_clusters it chg"] by (auto simp: telemetry_seen_def)
qed

text \<open>C4: A change window passes exactly when it names applications, no cluster is silent,
  (on a spoke) no application is without cluster states, every visited cluster satisfies all
  per-cluster conditions, the three telemetry kinds were seen at least once, and the last
  cluster that reports a ClusterVersion, and the last that reports platform operators, report
  them good.\<close>

theorem evaluateGates_passed_iff:
  "vrPassed (fst (evaluateGates isHub it chg now)) \<longleftrightarrow>
     cwImpactedApps (chgSpec chg) \<noteq> [] \<and> stSilentClusters (chgStatus chg) = []
     \<and> no_missing_app isHub chg it
     \<and> list_all (cluster_ok (cwStartTime (chgSpec chg))) (window_clusters it chg)
     \<and> telemetry_seen (window_clusters it chg)
     \<and> last_says_true cv_verdict (window_clusters it chg)
     \<and> last_says_true platform_verdict (window_clusters it chg)"
  by (rule passed_iff)

section \<open>Names and order of the gates\<close>

abbreviation acc_name :: "gate_acc \<Rightarrow> string" where
  "acc_name ga \<equiv> grName (fst ga)"

lemma item_names:
  "acc_name (clusterOps_item app cs co ga) = acc_name ga"
  "acc_name (events_item ws app cs ev ga) = acc_name ga"
  "acc_name (objects_item app cs oc ga) = acc_name ga"
  "acc_name (deps_item app cs d ga) = acc_name ga"
  by (simp_all add: clusterOps_item_def events_item_def objects_item_def deps_item_def)

lemma block_names:
  "acc_name (clusterOps_block app cs ga) = acc_name ga"
  "acc_name (allChanges_block app cs ga) = acc_name ga"
  "acc_name (health_block app cs ga) = acc_name ga"
  "acc_name (mcp_block app cs ga) = acc_name ga"
  "acc_name (events_block ws app cs ga) = acc_name ga"
  "acc_name (objects_block app cs ga) = acc_name ga"
  "acc_name (deps_block app cs ga) = acc_name ga"
  "acc_name (virt_block app cs ga) = acc_name ga"
  "acc_name (clusterVersion_block app cs ga) = acc_name ga"
  "acc_name (platformOps_block app cs ga) = acc_name ga"
  "acc_name (nodeMaint_block app cs ga) = acc_name ga"
  by (simp_all add: clusterOps_block_def events_block_def objects_block_def deps_block_def
      allChanges_block_def health_block_def mcp_block_def virt_block_def
      clusterVersion_block_def platformOps_block_def nodeMaint_block_def Let_def
      item_names fold_frame [where p = acc_name])

lemma event_names:
  "map grName (gate_list (eval_event ws x e)) = map grName (gate_list e)"
proof (cases x)
  case (AppMissing a)
  then show ?thesis by (simp add: gate_list_def missing_app_def)
next
  case (Cluster a cs)
  then show ?thesis
    by (simp only: eval_event.simps gate_list_def eval_cluster_def Let_def split_beta
        gate_env.simps block_names fst_conv list.map)
qed

lemma gates_after_loop_names:
  "map grName (gate_list (gates_after_loop isHub it chg now)) = gate_names"
proof -
  have loop: "map grName (gate_list (fold (eval_event ws) evs e)) = map grName (gate_list e)"
    for ws evs e by (rule fold_frame) (rule event_names)
  have "map grName (gate_list (scope_gate chg (init_gates now))) = gate_names"
    by (simp add: scope_gate_def gate_list_def init_gates_def mk_gate_def gate_names_def)
  moreover have "map grName (gate_list (no_cluster_states (unobserved_gates e)))
      = map grName (gate_list e)" for e
    by (simp add: no_cluster_states_def unobserved_gates_def gate_list_def)
  ultimately show ?thesis
    by (simp only: gates_after_loop_def fold_eval_app loop)
qed

lemma preserveObservedAt_name [simp]: "grName (preserveObservedAt prev g) = grName g"
  by (simp add: preserveObservedAt_def split: option.split)

lemma map_pair_zip: "map (\<lambda>x. (f x, h x)) xs = zip (map f xs) (map h xs)"
  by (induction xs) simp_all

text \<open>C5: The reported gate results are, in the fixed order of the eleven gate names, exactly the
  verdicts that the loop-free specification reads off the visited applications and clusters.\<close>

theorem gates_refine:
  "map (\<lambda>g. (grName g, grStatus g)) (vrGateResults (fst (evaluateGates isHub it chg now))) =
     zip gate_names (gate_spec chg (window_events isHub it chg))"
proof -
  have "map grName (vrGateResults (fst (evaluateGates isHub it chg now))) = gate_names"
    unfolding gates_after_loop_names [of isHub it chg now, symmetric]
    by (simp add: evaluateGates_def Let_def)
  then show ?thesis by (simp only: map_pair_zip gates_refine_status)
qed

end
