(* ===== verification/Samples.thy ===== *)
theory Samples
  imports ApiTypes
begin

text \<open>
  Concrete resources on which the witnesses of the development evaluate: the state of a
  healthy cluster, of one whose ClusterVersion is upgrading, and a change window over two
  applications.
\<close>

definition good_platform :: PlatformObservationStatus where
  "good_platform = zero_PlatformObservationStatus
     \<lparr>poClusterOperators :=
        [\<lparr>coName = ''etcd'', coAvailable = True, coDegraded = False, coProgressing = False,
          coVersion = ''4.16''\<rparr>],
      poClusterVersion :=
        \<lparr>cvVersion = ''4.16'', cvDesiredVersion = ''4.16'', cvProgressing = False,
         cvAvailable = True, cvChannel = ''''\<rparr>,
      poKubeVirt := \<lparr>odPhase = ''Deployed'', odTargetVersion = '''', odObservedVersion = '''',
         odReady = True\<rparr>,
      poCDI := \<lparr>odPhase = ''Deployed'', odTargetVersion = '''', odObservedVersion = '''',
         odReady = True\<rparr>,
      poSSP := \<lparr>odPhase = ''Deployed'', odTargetVersion = '''', odObservedVersion = '''',
         odReady = True\<rparr>\<rparr>"

definition good_cluster :: ClusterRevisionState where
  "good_cluster = zero_ClusterRevisionState
     \<lparr>csClusterName := ''c1'', csHealth := ''Healthy'', csState := ''InSync'',
      csMCPStatus := zero_MachineConfigPoolStatus\<lparr>mcpName := ''worker''\<rparr>,
      csVirtStatus := zero_VirtualizationImpactStatus
        \<lparr>viHyperConvergedHealth := ''Healthy'', viVirtHandlerReady := True\<rparr>,
      csPlatformObservation := good_platform\<rparr>"

definition upgrading_cluster :: ClusterRevisionState where
  "upgrading_cluster = good_cluster
     \<lparr>csClusterName := ''c2'',
      csPlatformObservation := good_platform
        \<lparr>poClusterVersion :=
           \<lparr>cvVersion = ''4.15'', cvDesiredVersion = ''4.16'', cvProgressing = True,
            cvAvailable = True, cvChannel = ''''\<rparr>\<rparr>\<rparr>"

definition sample_spec :: ChangeWindowSpec where
  "sample_spec =
     \<lparr>cwCHGNumber = ''CHG1'', cwReleaseTag = ''v1'', cwBaselineRevision = ''r0'',
      cwExpectedRevision = ''r1'', cwRootApp = ''root'', cwImpactedApps = [''a'', ''b''],
      cwTargetNamespaces = [], cwStartTime = 0, cwEndTime = 1000 * Second,
      cwStabilizationPeriodSeconds = 60, cwStaleReportThresholdSeconds = 0,
      cwEvidenceRepoURL = '''',
      cwHardRefresh = \<lparr>hrMaxAttempts = 0, hrWaitBetweenSeconds = 0,
        hrActionExecutionMode = ''''\<rparr>\<rparr>"

definition sample_window :: "AppClusterStateMap gomap \<Rightarrow> ChangeWindow" where
  "sample_window apps =
     \<lparr>chgName = ''w'', chgNamespace = ''ns'', chgDeletionTimestamp = None,
      chgSpec = sample_spec,
      chgStatus = zero_ChangeWindowStatus\<lparr>stAppStates := Some apps\<rparr>\<rparr>"

definition app_of :: "ClusterRevisionState list \<Rightarrow> AppClusterStateMap" where
  "app_of css = \<lparr>acPhase = ''Synced'', acClusterStates = css\<rparr>"

definition good_window :: ChangeWindow where
  "good_window = sample_window [(''a'', app_of [good_cluster]), (''b'', app_of [good_cluster])]"

text \<open>Application \<open>a\<close> runs on the upgrading cluster, \<open>b\<close> on the healthy one.\<close>

definition masked_window :: ChangeWindow where
  "masked_window =
     sample_window [(''a'', app_of [upgrading_cluster]), (''b'', app_of [good_cluster])]"

end
