(* ===== verification/GateIssues.thy ===== *)
theory GateIssues
  imports GateProps Samples
begin

text \<open>
  The list of issues that accompanies the gates. \<open>window_issues\<close> says which issues every
  observation contributes, without the gates; \<open>issues_refine\<close> shows that \<open>evaluateGates\<close>
  reports exactly those, in loop order. Each loop inside a block is an instance of the locale
  \<open>reporting\<close>.
\<close>

locale reporting =
  fixes item :: "'o \<Rightarrow> gate_acc \<Rightarrow> gate_acc"
    and issues :: "'o \<Rightarrow> string list"
  assumes snd_item: "snd (item x ga) = snd ga @ issues x"
begin

lemma snd_fold: "snd (fold item xs ga) = snd ga @ concat (map issues xs)"
  by (induction xs arbitrary: ga) (simp_all add: snd_item)

end

section \<open>Issues of a cluster\<close>

definition issue_if :: "bool \<Rightarrow> string \<Rightarrow> string list" where
  "issue_if b s = (if b then [s] else [])"

lemma issue_if_Nil [simp]: "issue_if b s = [] \<longleftrightarrow> \<not> b"
  by (simp add: issue_if_def)

definition mcp_issue :: "MachineConfigPoolStatus \<Rightarrow> string" where
  "mcp_issue mcp =
     ''MCP '' @ mcpName mcp @
     (if mcpPhase mcp = ''Degraded'' \<or> sint (mcpDegradedNodeCount mcp) > 0 then '' degraded''
      else if mcpPhase mcp = ''Updating'' \<or> sint (mcpUpdatingNodeCount mcp) > 0
        \<or> sint (mcpUnavailableNodeCount mcp) > 0 then '' updating/unavailable''
      else if sint (mcpMachineCount mcp) > 0
        \<and> sint (mcpReadyMachineCount mcp) < sint (mcpMachineCount mcp) then '' not all nodes ready''
      else '' config mismatch'')"

definition virt_issues :: "VirtualizationImpactStatus \<Rightarrow> string list" where
  "virt_issues virt =
     issue_if (viHyperConvergedHealth virt = ''Degraded'') ''HyperConverged degraded''
     @ issue_if (\<not> viVirtHandlerReady virt) ''virt-handler unready''
     @ issue_if (sint (viStalledMigrations virt) > 0)
         (itoa32 (viStalledMigrations virt) @ '' stalled migrations'')
     @ issue_if (sint (viUnmigratableVMIs virt) > 0)
         (itoa32 (viUnmigratableVMIs virt) @ '' unmigratable VMIs'')"

definition platform_not_ready :: "PlatformObservationStatus \<Rightarrow> string list" where
  "platform_not_ready po =
     issue_if (\<not> odReady (poKubeVirt po)) (''KubeVirt('' @ odPhase (poKubeVirt po) @ '')'')
     @ issue_if (\<not> odReady (poCDI po)) (''CDI('' @ odPhase (poCDI po) @ '')'')
     @ issue_if (\<not> odReady (poSSP po)) (''SSP('' @ odPhase (poSSP po) @ '')'')"

text \<open>The issues of one cluster, in the order of the blocks, before they are labelled with the
  application and the cluster.\<close>

definition cluster_issues :: "gtime \<Rightarrow> ClusterRevisionState \<Rightarrow> string list" where
  "cluster_issues ws cs =
     map (\<lambda>co. ''ClusterOperator '' @ coName co @ '' degraded/unavailable'')
       (filter co_bad (poClusterOperators (csPlatformObservation cs)))
     @ issue_if (csState cs \<noteq> ''InSync'') (''state is '' @ csState cs)
     @ issue_if (csHealth cs \<noteq> ''Healthy'') (''health is '' @ csHealth cs)
     @ issue_if (mcp_bad (csMCPStatus cs)) (mcp_issue (csMCPStatus cs))
     @ map (\<lambda>ev. ''Warning event '' @ esReason ev @ '' on '' @ esInvolvedObject ev)
         (filter (event_in_window ws) (csRecentEvents cs))
     @ map (\<lambda>oc. ''object '' @ ocKind oc @ ''/'' @ ocName oc @ '' failed sync'')
         (filter change_failed (csObjectChanges cs))
     @ map (\<lambda>d. ''dependency '' @ drKind d @ ''/'' @ drName d @ '' not ready'')
         (filter (\<lambda>d. \<not> drReady d) (csDependencies cs))
     @ virt_issues (csVirtStatus cs)
     @ issue_if (cv_verdict cs = Some GateStatusFalse)
         (if cvProgressing (poClusterVersion (csPlatformObservation cs))
          then ''ClusterVersion upgrading'' else ''ClusterVersion not available'')
     @ issue_if (platform_verdict cs = Some GateStatusFalse)
         (''platform operators not deployed: ''
            @ join '', '' (platform_not_ready (csPlatformObservation cs)))
     @ issue_if (maint_bad cs)
         (itoa32 (nmActiveMaintenanceNodes (poNodeMaintenance (csPlatformObservation cs)))
            @ '' nodes under maintenance'')"

fun event_issues :: "gtime \<Rightarrow> loop_event \<Rightarrow> string list" where
  "event_issues ws (AppMissing a) = [a @ '': missing cluster propagation status'']"
| "event_issues ws (Cluster a cs) = map (at_cluster a cs) (cluster_issues ws cs)"

definition window_issues :: "ChangeWindow \<Rightarrow> loop_event list \<Rightarrow> string list" where
  "window_issues chg evs =
     issue_if (cwImpactedApps (chgSpec chg) = [])
       ''spec.impactedApps is empty; validation cannot execute without scope''
     @ concat (map (event_issues (cwStartTime (chgSpec chg))) evs)
     @ issue_if (\<not> list_ex (at_some (\<lambda>cs. True)) evs)
         ''No cluster reports available to validate change''
     @ map silent_issue (stSilentClusters (chgStatus chg))"

section \<open>The blocks report the issues\<close>

interpretation ops_rep: reporting "clusterOps_item a cs"
  "\<lambda>co. issue_if (co_bad co)
     (at_cluster a cs (''ClusterOperator '' @ coName co @ '' degraded/unavailable''))" for a cs
  by unfold_locales (simp add: clusterOps_item_def issue_if_def)

interpretation ev_rep: reporting "events_item ws a cs"
  "\<lambda>ev. issue_if (event_in_window ws ev)
     (at_cluster a cs (''Warning event '' @ esReason ev @ '' on '' @ esInvolvedObject ev))"
  for ws a cs
  by unfold_locales (simp add: events_item_def issue_if_def)

interpretation ob_rep: reporting "objects_item a cs"
  "\<lambda>oc. issue_if (change_failed oc)
     (at_cluster a cs (''object '' @ ocKind oc @ ''/'' @ ocName oc @ '' failed sync''))" for a cs
  by unfold_locales (simp add: objects_item_def issue_if_def)

interpretation de_rep: reporting "deps_item a cs"
  "\<lambda>d. issue_if (\<not> drReady d)
     (at_cluster a cs (''dependency '' @ drKind d @ ''/'' @ drName d @ '' not ready''))" for a cs
  by unfold_locales (simp add: deps_item_def issue_if_def)

lemma concat_issue_if: "concat (map (\<lambda>x. issue_if (P x) (f x)) xs) = map f (filter P xs)"
  by (induction xs) (simp_all add: issue_if_def)

lemma map_issue_if: "map f (issue_if b s) = issue_if b (f s)"
  by (simp add: issue_if_def)

named_theorems block_issues \<open>the issues a block appends\<close>

lemma loop_block_issues [block_issues]:
  "snd (clusterOps_block a cs ga) = snd ga @ map (at_cluster a cs)
     (map (\<lambda>co. ''ClusterOperator '' @ coName co @ '' degraded/unavailable'')
       (filter co_bad (poClusterOperators (csPlatformObservation cs))))"
  "snd (events_block ws a cs ga) = snd ga @ map (at_cluster a cs)
     (map (\<lambda>ev. ''Warning event '' @ esReason ev @ '' on '' @ esInvolvedObject ev)
       (filter (event_in_window ws) (csRecentEvents cs)))"
  "snd (objects_block a cs ga) = snd ga @ map (at_cluster a cs)
     (map (\<lambda>oc. ''object '' @ ocKind oc @ ''/'' @ ocName oc @ '' failed sync'')
       (filter change_failed (csObjectChanges cs)))"
  "snd (deps_block a cs ga) = snd ga @ map (at_cluster a cs)
     (map (\<lambda>d. ''dependency '' @ drKind d @ ''/'' @ drName d @ '' not ready'')
       (filter (\<lambda>d. \<not> drReady d) (csDependencies cs)))"
  unfolding clusterOps_block_def events_block_def objects_block_def deps_block_def
    ops_rep.snd_fold ev_rep.snd_fold ob_rep.snd_fold de_rep.snd_fold concat_issue_if map_map comp_def
  by (rule refl)+

lemma single_block_issues [block_issues]:
  "snd (allChanges_block a cs ga) = snd ga @ map (at_cluster a cs)
     (issue_if (csState cs \<noteq> ''InSync'') (''state is '' @ csState cs))"
  "snd (health_block a cs ga) = snd ga @ map (at_cluster a cs)
     (issue_if (csHealth cs \<noteq> ''Healthy'') (''health is '' @ csHealth cs))"
  "snd (nodeMaint_block a cs ga) = snd ga @ map (at_cluster a cs)
     (issue_if (maint_bad cs)
       (itoa32 (nmActiveMaintenanceNodes (poNodeMaintenance (csPlatformObservation cs)))
          @ '' nodes under maintenance''))"
  by (simp_all add: allChanges_block_def health_block_def nodeMaint_block_def maint_bad_def Let_def
      issue_if_def)

lemma mcp_block_issues [block_issues]:
  "snd (mcp_block a cs ga) = snd ga @ map (at_cluster a cs)
     (issue_if (mcp_bad (csMCPStatus cs)) (mcp_issue (csMCPStatus cs)))"
  by (simp add: mcp_block_def mcp_bad_def mcp_issue_def Let_def issue_if_def)

lemma virt_block_issues [block_issues]:
  "snd (virt_block a cs ga) = snd ga @ map (at_cluster a cs) (virt_issues (csVirtStatus cs))"
  by (simp add: virt_block_def virt_issues_def Let_def issue_if_def)

lemma clusterVersion_block_issues [block_issues]:
  "snd (clusterVersion_block a cs ga) = snd ga @ map (at_cluster a cs)
     (issue_if (cv_verdict cs = Some GateStatusFalse)
         (if cvProgressing (poClusterVersion (csPlatformObservation cs))
          then ''ClusterVersion upgrading'' else ''ClusterVersion not available''))"
  by (simp add: clusterVersion_block_def cv_verdict_def Let_def issue_if_def)

lemma platformOps_block_issues [block_issues]:
  "snd (platformOps_block a cs ga) = snd ga @ map (at_cluster a cs)
     (issue_if (platform_verdict cs = Some GateStatusFalse)
         (''platform operators not deployed: ''
            @ join '', '' (platform_not_ready (csPlatformObservation cs))))"
  by (simp add: platformOps_block_def platform_verdict_def platform_not_ready_def Let_def issue_if_def)

lemma eval_cluster_issues:
  "geIssues (eval_cluster ws a cs e) = geIssues e @ map (at_cluster a cs) (cluster_issues ws cs)"
  by (simp only: eval_cluster_def Let_def split_beta gate_env.simps block_issues snd_conv
      cluster_issues_def map_append append_assoc)

lemma eval_event_issues: "geIssues (eval_event ws x e) = geIssues e @ event_issues ws x"
  by (cases x) (simp_all add: missing_app_def eval_cluster_issues)

lemma loop_issues:
  "geIssues (fold (eval_event ws) evs e) = geIssues e @ concat (map (event_issues ws) evs)"
  by (induction evs arbitrary: e) (simp_all add: eval_event_issues)

lemma gates_after_loop_issues:
  "geIssues (gates_after_loop isHub it chg now) @ map silent_issue (stSilentClusters (chgStatus chg)) =
     window_issues chg (window_events isHub it chg)"
proof -
  have post: "geIssues (no_cluster_states (unobserved_gates e)) =
      geIssues e @ issue_if (geTotalClusterStates e = 0)
        ''No cluster reports available to validate change''" for e
    by (simp add: no_cluster_states_def unobserved_gates_def issue_if_def)
  have init: "geIssues (scope_gate chg (init_gates now)) =
      issue_if (cwImpactedApps (chgSpec chg) = [])
        ''spec.impactedApps is empty; validation cannot execute without scope''"
    by (simp add: scope_gate_def init_gates_def issue_if_def)
  show ?thesis
    unfolding gates_after_loop_def fold_eval_app window_issues_def window_events_def post loop_issues
      init append_assoc loop_status_at(12) [symmetric, of _ chg now]
    by simp
qed

lemma issues_eq:
  "snd (evaluateGates isHub it chg now) = window_issues chg (window_events isHub it chg)
   \<and> vrIssuesFound (fst (evaluateGates isHub it chg now)) = snd (evaluateGates isHub it chg now)"
  by (simp add: evaluateGates_def Let_def gates_after_loop_issues)

text \<open>C6: The issues reported with the validation result, and kept in it, are exactly the
  specified ones, in the order in which the loop visits applications and clusters; they do not
  depend on the gates or on the time of the evaluation.\<close>

theorem issues_refine:
  "snd (evaluateGates isHub it chg now) = window_issues chg (window_events isHub it chg)
   \<and> vrIssuesFound (fst (evaluateGates isHub it chg now)) = snd (evaluateGates isHub it chg now)"
  by (rule issues_eq)

section \<open>When there is no issue\<close>

definition no_failing_verdict :: "ClusterRevisionState list \<Rightarrow> bool" where
  "no_failing_verdict css \<longleftrightarrow>
     list_all (\<lambda>cs. cv_verdict cs \<noteq> Some GateStatusFalse
       \<and> platform_verdict cs \<noteq> Some GateStatusFalse) css"

lemma mcp_cluster_issues_Nil:
  "cluster_issues ws cs = [] \<longleftrightarrow> cluster_ok ws cs
     \<and> cv_verdict cs \<noteq> Some GateStatusFalse \<and> platform_verdict cs \<noteq> Some GateStatusFalse"
  by (auto simp: cluster_issues_def cluster_ok_def virt_issues_def virt_bad_def ops_bad_def
      events_bad_def objects_bad_def deps_bad_def list_ex_iff filter_empty_conv)

lemma concat_map_Nil: "concat (map f xs) = [] \<longleftrightarrow> list_all (\<lambda>x. f x = []) xs"
  by (induction xs) simp_all

lemma loop_events_issues_Nil:
  "concat (map (event_issues ws) (loop_events isHub as)) = [] \<longleftrightarrow>
     (isHub \<or> list_all (\<lambda>a. acClusterStates (snd a) \<noteq> []) as)
     \<and> list_all (cluster_ok ws) (concat (map (\<lambda>a. acClusterStates (snd a)) as))
     \<and> no_failing_verdict (concat (map (\<lambda>a. acClusterStates (snd a)) as))"
proof -
  have clusters: "list_all (\<lambda>x. event_issues ws x = []) (map (Cluster a) cs) \<longleftrightarrow>
      list_all (cluster_ok ws) cs \<and> no_failing_verdict cs" for a cs
    by (induction cs) (auto simp: mcp_cluster_issues_Nil no_failing_verdict_def)
  have split: "no_failing_verdict (xs @ ys) \<longleftrightarrow> no_failing_verdict xs \<and> no_failing_verdict ys" for xs ys
    by (simp add: no_failing_verdict_def)
  show ?thesis
    unfolding concat_map_Nil
  proof (induction as)
    case (Cons a as)
    then show ?case by (auto simp: loop_events_Cons clusters split)
  qed (simp add: no_failing_verdict_def)
qed

lemma window_events_issues_Nil:
  "concat (map (event_issues ws) (window_events isHub it chg)) = [] \<longleftrightarrow>
     no_missing_app isHub chg it \<and> list_all (cluster_ok ws) (window_clusters it chg)
     \<and> no_failing_verdict (window_clusters it chg)"
  unfolding window_events_def loop_events_issues_Nil window_clusters_def no_missing_app_def
  by (rule refl)

lemma issues_Nil_iff:
  "snd (evaluateGates isHub it chg now) = [] \<longleftrightarrow>
     cwImpactedApps (chgSpec chg) \<noteq> [] \<and> stSilentClusters (chgStatus chg) = []
     \<and> no_missing_app isHub chg it \<and> window_clusters it chg \<noteq> []
     \<and> list_all (cluster_ok (cwStartTime (chgSpec chg))) (window_clusters it chg)
     \<and> no_failing_verdict (window_clusters it chg)"
proof -
  have some: "list_ex (\<lambda>cs. True) css \<longleftrightarrow> css \<noteq> []" for css :: "ClusterRevisionState list"
    by (cases css) simp_all
  show ?thesis
    unfolding issues_eq [THEN conjunct1] window_issues_def append_is_Nil_conv map_is_Nil_conv
      issue_if_Nil list_ex_window some window_events_issues_Nil
    by (simp add: conj_ac)
qed

text \<open>The list of issues is empty exactly when there is scope, at least one cluster state, no
  silent cluster, no application without states on a spoke, and no cluster violates any
  condition, those of the two overwriting gates included.\<close>

theorem no_issues_iff:
  "snd (evaluateGates isHub it chg now) = [] \<longleftrightarrow>
     cwImpactedApps (chgSpec chg) \<noteq> [] \<and> stSilentClusters (chgStatus chg) = []
     \<and> no_missing_app isHub chg it \<and> window_clusters it chg \<noteq> []
     \<and> list_all (cluster_ok (cwStartTime (chgSpec chg))) (window_clusters it chg)
     \<and> no_failing_verdict (window_clusters it chg)"
  by (rule issues_Nil_iff)

text \<open>C29: A passed window carries issues only when a cluster failed one of the two gates
  (ClusterVersion, platform operators) in which a later cluster overwrites the verdict.\<close>

theorem passed_with_issues_iff:
  assumes "vrPassed (fst (evaluateGates isHub it chg now))"
  shows "snd (evaluateGates isHub it chg now) \<noteq> [] \<longleftrightarrow>
     \<not> no_failing_verdict (window_clusters it chg)"
proof -
  have "window_clusters it chg \<noteq> []"
    using assms by (auto simp: passed_iff telemetry_seen_def)
  with assms show ?thesis
    unfolding issues_Nil_iff passed_iff by simp
qed

lemma passed_with_issues_iff_witness:
  "vrPassed (fst (evaluateGates False (\<lambda>ks. ks) masked_window 5))
   \<and> (snd (evaluateGates False (\<lambda>ks. ks) masked_window 5) \<noteq> [])
       = (\<not> no_failing_verdict (window_clusters (\<lambda>ks. ks) masked_window))"
proof -
  have "vrPassed (fst (evaluateGates False (\<lambda>ks. ks) masked_window 5))"
    by code_simp
  then show ?thesis
    using passed_with_issues_iff [of False "\<lambda>ks. ks" masked_window 5] by blast
qed


end
