(* ===== verification/GateStability.thy ===== *)
theory GateStability
  imports GateProps Samples
begin

text \<open>
  The time of an evaluation enters the gates only through \<open>grObservedAt\<close>, and
  \<open>preserveObservedAt\<close> carries the earlier time over while a gate keeps its status, reason and
  message: evaluating again, later, on the stored result gives the stored result back, so a
  steady window does not produce a new status. A loop over items keeps the property because
  it commutes with a change of the time (locale \<open>time_blind\<close>).
\<close>

definition retime :: "gtime \<Rightarrow> GateResult \<Rightarrow> GateResult" where
  "retime t g = g\<lparr>grObservedAt := t\<rparr>"

definition retime_acc :: "gtime \<Rightarrow> gate_acc \<Rightarrow> gate_acc" where
  "retime_acc t ga = (retime t (fst ga), snd ga)"

lemma retime_simps [simp]:
  "grStatus (retime t g) = grStatus g" "grName (retime t g) = grName g"
  "grReason (retime t g) = grReason g" "grMessage (retime t g) = grMessage g"
  "grEvidence (retime t g) = grEvidence g" "grObservedAt (retime t g) = t"
  "set_gate s r m (retime t g) = retime t (set_gate s r m g)"
  "(retime t g)\<lparr>grStatus := s\<rparr> = retime t (g\<lparr>grStatus := s\<rparr>)"
  "fst (retime_acc t ga) = retime t (fst ga)" "snd (retime_acc t ga) = snd ga"
  by (simp_all add: retime_def retime_acc_def set_gate_def)

lemma fail_gate_retime [simp]:
  "fail_gate r m i (retime_acc t ga) = retime_acc t (fail_gate r m i ga)"
  by (simp add: fail_gate_def retime_acc_def)

lemma retime_acc_pair [simp]:
  "(retime t g, is) = retime_acc t (g, is)"
  by (simp add: retime_acc_def)

locale time_blind =
  fixes item :: "'o \<Rightarrow> gate_acc \<Rightarrow> gate_acc"
  assumes item_retime: "item x (retime_acc t ga) = retime_acc t (item x ga)"
begin

lemma fold_retime: "fold item xs (retime_acc t ga) = retime_acc t (fold item xs ga)"
  by (induction xs arbitrary: ga) (simp_all add: item_retime)

end

interpretation ops_time: time_blind "clusterOps_item a cs" for a cs
  by unfold_locales (simp add: clusterOps_item_def)
interpretation ev_time: time_blind "events_item ws a cs" for ws a cs
  by unfold_locales (simp add: events_item_def)
interpretation ob_time: time_blind "objects_item a cs" for a cs
  by unfold_locales (simp add: objects_item_def)
interpretation de_time: time_blind "deps_item a cs" for a cs
  by unfold_locales (simp add: deps_item_def)

lemma block_retime:
  "clusterOps_block a cs (retime_acc t ga) = retime_acc t (clusterOps_block a cs ga)"
  "allChanges_block a cs (retime_acc t ga) = retime_acc t (allChanges_block a cs ga)"
  "health_block a cs (retime_acc t ga) = retime_acc t (health_block a cs ga)"
  "mcp_block a cs (retime_acc t ga) = retime_acc t (mcp_block a cs ga)"
  "events_block ws a cs (retime_acc t ga) = retime_acc t (events_block ws a cs ga)"
  "objects_block a cs (retime_acc t ga) = retime_acc t (objects_block a cs ga)"
  "deps_block a cs (retime_acc t ga) = retime_acc t (deps_block a cs ga)"
  "virt_block a cs (retime_acc t ga) = retime_acc t (virt_block a cs ga)"
  "clusterVersion_block a cs (retime_acc t ga) = retime_acc t (clusterVersion_block a cs ga)"
  "platformOps_block a cs (retime_acc t ga) = retime_acc t (platformOps_block a cs ga)"
  "nodeMaint_block a cs (retime_acc t ga) = retime_acc t (nodeMaint_block a cs ga)"
  by (simp_all add: clusterOps_block_def allChanges_block_def health_block_def mcp_block_def
      events_block_def objects_block_def deps_block_def virt_block_def clusterVersion_block_def
      platformOps_block_def nodeMaint_block_def Let_def ops_time.fold_retime ev_time.fold_retime
      ob_time.fold_retime de_time.fold_retime)

definition retime_env :: "gtime \<Rightarrow> gate_env \<Rightarrow> gate_env" where
  "retime_env t e =
     e\<lparr>geClusterOps := retime t (geClusterOps e), geAllChanges := retime t (geAllChanges e),
       geHealth := retime t (geHealth e), geMCP := retime t (geMCP e),
       geEvents := retime t (geEvents e), geObjects := retime t (geObjects e),
       geDeps := retime t (geDeps e), geVirt := retime t (geVirt e),
       geClusterVersion := retime t (geClusterVersion e),
       gePlatformOps := retime t (gePlatformOps e),
       geNodeMaint := retime t (geNodeMaint e)\<rparr>"

lemma retime_env_simps [simp]:
  "geClusterOps (retime_env t e) = retime t (geClusterOps e)"
  "geAllChanges (retime_env t e) = retime t (geAllChanges e)"
  "geHealth (retime_env t e) = retime t (geHealth e)" "geMCP (retime_env t e) = retime t (geMCP e)"
  "geEvents (retime_env t e) = retime t (geEvents e)"
  "geObjects (retime_env t e) = retime t (geObjects e)"
  "geDeps (retime_env t e) = retime t (geDeps e)" "geVirt (retime_env t e) = retime t (geVirt e)"
  "geClusterVersion (retime_env t e) = retime t (geClusterVersion e)"
  "gePlatformOps (retime_env t e) = retime t (gePlatformOps e)"
  "geNodeMaint (retime_env t e) = retime t (geNodeMaint e)"
  "geIssues (retime_env t e) = geIssues e"
  "geTotalClusterStates (retime_env t e) = geTotalClusterStates e"
  "geObservedAnyClusterOps (retime_env t e) = geObservedAnyClusterOps e"
  "geObservedAnyMCP (retime_env t e) = geObservedAnyMCP e"
  "geObservedAnyVirt (retime_env t e) = geObservedAnyVirt e"
  by (simp_all add: retime_env_def)

lemma retime_split:
  "retime_env t e = e' \<longleftrightarrow>
     geClusterOps e' = retime t (geClusterOps e) \<and> geAllChanges e' = retime t (geAllChanges e)
     \<and> geHealth e' = retime t (geHealth e) \<and> geMCP e' = retime t (geMCP e)
     \<and> geEvents e' = retime t (geEvents e) \<and> geObjects e' = retime t (geObjects e)
     \<and> geDeps e' = retime t (geDeps e) \<and> geVirt e' = retime t (geVirt e)
     \<and> geClusterVersion e' = retime t (geClusterVersion e)
     \<and> gePlatformOps e' = retime t (gePlatformOps e)
     \<and> geNodeMaint e' = retime t (geNodeMaint e)
     \<and> geIssues e' = geIssues e \<and> geTotalClusterStates e' = geTotalClusterStates e
     \<and> geObservedAnyClusterOps e' = geObservedAnyClusterOps e
     \<and> geObservedAnyMCP e' = geObservedAnyMCP e \<and> geObservedAnyVirt e' = geObservedAnyVirt e"
  by (cases e'; cases e) (auto simp: retime_env_def)

lemma eval_cluster_retime:
  "eval_cluster ws a cs (retime_env t e) = retime_env t (eval_cluster ws a cs e)"
  by (rule sym)
    (simp only: retime_split eval_cluster_def Let_def split_beta gate_env.simps retime_env_simps
      retime_acc_pair block_retime retime_simps fst_conv snd_conv simp_thms)

lemma eval_event_retime: "eval_event ws x (retime_env t e) = retime_env t (eval_event ws x e)"
proof (cases x)
  case (AppMissing a)
  then show ?thesis by (simp add: missing_app_def retime_env_def)
next
  case (Cluster a cs)
  then show ?thesis by (simp add: eval_cluster_retime)
qed

lemma fold_event_retime:
  "fold (eval_event ws) evs (retime_env t e) = retime_env t (fold (eval_event ws) evs e)"
  by (induction evs arbitrary: e) (simp_all add: eval_event_retime)

lemma gates_retime:
  "gates_after_loop isHub it chg t = retime_env t (gates_after_loop isHub it chg now)"
proof -
  have init: "retime_env t (init_gates now) = init_gates t"
    by (simp add: retime_env_def init_gates_def mk_gate_def retime_def)
  have scope: "scope_gate chg (retime_env t e) = retime_env t (scope_gate chg e)" for e
    by (cases "cwImpactedApps (chgSpec chg) = []") (simp_all add: scope_gate_def retime_env_def)
  have post: "no_cluster_states (unobserved_gates (retime_env t e)) =
      retime_env t (no_cluster_states (unobserved_gates e))" for e
    by (cases "geTotalClusterStates e = 0")
      (simp_all add: no_cluster_states_def unobserved_gates_def retime_env_def if_distrib [where f = "retime t"])
  show ?thesis
    by (simp only: gates_after_loop_def fold_eval_app init [symmetric] scope fold_event_retime post)
qed

lemma gate_list_retime: "gate_list (retime_env t e) = map (retime t) (gate_list e)"
  by (simp add: gate_list_def)

lemma gates_observed_now:
  "g \<in> set (gate_list (gates_after_loop isHub it chg now)) \<Longrightarrow> grObservedAt g = now"
  using gates_retime [of isHub it chg now now]
  by (metis gate_list_retime in_set_conv_nth length_map nth_map retime_simps(6))

section \<open>Carrying observation times over\<close>

lemma find_map_name:
  assumes "distinct (map grName gs)" "g \<in> set gs" "\<And>x. grName (f x) = grName x"
  shows "find (\<lambda>p. grName p = grName g) (map f gs) = Some (f g)"
  using assms by (induction gs) force+

lemma preserveObservedAt_twice:
  assumes "distinct (map grName gs)" "g \<in> set gs"
    and "\<not> time_is_zero (grObservedAt g)"
  shows "preserveObservedAt (map (preserveObservedAt prev) gs) (retime t g)
     = preserveObservedAt prev g"
proof -
  let ?p = "preserveObservedAt prev g"
  have "find (\<lambda>p. grName p = grName g) (map (preserveObservedAt prev) gs) = Some ?p"
    using assms(1,2) by (rule find_map_name) simp
  moreover have "grStatus ?p = grStatus g" "grReason ?p = grReason g" "grMessage ?p = grMessage g"
    "\<not> time_is_zero (grObservedAt ?p)"
    using assms(3) by (auto simp: preserveObservedAt_def split: option.split)
  moreover have "(retime t g)\<lparr>grObservedAt := grObservedAt ?p\<rparr> = ?p"
    by (auto simp: preserveObservedAt_def retime_def split: option.split)
  ultimately show ?thesis
    by (subst preserveObservedAt_def) simp
qed

definition store_validation :: "ChangeWindow \<Rightarrow> ValidationResult \<Rightarrow> ChangeWindow" where
  "store_validation chg v = chg\<lparr>chgStatus := (chgStatus chg)\<lparr>stValidation := v\<rparr>\<rparr>"

lemma gates_store_validation:
  "gates_after_loop isHub it (store_validation chg v) now = gates_after_loop isHub it chg now"
  by (simp add: gates_after_loop_def store_validation_def app_states_def scope_gate_def)

lemma gate_names_distinct: "distinct gate_names"
  by (simp add: gate_names_def)

text \<open>The result as a function of the gates after the loop and of the reported gates.\<close>

definition gates_outcome ::
  "gate_env \<Rightarrow> GateResult list \<Rightarrow> ChangeWindow \<Rightarrow> ValidationResult \<times> string list" where
  "gates_outcome e gs chg =
     (let silent = stSilentClusters (chgStatus chg);
          issues = geIssues e @ map silent_issue silent
      in (\<lparr>vrAllChangesApplied = (grStatus (geAllChanges e) = GateStatusTrue),
           vrHealthCheckPassed = (grStatus (geHealth e) = GateStatusTrue),
           vrMCPUpdatedOnTime = (grStatus (geMCP e) = GateStatusTrue),
           vrEventsClean = (grStatus (geEvents e) = GateStatusTrue),
           vrObjectsConverged = (grStatus (geObjects e) = GateStatusTrue),
           vrDependenciesReady = (grStatus (geDeps e) = GateStatusTrue),
           vrVirtImpactPassed = (grStatus (geVirt e) = GateStatusTrue),
           vrClusterOperatorsHealthy = (grStatus (geClusterOps e) = GateStatusTrue),
           vrGateResults = gs, vrIssuesFound = issues,
           vrPassed = (list_all (\<lambda>g. grStatus g = GateStatusTrue) gs \<and> silent = []
             \<and> cwImpactedApps (chgSpec chg) \<noteq> [])\<rparr>,
          issues))"

lemma evaluateGates_outcome:
  "evaluateGates isHub it chg now =
     gates_outcome (gates_after_loop isHub it chg now)
       (map (preserveObservedAt (vrGateResults (stValidation (chgStatus chg))))
         (gate_list (gates_after_loop isHub it chg now))) chg"
  by (simp add: evaluateGates_def gates_outcome_def Let_def)

lemma gates_outcome_simps:
  "vrGateResults (fst (gates_outcome e gs chg)) = gs"
  "gates_outcome (retime_env t e) gs chg = gates_outcome e gs chg"
  "gates_outcome e gs (store_validation chg v) = gates_outcome e gs chg"
  "vrGateResults (stValidation (chgStatus (store_validation chg v))) = vrGateResults v"
  by (simp_all add: gates_outcome_def store_validation_def Let_def)

lemma evaluate_again:
  assumes "\<not> time_is_zero now"
  shows "evaluateGates isHub it (store_validation chg (fst (evaluateGates isHub it chg now))) later
     = evaluateGates isHub it chg now"
proof -
  let ?e = "gates_after_loop isHub it chg now"
  let ?gs = "map (preserveObservedAt (vrGateResults (stValidation (chgStatus chg)))) (gate_list ?e)"
  have "distinct (map grName (gate_list ?e))"
    by (simp add: gates_after_loop_names gate_names_distinct)
  then have gs: "map (preserveObservedAt ?gs) (map (retime later) (gate_list ?e)) = ?gs"
    using assms gates_observed_now [of _ isHub it chg now]
    by (auto intro!: preserveObservedAt_twice)
  show ?thesis
    unfolding evaluateGates_outcome gates_store_validation
      gates_retime [of isHub it chg later now] gate_list_retime gates_outcome_simps gs
    by (rule refl)
qed

lemma evaluateGates_cong:
  assumes "chgSpec d = chgSpec d'" "app_states d = app_states d'"
    and "stSilentClusters (chgStatus d) = stSilentClusters (chgStatus d')"
    and "vrGateResults (stValidation (chgStatus d)) = vrGateResults (stValidation (chgStatus d'))"
  shows "evaluateGates isHub it d now = evaluateGates isHub it d' now"
  using assms by (simp add: evaluateGates_def gates_after_loop_def scope_gate_def)



text \<open>The release a window names is not read: an evaluation looks at what the clusters report
  against the revision of their \<open>PropagationStatus\<close>, so two windows that name different tags and
  revisions get the same gates, silent clusters and phase.\<close>

lemma release_frame:
  fixes chg :: ChangeWindow and t b r :: string
  defines "chg' \<equiv> chg\<lparr>chgSpec := (chgSpec chg)\<lparr>cwReleaseTag := t, cwBaselineRevision := b, cwExpectedRevision := r\<rparr>\<rparr>"
  shows "app_states chg' = app_states chg" "chgStatus chg' = chgStatus chg"
    "cwImpactedApps (chgSpec chg') = cwImpactedApps (chgSpec chg)"
    "cwStartTime (chgSpec chg') = cwStartTime (chgSpec chg)"
  by (simp_all add: chg'_def app_states_def)

theorem evaluateGates_ignores_release:
  "evaluateGates isHub it (chg\<lparr>chgSpec := (chgSpec chg)\<lparr>cwReleaseTag := t, cwBaselineRevision := b,
       cwExpectedRevision := r\<rparr>\<rparr>) now
   = evaluateGates isHub it chg now"
  by (simp add: evaluateGates_def gates_after_loop_def scope_gate_def release_frame)

end
