(* ===== verification/Float64.thy ===== *)
theory Float64
  imports Prelude "HOL-Library.Log_Nat"
begin

text \<open>
  The few double-precision computations of the operator: \<open>Duration.Seconds\<close> and the
  conversions between integers and \<open>float64\<close>. A \<open>float64\<close> is the rational number it
  denotes; each operation computes exactly and rounds once to 53 significant bits, ties to
  even. The magnitudes that occur stay far from the subnormal and overflow ranges, which are
  not modelled.
\<close>

section \<open>Rounding to 53 bits\<close>

definition pow2 :: "int \<Rightarrow> rat" where
  "pow2 e = 2 powi e"

definition floor_log2 :: "rat \<Rightarrow> int" where
  "floor_log2 x =
     (let (n, d) = quotient_of x; k = bitlen n - bitlen d in if pow2 k \<le> x then k else k - 1)"

definition round_half_even :: "rat \<Rightarrow> int" where
  "round_half_even x =
     (let f = \<lfloor>x\<rfloor>; r = x - of_int f in
      if r < 1 / 2 then f else if 1 / 2 < r then f + 1 else if even f then f else f + 1)"

definition f64_round :: "rat \<Rightarrow> rat" where
  "f64_round x =
     (if x = 0 then 0
      else let e = floor_log2 \<bar>x\<bar> - 52 in of_int (round_half_even (x / pow2 e)) * pow2 e)"

text \<open>Conversion to \<open>int64\<close> truncates towards zero.\<close>

definition f64_to_int :: "rat \<Rightarrow> int" where
  "f64_to_int x = (if 0 \<le> x then \<lfloor>x\<rfloor> else \<lceil>x\<rceil>)"

text \<open>\<open>time.Duration.Seconds\<close>; Go's integer division truncates towards zero.\<close>

definition trunc_div :: "int \<Rightarrow> int \<Rightarrow> int" where
  "trunc_div a b = sgn a * sgn b * (\<bar>a\<bar> div \<bar>b\<bar>)"

definition duration_seconds :: "duration \<Rightarrow> rat" where
  "duration_seconds d =
     (let sec = trunc_div d Second; nsec = d - sec * Second in
      f64_round (f64_round (of_int sec) + f64_round (of_int nsec / 1000000000)))"

section \<open>Rounding respects integer bounds\<close>

lemma pow2_pos [simp]: "0 < pow2 e"
  by (simp add: pow2_def)

lemma pow2_add: "pow2 (a + b) = pow2 a * pow2 b"
  by (simp add: pow2_def power_int_add)

lemma pow2_lessD: "pow2 a < pow2 b \<Longrightarrow> a < b"
  unfolding pow2_def by (rule ccontr) (use power_int_increasing [of b a "2 :: rat"] in auto)

lemma pow2_nat: "0 \<le> e \<Longrightarrow> pow2 e = of_int (2 ^ nat e)"
  by (simp add: pow2_def power_int_def)

lemma bitlen_pow2_bounds:
  assumes "0 < i"
  shows "pow2 (bitlen i - 1) \<le> of_int i" "of_int i < pow2 (bitlen i)"
proof -
  have b: "2 ^ nat (bitlen i - 1) \<le> i" "i < 2 ^ nat (bitlen i)" "0 < bitlen i"
    using bitlen_bounds [OF assms] bitlen_eq_zero_iff [of i] bitlen_nonneg [of i] assms by linarith+
  show "pow2 (bitlen i - 1) \<le> of_int i"
    using b by (simp add: pow2_nat del: of_int_power)
  show "of_int i < pow2 (bitlen i)"
    using b by (simp add: pow2_nat del: of_int_power)
qed

lemma floor_log2_le:
  assumes "0 < x"
  shows "pow2 (floor_log2 x) \<le> x"
proof -
  obtain n d where q: "quotient_of x = (n, d)" by fastforce
  then have d: "0 < d" and x: "x = of_int n / of_int d"
    using quotient_of_denom_pos quotient_of_div by blast+
  with assms have n: "0 < n" by (simp add: zero_less_divide_iff)
  have "pow2 (bitlen n - bitlen d - 1) * of_int d \<le> pow2 (bitlen n - bitlen d - 1) * pow2 (bitlen d)"
    using bitlen_pow2_bounds(2) [OF d] by simp
  also have "\<dots> = pow2 (bitlen n - 1)" by (simp flip: pow2_add)
  also have "\<dots> \<le> of_int n" using bitlen_pow2_bounds(1) [OF n] .
  finally have "pow2 (bitlen n - bitlen d - 1) \<le> x"
    using d by (simp add: x le_divide_eq)
  then show ?thesis by (simp add: floor_log2_def q Let_def)
qed

lemma round_half_even_bounds:
  assumes "of_int a \<le> x" "x \<le> of_int b"
  shows "a \<le> round_half_even x \<and> round_half_even x \<le> b"
proof -
  have fl: "a \<le> \<lfloor>x\<rfloor>" "\<lfloor>x\<rfloor> \<le> b"
    using assms by (simp_all add: le_floor_iff) (metis floor_mono floor_of_int)
  have "\<lfloor>x\<rfloor> + 1 \<le> b" if "1 / 2 \<le> x - of_int \<lfloor>x\<rfloor>"
  proof -
    have "of_int \<lfloor>x\<rfloor> < x" using that by linarith
    then have "of_int \<lfloor>x\<rfloor> < (of_int b :: rat)" using assms(2) by linarith
    then show ?thesis by simp
  qed
  then show ?thesis using fl by (auto simp: round_half_even_def Let_def)
qed

lemma f64_round_bounds:
  assumes "0 \<le> a" "b < 2 ^ 53" "of_int a \<le> x" "x \<le> of_int b"
  shows "of_int a \<le> f64_round x \<and> f64_round x \<le> of_int b"
proof (cases "x = 0")
  case True
  then show ?thesis using assms by (simp add: f64_round_def)
next
  case False
  define e where "e = floor_log2 \<bar>x\<bar> - 52"
  have "(0 :: rat) \<le> of_int a" using assms(1) by simp
  then have "0 < x" using False assms(3) by linarith
  have "of_int b < (of_int (2 ^ 53) :: rat)" using assms(2) by (simp only: of_int_less_iff)
  then have x: "0 < x" "x < of_int (2 ^ 53)" using assms(4) \<open>0 < x\<close> by linarith+
  have "pow2 (floor_log2 x) < pow2 53"
    using floor_log2_le [OF x(1)] x(2) pow2_nat [of 53] by simp
  then have "e \<le> 0" using x pow2_lessD by (fastforce simp: e_def)
  define N where "N = (2 ^ nat (- e) :: int)"
  have N: "pow2 e * of_int N = 1" "0 < N"
    using \<open>e \<le> 0\<close> pow2_add [of e "- e"] pow2_nat [of "- e"]
    by (simp_all add: N_def) (simp add: pow2_def)
  then have p: "pow2 e = 1 / of_int N" by (simp add: field_simps)
  have "of_int (a * N) \<le> x * of_int N" "x * of_int N \<le> of_int (b * N)"
    using assms N(2) by simp_all
  then have "a * N \<le> round_half_even (x * of_int N)" "round_half_even (x * of_int N) \<le> b * N"
    using round_half_even_bounds by blast+
  then have "of_int a * of_int N \<le> (of_int (round_half_even (x * of_int N)) :: rat)"
    "(of_int (round_half_even (x * of_int N)) :: rat) \<le> of_int b * of_int N"
    by (simp_all flip: of_int_mult)
  moreover have "f64_round x = of_int (round_half_even (x * of_int N)) / of_int N"
    using False p by (simp add: f64_round_def Let_def e_def)
  ultimately show ?thesis using N(2) by (simp add: pos_le_divide_eq pos_divide_le_eq)
qed

lemma f64_round_of_int: "0 \<le> i \<Longrightarrow> i < 2 ^ 53 \<Longrightarrow> f64_round (of_int i) = of_int i"
  using f64_round_bounds [of i i "of_int i"] by (simp add: order_antisym_conv)

text \<open>
  The whole seconds of a non-negative duration, read through \<open>float64\<close>, are the exact
  quotient or one more: the fraction may round up to the next second.
\<close>

lemma duration_seconds_bounds:
  assumes "0 \<le> d" "d \<le> max_duration"
  shows "d div Second \<le> f64_to_int (duration_seconds d) \<and>
    f64_to_int (duration_seconds d) \<le> d div Second + 1"
proof -
  let ?s = "d div Second" and ?n = "d mod Second"
  have s: "0 \<le> ?s" "?s + 1 < 2 ^ 53"
    using assms by (auto simp: Second_def max_duration_def)
  have n: "0 \<le> ?n" "?n < Second" by (simp_all add: Second_def)
  have td: "trunc_div d Second = ?s"
    using assms by (auto simp: trunc_div_def Second_def sgn_if)
  have rem: "d - ?s * Second = ?n"
    by (simp add: minus_div_mult_eq_mod)
  have "0 \<le> f64_round (of_int ?n / 1000000000) \<and> f64_round (of_int ?n / 1000000000) \<le> 1"
    using f64_round_bounds [of 0 1 "of_int ?n / 1000000000"] n by (simp add: Second_def)
  then have "of_int ?s \<le> duration_seconds d \<and> duration_seconds d \<le> of_int (?s + 1)"
    unfolding duration_seconds_def Let_def td rem
    using f64_round_bounds [of ?s "?s + 1"] s by (simp add: f64_round_of_int)
  then have "?s \<le> \<lfloor>duration_seconds d\<rfloor>" "\<lfloor>duration_seconds d\<rfloor> \<le> ?s + 1" "0 \<le> duration_seconds d"
    using s(1) by (simp_all add: le_floor_iff floor_le_iff)
  then show ?thesis by (simp add: f64_to_int_def)
qed

section \<open>Rounding is accurate\<close>

lemma round_half_even_error: "\<bar>of_int (round_half_even x) - x\<bar> \<le> 1 / 2"
  unfolding round_half_even_def Let_def
  using floor_correct [of x] by (auto simp: abs_le_iff)

text \<open>Rounding is accurate to a relative error of \<open>2\<^sup>-\<^sup>5\<^sup>3\<close>.\<close>

definition ulp53 :: rat where
  "ulp53 = 1 / 2 ^ 53"

lemma f64_round_error:
  assumes "0 < x"
  shows "\<bar>f64_round x - x\<bar> \<le> x * ulp53"
proof -
  define e where "e = floor_log2 x - 52"
  have p: "0 < pow2 e" by simp
  have "pow2 (e + 52) \<le> x" using floor_log2_le [OF assms] by (simp add: e_def)
  then have le: "pow2 e / 2 \<le> x * ulp53"
    using pow2_nat [of 52] by (simp add: pow2_add ulp53_def field_simps)
  have "f64_round x = of_int (round_half_even (x / pow2 e)) * pow2 e"
    using assms by (simp add: f64_round_def e_def Let_def)
  then have "f64_round x - x = (of_int (round_half_even (x / pow2 e)) - x / pow2 e) * pow2 e"
    using less_imp_neq [OF p] by (simp add: field_simps)
  then have "\<bar>f64_round x - x\<bar> = \<bar>of_int (round_half_even (x / pow2 e)) - x / pow2 e\<bar> * pow2 e"
    using abs_of_pos [OF p] by (simp only: abs_mult)
  also have "\<dots> \<le> 1 / 2 * pow2 e"
    by (intro mult_right_mono round_half_even_error less_imp_le [OF p])
  finally show ?thesis using le by simp
qed

lemma f64_round_bracket:
  assumes "0 < x"
  shows "x * (1 - ulp53) \<le> f64_round x" "f64_round x \<le> x * (1 + ulp53)"
  using f64_round_error [OF assms] by (simp_all add: abs_le_iff algebra_simps)

lemma f64_round_pos: "0 < x \<Longrightarrow> 0 < f64_round x"
  using f64_round_bracket(1) [of x] mult_pos_pos [of x "1 - ulp53"] by (simp add: ulp53_def)

text \<open>
  The time predicted from a rate: \<open>n / (d / t)\<close> in double precision, truncated, is the exact
  quotient \<open>n * t div d\<close> or one off, as long as that quotient stays below \<open>2\<^sup>5\<^sup>0\<close>.
\<close>

lemma f64_eta_bounds:
  fixes n d t :: int
  assumes "0 < n" "n < 2 ^ 53" "0 < d" "d < 2 ^ 53" "0 < t" "t < 2 ^ 53" "n * t < 2 ^ 50 * d"
  shows "n * t div d - 1 \<le> f64_to_int (f64_round (f64_round (of_int n)
           / f64_round (f64_round (of_int d) / f64_round (of_int t))))"
    and "f64_to_int (f64_round (f64_round (of_int n)
           / f64_round (f64_round (of_int d) / f64_round (of_int t)))) \<le> n * t div d + 1"
proof -
  define q :: rat where "q = of_int (n * t) / of_int d"
  define r :: rat where "r = f64_round (of_int d / of_int t)"
  define y :: rat where "y = f64_round (of_int n / r)"
  let ?u = "ulp53"
  have u: "0 < ?u" "?u < 1" by (simp_all add: ulp53_def)
  have dt: "(0 :: rat) < of_int d / of_int t" using assms by simp
  have r: "0 < r" "of_int d / of_int t * (1 - ?u) \<le> r" "r \<le> of_int d / of_int t * (1 + ?u)"
    using f64_round_pos [OF dt] f64_round_bracket [OF dt] by (simp_all add: r_def)
  have q: "0 < q" "q < 2 ^ 50"
  proof -
    show "0 < q" using assms by (simp add: q_def)
    have "(of_int (n * t) :: rat) < of_int (2 ^ 50 * d)" using assms(7) by (simp only: of_int_less_iff)
    then show "q < 2 ^ 50" using assms(3) by (simp add: q_def divide_less_eq)
  qed
  have nr: "q / (1 + ?u) \<le> of_int n / r" "of_int n / r \<le> q / (1 - ?u)"
  proof -
    have "of_int n * of_int t / (of_int d * (1 + ?u)) = of_int n / (of_int d / of_int t * (1 + ?u))"
      using assms by simp
    also have "\<dots> \<le> of_int n / r"
      using r assms u by (intro divide_left_mono) (simp_all add: mult_pos_pos)
    finally show "q / (1 + ?u) \<le> of_int n / r" by (simp add: q_def)
    have "of_int n / r \<le> of_int n / (of_int d / of_int t * (1 - ?u))"
      using r assms u by (intro divide_left_mono) (simp_all add: mult_pos_pos)
    also have "\<dots> = of_int n * of_int t / (of_int d * (1 - ?u))"
      using assms by simp
    finally show "of_int n / r \<le> q / (1 - ?u)" by (simp add: q_def)
  qed
  have pos: "0 < of_int n / r" using r assms by simp
  have "q - 1 / 2 \<le> q / (1 + ?u) * (1 - ?u)" "q / (1 - ?u) * (1 + ?u) \<le> q + 1 / 2"
    using q by (simp_all add: ulp53_def field_simps)
  moreover have "q / (1 + ?u) * (1 - ?u) \<le> y" "y \<le> q / (1 - ?u) * (1 + ?u)"
  proof -
    have "q / (1 + ?u) * (1 - ?u) \<le> of_int n / r * (1 - ?u)"
      using nr(1) u by (intro mult_right_mono) simp_all
    also have "\<dots> \<le> y" using f64_round_bracket(1) [OF pos] by (simp add: y_def)
    finally show "q / (1 + ?u) * (1 - ?u) \<le> y" .
    have "y \<le> of_int n / r * (1 + ?u)" using f64_round_bracket(2) [OF pos] by (simp add: y_def)
    also have "\<dots> \<le> q / (1 - ?u) * (1 + ?u)"
      using nr(2) u by (intro mult_right_mono) simp_all
    finally show "y \<le> q / (1 - ?u) * (1 + ?u)" .
  qed
  ultimately have y: "q - 1 / 2 \<le> y" "y \<le> q + 1 / 2" by linarith+
  have "\<lfloor>q\<rfloor> = n * t div d" by (simp only: q_def floor_divide_of_int_eq)
  then have "n * t div d - 1 \<le> \<lfloor>y\<rfloor>" "\<lfloor>y\<rfloor> \<le> n * t div d + 1"
    using y floor_correct [of q] floor_correct [of y] by linarith+
  moreover have "0 < y" using f64_round_pos [OF pos] by (simp add: y_def)
  ultimately show "n * t div d - 1 \<le> f64_to_int (f64_round (f64_round (of_int n)
           / f64_round (f64_round (of_int d) / f64_round (of_int t))))"
    "f64_to_int (f64_round (f64_round (of_int n)
           / f64_round (f64_round (of_int d) / f64_round (of_int t)))) \<le> n * t div d + 1"
    using assms by (simp_all add: f64_round_of_int f64_to_int_def flip: r_def y_def)
qed

end
