(* ===== verification/Metrics.thy ===== *)
theory Metrics
  imports GoText Float64
begin

text \<open>
  \<open>internal/metrics/metrics.go\<close>: the three gauge vectors and the two functions that write
  them. A gauge vector is a map from label values to the value last set; \<open>Set\<close> creates or
  overwrites an entry and \<open>DeleteLabelValues\<close> removes it.
\<close>

record gauges =
  ClusterStateGauge :: "string \<times> string \<times> string \<rightharpoonup> rat"
  ClusterLagSecondsGauge :: "string \<times> string \<rightharpoonup> rat"
  ClusterReportAgeGauge :: "string \<times> string \<rightharpoonup> rat"

definition no_gauges :: gauges where
  "no_gauges =
     \<lparr>ClusterStateGauge = Map.empty, ClusterLagSecondsGauge = Map.empty,
      ClusterReportAgeGauge = Map.empty\<rparr>"

definition possibleStates :: "string list" where
  "possibleStates = [''InSync'', ''Propagating'', ''Lagging'', ''Diverged'', ''Stale'', ''Missing'']"

definition set_state_gauge ::
  "string \<Rightarrow> string \<Rightarrow> string \<Rightarrow> string \<Rightarrow> gauges \<Rightarrow> gauges" where
  "set_state_gauge app cluster currentState st g =
     g\<lparr>ClusterStateGauge :=
        (ClusterStateGauge g)((app, cluster, st) \<mapsto> (if st = currentState then 1 else 0))\<rparr>"

definition RecordClusterMetrics ::
  "string \<Rightarrow> string \<Rightarrow> string \<Rightarrow> bool \<Rightarrow> rat \<Rightarrow> rat \<Rightarrow> gauges \<Rightarrow> gauges" where
  "RecordClusterMetrics app cluster currentState isInSync lagSeconds reportAgeSeconds g =
     (let g1 = fold (set_state_gauge app cluster currentState) possibleStates g;
          g2 = g1\<lparr>ClusterLagSecondsGauge :=
                 (ClusterLagSecondsGauge g1)((app, cluster) \<mapsto> lagSeconds)\<rparr>
      in g2\<lparr>ClusterReportAgeGauge :=
           (ClusterReportAgeGauge g2)((app, cluster) \<mapsto> reportAgeSeconds)\<rparr>)"

definition delete_state_gauge :: "string \<Rightarrow> string \<Rightarrow> string \<Rightarrow> gauges \<Rightarrow> gauges" where
  "delete_state_gauge app cluster st g =
     g\<lparr>ClusterStateGauge := (ClusterStateGauge g)((app, cluster, st) := None)\<rparr>"

definition DeleteClusterMetrics :: "string \<Rightarrow> string \<Rightarrow> gauges \<Rightarrow> gauges" where
  "DeleteClusterMetrics app cluster g =
     (let g1 = fold (delete_state_gauge app cluster) possibleStates g;
          g2 = g1\<lparr>ClusterLagSecondsGauge := (ClusterLagSecondsGauge g1)((app, cluster) := None)\<rparr>
      in g2\<lparr>ClusterReportAgeGauge := (ClusterReportAgeGauge g2)((app, cluster) := None)\<rparr>)"

section \<open>What a scrape reads\<close>

text \<open>The series of one application and cluster.\<close>

definition state_series :: "string \<Rightarrow> string \<Rightarrow> gauges \<Rightarrow> rat option list" where
  "state_series app cluster g =
     map (\<lambda>st. ClusterStateGauge g (app, cluster, st)) possibleStates"

definition one_hot :: "string \<Rightarrow> rat option list" where
  "one_hot s = map (\<lambda>st. Some (if st = s then 1 else 0)) possibleStates"

definition cluster_series ::
  "string \<Rightarrow> string \<Rightarrow> gauges \<Rightarrow> rat option list \<times> rat option \<times> rat option" where
  "cluster_series app cluster g =
     (state_series app cluster g, ClusterLagSecondsGauge g (app, cluster),
      ClusterReportAgeGauge g (app, cluster))"

definition no_series :: "rat option list \<times> rat option \<times> rat option" where
  "no_series = (map (\<lambda>st. None) possibleStates, None, None)"

named_theorems series \<open>the series after a metrics operation\<close>

lemma series_record [series]:
  "cluster_series a c (RecordClusterMetrics app cluster st b lag age g) =
     (if (a, c) = (app, cluster) then (one_hot st, Some lag, Some age) else cluster_series a c g)"
  by (simp add: cluster_series_def RecordClusterMetrics_def Let_def state_series_def one_hot_def
      possibleStates_def set_state_gauge_def)

lemma series_delete [series]:
  "cluster_series a c (DeleteClusterMetrics app cluster g) =
     (if (a, c) = (app, cluster) then no_series else cluster_series a c g)"
  by (simp add: cluster_series_def DeleteClusterMetrics_def Let_def state_series_def no_series_def
      possibleStates_def delete_state_gauge_def)

text \<open>A state of the six is shown by exactly one gauge with value 1.\<close>

lemma one_hot_count:
  "s \<in> set possibleStates \<Longrightarrow> length (filter (\<lambda>v. v = Some 1) (one_hot s)) = 1"
  by (auto simp: one_hot_def possibleStates_def)

end
