(* ===== verification/Propagation.thy ===== *)
theory Propagation
  imports ApiTypes Metrics
begin

text \<open>
  \<open>internal/controller/propagationstatus_controller.go\<close>: the reconciler that aggregates the
  reports of the spokes into the fleet-wide \<open>PropagationStatus\<close>. The API server, the clock
  and the event recorder are reached through the record \<open>prop_env\<close>; the gauges are threaded
  through, and the outcome holds the result, the events and the patched status.
\<close>

section \<open>Constants and helpers\<close>

definition StateInSync :: string where [simp]: "StateInSync = ''InSync''"
definition StatePropagating :: string where [simp]: "StatePropagating = ''Propagating''"
definition StateLagging :: string where [simp]: "StateLagging = ''Lagging''"
definition StateDiverged :: string where [simp]: "StateDiverged = ''Diverged''"
definition StateStale :: string where [simp]: "StateStale = ''Stale''"
definition StateMissing :: string where [simp]: "StateMissing = ''Missing''"

definition RequeueInterval :: duration where
  "RequeueInterval = 30 * Second"

definition orDefault :: "int32 \<Rightarrow> int32 \<Rightarrow> int32" where
  "orDefault val def = (if sint val \<le> 0 then def else val)"

definition rollUpPhase ::
  "string list \<Rightarrow> string list \<Rightarrow> string list \<Rightarrow> string list \<Rightarrow> string" where
  "rollUpPhase diverged stale missing lagging =
     (if diverged \<noteq> [] then ''Diverged''
      else if stale \<noteq> [] \<or> missing \<noteq> [] then ''Stale''
      else if lagging \<noteq> [] then ''Propagating''
      else ''Synced'')"

text \<open>\<open>meta.SetStatusCondition\<close> of apimachinery is the parameter \<open>set_status\<close>.\<close>

definition setCondition ::
  "(Condition list \<Rightarrow> Condition \<Rightarrow> Condition list) \<Rightarrow> Condition list \<Rightarrow> string \<Rightarrow> Condition list" where
  "setCondition set_status conditions phase =
     set_status conditions
       \<lparr>condType = ''FullyPropagated'', condStatus = (phase \<noteq> ''Diverged'' \<and> phase \<noteq> ''Stale''),
        condReason = phase, condMessage = ''fleet propagation phase: '' @ phase\<rparr>"

text \<open>A recorded event: its type, reason and message.\<close>

type_synonym recorded_event = "string \<times> string \<times> string"

definition emitTransitionEvent ::
  "bool \<Rightarrow> string \<Rightarrow> string \<Rightarrow> string list \<Rightarrow> string list \<Rightarrow> string list \<Rightarrow> string list \<Rightarrow>
    recorded_event list" where
  "emitTransitionEvent has_rec phase previousPhase diverged lagging stale missing =
     (let n = (\<lambda>xs. natoa (length xs)) in
      if \<not> has_rec \<or> phase = previousPhase then []
      else if phase = ''Diverged'' then
        [(''Warning'', ''Diverged'',
          n diverged @ '' cluster(s) locally out of sync: '' @ stringsv diverged)]
      else if phase = ''Stale'' then
        [(''Warning'', ''StaleReports'',
          n stale @ '' stale, '' @ n missing @ '' missing agent report(s): stale=''
            @ stringsv stale @ '' missing='' @ stringsv missing)]
      else if phase = ''Propagating'' then
        [(''Normal'', ''Propagating'',
          n lagging @ '' cluster(s) propagating expected revision: '' @ stringsv lagging)]
      else if phase = ''Synced'' then
        [(''Normal'', ''Synced'', ''All target clusters converged to expected revision'')]
      else [])"

section \<open>The loop over the target clusters\<close>

record prop_acc =
  paStates :: "ClusterRevisionState list"
  paDiverged :: "string list"
  paLagging :: "string list"
  paStale :: "string list"
  paMissing :: "string list"
  paGauges :: gauges

definition byCluster :: "ClusterAppReport list \<Rightarrow> ClusterAppReport gomap" where
  "byCluster reports =
     fold (\<lambda>rep m. gm_put m (rsClusterName (carSpec rep)) rep) reports []"

text \<open>The row of a reporting cluster in state \<open>st\<close>.\<close>

definition reported_state :: "string \<Rightarrow> ClusterAppReportSpec \<Rightarrow> string \<Rightarrow> ClusterRevisionState" where
  "reported_state clusterName rep st =
     \<lparr>csClusterName = clusterName, csAppNamespace = rsAppNamespace rep,
      csObservedRevision = rsObservedRevision rep, csSyncStatus = rsSyncStatus rep,
      csHealth = rsHealth rep, csObservedAt = rsObservedAt rep,
      csSawReportSinceChgStart = False, csMCPStatus = rsMCPStatus rep,
      csVirtStatus = rsVirtStatus rep, csPlatformObservation = rsPlatformObservation rep,
      csState = st, csRecentEvents = rsRecentEvents rep,
      csObjectChanges = rsObjectChanges rep, csDependencies = rsDependencies rep\<rparr>"

definition missing_state :: "string \<Rightarrow> ClusterRevisionState" where
  "missing_state clusterName =
     zero_ClusterRevisionState\<lparr>csClusterName := clusterName, csState := StateMissing\<rparr>"

definition prop_cluster ::
  "PropagationStatus \<Rightarrow> ClusterAppReport gomap \<Rightarrow> gtime \<Rightarrow> string \<Rightarrow> prop_acc \<Rightarrow> prop_acc" where
  "prop_cluster ps byC now clusterName acc =
     (let app = psAppName (psSpec ps);
          lagThreshold = seconds32 (orDefault (psLagThresholdSeconds (psSpec ps)) 600);
          staleThreshold = seconds32 (orDefault (psStaleReportThresholdSeconds (psSpec ps)) 900)
      in case gm_get byC clusterName of
           None \<Rightarrow>
             acc\<lparr>paMissing := paMissing acc @ [clusterName],
               paStates := paStates acc @ [missing_state clusterName],
               paGauges := RecordClusterMetrics app clusterName StateMissing False 0 (- 1)
                 (paGauges acc)\<rparr>
         | Some r \<Rightarrow>
             (let rep = carSpec r;
                  reportAge = time_sub now (rsObservedAt rep);
                  since = time_sub now (pssExpectedRevisionSince (psStatus ps));
                  (acc1, state, lagSeconds) =
                    (if reportAge > staleThreshold then
                       (acc\<lparr>paStale := paStale acc @ [clusterName]\<rparr>, StateStale, 0)
                     else if rsSyncStatus rep = ''OutOfSync'' then
                       (acc\<lparr>paDiverged := paDiverged acc @ [clusterName]\<rparr>, StateDiverged, 0)
                     else if rsObservedRevision rep \<noteq> psExpectedRevision (psSpec ps) then
                       (acc\<lparr>paLagging := paLagging acc @ [clusterName]\<rparr>,
                        if since > lagThreshold then StateLagging else StatePropagating,
                        duration_seconds since)
                     else (acc, StateInSync, 0))
              in acc1\<lparr>paStates := paStates acc1 @ [reported_state clusterName rep state],
                   paGauges := RecordClusterMetrics app clusterName state (state = StateInSync)
                     lagSeconds (duration_seconds reportAge) (paGauges acc1)\<rparr>))"

section \<open>Reconcile\<close>

text \<open>
  What the reconciler reads and calls: the object (\<open>Get\<close>), the reports (\<open>List\<close> with the
  namespace, the application and the limit), the two readings of the clock, the answer to the
  status patch, and whether a recorder is present.
\<close>

record prop_env =
  peGet :: "go_error + PropagationStatus"
  peMetaNow :: gtime
  peList :: "string \<Rightarrow> string \<Rightarrow> nat \<Rightarrow> go_error + ClusterAppReport list"
  peNow :: gtime
  pePatch :: "PropagationStatus \<Rightarrow> go_error option"
  peRecorder :: bool
  peSetStatusCondition :: "Condition list \<Rightarrow> Condition \<Rightarrow> Condition list"

record prop_out =
  prResult :: "go_error + ctrl_result"
  prGauges :: gauges
  prEvents :: "recorded_event list"
  prPatch :: "PropagationStatus option"

definition prop_return :: "go_error + ctrl_result \<Rightarrow> gauges \<Rightarrow> prop_out" where
  "prop_return r g = \<lparr>prResult = r, prGauges = g, prEvents = [], prPatch = None\<rparr>"

definition reset_lag_clock :: "gtime \<Rightarrow> PropagationStatus \<Rightarrow> PropagationStatus" where
  "reset_lag_clock t ps =
     (if pssLastExpectedRevision (psStatus ps) \<noteq> psExpectedRevision (psSpec ps) then
        ps\<lparr>psStatus := (psStatus ps)
          \<lparr>pssLastExpectedRevision := psExpectedRevision (psSpec ps),
           pssExpectedRevisionSince := t\<rparr>\<rparr>
      else ps)"

definition prop_loop ::
  "PropagationStatus \<Rightarrow> ClusterAppReport list \<Rightarrow> gtime \<Rightarrow> gauges \<Rightarrow> prop_acc" where
  "prop_loop ps reports now g =
     fold (prop_cluster ps (byCluster reports) now) (psTargetClusters (psSpec ps))
       \<lparr>paStates = [], paDiverged = [], paLagging = [], paStale = [], paMissing = [],
        paGauges = g\<rparr>"

text \<open>Removing the series of clusters that are no longer targets.\<close>

definition clean_removed :: "PropagationStatus \<Rightarrow> gauges \<Rightarrow> gauges" where
  "clean_removed ps g =
     fold (\<lambda>cs g. if csClusterName cs \<notin> set (psTargetClusters (psSpec ps))
                  then DeleteClusterMetrics (psAppName (psSpec ps)) (csClusterName cs) g else g)
       (pssClusterStates (psStatus ps)) g"

text \<open>The status after the loop.\<close>

definition prop_status ::
  "(Condition list \<Rightarrow> Condition \<Rightarrow> Condition list) \<Rightarrow> PropagationStatus \<Rightarrow> prop_acc \<Rightarrow>
    PropagationStatusStatus" where
  "prop_status set_status ps acc =
     (let phase = rollUpPhase (paDiverged acc) (paStale acc) (paMissing acc) (paLagging acc)
      in (psStatus ps)
           \<lparr>pssClusterStates := paStates acc, pssDivergedClusters := paDiverged acc,
            pssLaggingClusters := paLagging acc, pssStaleClusters := paStale acc,
            pssMissingClusters := paMissing acc, pssObservedGeneration := psGeneration ps,
            pssPhase := phase,
            pssConditions := setCondition set_status (pssConditions (psStatus ps)) phase\<rparr>)"

definition prop_reconcile :: "prop_env \<Rightarrow> string \<Rightarrow> gauges \<Rightarrow> prop_out" where
  "prop_reconcile env req g =
     (case peGet env of
        Inl e \<Rightarrow>
          if IsNotFound e then prop_return (Inr empty_result) g
          else prop_return (Inl (WrapErr (''failed to get PropagationStatus '' @ req) e)) g
      | Inr original \<Rightarrow>
          if (case psDeletionTimestamp original of None \<Rightarrow> False | Some t \<Rightarrow> \<not> time_is_zero t) then
            prop_return (Inr empty_result)
              (fold (\<lambda>cs. DeleteClusterMetrics (psAppName (psSpec original)) (csClusterName cs))
                (pssClusterStates (psStatus original)) g)
          else
            (let ps = reset_lag_clock (peMetaNow env) original in
             case peList env (psNamespace ps) (psAppName (psSpec ps)) 100 of
               Inl e \<Rightarrow>
                 prop_return (Inl (WrapErr (''failed to list ClusterAppReports for app ''
                   @ psAppName (psSpec ps)) e)) g
             | Inr reports \<Rightarrow>
                 (let acc = prop_loop ps reports (peNow env) g;
                      g' = clean_removed original (paGauges acc);
                      st = prop_status (peSetStatusCondition env) ps acc;
                      ps' = ps\<lparr>psStatus := st\<rparr>;
                      evs = emitTransitionEvent (peRecorder env) (pssPhase st)
                        (pssPhase (psStatus original)) (paDiverged acc) (paLagging acc)
                        (paStale acc) (paMissing acc)
                  in if st \<noteq> psStatus original then
                       (case pePatch env ps' of
                          Some e \<Rightarrow>
                            \<lparr>prResult =
                               (if IsConflict e then Inr requeue_now
                                else Inl (WrapErr
                                  (''failed to patch PropagationStatus status '' @ req) e)),
                             prGauges = g', prEvents = evs, prPatch = Some ps'\<rparr>
                        | None \<Rightarrow>
                            \<lparr>prResult = Inr (requeue_after RequeueInterval), prGauges = g',
                             prEvents = evs, prPatch = Some ps'\<rparr>)
                     else
                       \<lparr>prResult = Inr (requeue_after RequeueInterval), prGauges = g',
                        prEvents = evs, prPatch = None\<rparr>)))"

section \<open>From a report to the objects to reconcile\<close>

text \<open>\<open>appName_index\<close> is the index function that \<open>SetupWithManager\<close> registers, and
  \<open>mapClusterAppReportToPropagationStatus\<close> the map function of its watch; \<open>lst\<close> is the
  client's \<open>List\<close> with namespace, application and limit.\<close>

definition appName_index :: "ClusterAppReport \<Rightarrow> string list" where
  "appName_index rep = (if rsAppName (carSpec rep) = '''' then [] else [rsAppName (carSpec rep)])"

definition mapClusterAppReportToPropagationStatus ::
  "(string \<Rightarrow> string \<Rightarrow> nat \<Rightarrow> go_error + PropagationStatus list) \<Rightarrow> ClusterAppReport \<Rightarrow>
    (string \<times> string) list" where
  "mapClusterAppReportToPropagationStatus lst rep =
     (if rsAppName (carSpec rep) = '''' then []
      else case lst (carNamespace rep) (rsAppName (carSpec rep)) 100 of
             Inl e \<Rightarrow> []
           | Inr items \<Rightarrow> map (\<lambda>ps. (psNamespace ps, psName ps)) items)"

end
