(* ===== verification/PropagationSpec.thy ===== *)
theory PropagationSpec
  imports Propagation
begin

text \<open>
  What the aggregation means: \<open>verdict\<close> classifies one target cluster, the lists and rows of
  the status are filters and maps of it over the target list, and the phase is the worst
  verdict. \<open>prop_loop_refine\<close> shows that the loop of \<open>Reconcile\<close> computes exactly this;
  the properties of a whole reconcile (status, gauges, events, errors, the lag clock over a
  run, a second reconcile) rest on it.
\<close>

section \<open>Classification of a cluster\<close>

definition stale_seconds :: "PropagationStatus \<Rightarrow> int" where
  "stale_seconds ps = sint (orDefault (psStaleReportThresholdSeconds (psSpec ps)) 900)"

definition lag_seconds :: "PropagationStatus \<Rightarrow> int" where
  "lag_seconds ps = sint (orDefault (psLagThresholdSeconds (psSpec ps)) 600)"

definition report_verdict :: "PropagationStatus \<Rightarrow> gtime \<Rightarrow> ClusterAppReportSpec \<Rightarrow> string" where
  "report_verdict ps now rep =
     (if now - rsObservedAt rep > stale_seconds ps * Second then StateStale
      else if rsSyncStatus rep = ''OutOfSync'' then StateDiverged
      else if rsObservedRevision rep = psExpectedRevision (psSpec ps) then StateInSync
      else if now - pssExpectedRevisionSince (psStatus ps) > lag_seconds ps * Second
      then StateLagging else StatePropagating)"

definition verdict ::
  "PropagationStatus \<Rightarrow> ClusterAppReport gomap \<Rightarrow> gtime \<Rightarrow> string \<Rightarrow> string" where
  "verdict ps byC now c =
     (case gm_get byC c of None \<Rightarrow> StateMissing | Some r \<Rightarrow> report_verdict ps now (carSpec r))"

definition row ::
  "PropagationStatus \<Rightarrow> ClusterAppReport gomap \<Rightarrow> gtime \<Rightarrow> string \<Rightarrow> ClusterRevisionState" where
  "row ps byC now c =
     (case gm_get byC c of None \<Rightarrow> missing_state c
      | Some r \<Rightarrow> reported_state c (carSpec r) (verdict ps byC now c))"

definition lag_value ::
  "PropagationStatus \<Rightarrow> ClusterAppReport gomap \<Rightarrow> gtime \<Rightarrow> string \<Rightarrow> rat" where
  "lag_value ps byC now c =
     (if verdict ps byC now c \<in> {StateLagging, StatePropagating}
      then duration_seconds (time_sub now (pssExpectedRevisionSince (psStatus ps))) else 0)"

definition age_value :: "ClusterAppReport gomap \<Rightarrow> gtime \<Rightarrow> string \<Rightarrow> rat" where
  "age_value byC now c =
     (case gm_get byC c of None \<Rightarrow> - 1
      | Some r \<Rightarrow> duration_seconds (time_sub now (rsObservedAt (carSpec r))))"

definition record_cluster ::
  "PropagationStatus \<Rightarrow> ClusterAppReport gomap \<Rightarrow> gtime \<Rightarrow> string \<Rightarrow> gauges \<Rightarrow> gauges" where
  "record_cluster ps byC now c =
     RecordClusterMetrics (psAppName (psSpec ps)) c (verdict ps byC now c)
       (verdict ps byC now c = StateInSync) (lag_value ps byC now c) (age_value byC now c)"

lemma seconds32_less_sub: "seconds32 n < time_sub t u \<longleftrightarrow> sint n * Second < t - u"
  using seconds32_compare(1) [of t u n] by (simp add: not_le [symmetric] seconds32_eq)

lemma prop_cluster_step:
  "prop_cluster ps byC now c acc =
     (let v = verdict ps byC now c in
      \<lparr>paStates = paStates acc @ [row ps byC now c],
       paDiverged = paDiverged acc @ (if v = StateDiverged then [c] else []),
       paLagging = paLagging acc @ (if v \<in> {StateLagging, StatePropagating} then [c] else []),
       paStale = paStale acc @ (if v = StateStale then [c] else []),
       paMissing = paMissing acc @ (if v = StateMissing then [c] else []),
       paGauges = record_cluster ps byC now c (paGauges acc)\<rparr>)"
  by (cases "gm_get byC c")
    (simp_all add: prop_cluster_def verdict_def row_def record_cluster_def lag_value_def
      age_value_def report_verdict_def Let_def seconds32_less_sub stale_seconds_def lag_seconds_def)

lemma prop_loop_eq:
  "prop_loop ps reports now g =
     (let byC = byCluster reports; v = verdict ps byC now; targets = psTargetClusters (psSpec ps) in
      \<lparr>paStates = map (row ps byC now) targets,
       paDiverged = filter (\<lambda>c. v c = StateDiverged) targets,
       paLagging = filter (\<lambda>c. v c \<in> {StateLagging, StatePropagating}) targets,
       paStale = filter (\<lambda>c. v c = StateStale) targets,
       paMissing = filter (\<lambda>c. v c = StateMissing) targets,
       paGauges = fold (record_cluster ps byC now) targets g\<rparr>)"
proof -
  have "fold (prop_cluster ps byC now) cs acc =
      \<lparr>paStates = paStates acc @ map (row ps byC now) cs,
       paDiverged = paDiverged acc @ filter (\<lambda>c. verdict ps byC now c = StateDiverged) cs,
       paLagging = paLagging acc
         @ filter (\<lambda>c. verdict ps byC now c \<in> {StateLagging, StatePropagating}) cs,
       paStale = paStale acc @ filter (\<lambda>c. verdict ps byC now c = StateStale) cs,
       paMissing = paMissing acc @ filter (\<lambda>c. verdict ps byC now c = StateMissing) cs,
       paGauges = fold (record_cluster ps byC now) cs (paGauges acc)\<rparr>" for byC cs acc
    by (induction cs arbitrary: acc) (simp_all add: prop_cluster_step Let_def)
  then show ?thesis by (simp add: prop_loop_def Let_def)
qed

text \<open>The loop over the target clusters classifies every cluster by one verdict (stale report,
  then local divergence, then revision mismatch, past or within the lag threshold), and its
  rows, its four cluster lists and the recorded gauges are the maps and filters of that verdict
  over the target list, in target order.\<close>

theorem prop_loop_refine:
  "prop_loop ps reports now g =
     (let byC = byCluster reports; v = verdict ps byC now; targets = psTargetClusters (psSpec ps) in
      \<lparr>paStates = map (row ps byC now) targets,
       paDiverged = filter (\<lambda>c. v c = StateDiverged) targets,
       paLagging = filter (\<lambda>c. v c \<in> {StateLagging, StatePropagating}) targets,
       paStale = filter (\<lambda>c. v c = StateStale) targets,
       paMissing = filter (\<lambda>c. v c = StateMissing) targets,
       paGauges = fold (record_cluster ps byC now) targets g\<rparr>)"
  by (rule prop_loop_eq)

section \<open>The phase\<close>

definition worst_phase :: "string list \<Rightarrow> string" where
  "worst_phase vs =
     (if StateDiverged \<in> set vs then ''Diverged''
      else if StateStale \<in> set vs \<or> StateMissing \<in> set vs then ''Stale''
      else if StateLagging \<in> set vs \<or> StatePropagating \<in> set vs then ''Propagating''
      else ''Synced'')"

definition acc_phase :: "prop_acc \<Rightarrow> string" where
  "acc_phase acc = rollUpPhase (paDiverged acc) (paStale acc) (paMissing acc) (paLagging acc)"

lemma filter_Nil_list_ex: "filter P xs = [] \<longleftrightarrow> \<not> list_ex P xs"
  by (induction xs) simp_all

lemma list_ex_mem: "list_ex (\<lambda>c. f c = s) xs \<longleftrightarrow> s \<in> set (map f xs)"
  by (induction xs) auto

lemma list_ex_mem2:
  "list_ex (\<lambda>c. f c \<in> {s, t}) xs \<longleftrightarrow> s \<in> set (map f xs) \<or> t \<in> set (map f xs)"
  by (induction xs) auto

lemma acc_phase_eq:
  "acc_phase (prop_loop ps reports now g) =
     worst_phase (map (verdict ps (byCluster reports) now) (psTargetClusters (psSpec ps)))"
  by (simp only: acc_phase_def rollUpPhase_def worst_phase_def prop_loop_eq Let_def prop_acc.simps
      filter_Nil_list_ex list_ex_mem list_ex_mem2 not_not)

lemma verdict_range: "verdict ps byC now c \<in> set possibleStates"
  by (cases "gm_get byC c") (auto simp: verdict_def report_verdict_def possibleStates_def)

lemma all_eq_of_rest:
  assumes "S \<subseteq> insert a R" "a \<notin> R"
  shows "(\<forall>v\<in>S. v = a) \<longleftrightarrow> (\<forall>r\<in>R. r \<notin> S)"
  using assms by auto

lemma worst_phase_synced:
  assumes "set vs \<subseteq> set possibleStates"
  shows "worst_phase vs = ''Synced'' \<longleftrightarrow> list_all (\<lambda>v. v = StateInSync) vs"
proof -
  have "set vs \<subseteq> insert StateInSync
      {StatePropagating, StateLagging, StateDiverged, StateStale, StateMissing}"
    using assms by (simp add: possibleStates_def)
  from all_eq_of_rest [OF this]
  have "list_all (\<lambda>v. v = StateInSync) vs \<longleftrightarrow> StatePropagating \<notin> set vs \<and> StateLagging \<notin> set vs
      \<and> StateDiverged \<notin> set vs \<and> StateStale \<notin> set vs \<and> StateMissing \<notin> set vs"
    by (simp add: list_all_iff)
  then show ?thesis by (simp add: worst_phase_def conj_ac)
qed

section \<open>A reconcile that reaches the aggregation\<close>

definition deleting :: "PropagationStatus \<Rightarrow> bool" where
  "deleting ps \<longleftrightarrow>
     (case psDeletionTimestamp ps of None \<Rightarrow> False | Some t \<Rightarrow> \<not> time_is_zero t)"

text \<open>The reconcile found the live object \<open>ps\<close> and the reports of its application.\<close>

definition aggregates :: "prop_env \<Rightarrow> PropagationStatus \<Rightarrow> ClusterAppReport list \<Rightarrow> bool" where
  "aggregates env ps reports \<longleftrightarrow>
     peGet env = Inr ps \<and> \<not> deleting ps
     \<and> peList env (psNamespace ps) (psAppName (psSpec ps)) 100 = Inr reports"

text \<open>The object the API server holds afterwards.\<close>

definition stored_after :: "prop_env \<Rightarrow> PropagationStatus \<Rightarrow> prop_out \<Rightarrow> PropagationStatus" where
  "stored_after env ps out =
     (case prPatch out of None \<Rightarrow> ps | Some p \<Rightarrow> if pePatch env p = None then p else ps)"

lemma reset_lag_clock_spec [simp]:
  "psSpec (reset_lag_clock t ps) = psSpec ps" "psNamespace (reset_lag_clock t ps) = psNamespace ps"
  "psGeneration (reset_lag_clock t ps) = psGeneration ps"
  by (simp_all add: reset_lag_clock_def)

definition computed_status :: "prop_env \<Rightarrow> PropagationStatus \<Rightarrow> ClusterAppReport list \<Rightarrow> gauges \<Rightarrow>
    PropagationStatusStatus" where
  "computed_status env ps reports g =
     (let ps0 = reset_lag_clock (peMetaNow env) ps
      in prop_status (peSetStatusCondition env) ps0 (prop_loop ps0 reports (peNow env) g))"

lemma reconcile_aggregates:
  assumes "aggregates env ps reports"
  shows "prop_reconcile env req g =
    (let ps0 = reset_lag_clock (peMetaNow env) ps;
         acc = prop_loop ps0 reports (peNow env) g;
         st = computed_status env ps reports g;
         ps' = ps0\<lparr>psStatus := st\<rparr>
     in \<lparr>prResult =
           (if st = psStatus ps then Inr (requeue_after RequeueInterval)
            else case pePatch env ps' of None \<Rightarrow> Inr (requeue_after RequeueInterval)
              | Some e \<Rightarrow> if IsConflict e then Inr requeue_now
                  else Inl (WrapErr (''failed to patch PropagationStatus status '' @ req) e)),
         prGauges = clean_removed ps (paGauges acc),
         prEvents = emitTransitionEvent (peRecorder env) (pssPhase st) (pssPhase (psStatus ps))
           (paDiverged acc) (paLagging acc) (paStale acc) (paMissing acc),
         prPatch = (if st = psStatus ps then None else Some ps')\<rparr>)"
  using assms
  by (auto simp: aggregates_def deleting_def prop_reconcile_def computed_status_def Let_def
      split: option.splits)

lemma computed_status_fields:
  fixes ps :: PropagationStatus and env :: prop_env and reports :: "ClusterAppReport list" and g :: gauges
  defines "ps0 \<equiv> reset_lag_clock (peMetaNow env) ps"
  defines "st \<equiv> computed_status env ps reports g"
  defines "v \<equiv> verdict ps0 (byCluster reports) (peNow env)"
  shows "pssPhase st = worst_phase (map v (psTargetClusters (psSpec ps)))"
    "pssClusterStates st =
       map (row ps0 (byCluster reports) (peNow env)) (psTargetClusters (psSpec ps))"
    "pssDivergedClusters st = filter (\<lambda>c. v c = StateDiverged) (psTargetClusters (psSpec ps))"
    "pssLaggingClusters st =
       filter (\<lambda>c. v c \<in> {StateLagging, StatePropagating}) (psTargetClusters (psSpec ps))"
    "pssStaleClusters st = filter (\<lambda>c. v c = StateStale) (psTargetClusters (psSpec ps))"
    "pssMissingClusters st = filter (\<lambda>c. v c = StateMissing) (psTargetClusters (psSpec ps))"
    "pssObservedGeneration st = psGeneration ps"
    "pssExpectedRevisionSince st = pssExpectedRevisionSince (psStatus ps0)"
    "pssLastExpectedRevision st = psExpectedRevision (psSpec ps)"
proof -
  have phase: "pssPhase st = acc_phase (prop_loop ps0 reports (peNow env) g)"
    by (simp add: st_def computed_status_def prop_status_def acc_phase_def Let_def ps0_def)
  show "pssPhase st = worst_phase (map v (psTargetClusters (psSpec ps)))"
    unfolding phase acc_phase_eq v_def by (simp add: ps0_def)
qed (simp_all add: st_def v_def computed_status_def prop_status_def prop_loop_eq Let_def ps0_def
      reset_lag_clock_def)

lemma stored_status:
  assumes "aggregates env ps reports" "\<forall>p. pePatch env p = None"
  shows "psStatus (stored_after env ps (prop_reconcile env req g)) = computed_status env ps reports g"
    "prResult (prop_reconcile env req g) = Inr (requeue_after RequeueInterval)"
  using assms(2)
  by (simp_all add: reconcile_aggregates [OF assms(1)] stored_after_def Let_def)

end
