(* ===== verification/PropagationProps.thy ===== *)
theory PropagationProps
  imports PropagationSpec Samples
begin

text \<open>
  Properties of the aggregation that look beyond one status: the gauges it leaves behind, the
  events and errors of a reconcile, the limit of the list call, a second reconcile on the
  stored object, and the lag clock over a run of reconciles.
\<close>

section \<open>Concrete inputs\<close>

definition replace_condition :: "Condition list \<Rightarrow> Condition \<Rightarrow> Condition list" where
  "replace_condition cs c = filter (\<lambda>d. condType d \<noteq> condType c) cs @ [c]"

definition sample_ps :: "string list \<Rightarrow> PropagationStatus" where
  "sample_ps targets =
     \<lparr>psName = ''p'', psNamespace = ''ns'', psGeneration = 1, psDeletionTimestamp = None,
      psSpec = \<lparr>psAppName = ''a'', psAppNamespace = '''', psExpectedRevision = ''r1'',
        psTargetClusters = targets, psLagThresholdSeconds = 0, psStaleReportThresholdSeconds = 0,
        psParentApp = '''', psRootApp = ''''\<rparr>,
      psStatus = \<lparr>pssPhase = '''', pssClusterStates = [], pssExpectedRevisionSince = zero_time,
        pssLastExpectedRevision = '''', pssDivergedClusters = [], pssLaggingClusters = [],
        pssStaleClusters = [], pssMissingClusters = [], pssObservedGeneration = 0,
        pssConditions = []\<rparr>\<rparr>"

definition sample_report :: "string \<Rightarrow> string \<Rightarrow> gtime \<Rightarrow> ClusterAppReport" where
  "sample_report c r t =
     \<lparr>carName = ''a-'' @ c, carNamespace = ''ns'', carLabels = [],
      carSpec = \<lparr>rsClusterName = c, rsAppName = ''a'', rsAppNamespace = '''',
        rsObservedRevision = r, rsSyncStatus = ''Synced'', rsHealth = ''Healthy'',
        rsMCPStatus = zero_MachineConfigPoolStatus, rsVirtStatus = zero_VirtualizationImpactStatus,
        rsPlatformObservation = zero_PlatformObservationStatus, rsObservedAt = t,
        rsRecentEvents = [], rsTailLogs = [], rsObjectChanges = [], rsDependencies = []\<rparr>\<rparr>"

definition sample_env :: "PropagationStatus \<Rightarrow> ClusterAppReport list \<Rightarrow> gtime \<Rightarrow> prop_env" where
  "sample_env ps reports now =
     \<lparr>peGet = Inr ps, peMetaNow = now, peList = (\<lambda>ns a n. Inr (take n reports)), peNow = now,
      pePatch = (\<lambda>p. None), peRecorder = True, peSetStatusCondition = replace_condition\<rparr>"

lemma sample_aggregates:
  "length reports \<le> 100 \<Longrightarrow> aggregates (sample_env (sample_ps cs) reports now) (sample_ps cs) reports"
  by (simp add: aggregates_def sample_env_def sample_ps_def deleting_def)

lemma sample_env_simps [simp]:
  "pePatch (sample_env ps rs t) p = None"
  "peSetStatusCondition (sample_env ps rs t) = replace_condition"
  "peNow (sample_env ps rs t) = t" "peMetaNow (sample_env ps rs t) = t"
  "peRecorder (sample_env ps rs t)"
  by (simp_all add: sample_env_def)

section \<open>The phase\<close>

text \<open>C9: After a reconcile that reads the object and its reports and whose patch is accepted, the
  stored phase is the worst verdict over the target clusters, and it is \<open>Synced\<close> exactly when
  every target has a report that is fresh, not locally out of sync and at the expected
  revision; the reconcile is repeated after the requeue interval.\<close>

theorem prop_phase_correct:
  assumes "aggregates env ps reports" "\<forall>p. pePatch env p = None"
  shows "let st = psStatus (stored_after env ps (prop_reconcile env req g));
             vs = map (verdict (reset_lag_clock (peMetaNow env) ps) (byCluster reports) (peNow env))
                    (psTargetClusters (psSpec ps))
         in pssPhase st = worst_phase vs
            \<and> (pssPhase st = ''Synced'' \<longleftrightarrow> list_all (\<lambda>v. v = StateInSync) vs)
            \<and> prResult (prop_reconcile env req g) = Inr (requeue_after RequeueInterval)"
  unfolding Let_def stored_status [OF assms] computed_status_fields
  by (simp only: simp_thms, rule worst_phase_synced) (use verdict_range in auto)

lemma prop_phase_correct_witness:
  "pssPhase (psStatus (stored_after (sample_env (sample_ps [''c1'', ''c2'']) [sample_report ''c1'' ''r1'' 0] 0)
     (sample_ps [''c1'', ''c2''])
     (prop_reconcile (sample_env (sample_ps [''c1'', ''c2'']) [sample_report ''c1'' ''r1'' 0] 0)
       ''ns/p'' no_gauges))) = ''Stale''"
proof -
  have "worst_phase (map (verdict (reset_lag_clock 0 (sample_ps [''c1'', ''c2'']))
      (byCluster [sample_report ''c1'' ''r1'' 0]) 0)
      (psTargetClusters (psSpec (sample_ps [''c1'', ''c2''])))) = ''Stale''" by code_simp
  then show ?thesis
    using prop_phase_correct [OF sample_aggregates [of "[sample_report ''c1'' ''r1'' 0]"
        "[''c1'', ''c2'']" 0], of "''ns/p''" no_gauges]
    by (simp add: Let_def)
qed

section \<open>Gauges\<close>

lemma series_record_cluster:
  "cluster_series a c (record_cluster ps byC now c' g) =
     (if a = psAppName (psSpec ps) \<and> c = c'
      then (one_hot (verdict ps byC now c), Some (lag_value ps byC now c), Some (age_value byC now c))
      else cluster_series a c g)"
  by (auto simp: record_cluster_def series_record)

lemma series_record_all:
  "cluster_series a c (fold (record_cluster ps byC now) cs g) =
     (if a = psAppName (psSpec ps) \<and> c \<in> set cs
      then (one_hot (verdict ps byC now c), Some (lag_value ps byC now c), Some (age_value byC now c))
      else cluster_series a c g)"
  by (induction cs arbitrary: g) (auto simp: series_record_cluster)

lemma series_clean_removed:
  "cluster_series a c (clean_removed ps g) =
     (if a = psAppName (psSpec ps) \<and> c \<notin> set (psTargetClusters (psSpec ps))
         \<and> c \<in> csClusterName ` set (pssClusterStates (psStatus ps))
      then no_series else cluster_series a c g)"
proof -
  have "cluster_series a c
      (fold (\<lambda>cs g. if csClusterName cs \<notin> T then DeleteClusterMetrics app (csClusterName cs) g else g)
        css g) = (if a = app \<and> c \<notin> T \<and> c \<in> csClusterName ` set css then no_series
                  else cluster_series a c g)" for T app css
    by (induction css arbitrary: g) (auto simp: series_delete)
  then show ?thesis unfolding clean_removed_def .
qed

text \<open>C15: After a reconcile the scraped series of the application show, for every target cluster,
  the verdict as the only state with value 1 and its lag and report age; a cluster that was in
  the last status and is no longer a target has no series; all other series, those of other
  applications included, are as before.\<close>

theorem prop_metrics_correct:
  assumes "aggregates env ps reports"
  shows "cluster_series a c (prGauges (prop_reconcile env req g)) =
    (let ps0 = reset_lag_clock (peMetaNow env) ps; byC = byCluster reports; now = peNow env in
     if a \<noteq> psAppName (psSpec ps) then cluster_series a c g
     else if c \<in> set (psTargetClusters (psSpec ps))
     then (one_hot (verdict ps0 byC now c), Some (lag_value ps0 byC now c), Some (age_value byC now c))
     else if c \<in> csClusterName ` set (pssClusterStates (psStatus ps)) then no_series
     else cluster_series a c g)"
  by (simp add: reconcile_aggregates [OF assms] Let_def series_clean_removed prop_loop_eq
      series_record_all)

lemma prop_metrics_correct_witness:
  "cluster_series ''a'' ''c1'' (prGauges (prop_reconcile
     (sample_env (sample_ps [''c1'']) [sample_report ''c1'' ''r1'' 0] 0) ''ns/p'' no_gauges))
   = ([Some 1, Some 0, Some 0, Some 0, Some 0, Some 0], Some 0, Some 0)"
proof -
  have "verdict (reset_lag_clock 0 (sample_ps [''c1''])) (byCluster [sample_report ''c1'' ''r1'' 0]) 0
      ''c1'' = ''InSync''" by code_simp
  moreover have "age_value (byCluster [sample_report ''c1'' ''r1'' 0]) 0 ''c1'' = 0" by code_simp
  moreover have "psAppName (psSpec (sample_ps [''c1''])) = ''a''"
    "psTargetClusters (psSpec (sample_ps [''c1''])) = [''c1'']" by code_simp+
  ultimately show ?thesis
    using prop_metrics_correct [OF sample_aggregates [of "[sample_report ''c1'' ''r1'' 0]" "[''c1'']" 0],
        of "''a''" "''c1''" "''ns/p''" no_gauges]
    by (simp add: one_hot_def possibleStates_def lag_value_def)
qed

section \<open>The limit of the list call\<close>

lemma byCluster_None:
  "gm_get (byCluster reports) c = None \<longleftrightarrow> c \<notin> (\<lambda>r. rsClusterName (carSpec r)) ` set reports"
  unfolding byCluster_def gm.get_fold_put_None by (simp add: gm_get_def)

lemma some_target_missing:
  assumes "length reports < card (set targets)"
  shows "\<exists>c\<in>set targets. gm_get (byCluster reports) c = None"
proof (rule ccontr)
  assume "\<not> ?thesis"
  then have "set targets \<subseteq> (\<lambda>r. rsClusterName (carSpec r)) ` set reports"
    by (auto simp: byCluster_None)
  then have "card (set targets) \<le> card (set reports)"
    by (meson card_image_le card_mono finite_imageI finite_set le_trans)
  with card_length [of reports] assms show False by simp
qed

text \<open>C30: The list call asks for at most 100 reports. When the server honours the limit, a
  \<open>PropagationStatus\<close> with more than 100 distinct target clusters is never \<open>Synced\<close> or
  \<open>Propagating\<close>, whatever the clusters report: some cluster is always counted as missing.\<close>

theorem prop_limit_never_synced:
  assumes "aggregates env ps reports" "\<forall>p. pePatch env p = None"
    and "\<And>ns app n rs. peList env ns app n = Inr rs \<Longrightarrow> length rs \<le> n"
    and "100 < card (set (psTargetClusters (psSpec ps)))"
  shows "let st = psStatus (stored_after env ps (prop_reconcile env req g))
         in pssMissingClusters st \<noteq> [] \<and> pssPhase st \<in> {''Diverged'', ''Stale''}"
proof -
  have "length reports \<le> 100"
    using assms(1,3) by (auto simp: aggregates_def)
  then obtain c where c: "c \<in> set (psTargetClusters (psSpec ps))"
    "gm_get (byCluster reports) c = None"
    using some_target_missing [of reports "psTargetClusters (psSpec ps)"] assms(4) by auto
  let ?v = "verdict (reset_lag_clock (peMetaNow env) ps) (byCluster reports) (peNow env)"
  have v: "?v c = StateMissing"
    using c(2) by (simp add: verdict_def)
  then have "StateMissing \<in> set (map ?v (psTargetClusters (psSpec ps)))"
    using c(1) by (metis image_eqI list.set_map)
  then have "worst_phase (map ?v (psTargetClusters (psSpec ps))) \<in> {''Diverged'', ''Stale''}"
    unfolding worst_phase_def by simp
  then show ?thesis
    using c(1) v unfolding Let_def stored_status [OF assms(1,2)] computed_status_fields
    by (auto simp: filter_empty_conv)
qed

lemma itoa_card: "card (set (map (\<lambda>n. itoa (int n)) [0..<m])) = m"
proof -
  have "inj_on (\<lambda>n. itoa (int n)) {0..<m}"
    by (rule inj_onI) (simp add: itoa_inject)
  then show ?thesis by (simp add: card_image)
qed

lemma prop_limit_never_synced_witness:
  "let ps = sample_ps (map (\<lambda>n. itoa (int n)) [0..<101]);
       env = sample_env ps [] 0;
       st = psStatus (stored_after env ps (prop_reconcile env ''ns/p'' no_gauges))
   in pssMissingClusters st \<noteq> [] \<and> pssPhase st \<in> {''Diverged'', ''Stale''}"
proof -
  have ps: "psTargetClusters (psSpec (sample_ps cs)) = cs" for cs
    by (simp add: sample_ps_def)
  let ?cs = "map (\<lambda>n. itoa (int n)) [0..<101]"
  have "100 < card (set (psTargetClusters (psSpec (sample_ps ?cs))))"
    unfolding ps itoa_card by simp
  then show ?thesis
    unfolding Let_def
    by (intro prop_limit_never_synced [OF sample_aggregates, unfolded Let_def])
      (auto simp: sample_env_def)
qed

section \<open>A second reconcile\<close>

lemma reset_lag_clock_id:
  "pssLastExpectedRevision (psStatus ps) = psExpectedRevision (psSpec ps) \<Longrightarrow>
     reset_lag_clock t ps = ps"
  by (simp add: reset_lag_clock_def)

lemma prop_loop_status:
  "pssExpectedRevisionSince (psStatus ps) = pssExpectedRevisionSince (psStatus ps') \<Longrightarrow>
     psSpec ps = psSpec ps' \<Longrightarrow> prop_loop ps reports now g = prop_loop ps' reports now g"
proof -
  assume a: "pssExpectedRevisionSince (psStatus ps) = pssExpectedRevisionSince (psStatus ps')"
    "psSpec ps = psSpec ps'"
  have v: "verdict ps byC now c = verdict ps' byC now c" for byC c
    by (simp add: verdict_def report_verdict_def stale_seconds_def lag_seconds_def a
        split: option.split)
  have "row ps byC now = row ps' byC now" for byC
    by (rule ext) (simp add: row_def v split: option.split)
  moreover have "record_cluster ps byC now = record_cluster ps' byC now" for byC
    by (intro ext) (simp add: record_cluster_def lag_value_def v a)
  ultimately show ?thesis
    by (simp only: prop_loop_eq v a(2) Let_def)
qed

text \<open>The status does not depend on the gauges.\<close>

lemma computed_status_gauges: "computed_status env ps reports g = computed_status env ps reports g'"
  by (simp add: computed_status_def prop_status_def prop_loop_eq Let_def)

text \<open>C27: When nothing has changed, a second reconcile on the stored object patches nothing and
  emits no event, provided that setting a status condition twice is the same as setting it
  once.\<close>

theorem prop_reconcile_idempotent:
  assumes "aggregates env ps reports" "\<forall>p. pePatch env p = None"
    and "\<And>cs c. peSetStatusCondition env (peSetStatusCondition env cs c) c =
           peSetStatusCondition env cs c"
  shows "let ps' = stored_after env ps (prop_reconcile env req g);
             out = prop_reconcile (env\<lparr>peGet := Inr ps', peMetaNow := later\<rparr>) req g'
         in prPatch out = None \<and> prEvents out = []"
proof -
  define st where "st = computed_status env ps reports g"
  define ps0 where "ps0 = reset_lag_clock (peMetaNow env) ps"
  define acc where "acc = prop_loop ps0 reports (peNow env) g"
  let ?ps' = "stored_after env ps (prop_reconcile env req g)"
  let ?env = "env\<lparr>peGet := Inr ?ps', peMetaNow := later\<rparr>"
  have st: "psStatus ?ps' = st"
    unfolding st_def by (rule stored_status [OF assms(1,2)])
  have meta: "psSpec ?ps' = psSpec ps" "psNamespace ?ps' = psNamespace ps"
    "psGeneration ?ps' = psGeneration ps" "psDeletionTimestamp ?ps' = psDeletionTimestamp ps"
    using assms(2)
    by (simp_all add: reconcile_aggregates [OF assms(1)] stored_after_def Let_def reset_lag_clock_def)
  have agg: "aggregates ?env ?ps' reports"
    using assms(1) by (simp add: aggregates_def deleting_def meta)
  have clock: "reset_lag_clock later ?ps' = ?ps'"
    by (rule reset_lag_clock_id) (simp add: st meta st_def computed_status_fields)
  have acc': "prop_loop ?ps' reports (peNow env) g = acc"
    unfolding acc_def by (rule prop_loop_status)
      (simp_all add: st meta st_def computed_status_fields(8) ps0_def)
  have "st = prop_status (peSetStatusCondition env) ps0 acc"
    by (simp add: st_def computed_status_def ps0_def acc_def Let_def)
  then have "computed_status ?env ?ps' reports g' = st"
    unfolding computed_status_gauges [of ?env ?ps' reports g' g]
    using assms(3)
    by (simp add: computed_status_def clock acc' prop_status_def st Let_def setCondition_def meta
        ps0_def)
  then show ?thesis
    by (simp add: reconcile_aggregates [OF agg] Let_def st emitTransitionEvent_def)
qed

lemma prop_reconcile_idempotent_witness:
  "let env = sample_env (sample_ps [''c1'']) [sample_report ''c1'' ''r1'' 0] 0;
       ps' = stored_after env (sample_ps [''c1'']) (prop_reconcile env ''ns/p'' no_gauges);
       out = prop_reconcile (env\<lparr>peGet := Inr ps', peMetaNow := 7\<rparr>) ''ns/p'' no_gauges
   in prPatch out = None \<and> prEvents out = []"
  unfolding Let_def
  by (rule prop_reconcile_idempotent [OF sample_aggregates, unfolded Let_def])
    (simp_all add: replace_condition_def)

section \<open>Errors\<close>

text \<open>The errors the API server gave to the calls of a reconcile.\<close>

definition call_errors :: "prop_env \<Rightarrow> go_error set" where
  "call_errors env =
     {e. peGet env = Inl e} \<union> {e. \<exists>ns app n. peList env ns app n = Inl e}
     \<union> {e. \<exists>p. pePatch env p = Some e}"

lemma call_errorsI [intro]:
  "peGet env = Inl e \<Longrightarrow> e \<in> call_errors env"
  "peList env ns app n = Inl e \<Longrightarrow> e \<in> call_errors env"
  "pePatch env p = Some e \<Longrightarrow> e \<in> call_errors env"
  by (auto simp: call_errors_def)

text \<open>C40: A reconcile fails only with an error that wraps one of a call, never with a NotFound of
  the get or a Conflict of the patch; unless the status was computed, a failed reconcile leaves
  the gauges alone, emits nothing and patches nothing.\<close>

theorem prop_errors:
  assumes "prResult (prop_reconcile env req g) = Inl e"
  shows "\<exists>m e'. e = WrapErr m e' \<and> e' \<in> call_errors env
      \<and> (peGet env = Inl e' \<longrightarrow> \<not> IsNotFound e')
      \<and> (prPatch (prop_reconcile env req g) \<noteq> None \<longrightarrow> \<not> IsConflict e')
      \<and> (prPatch (prop_reconcile env req g) = None \<longrightarrow>
          prGauges (prop_reconcile env req g) = g \<and> prEvents (prop_reconcile env req g) = [])"
proof (cases "\<exists>ps reports. aggregates env ps reports")
  case True
  then obtain ps reports where agg: "aggregates env ps reports" by blast
  then have "peGet env \<noteq> Inl e'" for e' by (simp add: aggregates_def)
  then show ?thesis
    using assms unfolding reconcile_aggregates [OF agg] Let_def
    by (auto split: if_splits option.splits)
next
  case False
  then show ?thesis
    using assms
    by (auto simp: aggregates_def deleting_def prop_reconcile_def prop_return_def Let_def
        split: sum.splits if_splits option.splits)
qed

lemma prop_errors_witness:
  "\<exists>m e'. WrapErr ''failed to get PropagationStatus ns/p'' (OtherErr ''boom'') = WrapErr m e'
     \<and> e' \<in> call_errors ((sample_env (sample_ps []) [] 0)\<lparr>peGet := Inl (OtherErr ''boom'')\<rparr>)"
proof -
  let ?env = "(sample_env (sample_ps []) [] 0)\<lparr>peGet := Inl (OtherErr ''boom'')\<rparr>"
  have "prResult (prop_reconcile ?env ''ns/p'' no_gauges) =
      Inl (WrapErr ''failed to get PropagationStatus ns/p'' (OtherErr ''boom''))"
    by (simp add: prop_reconcile_def prop_return_def IsNotFound_def)
  from prop_errors [OF this] show ?thesis by blast
qed

section \<open>The lag clock over a run\<close>

text \<open>A run of reconciles against the stored object, each with its own answers of the server
  and readings of the clock; a patch that is refused leaves the stored object as it was.\<close>

definition prop_step :: "prop_env \<Rightarrow> PropagationStatus \<times> gauges \<Rightarrow> PropagationStatus \<times> gauges" where
  "prop_step env s =
     (let env' = env\<lparr>peGet := Inr (fst s)\<rparr>; out = prop_reconcile env' [] (snd s)
      in (stored_after env' (fst s) out, prGauges out))"

definition prop_run :: "prop_env list \<Rightarrow> PropagationStatus \<times> gauges \<Rightarrow> PropagationStatus \<times> gauges" where
  "prop_run envs s = fold prop_step envs s"

definition clock_at :: "PropagationStatusSpec \<Rightarrow> gtime \<Rightarrow> PropagationStatus \<Rightarrow> bool" where
  "clock_at spec t ps \<longleftrightarrow> psSpec ps = spec
     \<and> pssLastExpectedRevision (psStatus ps) = psExpectedRevision spec
     \<and> pssExpectedRevisionSince (psStatus ps) = t"

lemma stored_unless_aggregates:
  assumes "peGet env = Inr ps" "\<nexists>reports. aggregates env ps reports"
  shows "stored_after env ps (prop_reconcile env req g) = ps"
  using assms
  by (auto simp: aggregates_def deleting_def prop_reconcile_def prop_return_def Let_def
      stored_after_def split: sum.splits option.splits)

lemma stored_if_aggregates:
  assumes "aggregates env ps reports"
  shows "stored_after env ps (prop_reconcile env req g) =
      (reset_lag_clock (peMetaNow env) ps)\<lparr>psStatus := computed_status env ps reports g\<rparr>
    \<or> stored_after env ps (prop_reconcile env req g) = ps"
  by (simp add: reconcile_aggregates [OF assms] stored_after_def Let_def)

lemma prop_step_clock:
  assumes "clock_at spec t (fst s)"
  shows "clock_at spec t (fst (prop_step env s))"
proof -
  let ?env = "env\<lparr>peGet := Inr (fst s)\<rparr>"
  show ?thesis
  proof (cases "\<exists>reports. aggregates ?env (fst s) reports")
    case True
    then obtain reports where agg: "aggregates ?env (fst s) reports" by blast
    have "reset_lag_clock (peMetaNow ?env) (fst s) = fst s"
      using assms by (intro reset_lag_clock_id) (simp add: clock_at_def)
    then show ?thesis
      using stored_if_aggregates [OF agg, of "[]" "snd s"] assms
        computed_status_fields(8,9) [of ?env "fst s" reports "snd s"]
      by (auto simp: prop_step_def Let_def clock_at_def)
  next
    case False
    then show ?thesis
      using assms by (simp add: prop_step_def Let_def stored_unless_aggregates)
  qed
qed

lemma prop_run_clock: "clock_at spec t (fst s) \<Longrightarrow> clock_at spec t (fst (prop_run envs s))"
  unfolding prop_run_def by (rule fold_invariant_on) (rule prop_step_clock)



end
