(* ===== verification/Digest.thy ===== *)
theory Digest
  imports GoText
begin

text \<open>
  Go's \<open>crypto/sha256\<close>, \<open>crypto/hmac\<close> and \<open>encoding/hex\<close>, as the signed audit reports
  and the baseline snapshot use them: SHA-256 of FIPS 180-4 on 32-bit words and HMAC of
  RFC 2104 with its 64-byte block. The functions are executable; what the rest of the
  development uses of them is the length of their results and the fact that they are
  functions of their inputs.
\<close>

unbundle bit_operations_syntax

section \<open>SHA-256\<close>

text \<open>
  The constants are the leading fractional bits of roots of the first primes: 32 bits of the
  cube roots of 64 primes for the rounds, and of the square roots of eight for the initial
  state. \<open>int_root k n\<close> is the integer \<open>k\<close>-th root, found bit by bit.
\<close>

definition root_bit :: "nat \<Rightarrow> int \<Rightarrow> nat \<Rightarrow> int \<Rightarrow> int" where
  "root_bit k n b acc = (if (acc + 2 ^ b) ^ k \<le> n then acc + 2 ^ b else acc)"

definition int_root :: "nat \<Rightarrow> int \<Rightarrow> int" where
  "int_root k n = fold (root_bit k n) (rev [0..<40]) 0"

lemma int_root_power: "0 < k \<Longrightarrow> 0 \<le> n \<Longrightarrow> int_root k n ^ k \<le> n"
  unfolding int_root_def
  by (rule fold_invariant_on [where P = "\<lambda>a. a ^ k \<le> n"]) (simp_all add: root_bit_def zero_power)

definition first_primes :: "nat list" where
  "first_primes = filter (\<lambda>n. list_all (\<lambda>d. n mod d \<noteq> 0) [2..<n]) [2..<312]"

definition sha_K :: "32 word list" where
  "sha_K = map (\<lambda>p. of_int (int_root 3 (int p * 2 ^ 96))) first_primes"

datatype sha_state =
  Sha (sha_a: "32 word") (sha_b: "32 word") (sha_c: "32 word") (sha_d: "32 word")
      (sha_e: "32 word") (sha_f: "32 word") (sha_g: "32 word") (sha_h: "32 word")

definition sqrt_bits :: "int \<Rightarrow> 32 word" where
  "sqrt_bits p = of_int (int_root 2 (p * 2 ^ 64))"

definition sha_init :: sha_state where
  "sha_init = Sha (sqrt_bits 2) (sqrt_bits 3) (sqrt_bits 5) (sqrt_bits 7)
                  (sqrt_bits 11) (sqrt_bits 13) (sqrt_bits 17) (sqrt_bits 19)"

definition rotr :: "nat \<Rightarrow> 32 word \<Rightarrow> 32 word" where
  "rotr n w = drop_bit n w OR push_bit (32 - n) w"

definition small_sigma0 :: "32 word \<Rightarrow> 32 word" where
  "small_sigma0 x = rotr 7 x XOR rotr 18 x XOR drop_bit 3 x"

definition small_sigma1 :: "32 word \<Rightarrow> 32 word" where
  "small_sigma1 x = rotr 17 x XOR rotr 19 x XOR drop_bit 10 x"

definition big_sigma0 :: "32 word \<Rightarrow> 32 word" where
  "big_sigma0 x = rotr 2 x XOR rotr 13 x XOR rotr 22 x"

definition big_sigma1 :: "32 word \<Rightarrow> 32 word" where
  "big_sigma1 x = rotr 6 x XOR rotr 11 x XOR rotr 25 x"

definition sha_ch :: "32 word \<Rightarrow> 32 word \<Rightarrow> 32 word \<Rightarrow> 32 word" where
  "sha_ch x y z = (x AND y) XOR (NOT x AND z)"

definition sha_maj :: "32 word \<Rightarrow> 32 word \<Rightarrow> 32 word \<Rightarrow> 32 word" where
  "sha_maj x y z = (x AND y) XOR (x AND z) XOR (y AND z)"

definition sha_round :: "32 word \<times> 32 word \<Rightarrow> sha_state \<Rightarrow> sha_state" where
  "sha_round kw s =
     (case (kw, s) of ((k, w), Sha a b c d e f g h) \<Rightarrow>
       (let t1 = h + big_sigma1 e + sha_ch e f g + k + w;
            t2 = big_sigma0 a + sha_maj a b c
        in Sha (t1 + t2) a b c (d + t1) e f g))"

text \<open>The schedule is kept latest word first.\<close>

primrec sha_schedule :: "nat \<Rightarrow> 32 word list \<Rightarrow> 32 word list" where
  "sha_schedule 0 ws = ws"
| "sha_schedule (Suc n) ws =
     sha_schedule n
       ((small_sigma1 (ws ! 1) + ws ! 6 + small_sigma0 (ws ! 14) + ws ! 15) # ws)"

definition be_word :: "8 word list \<Rightarrow> 32 word" where
  "be_word bs = foldl (\<lambda>w b. push_bit 8 w OR ucast b) 0 bs"

fun be_words :: "8 word list \<Rightarrow> 32 word list" where
  "be_words (a # b # c # d # bs) = be_word [a, b, c, d] # be_words bs"
| "be_words _ = []"

definition sha_add :: "sha_state \<Rightarrow> sha_state \<Rightarrow> sha_state" where
  "sha_add s t =
     Sha (sha_a s + sha_a t) (sha_b s + sha_b t) (sha_c s + sha_c t) (sha_d s + sha_d t)
         (sha_e s + sha_e t) (sha_f s + sha_f t) (sha_g s + sha_g t) (sha_h s + sha_h t)"

definition sha_block :: "sha_state \<Rightarrow> 8 word list \<Rightarrow> sha_state" where
  "sha_block s bs =
     sha_add s (fold sha_round (zip sha_K (rev (sha_schedule 48 (rev (be_words bs))))) s)"

definition be_bytes64 :: "nat \<Rightarrow> 8 word list" where
  "be_bytes64 n = map (\<lambda>i. of_int (int n div 256 ^ i)) [7, 6, 5, 4, 3, 2, 1, 0]"

definition sha_pad :: "8 word list \<Rightarrow> 8 word list" where
  "sha_pad m =
     m @ [0x80] @ replicate ((119 - length m mod 64) mod 64) 0 @ be_bytes64 (8 * length m)"

fun sha_blocks :: "sha_state \<Rightarrow> 8 word list \<Rightarrow> sha_state" where
  "sha_blocks s bs =
     (if bs = [] then s else sha_blocks (sha_block s (take 64 bs)) (drop 64 bs))"

declare sha_blocks.simps [simp del]

definition word_bytes :: "32 word \<Rightarrow> 8 word list" where
  "word_bytes w = map (\<lambda>i. ucast (drop_bit i w)) [24, 16, 8, 0]"

definition sha256 :: "8 word list \<Rightarrow> 8 word list" where
  "sha256 m =
     (let s = sha_blocks sha_init (sha_pad m) in
      concat (map (\<lambda>f. word_bytes (f s)) [sha_a, sha_b, sha_c, sha_d, sha_e, sha_f, sha_g, sha_h]))"

lemma length_sha256 [simp]: "length (sha256 m) = 32"
  by (simp add: sha256_def word_bytes_def Let_def)

lemma sha_pad_blocks: "length (sha_pad m) mod 64 = 0"
proof -
  define r where "r = length m mod 64"
  have "(119 - r) mod 64 = (if r < 56 then 55 - r else 119 - r)"
  proof (cases "r < 56")
    case True
    then have "119 - r = 55 - r + 64" by simp
    with True show ?thesis by (simp only: mod_add_self2) simp
  qed simp
  moreover have "r < 64" by (simp add: r_def)
  ultimately have "(r + (9 + (119 - r) mod 64)) mod 64 = 0" by auto
  then have "(length m + (9 + (119 - r) mod 64)) mod 64 = 0"
    by (simp add: r_def mod_add_left_eq)
  then show ?thesis by (simp add: sha_pad_def be_bytes64_def r_def algebra_simps)
qed

section \<open>HMAC\<close>

definition hmac_block_key :: "8 word list \<Rightarrow> 8 word list" where
  "hmac_block_key k =
     (let k' = (if 64 < length k then sha256 k else k) in k' @ replicate (64 - length k') 0)"

definition hmac_sha256 :: "8 word list \<Rightarrow> 8 word list \<Rightarrow> 8 word list" where
  "hmac_sha256 k m =
     (let bk = hmac_block_key k in
      sha256 (map (\<lambda>b. b XOR 0x5c) bk @ sha256 (map (\<lambda>b. b XOR 0x36) bk @ m)))"

lemma length_hmac_block_key: "length (hmac_block_key k) = 64"
  by (simp add: hmac_block_key_def Let_def)

lemma length_hmac_sha256 [simp]: "length (hmac_sha256 k m) = 32"
  by (simp add: hmac_sha256_def Let_def)

end
