(* ===== verification/Json.thy ===== *)
theory Json
  imports GoText
begin

text \<open>
  \<open>encoding/json\<close> as the operator uses it: a document is a tree, struct fields keep their
  order and drop out under \<open>omitempty\<close>, the keys of a Go map are sorted, and the tree is
  printed compactly (\<open>json.Marshal\<close>) or with a two-blank indentation
  (\<open>json.MarshalIndent\<close>). Strings are escaped as the package escapes ASCII text.
\<close>

datatype json =
    JNull
  | JBool bool
  | JInt int
  | JStr string
  | JArr "json list"
  | JObj "(string \<times> json) list"

section \<open>Building documents\<close>

text \<open>A struct: the fields whose value \<open>omitempty\<close> does not drop.\<close>

definition omit_if :: "bool \<Rightarrow> string \<Rightarrow> json \<Rightarrow> (string \<times> json) list" where
  "omit_if b k j = (if b then [] else [(k, j)])"

definition json_map :: "(string \<times> json) list \<Rightarrow> json" where
  "json_map kvs = JObj (sort_key fst kvs)"

text \<open>A nil slice is printed as \<open>null\<close>.\<close>

definition json_slice :: "('a \<Rightarrow> json) \<Rightarrow> 'a list \<Rightarrow> json" where
  "json_slice f xs = (if xs = [] then JNull else JArr (map f xs))"

definition json_get :: "string \<Rightarrow> json \<Rightarrow> json option" where
  "json_get k j = (case j of JObj kvs \<Rightarrow> map_of kvs k | _ \<Rightarrow> None)"

section \<open>Printing\<close>

definition json_escape_char :: "char \<Rightarrow> string" where
  "json_escape_char c =
     (let n = (of_char c :: nat) in
      if n = 34 \<or> n = 92 then [char_of (92 :: nat), c]
      else if n = 8 then [char_of (92 :: nat), CHR ''b'']
      else if n = 12 then [char_of (92 :: nat), CHR ''f'']
      else if n = 10 then [char_of (92 :: nat), CHR ''n'']
      else if n = 13 then [char_of (92 :: nat), CHR ''r'']
      else if n = 9 then [char_of (92 :: nat), CHR ''t'']
      else if n < 32 \<or> n = 60 \<or> n = 62 \<or> n = 38 then
        char_of (92 :: nat) # ''u00'' @ [hex_digit (n div 16), hex_digit (n mod 16)]
      else [c])"

definition json_string :: "string \<Rightarrow> string" where
  "json_string s = [char_of (34 :: nat)] @ concat (map json_escape_char s) @ [char_of (34 :: nat)]"

fun json_compact :: "json \<Rightarrow> string" where
  "json_compact JNull = ''null''"
| "json_compact (JBool b) = boolv b"
| "json_compact (JInt i) = itoa i"
| "json_compact (JStr s) = json_string s"
| "json_compact (JArr js) = ''['' @ join '','' (map json_compact js) @ '']''"
| "json_compact (JObj kvs) =
     CHR ''{'' # join '','' (map (\<lambda>(k, j). json_string k @ '':'' @ json_compact j) kvs) @ ''}''"

definition newline_indent :: "nat \<Rightarrow> string" where
  "newline_indent d = char_of (10 :: nat) # concat (replicate d ''  '')"

fun json_indent :: "nat \<Rightarrow> json \<Rightarrow> string" where
  "json_indent d (JArr js) =
     (if js = [] then ''[]''
      else ''['' @ join '','' (map (\<lambda>j. newline_indent (d + 1) @ json_indent (d + 1) j) js)
        @ newline_indent d @ '']'')"
| "json_indent d (JObj kvs) =
     (if kvs = [] then ''{}''
      else CHR ''{'' # join '','' (map (\<lambda>(k, j). newline_indent (d + 1) @ json_string k @ '': ''
        @ json_indent (d + 1) j) kvs) @ newline_indent d @ ''}'')"
| "json_indent d j = json_compact j"

section \<open>Lookups in built documents\<close>

lemma json_get_JObj [simp]: "json_get k (JObj kvs) = map_of kvs k"
  by (simp add: json_get_def)

lemma map_of_sort_key: "distinct (map fst kvs) \<Longrightarrow> map_of (sort_key fst kvs) k = map_of kvs k"
proof -
  assume d: "distinct (map fst kvs)"
  have "mset (map fst (sort_key fst kvs)) = mset (map fst kvs)"
    by (simp only: mset_map mset_sort)
  with d have "distinct (map fst (sort_key fst kvs))"
    using mset_eq_imp_distinct_iff by blast
  with d show ?thesis
    using map_of_inject_set [of "sort_key fst kvs" kvs] by simp
qed

lemma json_get_json_map:
  "distinct (map fst kvs) \<Longrightarrow> json_get k (json_map kvs) = map_of kvs k"
  by (simp add: json_map_def map_of_sort_key)

end
