(* ===== verification/Evidence.thy ===== *)
theory Evidence
  imports ApiTypes Digest Json
begin

text \<open>
  \<open>internal/validator/evidence.go\<close>: correlation of warning events and log lines, and the
  signed audit report. \<open>metav1.Time\<close>'s JSON form is the parameter \<open>tj\<close>. What the code
  promises of a signature (a generated report verifies under its key) is the locale
  \<open>report_signer\<close>.
\<close>

section \<open>Correlation\<close>

text \<open>The fields of a \<open>corev1.Event\<close> the code reads, and the evidence type of this package.\<close>

record core_event =
  evLastTimestamp :: gtime
  evType :: string
  evReason :: string
  evMessage :: string
  evKind :: string
  evName :: string

record VCorrelatedEvidence =
  vceTimestamp :: gtime
  vceComponent :: string
  vceObjectID :: string
  vceReason :: string
  vceMessage :: string
  vceSeverity :: EvidenceSeverity
  vceSource :: string

record EvidenceCorrelator =
  ecWindowStart :: gtime
  ecWindowEnd :: gtime

definition event_evidence ::
  "EvidenceCorrelator \<Rightarrow> core_event \<Rightarrow> VCorrelatedEvidence list \<Rightarrow> VCorrelatedEvidence list" where
  "event_evidence e evt evidence =
     (if (time_is_zero (ecWindowStart e) \<or> evLastTimestamp evt > ecWindowStart e)
         \<and> evType evt = ''Warning'' then
        evidence @
        [\<lparr>vceTimestamp = evLastTimestamp evt, vceComponent = evKind evt, vceObjectID = evName evt,
          vceReason = evReason evt, vceMessage = evMessage evt,
          vceSeverity =
            (if str_contains (evReason evt) ''Failed'' \<or> str_contains (evReason evt) ''Stalled''
                \<or> str_contains (evReason evt) ''Error'' then SeverityCritical
             else SeverityWarning),
          vceSource = ''Events''\<rparr>]
      else evidence)"

definition log_signal :: "string \<Rightarrow> bool" where
  "log_signal l \<longleftrightarrow>
     str_contains l ''qemu monitor socket closed'' \<or> str_contains l ''attachment failed''
     \<or> str_contains l ''domain-migrated'' \<or> str_contains l ''ERROR''"

text \<open>\<open>clock\<close> gives the readings of the clock, by the position of the entry.\<close>

definition log_evidence ::
  "(nat \<Rightarrow> gtime) \<Rightarrow> string \<Rightarrow> VCorrelatedEvidence list \<Rightarrow> VCorrelatedEvidence list" where
  "log_evidence clock l evidence =
     (if log_signal l then
        evidence @
        [\<lparr>vceTimestamp = clock (length evidence), vceComponent = ''virt-handler'',
          vceObjectID = ''pod/virt-handler'', vceReason = ''LogSignal'', vceMessage = l,
          vceSeverity = SeverityCritical, vceSource = ''Logs''\<rparr>]
      else evidence)"

definition CorrelateVMIM ::
  "EvidenceCorrelator \<Rightarrow> (nat \<Rightarrow> gtime) \<Rightarrow> core_event list \<Rightarrow> string list \<Rightarrow>
    VCorrelatedEvidence list" where
  "CorrelateVMIM e clock events logEntries =
     fold (log_evidence clock) logEntries (fold (event_evidence e) events [])"

section \<open>Checksums and signatures\<close>

definition CalculateSHA256 :: "8 word list \<Rightarrow> string" where
  "CalculateSHA256 data = hex_encode (sha256 data)"

definition SignHMAC256 :: "8 word list \<Rightarrow> 8 word list \<Rightarrow> string" where
  "SignHMAC256 payload secret = hex_encode (hmac_sha256 secret payload)"

text \<open>The JSON form of a gate result.\<close>

definition evidence_ref_json :: "(gtime \<Rightarrow> json) \<Rightarrow> EvidenceRef \<Rightarrow> json" where
  "evidence_ref_json tj r = JObj
     ([(''source'', JStr (erSource r))]
      @ omit_if (erURI r = '''') ''uri'' (JStr (erURI r))
      @ omit_if (erSHA256 r = '''') ''sha256'' (JStr (erSHA256 r))
      @ [(''capturedAt'', tj (erCapturedAt r)), (''windowStart'', tj (erWindowStart r)),
         (''windowEnd'', tj (erWindowEnd r))]
      @ omit_if (erContentType r = '''') ''contentType'' (JStr (erContentType r))
      @ omit_if (erQuery r = '''') ''query'' (JStr (erQuery r))
      @ omit_if (erCollectionID r = '''') ''collectionID'' (JStr (erCollectionID r)))"

definition gate_result_json :: "(gtime \<Rightarrow> json) \<Rightarrow> GateResult \<Rightarrow> json" where
  "gate_result_json tj g = JObj
     ([(''name'', JStr (grName g)), (''status'', JStr (gate_status_string (grStatus g)))]
      @ omit_if (grReason g = '''') ''reason'' (JStr (grReason g))
      @ omit_if (grMessage g = '''') ''message'' (JStr (grMessage g))
      @ [(''observedAt'', tj (grObservedAt g))]
      @ omit_if (grEvidence g = []) ''evidence'' (JArr (map (evidence_ref_json tj) (grEvidence g))))"

text \<open>\<open>now\<close> is the function's own reading of the clock. Marshalling these types cannot fail,
  so the error result of the source does not occur.\<close>

definition payload_to_hash ::
  "(gtime \<Rightarrow> json) \<Rightarrow> string \<Rightarrow> string \<Rightarrow> string \<Rightarrow> string \<Rightarrow> GateResult list \<Rightarrow> string" where
  "payload_to_hash tj reportID windowID baselineDigest overallResult gates =
     reportID @ '':'' @ windowID @ '':'' @ baselineDigest @ '':'' @ overallResult @ '':''
       @ json_compact (json_slice (gate_result_json tj) gates)"

definition GenerateSignedReport ::
  "(gtime \<Rightarrow> json) \<Rightarrow> gtime \<Rightarrow> string \<Rightarrow> string \<Rightarrow> GateResult list \<Rightarrow> string \<Rightarrow> 8 word list \<Rightarrow>
    SignedAuditReport" where
  "GenerateSignedReport tj now windowID baselineDigest gates overallResult secretKey =
     (let reportID = ''report-'' @ windowID @ ''-'' @ itoa (now div Second);
          payload = payload_to_hash tj reportID windowID baselineDigest overallResult gates;
          sha256Checksum = CalculateSHA256 (bytes_of payload);
          signature = SignHMAC256 (bytes_of sha256Checksum) secretKey
      in \<lparr>saReportID = reportID, saWindowID = windowID, saTimestamp = now,
          saBaselineDigest = baselineDigest, saEvidenceChecksumSHA256 = sha256Checksum,
          saHMACSignature = signature, saOverallResult = overallResult, saGateResults = gates\<rparr>)"

definition VerifyReportSignature :: "SignedAuditReport option \<Rightarrow> 8 word list \<Rightarrow> bool" where
  "VerifyReportSignature report secretKey =
     (case report of
        None \<Rightarrow> False
      | Some r \<Rightarrow>
          if saHMACSignature r = '''' then False
          else saHMACSignature r
            = SignHMAC256 (bytes_of (saEvidenceChecksumSHA256 r)) secretKey)"

section \<open>The contract of the signer\<close>

text \<open>A signer generates a report from the document it covers and a key; \<open>covers\<close> reads the
  document back from a report.\<close>

locale report_signer =
  fixes generate :: "'d \<Rightarrow> 'k \<Rightarrow> 'r"
    and verify :: "'r \<Rightarrow> 'k \<Rightarrow> bool"
    and covers :: "'r \<Rightarrow> 'd"
  assumes covers_generate: "covers (generate d k) = d"
    and verify_generate: "verify (generate d k) k"
begin

lemma generate_inject: "generate d k = generate d' k' \<Longrightarrow> d = d'"
  by (metis covers_generate)

lemma some_report_verifies: "\<exists>r. covers r = d \<and> verify r k"
  using covers_generate verify_generate by blast

end

type_synonym report_document = "gtime \<times> string \<times> string \<times> GateResult list \<times> string"

definition sign_document :: "(gtime \<Rightarrow> json) \<Rightarrow> report_document \<Rightarrow> 8 word list \<Rightarrow> SignedAuditReport" where
  "sign_document tj d k =
     (case d of (now, w, b, gs, res) \<Rightarrow> GenerateSignedReport tj now w b gs res k)"

definition report_covers :: "SignedAuditReport \<Rightarrow> report_document" where
  "report_covers r =
     (saTimestamp r, saWindowID r, saBaselineDigest r, saGateResults r, saOverallResult r)"

lemma length_SignHMAC256 [simp]: "length (SignHMAC256 p k) = 64"
  by (simp add: SignHMAC256_def)

lemma SignHMAC256_not_Nil [simp]: "SignHMAC256 p k \<noteq> []"
  by (metis length_SignHMAC256 length_0_conv zero_neq_numeral)

interpretation audit: report_signer "sign_document tj" "\<lambda>r. VerifyReportSignature (Some r)"
  report_covers for tj
  by unfold_locales
    (auto simp: sign_document_def report_covers_def GenerateSignedReport_def VerifyReportSignature_def
      Let_def split: prod.split)

section \<open>Properties\<close>

definition event_selected :: "EvidenceCorrelator \<Rightarrow> core_event \<Rightarrow> bool" where
  "event_selected e evt \<longleftrightarrow> evType evt = ''Warning''
     \<and> (ecWindowStart e = zero_time \<or> ecWindowStart e < evLastTimestamp evt)"

lemma fold_append_if:
  "(\<And>x acc. x \<in> set xs \<Longrightarrow> map h (f x acc) = (if P x then map h acc @ [g x] else map h acc)) \<Longrightarrow>
     map h (fold f xs acc) = map h acc @ map g (filter P xs)"
  by (induction xs arbitrary: acc) auto

text \<open>The correlated evidence has exactly one entry for every warning event after the start of
  the window (for every warning event when the window has no start), in order, followed by one
  critical entry for every log line that carries one of the four signals; an event is critical
  exactly when its reason names a failure, a stall or an error.\<close>

theorem CorrelateVMIM_spec:
  "map (\<lambda>c. (vceSource c, vceMessage c, vceSeverity c)) (CorrelateVMIM e clock events logs) =
     map (\<lambda>evt. (''Events'', evMessage evt,
            if list_ex (str_contains (evReason evt)) [''Failed'', ''Stalled'', ''Error'']
            then SeverityCritical else SeverityWarning))
       (filter (event_selected e) events)
     @ map (\<lambda>l. (''Logs'', l, SeverityCritical)) (filter log_signal logs)"
proof -
  let ?h = "\<lambda>c :: VCorrelatedEvidence. (vceSource c, vceMessage c, vceSeverity c)"
  have "map ?h (fold (event_evidence e) events []) = map ?h []
      @ map (\<lambda>evt. (''Events'', evMessage evt,
            if list_ex (str_contains (evReason evt)) [''Failed'', ''Stalled'', ''Error'']
            then SeverityCritical else SeverityWarning)) (filter (event_selected e) events)"
    by (rule fold_append_if [where h = ?h]) (auto simp: event_evidence_def event_selected_def time_is_zero_def)
  moreover have "map ?h (fold (log_evidence clock) logs acc) = map ?h acc
      @ map (\<lambda>l. (''Logs'', l, SeverityCritical)) (filter log_signal logs)" for acc
    by (rule fold_append_if [where h = ?h]) (simp add: log_evidence_def)
  ultimately show ?thesis by (simp add: CorrelateVMIM_def)
qed


text \<open>The verification reads only the stored checksum and signature: whatever overall result,
  gate results, window or baseline digest are put into a report, it verifies as before, so a
  report whose verdict was changed still passes the check.\<close>

theorem verify_ignores_content:
  "VerifyReportSignature
     (Some (r\<lparr>saOverallResult := res, saGateResults := gs, saWindowID := w, saBaselineDigest := b,
       saReportID := i, saTimestamp := t\<rparr>)) k = VerifyReportSignature (Some r) k"
  by (simp add: VerifyReportSignature_def)

end
