(* ===== verification/Window.thy ===== *)
theory Window
  imports Evidence Propagation
begin

text \<open>
  The helpers of \<open>internal/controller/changewindow_controller.go\<close> that a window reconcile
  calls: \<open>classifySilence\<close>, \<open>runParkedHardRefreshAction\<close>, \<open>captureBaseline\<close>,
  \<open>BuildKafkaReportJSON\<close> and the map function of the watch. A method that mutates the window
  through its pointer returns the new window.
\<close>

section \<open>Silence\<close>

definition reporting :: SilentClusterState where
  "reporting =
     \<lparr>scApp = '''', scCluster = '''', scState = ''Reporting'', scLastSeenAt = zero_time,
      scSilentForSeconds = 0\<rparr>"

definition classifySilence ::
  "string \<Rightarrow> ClusterRevisionState \<Rightarrow> ChangeWindow \<Rightarrow> gtime \<Rightarrow> duration \<Rightarrow> SilentClusterState" where
  "classifySilence appName cs chg now staleThreshold =
     (let age = time_sub now (csObservedAt cs) in
      if age \<le> staleThreshold then reporting
      else
        (let start = cwStartTime (chgSpec chg);
             saw = (csSawReportSinceChgStart cs \<or> csObservedAt cs > start \<or> csObservedAt cs = start)
         in \<lparr>scApp = appName, scCluster = csClusterName cs,
             scState = (if \<not> saw then ''SilentBeforeChgStart'' else ''WentSilentDuringChg''),
             scLastSeenAt = csObservedAt cs,
             scSilentForSeconds = f64_to_int (duration_seconds age)\<rparr>))"

section \<open>The parked hard refresh action\<close>

definition action_key :: "string \<Rightarrow> ClusterRevisionState \<Rightarrow> string" where
  "action_key appName cs = appName @ ''/'' @ csClusterName cs"

definition get_actions :: "ChangeWindow \<Rightarrow> ActionRecord gomap" where
  "get_actions chg = (case stActions (chgStatus chg) of None \<Rightarrow> [] | Some m \<Rightarrow> m)"

definition put_action :: "string \<Rightarrow> ActionRecord \<Rightarrow> ChangeWindow \<Rightarrow> ChangeWindow" where
  "put_action key action chg =
     chg\<lparr>chgStatus := (chgStatus chg)
       \<lparr>stActions := Some (gm_put (get_actions chg) key action)\<rparr>\<rparr>"

definition new_action :: "ChangeWindow \<Rightarrow> string \<Rightarrow> ClusterRevisionState \<Rightarrow> ActionRecord" where
  "new_action chg appName cs =
     \<lparr>arApp = appName, arCluster = csClusterName cs, arAttempts = 0,
      arMaxAttempts = orDefault (hrMaxAttempts (cwHardRefresh (chgSpec chg))) 2,
      arResult = ''Pending'', arLastAttemptAt = zero_time, arNextEligibleAt = zero_time,
      arHistory = []\<rparr>"

definition park_attempt ::
  "string \<Rightarrow> ClusterRevisionState \<Rightarrow> gtime \<Rightarrow> duration \<Rightarrow> ActionRecord \<Rightarrow> ActionRecord" where
  "park_attempt appName cs now waitInterval action =
     (let n = arAttempts action + 1 in
      action\<lparr>arAttempts := n, arLastAttemptAt := now, arNextEligibleAt := now + waitInterval,
        arResult := ''Parked'',
        arHistory := arHistory action @
          [\<lparr>ahAttempt = n, ahType = ''HardRefresh'', ahTriggeredAt = now,
            ahTriggerResult = ''Parked (Execution disabled in operator config)'',
            ahLogRef = '''',
            ahLogSummary = ''Parked hard refresh action evaluated for '' @ appName
              @ '' on cluster '' @ csClusterName cs,
            ahTailLogs = []\<rparr>]\<rparr>)"

definition runParkedHardRefreshAction ::
  "ChangeWindow \<Rightarrow> string \<Rightarrow> ClusterRevisionState \<Rightarrow> gtime \<Rightarrow> ChangeWindow" where
  "runParkedHardRefreshAction chg appName cs now =
     (let key = action_key appName cs;
          action = (case gm_get (get_actions chg) key of
                      None \<Rightarrow> new_action chg appName cs | Some a \<Rightarrow> a);
          maxAttempts = orDefault (hrMaxAttempts (cwHardRefresh (chgSpec chg))) 2;
          waitInterval =
            seconds32 (orDefault (hrWaitBetweenSeconds (cwHardRefresh (chgSpec chg))) 180)
      in if csState cs = ''InSync'' then
           put_action key
             (if sint (arAttempts action) > 0 \<and> arResult action \<noteq> ''Resolved''
              then action\<lparr>arResult := ''Resolved''\<rparr> else action) chg
         else if sint (arAttempts action) \<ge> sint maxAttempts then
           put_action key (action\<lparr>arResult := ''ExhaustedRetries''\<rparr>) chg
         else if \<not> time_is_zero (arLastAttemptAt action)
             \<and> time_sub now (arLastAttemptAt action) < waitInterval then chg
         else put_action key (park_attempt appName cs now waitInterval action) chg)"

section \<open>The baseline\<close>

definition short_digest :: "string list \<Rightarrow> string" where
  "short_digest ss = take 16 (hex_encode (sha256 (bytes_of (join '','' (sort ss)))))"

definition operator_line :: "ClusterOperatorStatus \<Rightarrow> string" where
  "operator_line co =
     coName co @ ''='' @ coVersion co @ ''/'' @ boolv (coAvailable co) @ ''/'' @ boolv (coDegraded co)"

definition pool_line :: "MachineConfigPoolStatus \<Rightarrow> string" where
  "pool_line mcp =
     mcpName mcp @ ''='' @ mcpPhase mcp @ ''/'' @ mcpCurrentRenderedConfig mcp"

definition baseline_cluster :: "ClusterRevisionState \<Rightarrow> BaselineSnapshot \<Rightarrow> BaselineSnapshot" where
  "baseline_cluster cs b =
     (let po = csPlatformObservation cs;
          keep = (\<lambda>new old. if new \<noteq> '''' then new else old)
      in b\<lparr>bsClusterVersion := keep (cvVersion (poClusterVersion po)) (bsClusterVersion b),
           bsKubeVirtVersion := keep (odObservedVersion (poKubeVirt po)) (bsKubeVirtVersion b),
           bsCDIVersion := keep (odObservedVersion (poCDI po)) (bsCDIVersion b),
           bsSSPVersion := keep (odObservedVersion (poSSP po)) (bsSSPVersion b),
           bsClusterOperatorDigest :=
             (if poClusterOperators po \<noteq> [] then short_digest (map operator_line (poClusterOperators po))
              else bsClusterOperatorDigest b),
           bsMachineConfigPoolHash :=
             (if poMachineConfigPools po \<noteq> [] then short_digest (map pool_line (poMachineConfigPools po))
              else bsMachineConfigPoolHash b)\<rparr>)"

fun baseline_loop :: "ClusterRevisionState list \<Rightarrow> BaselineSnapshot \<Rightarrow> BaselineSnapshot" where
  "baseline_loop [] b = b"
| "baseline_loop (cs # css) b =
     (let b' = baseline_cluster cs b in
      if bsClusterVersion b' \<noteq> '''' \<or> bsKubeVirtVersion b' \<noteq> '''' then b'
      else baseline_loop css b')"

definition empty_baseline :: "gtime \<Rightarrow> BaselineSnapshot" where
  "empty_baseline now =
     \<lparr>bsCapturedAt = now, bsClusterVersion = '''', bsMachineConfigPoolHash = '''',
      bsKubeVirtVersion = '''', bsCDIVersion = '''', bsSSPVersion = '''',
      bsClusterOperatorDigest = ''''\<rparr>"

definition captureBaseline ::
  "iter_order \<Rightarrow> AppClusterStateMap gomap \<Rightarrow> gtime \<Rightarrow> BaselineSnapshot" where
  "captureBaseline it appStates now =
     baseline_loop (concat (map (\<lambda>a. acClusterStates (snd a)) (range_map it appStates)))
       (empty_baseline now)"

section \<open>The report for Kafka\<close>

text \<open>
  The two time formats: \<open>metav1.Time\<close>'s JSON form, and \<open>Format(time.RFC3339)\<close> in the
  process's local zone.
\<close>

record time_fmt =
  tfMeta :: "gtime \<Rightarrow> json"
  tfRFC3339 :: "gtime \<Rightarrow> string"

definition silent_json :: "time_fmt \<Rightarrow> SilentClusterState \<Rightarrow> json" where
  "silent_json T s = JObj
     [(''app'', JStr (scApp s)), (''cluster'', JStr (scCluster s)), (''state'', JStr (scState s)),
      (''lastSeenAt'', tfMeta T (scLastSeenAt s)),
      (''silentForSeconds'', JInt (scSilentForSeconds s))]"

definition attempt_json :: "time_fmt \<Rightarrow> ActionAttemptHistory \<Rightarrow> json" where
  "attempt_json T h = JObj
     ([(''attempt'', JInt (sint (ahAttempt h))), (''type'', JStr (ahType h)),
       (''triggeredAt'', tfMeta T (ahTriggeredAt h)),
       (''triggerResult'', JStr (ahTriggerResult h))]
      @ omit_if (ahLogRef h = '''') ''logRef'' (JStr (ahLogRef h))
      @ omit_if (ahLogSummary h = '''') ''logSummary'' (JStr (ahLogSummary h))
      @ omit_if (ahTailLogs h = []) ''tailLogs'' (JArr (map JStr (ahTailLogs h))))"

definition action_json :: "time_fmt \<Rightarrow> ActionRecord \<Rightarrow> json" where
  "action_json T a = JObj
     ([(''app'', JStr (arApp a)), (''cluster'', JStr (arCluster a)),
       (''attempts'', JInt (sint (arAttempts a))), (''maxAttempts'', JInt (sint (arMaxAttempts a))),
       (''result'', JStr (arResult a)), (''lastAttemptAt'', tfMeta T (arLastAttemptAt a)),
       (''nextEligibleAt'', tfMeta T (arNextEligibleAt a))]
      @ omit_if (arHistory a = []) ''history'' (JArr (map (attempt_json T) (arHistory a))))"

definition validation_json :: "time_fmt \<Rightarrow> ValidationResult \<Rightarrow> json" where
  "validation_json T v = JObj
     ([(''allChangesApplied'', JBool (vrAllChangesApplied v)),
       (''healthCheckPassed'', JBool (vrHealthCheckPassed v)),
       (''mcpUpdatedOnTime'', JBool (vrMCPUpdatedOnTime v)),
       (''eventsClean'', JBool (vrEventsClean v)),
       (''objectsConverged'', JBool (vrObjectsConverged v)),
       (''dependenciesReady'', JBool (vrDependenciesReady v)),
       (''virtImpactPassed'', JBool (vrVirtImpactPassed v)),
       (''clusterOperatorsHealthy'', JBool (vrClusterOperatorsHealthy v))]
      @ omit_if (vrGateResults v = []) ''gateResults''
          (JArr (map (gate_result_json (tfMeta T)) (vrGateResults v)))
      @ omit_if (vrIssuesFound v = []) ''issuesFound'' (JArr (map JStr (vrIssuesFound v)))
      @ [(''passed'', JBool (vrPassed v))])"

definition baseline_json :: "time_fmt \<Rightarrow> BaselineSnapshot \<Rightarrow> json" where
  "baseline_json T b =
     (let str = (\<lambda>k s. omit_if (s = '''') k (JStr s)) in JObj
     ([(''capturedAt'', tfMeta T (bsCapturedAt b))]
      @ str ''clusterVersion'' (bsClusterVersion b)
      @ str ''machineConfigPoolHash'' (bsMachineConfigPoolHash b)
      @ str ''kubeVirtVersion'' (bsKubeVirtVersion b)
      @ str ''cdiVersion'' (bsCDIVersion b)
      @ str ''sspVersion'' (bsSSPVersion b)
      @ str ''clusterOperatorDigest'' (bsClusterOperatorDigest b)))"

definition timeline_json :: "time_fmt \<Rightarrow> TimelineEntry \<Rightarrow> json" where
  "timeline_json T t = JObj
     ([(''timestamp'', tfMeta T (tlTimestamp t)), (''stage'', JStr (tlStage t)),
       (''category'', JStr (tlCategory t)), (''resource'', JStr (tlResource t)),
       (''event'', JStr (tlEvent t)), (''description'', JStr (tlDescription t))]
      @ omit_if (tlCausalImpact t = '''') ''causalImpact'' (JStr (tlCausalImpact t)))"

definition kafka_report :: "time_fmt \<Rightarrow> ChangeWindow \<Rightarrow> gtime \<Rightarrow> json" where
  "kafka_report T chg now =
     (let sp = chgSpec chg; st = chgStatus chg;
          dataMap = json_map
            [(''chgNumber'', JStr (cwCHGNumber sp)),
             (''releaseTag'', JStr (cwReleaseTag sp)),
             (''expectedRevision'', JStr (cwExpectedRevision sp)),
             (''reportGeneratedAt'', JStr (tfRFC3339 T now)),
             (''window'', json_map
               [(''start'', JStr (tfRFC3339 T (cwStartTime sp))),
                (''end'', JStr (tfRFC3339 T (cwEndTime sp)))]),
             (''phase'', JStr (stPhase st)),
             (''overallStatus'', JStr (stOverallStatus st)),
             (''rootApp'', JStr (cwRootApp sp)),
             (''silentClusters'', json_slice (silent_json T) (stSilentClusters st)),
             (''actionsApplied'',
               (case stActions st of None \<Rightarrow> JNull
                | Some m \<Rightarrow> json_map (map (\<lambda>(k, a). (k, action_json T a)) m))),
             (''validation'', validation_json T (stValidation st)),
             (''baseline'',
               (case stBaseline st of None \<Rightarrow> JNull | Some b \<Rightarrow> baseline_json T b)),
             (''timeline'', json_slice (timeline_json T) (stTimeline st))]
      in json_map
           [(''specversion'', JStr ''1.0''),
            (''id'', JStr (cwCHGNumber sp @ ''-'' @ itoa (now div Second))),
            (''type'', JStr ''com.example.drift.validation.report''),
            (''source'', JStr (''/chgdrift-operator/'' @ cwCHGNumber sp)),
            (''time'', JStr (tfRFC3339 T now)),
            (''datacontenttype'', JStr ''application/json''),
            (''data'', dataMap)])"

definition BuildKafkaReportJSON :: "time_fmt \<Rightarrow> ChangeWindow \<Rightarrow> gtime \<Rightarrow> string" where
  "BuildKafkaReportJSON T chg now = json_indent 0 (kafka_report T chg now)"

section \<open>From a status to the windows to reconcile\<close>

definition mapPropagationStatusToChangeWindow ::
  "(string \<Rightarrow> string \<Rightarrow> nat \<Rightarrow> go_error + ChangeWindow list) \<Rightarrow> PropagationStatus \<Rightarrow>
    (string \<times> string) list" where
  "mapPropagationStatusToChangeWindow lst ps =
     (if psAppName (psSpec ps) = '''' then []
      else case lst (psNamespace ps) (psAppName (psSpec ps)) 100 of
             Inl e \<Rightarrow> []
           | Inr items \<Rightarrow> map (\<lambda>c. (chgNamespace c, chgName c)) items)"

end
