(* ===== verification/WindowProps.thy ===== *)
theory WindowProps
  imports Window Samples
begin

text \<open>
  Properties of the window helpers: silence and its reported length, the bound and the spacing
  of the parked hard refresh attempts as an invariant of the action map, the cluster a baseline
  is taken from, and what the report for Kafka says.
\<close>

section \<open>Silence\<close>

lemma orDefault_pos: "0 < sint def \<Longrightarrow> 0 < sint (orDefault v def)"
  by (simp add: orDefault_def)

lemma time_sub_gt:
  assumes "sint n * Second < t - u" "0 < sint n"
  shows "0 \<le> time_sub t u" "time_sub t u \<le> max_duration"
proof -
  have "0 \<le> sint n * Second" using assms(2) by (simp add: Second_def)
  then have "0 \<le> t - u" using assms(1) by linarith
  then show "0 \<le> time_sub t u" "time_sub t u \<le> max_duration"
    by (auto simp: time_sub_def max_duration_def min_duration_def)
qed

lemma time_sub_seconds32_le: "time_sub t u \<le> seconds32 n \<longleftrightarrow> t - u \<le> sint n * Second"
  using seconds32_compare(1) [of t u n] by (simp only: seconds32_eq)

lemma time_sub_seconds32_less: "time_sub t u < seconds32 n \<longleftrightarrow> t - u < sint n * Second"
  using seconds32_compare(2) [of t u n] by (simp only: seconds32_eq)

text \<open>C35: A cluster counts as silent exactly when its last report is older than the stale threshold
  (300 seconds unless the window sets a positive one); the silence began during the change
  exactly when a report at or after the start was seen; and the reported number of seconds is
  the age of the report rounded down, or one more where the conversion through a 64-bit float
  rounds up.\<close>

theorem classifySilence_correct:
  fixes chg :: ChangeWindow and now :: gtime and cs :: ClusterRevisionState and app :: string
  defines "thr \<equiv> orDefault (cwStaleReportThresholdSeconds (chgSpec chg)) 300"
  defines "s \<equiv> classifySilence app cs chg now (seconds32 thr)"
  shows "(scState s = ''Reporting'' \<longleftrightarrow> now - csObservedAt cs \<le> sint thr * Second)
    \<and> (scState s \<noteq> ''Reporting'' \<longrightarrow>
        (scState s = ''WentSilentDuringChg'' \<longleftrightarrow>
          csSawReportSinceChgStart cs \<or> cwStartTime (chgSpec chg) \<le> csObservedAt cs)
        \<and> scApp s = app \<and> scCluster s = csClusterName cs
        \<and> time_sub now (csObservedAt cs) div Second \<le> scSilentForSeconds s
        \<and> scSilentForSeconds s \<le> time_sub now (csObservedAt cs) div Second + 1)"
proof (cases "now - csObservedAt cs \<le> sint thr * Second")
  case True
  then show ?thesis
    by (simp add: s_def classifySilence_def Let_def time_sub_seconds32_le reporting_def)
next
  case False
  have "0 < sint thr" unfolding thr_def by (rule orDefault_pos) simp
  then have "0 \<le> time_sub now (csObservedAt cs)" "time_sub now (csObservedAt cs) \<le> max_duration"
    using False time_sub_gt [of thr now "csObservedAt cs"] by auto
  from duration_seconds_bounds [OF this] False show ?thesis
    by (auto simp: s_def classifySilence_def Let_def time_sub_seconds32_le)
qed

lemma classifySilence_correct_witness:
  "scState (classifySilence ''a'' good_cluster good_window 0 (seconds32 (orDefault 0 300)))
     \<noteq> ''Reporting''
   \<and> (scState (classifySilence ''a'' good_cluster good_window 0 (seconds32 (orDefault 0 300)))
       = ''WentSilentDuringChg'') = (0 \<le> zero_time)"
proof -
  have w: "cwStaleReportThresholdSeconds (chgSpec good_window) = 0"
    "cwStartTime (chgSpec good_window) = 0" "csObservedAt good_cluster = zero_time"
    "csSawReportSinceChgStart good_cluster = False"
    by (simp_all add: good_window_def sample_window_def sample_spec_def good_cluster_def
        zero_ClusterRevisionState_def)
  have "\<not> 0 - zero_time \<le> sint (orDefault 0 300) * Second"
    by (simp add: zero_time_def orDefault_def Second_def)
  then show ?thesis
    using classifySilence_correct [of "''a''" good_cluster good_window 0] unfolding w by blast
qed

section \<open>Parked hard refresh\<close>

definition max_attempts :: "ChangeWindow \<Rightarrow> int" where
  "max_attempts chg = sint (orDefault (hrMaxAttempts (cwHardRefresh (chgSpec chg))) 2)"

definition wait_between :: "ChangeWindow \<Rightarrow> duration" where
  "wait_between chg = sint (orDefault (hrWaitBetweenSeconds (cwHardRefresh (chgSpec chg))) 180) * Second"

definition action_ok :: "int \<Rightarrow> duration \<Rightarrow> ActionRecord \<Rightarrow> bool" where
  "action_ok m w a \<longleftrightarrow>
     sint (arAttempts a) \<le> m \<and> int (length (arHistory a)) = sint (arAttempts a)
     \<and> successively (\<lambda>s t. s + w \<le> t) (map ahTriggeredAt (arHistory a))
     \<and> list_all (\<lambda>h. \<not> time_is_zero (ahTriggeredAt h)) (arHistory a)
     \<and> arLastAttemptAt a =
         (if arHistory a = [] then zero_time else ahTriggeredAt (last (arHistory a)))"

definition actions_ok :: "ChangeWindow \<Rightarrow> bool" where
  "actions_ok chg \<longleftrightarrow>
     (\<forall>k a. gm_get (get_actions chg) k = Some a \<longrightarrow> action_ok (max_attempts chg) (wait_between chg) a)"

lemma put_action_simps [simp]:
  "gm_get (get_actions (put_action k a chg)) k' = (if k' = k then Some a else gm_get (get_actions chg) k')"
  "chgSpec (put_action k a chg) = chgSpec chg"
  by (simp_all add: put_action_def get_actions_def gm.get_put)

lemma actions_ok_put:
  "actions_ok chg \<Longrightarrow> action_ok (max_attempts chg) (wait_between chg) a \<Longrightarrow>
     actions_ok (put_action k a chg)"
  by (simp add: actions_ok_def max_attempts_def wait_between_def)

lemma action_ok_result [simp]: "action_ok m w (a\<lparr>arResult := r\<rparr>) = action_ok m w a"
  by (simp add: action_ok_def)

lemma sint_succ32: "sint (n :: int32) < 2 ^ 31 - 1 \<Longrightarrow> sint (n + 1) = sint n + 1"
  using sint32_bounds(1) [of n]
  by (simp add: sint_word_ariths signed_take_bit_int_eq_self)

lemma action_ok_park:
  assumes ok: "action_ok m w a" and less: "sint (arAttempts a) < m" and m: "m < 2 ^ 31"
    and now: "\<not> time_is_zero now"
    and wait: "\<not> time_is_zero (arLastAttemptAt a) \<Longrightarrow> w \<le> now - arLastAttemptAt a"
  shows "action_ok m w (park_attempt app cs now d a)"
proof -
  have succ: "sint (arAttempts a + 1) = sint (arAttempts a) + 1"
    by (rule sint_succ32) (use less m in linarith)
  have "arHistory a \<noteq> [] \<Longrightarrow> ahTriggeredAt (last (arHistory a)) + w \<le> now"
    using ok wait by (auto simp: action_ok_def list_all_iff)
  then show ?thesis
    using ok less now succ
    by (cases "arHistory a = []")
      (auto simp: action_ok_def park_attempt_def Let_def successively_append_iff last_map)
qed

lemma action_ok_new: "action_ok (max_attempts chg) w (new_action chg app cs)"
  using orDefault_pos [of 2 "hrMaxAttempts (cwHardRefresh (chgSpec chg))"]
  by (simp add: action_ok_def new_action_def max_attempts_def)

lemma max_attempts_bound: "max_attempts chg < 2 ^ 31"
  using sint32_bounds(2) by (simp add: max_attempts_def)

lemma runParked_actions_ok:
  assumes "actions_ok chg" "\<not> time_is_zero now"
  shows "actions_ok (runParkedHardRefreshAction chg app cs now)"
proof -
  define a where "a = (case gm_get (get_actions chg) (action_key app cs) of
      None \<Rightarrow> new_action chg app cs | Some a \<Rightarrow> a)"
  have ok: "action_ok (max_attempts chg) (wait_between chg) a"
    using assms(1) action_ok_new by (auto simp: a_def actions_ok_def split: option.split)
  have park: "action_ok (max_attempts chg) (wait_between chg) (park_attempt app cs now d a)"
    if "sint (arAttempts a) < max_attempts chg"
      "time_is_zero (arLastAttemptAt a) \<or> \<not> now - arLastAttemptAt a < wait_between chg" for d
    using that by (intro action_ok_park [OF ok _ max_attempts_bound assms(2)]) auto
  show ?thesis
    unfolding runParkedHardRefreshAction_def Let_def a_def [symmetric] max_attempts_def [symmetric]
      time_sub_seconds32_less wait_between_def [symmetric]
    using assms(1) ok park by (auto intro!: actions_ok_put)
qed

text \<open>Parking a hard refresh keeps every action record well-formed: never more attempts than the
  configured maximum, one history entry per attempt, two attempts at least the configured wait
  apart (with 32-bit counters that do not overflow), and it changes no other record.\<close>

theorem parked_refresh_invariant:
  assumes "actions_ok chg" "\<not> time_is_zero now"
  shows "actions_ok (runParkedHardRefreshAction chg app cs now)
    \<and> (\<forall>k. k \<noteq> action_key app cs \<longrightarrow>
        gm_get (get_actions (runParkedHardRefreshAction chg app cs now)) k = gm_get (get_actions chg) k)"
  using runParked_actions_ok [OF assms]
  by (simp add: runParkedHardRefreshAction_def Let_def)

lemma parked_refresh_invariant_witness:
  "actions_ok (runParkedHardRefreshAction good_window ''a'' upgrading_cluster 5)"
  by (rule parked_refresh_invariant [THEN conjunct1])
    (simp_all add: actions_ok_def get_actions_def good_window_def sample_window_def
      zero_ChangeWindowStatus_def gm_get_def time_is_zero_def zero_time_def)

text \<open>A diverged cluster gets a new attempt exactly when it has attempts left and never had one
  or waited long enough; out of attempts its record says \<open>ExhaustedRetries\<close>.\<close>

theorem parked_refresh_progress:
  assumes "csState cs \<noteq> ''InSync''" "gm_get (get_actions chg) (action_key app cs) = Some a"
  shows "gm_get (get_actions (runParkedHardRefreshAction chg app cs now)) (action_key app cs) = Some
    (if max_attempts chg \<le> sint (arAttempts a) then a\<lparr>arResult := ''ExhaustedRetries''\<rparr>
     else if time_is_zero (arLastAttemptAt a) \<or> wait_between chg \<le> now - arLastAttemptAt a
     then park_attempt app cs now (wait_between chg) a else a)"
  using assms unfolding runParkedHardRefreshAction_def Let_def time_sub_seconds32_less
  by (auto simp: max_attempts_def wait_between_def seconds32_eq)

lemma parked_refresh_progress_witness:
  "let cs = good_cluster\<lparr>csState := ''Diverged''\<rparr>;
       w1 = runParkedHardRefreshAction good_window ''a'' cs 5;
       a = park_attempt ''a'' cs 5 (wait_between good_window) (new_action good_window ''a'' cs)
   in gm_get (get_actions (runParkedHardRefreshAction w1 ''a'' cs 6)) ''a/c1'' = Some a"
proof -
  let ?cs = "good_cluster\<lparr>csState := ''Diverged''\<rparr>"
  let ?w1 = "runParkedHardRefreshAction good_window ''a'' ?cs 5"
  let ?a = "park_attempt ''a'' ?cs 5 (wait_between good_window) (new_action good_window ''a'' ?cs)"
  have "csState ?cs \<noteq> ''InSync''" by simp
  moreover have "gm_get (get_actions ?w1) (action_key ''a'' ?cs) = Some ?a" by code_simp
  moreover have "\<not> max_attempts ?w1 \<le> sint (arAttempts ?a)"
    "\<not> (time_is_zero (arLastAttemptAt ?a) \<or> wait_between ?w1 \<le> 6 - arLastAttemptAt ?a)"
    "action_key ''a'' ?cs = ''a/c1''"
    by code_simp+
  ultimately show ?thesis
    using parked_refresh_progress [of ?cs ?w1 "''a''" ?a 6] by (simp add: Let_def)
qed

section \<open>The baseline\<close>

definition has_versions :: "ClusterRevisionState \<Rightarrow> bool" where
  "has_versions cs \<longleftrightarrow> cvVersion (poClusterVersion (csPlatformObservation cs)) \<noteq> ''''
     \<or> odObservedVersion (poKubeVirt (csPlatformObservation cs)) \<noteq> ''''"

lemma baseline_loop_versions:
  "bsClusterVersion b = '''' \<Longrightarrow> bsKubeVirtVersion b = '''' \<Longrightarrow>
     bsClusterVersion (baseline_loop css b) = (case find has_versions css of None \<Rightarrow> ''''
        | Some cs \<Rightarrow> cvVersion (poClusterVersion (csPlatformObservation cs)))
     \<and> bsKubeVirtVersion (baseline_loop css b) = (case find has_versions css of None \<Rightarrow> ''''
        | Some cs \<Rightarrow> odObservedVersion (poKubeVirt (csPlatformObservation cs)))"
  by (induction css arbitrary: b) (auto simp: has_versions_def baseline_cluster_def Let_def)

lemma baseline_loop_digests:
  "length (bsClusterOperatorDigest b) \<in> {0, 16} \<Longrightarrow> length (bsMachineConfigPoolHash b) \<in> {0, 16} \<Longrightarrow>
     length (bsClusterOperatorDigest (baseline_loop css b)) \<in> {0, 16}
     \<and> length (bsMachineConfigPoolHash (baseline_loop css b)) \<in> {0, 16}"
proof (induction css arbitrary: b)
  case (Cons cs css)
  have "length (short_digest ss) = 16" for ss by (simp add: short_digest_def)
  then have "length (bsClusterOperatorDigest (baseline_cluster cs b)) \<in> {0, 16}"
    "length (bsMachineConfigPoolHash (baseline_cluster cs b)) \<in> {0, 16}"
    using Cons.prems by (simp_all add: baseline_cluster_def Let_def)
  with Cons.IH show ?case by (simp add: Let_def)
qed simp

lemma baseline_loop_captured: "bsCapturedAt (baseline_loop css b) = bsCapturedAt b"
  by (induction css arbitrary: b) (simp_all add: baseline_cluster_def Let_def)

text \<open>The baseline's OpenShift and KubeVirt versions are those of the first cluster, in the
  order of the visit, that reports one of the two, and empty when none does; the digests are
  absent or 16 hexadecimal digits.\<close>

theorem captureBaseline_correct:
  "let css = concat (map (\<lambda>a. acClusterStates (snd a)) (range_map it apps));
       b = captureBaseline it apps now
   in bsCapturedAt b = now
      \<and> bsClusterVersion b = (case find has_versions css of None \<Rightarrow> ''''
          | Some cs \<Rightarrow> cvVersion (poClusterVersion (csPlatformObservation cs)))
      \<and> bsKubeVirtVersion b = (case find has_versions css of None \<Rightarrow> ''''
          | Some cs \<Rightarrow> odObservedVersion (poKubeVirt (csPlatformObservation cs)))
      \<and> length (bsClusterOperatorDigest b) \<in> {0, 16}
      \<and> length (bsMachineConfigPoolHash b) \<in> {0, 16}"
  unfolding captureBaseline_def Let_def
  using baseline_loop_versions [of "empty_baseline now"] baseline_loop_digests [of "empty_baseline now"]
    baseline_loop_captured [of _ "empty_baseline now"]
  by (simp add: empty_baseline_def)

text \<open>A baseline can mix clusters: the CDI version (like the SSP version and the digests) of a
  cluster without OpenShift and KubeVirt versions stays in the baseline that takes these
  versions from a later cluster.\<close>

theorem baseline_mixes_clusters:
  "\<exists>c1 c2 :: ClusterRevisionState.
     let b = captureBaseline (\<lambda>ks. ks) [(''a'', app_of [c1, c2])] 0 in
     bsCDIVersion b = odObservedVersion (poCDI (csPlatformObservation c1))
     \<and> bsClusterVersion b = cvVersion (poClusterVersion (csPlatformObservation c2))
     \<and> bsCDIVersion b = ''v1'' \<and> bsClusterVersion b = ''4.16''
     \<and> cvVersion (poClusterVersion (csPlatformObservation c1)) = ''''
     \<and> odObservedVersion (poCDI (csPlatformObservation c2)) = ''''"
proof -
  let ?c1 = "zero_ClusterRevisionState\<lparr>csPlatformObservation := zero_PlatformObservationStatus
      \<lparr>poCDI := zero_OperatorDeployStatus\<lparr>odObservedVersion := ''v1''\<rparr>\<rparr>\<rparr>"
  let ?c2 = "zero_ClusterRevisionState\<lparr>csPlatformObservation := zero_PlatformObservationStatus
      \<lparr>poClusterVersion := zero_ClusterVersionStatus\<lparr>cvVersion := ''4.16''\<rparr>\<rparr>\<rparr>"
  show ?thesis
    by (rule exI [of _ ?c1], rule exI [of _ ?c2])
      (simp add: captureBaseline_def range_map_def gm_get_def gm_keys_def app_of_def
        baseline_cluster_def empty_baseline_def zero_PlatformObservationStatus_def
        zero_ClusterRevisionState_def zero_OperatorDeployStatus_def zero_ClusterVersionStatus_def
        Let_def)
qed

section \<open>The report for Kafka\<close>

text \<open>The report is a CloudEvent of the validation type for the window's change number whose
  data carry the phase, the overall status and the verdict of the validation as the status
  has them.\<close>

theorem kafka_report_content:
  "json_get ''type'' (kafka_report T chg now) = Some (JStr ''com.example.drift.validation.report'')
   \<and> json_get ''source'' (kafka_report T chg now) =
       Some (JStr (''/chgdrift-operator/'' @ cwCHGNumber (chgSpec chg)))
   \<and> (\<exists>d v. json_get ''data'' (kafka_report T chg now) = Some d
        \<and> json_get ''chgNumber'' d = Some (JStr (cwCHGNumber (chgSpec chg)))
        \<and> json_get ''phase'' d = Some (JStr (stPhase (chgStatus chg)))
        \<and> json_get ''overallStatus'' d = Some (JStr (stOverallStatus (chgStatus chg)))
        \<and> json_get ''validation'' d = Some v
        \<and> json_get ''passed'' v = Some (JBool (vrPassed (stValidation (chgStatus chg)))))"
  by (simp add: kafka_report_def Let_def json_get_json_map validation_json_def omit_if_def)

end
