(* ===== verification/ActionRun.thy ===== *)
theory ActionRun
  imports WindowProps
begin

text \<open>
  The parked hard refresh of one cluster over a sequence of visits: the retries end, after
  exactly the configured number of attempts, and the record then stays as it is.
\<close>

definition visits :: "string \<Rightarrow> ClusterRevisionState \<Rightarrow> gtime list \<Rightarrow> ChangeWindow \<Rightarrow> ChangeWindow" where
  "visits app cs ts chg = fold (\<lambda>t chg. runParkedHardRefreshAction chg app cs t) ts chg"

definition action_of :: "ChangeWindow \<Rightarrow> string \<Rightarrow> ClusterRevisionState \<Rightarrow> ActionRecord" where
  "action_of chg app cs =
     (case gm_get (get_actions chg) (action_key app cs) of None \<Rightarrow> new_action chg app cs | Some a \<Rightarrow> a)"

text \<open>Visits that are far enough apart for every one of them to be due.\<close>

fun all_due :: "duration \<Rightarrow> gtime \<Rightarrow> gtime list \<Rightarrow> bool" where
  "all_due w l [] = True"
| "all_due w l (t # ts) = ((time_is_zero l \<or> w \<le> t - l) \<and> \<not> time_is_zero t \<and> all_due w t ts)"

lemma visits_simps [simp]:
  "visits app cs [] chg = chg"
  "visits app cs (t # ts) chg = visits app cs ts (runParkedHardRefreshAction chg app cs t)"
  by (simp_all add: visits_def)

lemma run_action:
  assumes "csState cs \<noteq> ''InSync''"
  shows "runParkedHardRefreshAction chg app cs t =
    (if max_attempts chg \<le> sint (arAttempts (action_of chg app cs)) then
       put_action (action_key app cs) ((action_of chg app cs)\<lparr>arResult := ''ExhaustedRetries''\<rparr>) chg
     else if time_is_zero (arLastAttemptAt (action_of chg app cs))
         \<or> wait_between chg \<le> t - arLastAttemptAt (action_of chg app cs) then
       put_action (action_key app cs)
         (park_attempt app cs t (wait_between chg) (action_of chg app cs)) chg
     else chg)"
  using assms unfolding runParkedHardRefreshAction_def Let_def time_sub_seconds32_less
  by (auto simp: max_attempts_def wait_between_def seconds32_eq action_of_def)

lemma action_of_put: "action_of (put_action (action_key app cs) a chg) app cs = a"
  by (simp add: action_of_def)

lemma spec_put:
  "max_attempts (put_action k a chg) = max_attempts chg"
  "wait_between (put_action k a chg) = wait_between chg"
  by (simp_all add: max_attempts_def wait_between_def)

lemma park_fields:
  "arAttempts (park_attempt app cs t w a) = arAttempts a + 1"
  "arLastAttemptAt (park_attempt app cs t w a) = t"
  by (simp_all add: park_attempt_def Let_def)

text \<open>Once exhausted, always exhausted, with the same record.\<close>

lemma exhausted_stays:
  assumes "csState cs \<noteq> ''InSync''" "gm_get (get_actions chg) (action_key app cs) = Some a"
    and "max_attempts chg \<le> sint (arAttempts a)" "arResult a = ''ExhaustedRetries''"
  shows "gm_get (get_actions (visits app cs ts chg)) (action_key app cs) = Some a"
  using assms(2,3)
proof (induction ts arbitrary: chg)
  case (Cons t ts)
  have act: "action_of chg app cs = a" by (simp add: action_of_def Cons.prems(1))
  have "a\<lparr>arResult := ''ExhaustedRetries''\<rparr> = a" using assms(4) by (cases a) simp
  then have "runParkedHardRefreshAction chg app cs t = put_action (action_key app cs) a chg"
    using Cons.prems(2) by (simp add: run_action [OF assms(1)] act)
  then show ?case using Cons by (simp add: spec_put)
qed simp

lemma due_visits:
  assumes state: "csState cs \<noteq> ''InSync''"
    and "all_due (wait_between chg) (arLastAttemptAt (action_of chg app cs)) ts"
    and "sint (arAttempts (action_of chg app cs)) \<le> max_attempts chg"
    and "max_attempts chg < sint (arAttempts (action_of chg app cs)) + int (length ts)"
  shows "\<exists>a. gm_get (get_actions (visits app cs ts chg)) (action_key app cs) = Some a
    \<and> arResult a = ''ExhaustedRetries'' \<and> sint (arAttempts a) = max_attempts chg"
  using assms(2-4)
proof (induction ts arbitrary: chg)
  case (Cons t ts)
  let ?a = "action_of chg app cs"
  show ?case
  proof (cases "max_attempts chg \<le> sint (arAttempts ?a)")
    case True
    let ?b = "?a\<lparr>arResult := ''ExhaustedRetries''\<rparr>"
    have "runParkedHardRefreshAction chg app cs t = put_action (action_key app cs) ?b chg"
      using True by (simp add: run_action [OF state])
    moreover have "gm_get (get_actions (visits app cs ts (put_action (action_key app cs) ?b chg)))
        (action_key app cs) = Some ?b"
      using True by (intro exhausted_stays [OF state]) (simp_all add: spec_put)
    ultimately show ?thesis using True Cons.prems(2) by simp
  next
    case False
    let ?chg = "put_action (action_key app cs) (park_attempt app cs t (wait_between chg) ?a) chg"
    have run: "runParkedHardRefreshAction chg app cs t = ?chg"
      using False Cons.prems(1) by (simp add: run_action [OF state])
    have succ: "sint (arAttempts ?a + 1) = sint (arAttempts ?a) + 1"
      by (rule sint_succ32) (use False max_attempts_bound [of chg] in linarith)
    have "\<exists>a. gm_get (get_actions (visits app cs ts ?chg)) (action_key app cs) = Some a
        \<and> arResult a = ''ExhaustedRetries'' \<and> sint (arAttempts a) = max_attempts ?chg"
      using Cons.prems False succ by (intro Cons.IH) (simp_all add: action_of_put park_fields spec_put)
    then show ?thesis by (simp add: run spec_put)
  qed
qed simp

text \<open>C22: The retries of a diverged cluster end: when its visits are far enough apart, more of them than
  attempts are left lead to the result \<open>ExhaustedRetries\<close> with exactly the configured number of
  attempts, each in the history, and no later visit, at whatever time, changes the record
  while the cluster stays diverged.\<close>

theorem parked_refresh_terminates:
  assumes "actions_ok chg" "csState cs \<noteq> ''InSync''"
    and "all_due (wait_between chg) (arLastAttemptAt (action_of chg app cs)) ts"
    and "max_attempts chg < sint (arAttempts (action_of chg app cs)) + int (length ts)"
  shows "\<exists>a. gm_get (get_actions (visits app cs ts chg)) (action_key app cs) = Some a
    \<and> arResult a = ''ExhaustedRetries'' \<and> sint (arAttempts a) = max_attempts chg
    \<and> int (length (arHistory a)) = max_attempts chg
    \<and> (\<forall>us. gm_get (get_actions (visits app cs (ts @ us) chg)) (action_key app cs) = Some a)"
proof -
  have spec: "max_attempts (visits app cs us c) = max_attempts c
      \<and> wait_between (visits app cs us c) = wait_between c" for us c
  proof (induction us arbitrary: c)
    case (Cons u us)
    then show ?case by (simp add: run_action [OF assms(2)] spec_put)
  qed simp
  have ok: "actions_ok (visits app cs us c)"
    if "actions_ok c" "list_all (\<lambda>t. \<not> time_is_zero t) us" for us c
    using that by (induction us arbitrary: c) (simp_all add: runParked_actions_ok)
  have times: "all_due w l us \<Longrightarrow> list_all (\<lambda>t. \<not> time_is_zero t) us" for w l us
    by (induction us arbitrary: l) auto
  have "sint (arAttempts (action_of chg app cs)) \<le> max_attempts chg"
    using assms(1) action_ok_new by (auto simp: actions_ok_def action_ok_def action_of_def split: option.split)
  then obtain a where a: "gm_get (get_actions (visits app cs ts chg)) (action_key app cs) = Some a"
    "arResult a = ''ExhaustedRetries''" "sint (arAttempts a) = max_attempts chg"
    using due_visits [OF assms(2,3) _ assms(4)] by blast
  have "actions_ok (visits app cs ts chg)" using ok [OF assms(1) times [OF assms(3)]] .
  then have "int (length (arHistory a)) = max_attempts chg"
    using a by (auto simp: actions_ok_def action_ok_def)
  moreover have "gm_get (get_actions (visits app cs (ts @ us) chg)) (action_key app cs) = Some a" for us
  proof -
    have "visits app cs (ts @ us) chg = visits app cs us (visits app cs ts chg)"
      by (simp add: visits_def)
    then show ?thesis using a by (simp add: exhausted_stays [OF assms(2)] spec)
  qed
  ultimately show ?thesis using a by blast
qed

lemma parked_refresh_terminates_witness:
  "\<exists>a. gm_get (get_actions (visits ''a'' (good_cluster\<lparr>csState := ''Diverged''\<rparr>)
      [0, 200 * Second, 400 * Second] good_window)) ''a/c1'' = Some a \<and> arResult a = ''ExhaustedRetries''
    \<and> sint (arAttempts a) = 2"
proof -
  let ?cs = "good_cluster\<lparr>csState := ''Diverged''\<rparr>"
  have max: "max_attempts good_window = 2" "action_key ''a'' ?cs = ''a/c1''" by code_simp+
  have "all_due (wait_between good_window) (arLastAttemptAt (action_of good_window ''a'' ?cs))
      [0, 200 * Second, 400 * Second]"
    "max_attempts good_window < sint (arAttempts (action_of good_window ''a'' ?cs))
       + int (length [0, 200 * Second, 400 * Second])"
    by code_simp+
  moreover have "actions_ok good_window"
    by (simp add: actions_ok_def get_actions_def good_window_def sample_window_def
        zero_ChangeWindowStatus_def gm_get_def)
  ultimately show ?thesis
    using parked_refresh_terminates [of good_window ?cs "''a''" "[0, 200 * Second, 400 * Second]"] max
    by fastforce
qed

end
