(* ===== verification/KubeApi.thy ===== *)
theory KubeApi
  imports ApiTypes
begin

text \<open>
  The untyped client calls of the spoke-side readers. A resource that the code reads through
  apimachinery's \<open>unstructured\<close> package is known only by what the accessors return on it:
  \<open>GetName\<close>, \<open>NestedString\<close>, \<open>NestedInt64\<close>, \<open>NestedBool\<close> (the zero value where the code
  ignores a missing field or a type error) and \<open>NestedSlice\<close> (\<open>None\<close> when the field is not
  found). So an \<open>unstructured\<close> value is the record of these answers, one function per accessor
  from the field path. The API server's answers are the record \<open>kube_client\<close>; nothing is
  assumed of them.
\<close>

text \<open>An element of a nested slice: \<open>None\<close> when it is not a \<open>map[string]interface{}\<close>, else its
  string-valued entries.\<close>

type_synonym slice_entry = "(string \<Rightarrow> string option) option"

record unstructured =
  uName :: string
  uString :: "string list \<Rightarrow> string"
  uInt64 :: "string list \<Rightarrow> 64 word"
  uBool :: "string list \<Rightarrow> bool"
  uSlice :: "string list \<Rightarrow> slice_entry list option"

text \<open>Group, version and kind.\<close>

type_synonym gvk = "string \<times> string \<times> string"

text \<open>\<open>Get\<close> takes namespace and name (the namespace is empty for cluster-scoped kinds);
  \<open>List\<close> takes the namespace, the matching labels and the limit (0 for none).\<close>

record kube_client =
  kcGet :: "gvk \<Rightarrow> string \<Rightarrow> string \<Rightarrow> go_error + unstructured"
  kcList :: "gvk \<Rightarrow> string \<Rightarrow> (string \<times> string) list \<Rightarrow> nat \<Rightarrow> go_error + unstructured list"

text \<open>\<open>m["key"].(string)\<close>, with the empty string when the assertion fails.\<close>

definition entry_str :: "(string \<Rightarrow> string option) \<Rightarrow> string \<Rightarrow> string" where
  "entry_str m k = (case m k of None \<Rightarrow> '''' | Some s \<Rightarrow> s)"

text \<open>The loop over \<open>status.conditions\<close> that every reader runs: elements that are not maps are
  skipped, and the body sees the type and the status of each condition.\<close>

definition condition_step :: "(string \<Rightarrow> string \<Rightarrow> 's \<Rightarrow> 's) \<Rightarrow> slice_entry \<Rightarrow> 's \<Rightarrow> 's" where
  "condition_step body condRaw st =
     (case condRaw of None \<Rightarrow> st
      | Some cond \<Rightarrow> body (entry_str cond ''type'') (entry_str cond ''status'') st)"

definition conditions_loop :: "(string \<Rightarrow> string \<Rightarrow> 's \<Rightarrow> 's) \<Rightarrow> unstructured \<Rightarrow> 's \<Rightarrow> 's" where
  "conditions_loop body obj st =
     (case uSlice obj [''status'', ''conditions''] of
        None \<Rightarrow> st
      | Some conditions \<Rightarrow> fold (condition_step body) conditions st)"

text \<open>The conditions of an object as (type, status) pairs.\<close>

definition entry_cond :: "slice_entry \<Rightarrow> (string \<times> string) list" where
  "entry_cond e =
     (case e of None \<Rightarrow> [] | Some m \<Rightarrow> [(entry_str m ''type'', entry_str m ''status'')])"

definition conditions_of :: "unstructured \<Rightarrow> (string \<times> string) list" where
  "conditions_of obj =
     (case uSlice obj [''status'', ''conditions''] of None \<Rightarrow> [] | Some cs \<Rightarrow> concat (map entry_cond cs))"

lemma fold_condition_step:
  "fold (condition_step body) cs st = fold (\<lambda>(t, s). body t s) (concat (map entry_cond cs)) st"
  by (induction cs arbitrary: st) (auto simp: condition_step_def entry_cond_def split: option.split)

lemma conditions_loop_eq:
  "conditions_loop body obj st = fold (\<lambda>(t, s). body t s) (conditions_of obj) st"
  by (simp add: conditions_loop_def conditions_of_def fold_condition_step split: option.split)

text \<open>A flag that a condition of type \<open>t\<close> sets to whether its status is \<open>True\<close>: the last
  condition of the type counts.\<close>

definition last_cond :: "string \<Rightarrow> unstructured \<Rightarrow> string option" where
  "last_cond t obj = map_of (rev (conditions_of obj)) t"

definition has_cond :: "string \<Rightarrow> string \<Rightarrow> unstructured \<Rightarrow> bool" where
  "has_cond t s obj \<longleftrightarrow> (t, s) \<in> set (conditions_of obj)"

lemma fold_flag:
  assumes "\<And>t' s st. get (body t' s st) = (if t' = t then v s else get st)"
  shows "get (fold (\<lambda>(t, s). body t s) cs st) =
    (case map_of (rev cs) t of None \<Rightarrow> get st | Some s \<Rightarrow> v s)"
proof (induction cs arbitrary: st)
  case (Cons c cs)
  obtain t' s where c: "c = (t', s)" by (cases c)
  show ?case by (auto simp: c Cons assms map_add_def split: option.split)
qed simp

lemma fold_any:
  assumes "\<And>t' s' st. get (body t' s' st) = (if t' = t \<and> s' = s then v else get st)"
  shows "get (fold (\<lambda>(t, s). body t s) cs st) = (if (t, s) \<in> set cs then v else get st)"
proof (induction cs arbitrary: st)
  case (Cons c cs)
  obtain t' s' where "c = (t', s')" by (cases c)
  with Cons show ?case by (simp add: assms)
qed simp

end
