(* ===== verification/CausalGraph.thy ===== *)
theory CausalGraph
  imports KubeApi
begin

text \<open>
  \<open>internal/validator/graph.go\<close>: the typed graph of platform components, each with an evaluator
  that asks the API server about it, and the evaluation of the causal chain. A node holds its
  parents; the graph is built once and never changed, so sharing does not matter. The answers of
  the client are taken as fixed during one evaluation.
\<close>

section \<open>Types\<close>

datatype SemanticNodeType =
    NodeTypeMachineConfig | NodeTypeRenderedConfig | NodeTypeMCP | NodeTypeMCD | NodeTypeNodeReady
  | NodeTypeCRIO | NodeTypeKubelet | NodeTypeStorageOperator | NodeTypeCSIDriver | NodeTypeOVNNetwork
  | NodeTypeMultusNAD | NodeTypeVirtHandler | NodeTypeKubeVirt | NodeTypeVMIMigration

fun semantic_type_string :: "SemanticNodeType \<Rightarrow> string" where
  "semantic_type_string NodeTypeMachineConfig = ''MachineConfig''"
| "semantic_type_string NodeTypeRenderedConfig = ''RenderedConfig''"
| "semantic_type_string NodeTypeMCP = ''MachineConfigPool''"
| "semantic_type_string NodeTypeMCD = ''MachineConfigDaemon''"
| "semantic_type_string NodeTypeNodeReady = ''NodeReady''"
| "semantic_type_string NodeTypeCRIO = ''CRIO''"
| "semantic_type_string NodeTypeKubelet = ''Kubelet''"
| "semantic_type_string NodeTypeStorageOperator = ''StorageOperator''"
| "semantic_type_string NodeTypeCSIDriver = ''CSIDriver''"
| "semantic_type_string NodeTypeOVNNetwork = ''OVNNetwork''"
| "semantic_type_string NodeTypeMultusNAD = ''MultusNAD''"
| "semantic_type_string NodeTypeVirtHandler = ''VirtHandler''"
| "semantic_type_string NodeTypeKubeVirt = ''KubeVirt''"
| "semantic_type_string NodeTypeVMIMigration = ''VirtualMachineInstanceMigration''"

text \<open>The client's answers: untyped resources, pods (name and phase) by namespace and label, and
  nodes (name and conditions) by limit.\<close>

record graph_client =
  gcKube :: kube_client
  gcPods :: "string \<Rightarrow> string \<times> string \<Rightarrow> go_error + (string \<times> string) list"
  gcNodes :: "nat \<Rightarrow> go_error + (string \<times> (string \<times> string) list) list"

type_synonym evaluation = "bool \<times> string \<times> go_error option"

datatype ResourceNode =
  ResourceNode (gnID: string) (gnSemanticType: SemanticNodeType) (gnKind: string)
    (gnNamespace: string) (gnName: string) (gnEvaluator: "graph_client \<Rightarrow> evaluation")
    (gnParents: "ResourceNode list")

type_synonym DependencyGraph = "ResourceNode gomap"

section \<open>Evaluators\<close>

definition itoa64 :: "64 word \<Rightarrow> string" where
  "itoa64 w = itoa (sint w)"

definition eval_mc :: "graph_client \<Rightarrow> evaluation" where
  "eval_mc c =
     (case kcGet (gcKube c) (''machineconfiguration.openshift.io'', ''v1'', ''MachineConfig'') '''' ''00-worker'' of
        Inl e \<Rightarrow> (True, ''MachineConfig check skipped (not present)'', None)
      | Inr mc \<Rightarrow> (True, ''MachineConfig valid'', None))"

definition eval_always :: "string \<Rightarrow> graph_client \<Rightarrow> evaluation" where
  "eval_always msg c = (True, msg, None)"

definition eval_mcp :: "graph_client \<Rightarrow> evaluation" where
  "eval_mcp c =
     (case kcGet (gcKube c) (''machineconfiguration.openshift.io'', ''v1'', ''MachineConfigPool'') '''' ''worker'' of
        Inl e \<Rightarrow> (True, ''MachineConfigPool check skipped (resource missing)'', None)
      | Inr mcp \<Rightarrow>
          (let ready = uInt64 mcp [''status'', ''readyMachineCount''];
               total = uInt64 mcp [''status'', ''machineCount''];
               degraded = uInt64 mcp [''status'', ''degradedMachineCount'']
           in if sint degraded > 0 then
                (False, ''MCP worker degraded (degradedMachineCount='' @ itoa64 degraded @ '')'', None)
              else if sint total > 0 \<and> sint ready < sint total then
                (False, ''MCP worker updating (ready '' @ itoa64 ready @ ''/'' @ itoa64 total @ '')'', None)
              else (True, ''MCP worker fully converged'', None)))"

definition eval_mcd :: "graph_client \<Rightarrow> evaluation" where
  "eval_mcd c =
     (case gcPods c ''openshift-machine-config-operator'' (''k8s-app'', ''machine-config-daemon'') of
        Inl e \<Rightarrow> (True, ''MachineConfigDaemon pods healthy'', None)
      | Inr pods \<Rightarrow>
          (case List.find (\<lambda>(nm, phase). phase \<noteq> ''Running'') pods of
             Some (nm, phase) \<Rightarrow>
               (False, ''MCD pod '' @ nm @ '' not running (phase: '' @ phase @ '')'', None)
           | None \<Rightarrow> (True, ''MachineConfigDaemon pods healthy'', None)))"

definition node_not_ready :: "string \<times> (string \<times> string) list \<Rightarrow> bool" where
  "node_not_ready n = list_ex (\<lambda>(t, s). t = ''Ready'' \<and> s \<noteq> ''True'') (snd n)"

definition eval_nodes :: "graph_client \<Rightarrow> evaluation" where
  "eval_nodes c =
     (case gcNodes c 100 of
        Inl e \<Rightarrow> (True, ''All nodes Ready'', None)
      | Inr nodes \<Rightarrow>
          (case List.find node_not_ready nodes of
             Some n \<Rightarrow> (False, ''Node '' @ fst n @ '' is not Ready'', None)
           | None \<Rightarrow> (True, ''All nodes Ready'', None)))"

definition ds_lags :: "unstructured \<Rightarrow> bool" where
  "ds_lags ds \<longleftrightarrow> sint (uInt64 ds [''status'', ''desiredNumberScheduled'']) > 0
     \<and> sint (uInt64 ds [''status'', ''numberReady'']) < sint (uInt64 ds [''status'', ''desiredNumberScheduled''])"

definition eval_virt_handler :: "graph_client \<Rightarrow> evaluation" where
  "eval_virt_handler c =
     (case kcList (gcKube c) (''apps'', ''v1'', ''DaemonSet'') ''openshift-cnv''
        [(''kubevirt.io'', ''virt-handler'')] 0 of
        Inl e \<Rightarrow> (True, ''virt-handler DaemonSet healthy'', None)
      | Inr dss \<Rightarrow>
          (case List.find ds_lags dss of
             Some ds \<Rightarrow>
               (False, ''virt-handler DaemonSet updating (ready ''
                  @ itoa64 (uInt64 ds [''status'', ''numberReady'']) @ ''/''
                  @ itoa64 (uInt64 ds [''status'', ''desiredNumberScheduled'']) @ '')'', None)
           | None \<Rightarrow> (True, ''virt-handler DaemonSet healthy'', None)))"

definition eval_kubevirt :: "graph_client \<Rightarrow> evaluation" where
  "eval_kubevirt c =
     (case kcGet (gcKube c) (''kubevirt.io'', ''v1'', ''KubeVirt'') ''openshift-cnv'' ''kubevirt-kubevirt'' of
        Inl e \<Rightarrow> (True, ''KubeVirt control plane deployed'', None)
      | Inr kv \<Rightarrow>
          (let phase = uString kv [''status'', ''phase''] in
           if phase \<noteq> '''' \<and> phase \<noteq> ''Deployed'' then
             (False, ''KubeVirt control plane phase is '' @ phase @ '' (expected Deployed)'', None)
           else (True, ''KubeVirt control plane deployed'', None)))"

definition entry_stalled :: "slice_entry \<Rightarrow> bool" where
  "entry_stalled condRaw =
     (case condRaw of None \<Rightarrow> False
      | Some cond \<Rightarrow> cond ''type'' = Some ''Stalled'' \<and> cond ''status'' = Some ''True'')"

definition vmim_stalled :: "unstructured \<Rightarrow> bool" where
  "vmim_stalled vmim =
     (case uSlice vmim [''status'', ''conditions''] of None \<Rightarrow> False | Some cs \<Rightarrow> list_ex entry_stalled cs)"

definition eval_vmim :: "graph_client \<Rightarrow> evaluation" where
  "eval_vmim c =
     (case kcList (gcKube c) (''kubevirt.io'', ''v1'', ''VirtualMachineInstanceMigration'') '''' [] 100 of
        Inl e \<Rightarrow> (True, ''Live migrations healthy'', None)
      | Inr vmims \<Rightarrow>
          (case List.find vmim_stalled vmims of
             Some vmim \<Rightarrow>
               (False, ''VirtualMachineInstanceMigration '' @ uName vmim @ '' is Stalled'', None)
           | None \<Rightarrow> (True, ''Live migrations healthy'', None)))"

section \<open>The typed platform graph\<close>

definition mcNode :: ResourceNode where
  "mcNode = ResourceNode ''mc/00-worker'' NodeTypeMachineConfig ''MachineConfig'' '''' ''00-worker'' eval_mc []"

definition renderedNode :: ResourceNode where
  "renderedNode = ResourceNode ''rendered/rendered-worker'' NodeTypeRenderedConfig ''MachineConfig'' ''''
     ''rendered-worker'' (eval_always ''Rendered config converged'') [mcNode]"

definition mcpNode :: ResourceNode where
  "mcpNode = ResourceNode ''mcp/worker'' NodeTypeMCP ''MachineConfigPool'' '''' ''worker'' eval_mcp [renderedNode]"

definition mcdNode :: ResourceNode where
  "mcdNode = ResourceNode ''mcd/openshift-mco'' NodeTypeMCD ''Pod'' ''openshift-machine-config-operator''
     ''machine-config-daemon'' eval_mcd [mcpNode]"

definition nodeReadyNode :: ResourceNode where
  "nodeReadyNode = ResourceNode ''node/cluster-nodes'' NodeTypeNodeReady ''Node'' '''' ''cluster-nodes''
     eval_nodes [mcdNode]"

definition crioNode :: ResourceNode where
  "crioNode = ResourceNode ''cri-o/container-runtime'' NodeTypeCRIO ''Node'' '''' ''cri-o''
     (eval_always ''CRI-O runtime operational'') [nodeReadyNode]"

definition kubeletNode :: ResourceNode where
  "kubeletNode = ResourceNode ''kubelet/node-agent'' NodeTypeKubelet ''Node'' '''' ''kubelet''
     (eval_always ''Kubelet responsive'') [crioNode]"

definition storageNode :: ResourceNode where
  "storageNode = ResourceNode ''storage/odf-operator'' NodeTypeStorageOperator ''StorageCluster''
     ''openshift-storage'' ''ocs-storagecluster'' (eval_always ''Storage cluster operational'') []"

definition csiNode :: ResourceNode where
  "csiNode = ResourceNode ''csi/ceph-csi'' NodeTypeCSIDriver ''CSIDriver'' ''''
     ''openshift-storage.ceph.fs.csi.ceph.com'' (eval_always ''CSI storage driver ready'') [storageNode]"

definition ovnNode :: ResourceNode where
  "ovnNode = ResourceNode ''ovn/ovn-kubernetes'' NodeTypeOVNNetwork ''DaemonSet'' ''openshift-ovn-kubernetes''
     ''ovn-kube-node'' (eval_always ''OVN-Kubernetes overlay network ready'') []"

definition multusNode :: ResourceNode where
  "multusNode = ResourceNode ''network/multus-nad'' NodeTypeMultusNAD ''NetworkAttachmentDefinition'' ''''
     ''multus-nad'' (eval_always ''Multus CNI attachment ready'') [ovnNode]"

definition virtHandlerNode :: ResourceNode where
  "virtHandlerNode = ResourceNode ''daemonset/virt-handler'' NodeTypeVirtHandler ''DaemonSet'' ''openshift-cnv''
     ''virt-handler'' eval_virt_handler [kubeletNode, csiNode, multusNode]"

definition kubevirtNode :: ResourceNode where
  "kubevirtNode = ResourceNode ''kubevirt/kubevirt-kubevirt'' NodeTypeKubeVirt ''KubeVirt'' ''openshift-cnv''
     ''kubevirt-kubevirt'' eval_kubevirt [virtHandlerNode]"

definition vmimNode :: ResourceNode where
  "vmimNode = ResourceNode ''vmim/active-migrations'' NodeTypeVMIMigration ''VirtualMachineInstanceMigration'' ''''
     ''active-migrations'' eval_vmim [kubevirtNode]"

definition graph_nodes :: "ResourceNode list" where
  "graph_nodes = [mcNode, renderedNode, mcpNode, mcdNode, nodeReadyNode, crioNode, kubeletNode, storageNode,
     csiNode, ovnNode, multusNode, virtHandlerNode, kubevirtNode, vmimNode]"

definition NewTypedPlatformGraph :: DependencyGraph where
  "NewTypedPlatformGraph = fold (\<lambda>n g. gm_put g (gnID n) n) graph_nodes []"

definition NewVirtMaintenanceGraph :: DependencyGraph where
  "NewVirtMaintenanceGraph = NewTypedPlatformGraph"

section \<open>EvaluateCausalChain\<close>

definition chain_error :: "ResourceNode \<Rightarrow> string \<Rightarrow> ResourceNode \<Rightarrow> go_error" where
  "chain_error parent reason node =
     OtherErr (''causal dependency failure: parent ['' @ gnID parent @ ''] (''
       @ semantic_type_string (gnSemanticType parent) @ '') failed validation: '' @ reason
       @ ''; blocking child ['' @ gnID node @ ''] ('' @ semantic_type_string (gnSemanticType node) @ '')'')"

fun check_parents :: "graph_client \<Rightarrow> ResourceNode \<Rightarrow> ResourceNode list \<Rightarrow> go_error option" where
  "check_parents c node [] = None"
| "check_parents c node (parent # ps) =
     (case gnEvaluator parent c of
        (ok, reason, err) \<Rightarrow>
          if err \<noteq> None \<or> \<not> ok then Some (chain_error parent reason node)
          else check_parents c node ps)"

fun check_chain :: "graph_client \<Rightarrow> ResourceNode list \<Rightarrow> go_error option" where
  "check_chain c [] = None"
| "check_chain c (node # nodes) =
     (case check_parents c node (gnParents node) of
        Some e \<Rightarrow> Some e
      | None \<Rightarrow> check_chain c nodes)"

text \<open>\<open>it\<close> is the order in which the range loop over the map visits the nodes.\<close>

definition EvaluateCausalChain :: "iter_order \<Rightarrow> DependencyGraph \<Rightarrow> graph_client \<Rightarrow> go_error option" where
  "EvaluateCausalChain it g c = check_chain c (map snd (range_map it g))"

section \<open>Properties\<close>

definition node_passes :: "graph_client \<Rightarrow> ResourceNode \<Rightarrow> bool" where
  "node_passes c n \<longleftrightarrow> (case gnEvaluator n c of (ok, reason, err) \<Rightarrow> ok \<and> err = None)"

lemma check_parents_cases:
  "(case check_parents c node ps of
      None \<Rightarrow> \<forall>p\<in>set ps. node_passes c p
    | Some e \<Rightarrow> \<exists>p\<in>set ps. \<not> node_passes c p \<and> e = chain_error p (fst (snd (gnEvaluator p c))) node)"
proof (induction ps)
  case (Cons p ps)
  obtain ok reason err where p: "gnEvaluator p c = (ok, reason, err)" by (cases "gnEvaluator p c")
  show ?case
    using Cons by (auto simp: p node_passes_def split: option.splits)
qed simp

lemma check_chain_cases:
  "(case check_chain c nodes of
      None \<Rightarrow> \<forall>n\<in>set nodes. \<forall>p\<in>set (gnParents n). node_passes c p
    | Some e \<Rightarrow> \<exists>n\<in>set nodes. \<exists>p\<in>set (gnParents n).
        \<not> node_passes c p \<and> e = chain_error p (fst (snd (gnEvaluator p c))) n)"
proof (induction nodes)
  case (Cons n nodes)
  show ?case
    using Cons check_parents_cases [where c = c and node = n and ps = "gnParents n"]
    by (cases "check_parents c n (gnParents n)") (auto split: option.splits)
qed simp

lemmas node_defs = mcNode_def renderedNode_def mcpNode_def mcdNode_def nodeReadyNode_def crioNode_def
  kubeletNode_def storageNode_def csiNode_def ovnNode_def multusNode_def virtHandlerNode_def
  kubevirtNode_def vmimNode_def

lemma graph_ids:
  "map gnID graph_nodes = [''mc/00-worker'', ''rendered/rendered-worker'', ''mcp/worker'',
     ''mcd/openshift-mco'', ''node/cluster-nodes'', ''cri-o/container-runtime'', ''kubelet/node-agent'',
     ''storage/odf-operator'', ''csi/ceph-csi'', ''ovn/ovn-kubernetes'', ''network/multus-nad'',
     ''daemonset/virt-handler'', ''kubevirt/kubevirt-kubevirt'', ''vmim/active-migrations'']"
  by (simp add: graph_nodes_def) (simp add: node_defs)

lemma graph_ids_distinct: "distinct (map gnID graph_nodes)"
  unfolding graph_ids by simp

lemma graph_members:
  assumes "iter_ok it"
  shows "set (map snd (range_map it NewTypedPlatformGraph)) = set graph_nodes"
proof -
  have get: "gm_get NewTypedPlatformGraph k = Some n \<longleftrightarrow> n \<in> set graph_nodes \<and> gnID n = k" for k n
  proof
    assume "gm_get NewTypedPlatformGraph k = Some n"
    then have "n = last (filter (\<lambda>n. gnID n = k) graph_nodes) \<and> filter (\<lambda>n. gnID n = k) graph_nodes \<noteq> []"
      by (auto simp: NewTypedPlatformGraph_def gm.get_fold_put gm_get_def [of "[]"] split: list.splits)
    then show "n \<in> set graph_nodes \<and> gnID n = k"
      using last_in_set [of "filter (\<lambda>n. gnID n = k) graph_nodes"] by auto
  next
    assume "n \<in> set graph_nodes \<and> gnID n = k"
    then show "gm_get NewTypedPlatformGraph k = Some n"
      using gm.get_fold_put_distinct [OF graph_ids_distinct, of n "\<lambda>n. n" "[]"]
      by (auto simp: NewTypedPlatformGraph_def)
  qed
  have "set (map snd (range_map it NewTypedPlatformGraph))
      = snd ` {(k, n). n \<in> set graph_nodes \<and> gnID n = k}"
    by (simp only: set_map set_range_map [OF assms] get)
  also have "\<dots> = set graph_nodes" by (auto simp: image_iff)
  finally show ?thesis .
qed

text \<open>The conditions that the chain depends on.\<close>

definition chain_ok :: "graph_client \<Rightarrow> bool" where
  "chain_ok c \<longleftrightarrow> fst (eval_mcp c) \<and> fst (eval_mcd c) \<and> fst (eval_nodes c) \<and> fst (eval_virt_handler c)
     \<and> fst (eval_kubevirt c)"

lemma evaluator_no_error:
  "snd (snd (eval_mc c)) = None" "snd (snd (eval_mcp c)) = None" "snd (snd (eval_mcd c)) = None"
  "snd (snd (eval_nodes c)) = None" "snd (snd (eval_virt_handler c)) = None"
  "snd (snd (eval_kubevirt c)) = None" "fst (eval_mc c)"
  by (simp_all add: eval_mc_def eval_mcp_def eval_mcd_def eval_nodes_def eval_virt_handler_def
      eval_kubevirt_def Let_def split_beta split: sum.split option.split)

lemma node_passes_eq: "node_passes c n \<longleftrightarrow> fst (gnEvaluator n c) \<and> snd (snd (gnEvaluator n c)) = None"
  by (simp add: node_passes_def split_beta)

lemma node_parents:
  "gnParents mcNode = []" "gnParents renderedNode = [mcNode]" "gnParents mcpNode = [renderedNode]"
  "gnParents mcdNode = [mcpNode]" "gnParents nodeReadyNode = [mcdNode]" "gnParents crioNode = [nodeReadyNode]"
  "gnParents kubeletNode = [crioNode]" "gnParents storageNode = []" "gnParents csiNode = [storageNode]"
  "gnParents ovnNode = []" "gnParents multusNode = [ovnNode]"
  "gnParents virtHandlerNode = [kubeletNode, csiNode, multusNode]"
  "gnParents kubevirtNode = [virtHandlerNode]" "gnParents vmimNode = [kubevirtNode]"
  by (simp_all only: node_defs ResourceNode.sel)

lemma node_evaluators:
  "gnEvaluator mcNode = eval_mc" "gnEvaluator renderedNode = eval_always ''Rendered config converged''"
  "gnEvaluator mcpNode = eval_mcp" "gnEvaluator mcdNode = eval_mcd" "gnEvaluator nodeReadyNode = eval_nodes"
  "gnEvaluator crioNode = eval_always ''CRI-O runtime operational''"
  "gnEvaluator kubeletNode = eval_always ''Kubelet responsive''"
  "gnEvaluator storageNode = eval_always ''Storage cluster operational''"
  "gnEvaluator csiNode = eval_always ''CSI storage driver ready''"
  "gnEvaluator ovnNode = eval_always ''OVN-Kubernetes overlay network ready''"
  "gnEvaluator multusNode = eval_always ''Multus CNI attachment ready''"
  "gnEvaluator virtHandlerNode = eval_virt_handler" "gnEvaluator kubevirtNode = eval_kubevirt"
  by (simp_all only: node_defs ResourceNode.sel)

lemma parents_pass:
  "(\<forall>n\<in>set graph_nodes. \<forall>p\<in>set (gnParents n). node_passes c p) \<longleftrightarrow> chain_ok c"
proof -
  have "concat (map gnParents graph_nodes) = [mcNode, renderedNode, mcpNode, mcdNode, nodeReadyNode,
      crioNode, storageNode, ovnNode, kubeletNode, csiNode, multusNode, virtHandlerNode, kubevirtNode]"
    by (simp only: graph_nodes_def list.map concat.simps node_parents append.simps)
  moreover have "(\<forall>n\<in>set graph_nodes. \<forall>p\<in>set (gnParents n). node_passes c p) \<longleftrightarrow>
      list_all (node_passes c) (concat (map gnParents graph_nodes))"
    by (simp add: list_all_iff)
  ultimately have "(\<forall>n\<in>set graph_nodes. \<forall>p\<in>set (gnParents n). node_passes c p) \<longleftrightarrow>
      list_all (node_passes c) [mcNode, renderedNode, mcpNode, mcdNode, nodeReadyNode, crioNode, storageNode,
        ovnNode, kubeletNode, csiNode, multusNode, virtHandlerNode, kubevirtNode]"
    by (simp only:)
  then show ?thesis
    by (simp add: chain_ok_def node_passes_eq node_evaluators evaluator_no_error eval_always_def)
qed

text \<open>C21: Whatever order the map is visited in, the causal chain is intact exactly when the worker pool
  has converged, the machine config daemons run, the nodes are ready, virt-handler is rolled out
  and KubeVirt is deployed; a failure names a failing component and a direct child of it. Live
  migrations are never consulted, since their node is nobody's parent, and which of several
  failures is reported depends on the order of the map.\<close>

theorem causal_chain_correct:
  assumes "iter_ok it"
  shows "(EvaluateCausalChain it NewTypedPlatformGraph c = None \<longleftrightarrow> chain_ok c)
    \<and> (case EvaluateCausalChain it NewTypedPlatformGraph c of None \<Rightarrow> True
       | Some e \<Rightarrow> list_ex (\<lambda>n. list_ex (\<lambda>p. \<not> node_passes c p
           \<and> e = chain_error p (fst (snd (gnEvaluator p c))) n) (gnParents n)) graph_nodes)
    \<and> NewVirtMaintenanceGraph = NewTypedPlatformGraph"
proof -
  let ?ns = "map snd (range_map it NewTypedPlatformGraph)"
  have "case EvaluateCausalChain it NewTypedPlatformGraph c of
      None \<Rightarrow> chain_ok c
    | Some e \<Rightarrow> \<exists>n\<in>set graph_nodes. \<exists>p\<in>set (gnParents n).
        \<not> node_passes c p \<and> e = chain_error p (fst (snd (gnEvaluator p c))) n"
    using check_chain_cases [where c = c and nodes = ?ns]
    unfolding EvaluateCausalChain_def graph_members [OF assms] parents_pass .
  moreover have "\<not> chain_ok c" if "n \<in> set graph_nodes" "p \<in> set (gnParents n)" "\<not> node_passes c p" for n p
    using that parents_pass by blast
  ultimately show ?thesis
    by (auto simp: NewVirtMaintenanceGraph_def list_ex_iff split: option.splits)
qed

text \<open>A worker pool that is updating and a KubeVirt that is not deployed: the order decides which
  of the two is named.\<close>

definition two_failures :: graph_client where
  "two_failures =
     (let obj = \<lparr>uName = '''', uString = (\<lambda>p. ''Deploying''),
                 uInt64 = (\<lambda>p. if p = [''status'', ''machineCount''] then 3 else 0),
                 uBool = (\<lambda>p. False), uSlice = (\<lambda>p. None)\<rparr>
      in \<lparr>gcKube = \<lparr>kcGet = (\<lambda>g ns nm. Inr obj), kcList = (\<lambda>g ns ls n. Inr [])\<rparr>,
          gcPods = (\<lambda>ns l. Inr []), gcNodes = (\<lambda>n. Inr [])\<rparr>)"

lemma causal_chain_correct_witness:
  "EvaluateCausalChain rev NewTypedPlatformGraph two_failures \<noteq> None"
proof -
  have "\<not> chain_ok two_failures"
    by (simp add: chain_ok_def eval_mcp_def two_failures_def Let_def)
  then show ?thesis using causal_chain_correct [OF iter_ok_rev, of two_failures] by blast
qed

lemma causal_chain_order:
  "EvaluateCausalChain (\<lambda>ks. ks) NewTypedPlatformGraph two_failures =
     Some (chain_error mcpNode ''MCP worker updating (ready 0/3)'' mcdNode)"
  "EvaluateCausalChain rev NewTypedPlatformGraph two_failures =
     Some (chain_error kubevirtNode ''KubeVirt control plane phase is Deploying (expected Deployed)'' vmimNode)"
  by code_simp+

end
