(* ===== verification/PlatformRead.thy ===== *)
theory PlatformRead
  imports KubeApi
begin

text \<open>
  The readers of \<open>internal/controller/platform_validator.go\<close>: each reads one platform resource
  through the client and degrades to empty or \<open>Unknown\<close> values when the call fails.
\<close>

section \<open>ClusterVersion\<close>

definition version_condition ::
  "string \<Rightarrow> string \<Rightarrow> ClusterVersionStatus \<Rightarrow> ClusterVersionStatus" where
  "version_condition cType cStatus result =
     (if cType = ''Progressing'' then result\<lparr>cvProgressing := (cStatus = ''True'')\<rparr>
      else if cType = ''Available'' then result\<lparr>cvAvailable := (cStatus = ''True'')\<rparr>
      else result)"

text \<open>The version of the first element of a slice of maps, if it has one.\<close>

definition first_version :: "slice_entry list option \<Rightarrow> string" where
  "first_version h = (case h of Some (Some m # _) \<Rightarrow> entry_str m ''version'' | _ \<Rightarrow> '''')"

definition readClusterVersion :: "kube_client \<Rightarrow> ClusterVersionStatus" where
  "readClusterVersion kc =
     (case kcGet kc (''config.openshift.io'', ''v1'', ''ClusterVersion'') '''' ''version'' of
        Inl e \<Rightarrow> zero_ClusterVersionStatus
      | Inr cv \<Rightarrow>
          conditions_loop version_condition cv
            (zero_ClusterVersionStatus
               \<lparr>cvVersion := first_version (uSlice cv [''status'', ''history'']),
                cvDesiredVersion := uString cv [''status'', ''desired'', ''version''],
                cvChannel := uString cv [''spec'', ''channel'']\<rparr>))"

section \<open>The virtualization operators\<close>

text \<open>The loop over candidate namespaces that stops at the first one with an item.\<close>

fun first_listed :: "kube_client \<Rightarrow> gvk \<Rightarrow> string list \<Rightarrow> unstructured option" where
  "first_listed kc g [] = None"
| "first_listed kc g (ns # nss) =
     (case kcList kc g ns [] 1 of
        Inr (item # _) \<Rightarrow> Some item
      | _ \<Rightarrow> first_listed kc g nss)"

definition readKubeVirtStatus :: "kube_client \<Rightarrow> KubeVirtOperatorStatus" where
  "readKubeVirtStatus kc =
     (case first_listed kc (''kubevirt.io'', ''v1'', ''KubeVirt'') [''openshift-cnv'', ''kubevirt''] of
        None \<Rightarrow> zero_OperatorDeployStatus\<lparr>odPhase := ''Unknown''\<rparr>
      | Some kv \<Rightarrow>
          (let phase = uString kv [''status'', ''phase''] in
           \<lparr>odPhase = phase, odTargetVersion = uString kv [''status'', ''targetKubeVirtVersion''],
            odObservedVersion = uString kv [''status'', ''observedKubeVirtVersion''],
            odReady = (phase = ''Deployed'')\<rparr>))"

definition readCDIStatus :: "kube_client \<Rightarrow> CDIOperatorStatus" where
  "readCDIStatus kc =
     (case first_listed kc (''cdi.kubevirt.io'', ''v1beta1'', ''CDI'') [''openshift-cnv'', ''cdi''] of
        None \<Rightarrow> zero_OperatorDeployStatus\<lparr>odPhase := ''Unknown''\<rparr>
      | Some cdi \<Rightarrow>
          (let phase = uString cdi [''status'', ''phase''] in
           \<lparr>odPhase = phase, odTargetVersion = uString cdi [''status'', ''targetVersion''],
            odObservedVersion = uString cdi [''status'', ''observedVersion''],
            odReady = (phase = ''Deployed'')\<rparr>))"

definition readSSPStatus :: "kube_client \<Rightarrow> SSPOperatorStatus" where
  "readSSPStatus kc =
     (case first_listed kc (''ssp.kubevirt.io'', ''v1beta2'', ''SSP'') [''openshift-cnv'', ''kubevirt-ssp''] of
        None \<Rightarrow> zero_OperatorDeployStatus\<lparr>odPhase := ''Unknown''\<rparr>
      | Some ssp \<Rightarrow>
          (let phase = uString ssp [''status'', ''phase''] in
           \<lparr>odPhase = phase, odTargetVersion = uString ssp [''status'', ''targetVersion''],
            odObservedVersion = uString ssp [''status'', ''observedVersion''],
            odReady = (phase = ''Deployed'')\<rparr>))"

section \<open>Node maintenance and migration policies\<close>

definition maintenance_step :: "unstructured \<Rightarrow> NodeMaintenanceStatus \<Rightarrow> NodeMaintenanceStatus" where
  "maintenance_step nm result =
     (let phase = uString nm [''status'', ''phase''] in
      if phase = ''Running'' \<or> phase = '''' then
        result\<lparr>nmActiveMaintenanceNodes := nmActiveMaintenanceNodes result + 1,
          nmMaintenanceNodeNames := nmMaintenanceNodeNames result @ [uName nm]\<rparr>
      else result)"

definition readNodeMaintenanceStatus :: "kube_client \<Rightarrow> NodeMaintenanceStatus" where
  "readNodeMaintenanceStatus kc =
     (case kcList kc (''nodemaintenance.medik8s.io'', ''v1beta1'', ''NodeMaintenance'') '''' [] 100 of
        Inl e \<Rightarrow> zero_NodeMaintenanceStatus
      | Inr items \<Rightarrow> fold maintenance_step items zero_NodeMaintenanceStatus)"

definition readMigrationPolicies :: "kube_client \<Rightarrow> MigrationPolicyStatus list" where
  "readMigrationPolicies kc =
     (case kcList kc (''migrations.kubevirt.io'', ''v1alpha1'', ''MigrationPolicy'') '''' [] 100 of
        Inl e \<Rightarrow> []
      | Inr items \<Rightarrow>
          map (\<lambda>mp. \<lparr>mpName = uName mp,
                 mpBandwidthPerMigration = uString mp [''spec'', ''bandwidthPerMigration''],
                 mpAllowAutoConverge = uBool mp [''spec'', ''allowAutoConverge'']\<rparr>) items)"

section \<open>MachineConfigPools\<close>

text \<open>The counts are \<open>int64\<close> and are truncated to \<open>int32\<close> in the status; the differences and
  comparisons are made at 64 bits. The same computation is written out twice in the source,
  here and in \<open>readMachineConfigPool\<close>.\<close>

definition pool_status :: "string \<Rightarrow> unstructured \<Rightarrow> MachineConfigPoolStatus" where
  "pool_status poolName mcp =
     (let machineCount = uInt64 mcp [''status'', ''machineCount''];
          readyCount = uInt64 mcp [''status'', ''readyMachineCount''];
          updatedCount = uInt64 mcp [''status'', ''updatedMachineCount''];
          unavailableCount = uInt64 mcp [''status'', ''unavailableMachineCount''];
          degradedCount = uInt64 mcp [''status'', ''degradedMachineCount''];
          diff = machineCount - updatedCount;
          updatingCount = (if sint diff < 0 then 0 else diff);
          phase = (if sint updatingCount > 0 \<or> sint readyCount < sint machineCount
                     \<or> sint unavailableCount > 0 then ''Updating'' else ''Updated'');
          phase = (if sint degradedCount > 0 then ''Degraded'' else phase)
      in \<lparr>mcpName = poolName, mcpMachineCount = ucast machineCount,
          mcpReadyMachineCount = ucast readyCount, mcpUpdatedNodeCount = ucast updatedCount,
          mcpUpdatingNodeCount = ucast updatingCount, mcpUnavailableNodeCount = ucast unavailableCount,
          mcpDegradedNodeCount = ucast degradedCount,
          mcpCurrentRenderedConfig = uString mcp [''status'', ''configuration'', ''name''],
          mcpDesiredRenderedConfig = uString mcp [''spec'', ''configuration'', ''name''],
          mcpPhase = phase\<rparr>)"

definition mcp_gvk :: gvk where
  "mcp_gvk = (''machineconfiguration.openshift.io'', ''v1'', ''MachineConfigPool'')"

text \<open>The names of a cluster's pools are distinct, so it does not matter that \<open>sort.Slice\<close> is
  not stable.\<close>

definition readAllMachineConfigPools :: "kube_client \<Rightarrow> MachineConfigPoolStatus list" where
  "readAllMachineConfigPools kc =
     (case kcList kc mcp_gvk '''' [] 100 of
        Inl e \<Rightarrow> []
      | Inr items \<Rightarrow> sort_key mcpName (map (\<lambda>mcp. pool_status (uName mcp) mcp) items))"

end
