(* ===== verification/LocalCollect.thy ===== *)
theory LocalCollect
  imports KubeApi PlatformRead
begin

text \<open>
  The collectors of \<open>internal/controller/localwatch_controller.go\<close>: warning events, pod logs,
  the annotations of the descriptor (object changes and dependencies), cluster operators, the
  machine config pool, virtualization and the correlation of signals.
\<close>

section \<open>Typed objects\<close>

text \<open>The fields the code reads of a \<open>corev1.ConfigMap\<close>, \<open>corev1.Event\<close> and \<open>corev1.Pod\<close>. A
  missing key of a map of strings reads as the empty string.\<close>

record config_map =
  cmName :: string
  cmNamespace :: string
  cmLabels :: "string gomap"
  cmAnnotations :: "string gomap"
  cmData :: "string gomap"
  cmDeletionTimestamp :: "gtime option"

definition gm_str :: "string gomap \<Rightarrow> string \<Rightarrow> string" where
  "gm_str m k = (case gm_get m k of None \<Rightarrow> '''' | Some v \<Rightarrow> v)"

record k8s_event =
  keType :: string
  keReason :: string
  keMessage :: string
  keCount :: int32
  keLastTimestamp :: gtime
  keKind :: string
  keName :: string

record k8s_pod =
  podName :: string
  podConditions :: "(string \<times> string) list"
  podContainers :: "string list"

section \<open>Warning events\<close>

definition maxWarningEvents :: nat where
  "maxWarningEvents = 20"

definition event_object :: "k8s_event \<Rightarrow> string" where
  "event_object ev = keKind ev @ ''/'' @ keName ev"

text \<open>The map from (reason, object) to the summary that the loop updates through its pointer.\<close>

type_synonym event_map = "((string \<times> string) \<times> EventSummary) list"

definition event_step :: "k8s_event \<Rightarrow> event_map \<Rightarrow> event_map" where
  "event_step ev grouped =
     (if keType ev \<noteq> ''Warning'' then grouped
      else
        (let k = (keReason ev, event_object ev) in
         case map_of grouped k of
           Some existing \<Rightarrow>
             if sint (keCount ev) > sint (esCount existing) then
               AList.update k
                 (existing\<lparr>esCount := keCount ev, esMessage := keMessage ev,
                    esLastObservedAt := keLastTimestamp ev\<rparr>) grouped
             else grouped
         | None \<Rightarrow>
             AList.update k
               \<lparr>esReason = keReason ev, esMessage = keMessage ev, esCount = keCount ev,
                esLastObservedAt = keLastTimestamp ev, esInvolvedObject = event_object ev\<rparr> grouped))"

text \<open>\<open>order\<close> is the order in which the range loop meets the summaries: Go leaves it open, and
  with it everything that the unstable \<open>sort.Slice\<close> may do to summaries of equal count.\<close>

definition collectWarningEvents ::
  "(EventSummary list \<Rightarrow> EventSummary list) \<Rightarrow> go_error + k8s_event list \<Rightarrow> EventSummary list" where
  "collectWarningEvents order listed =
     (case listed of
        Inl e \<Rightarrow> []
      | Inr items \<Rightarrow>
          (let results = sort_key (\<lambda>s. - sint (esCount s)) (order (map snd (fold event_step items [])))
           in if length results > maxWarningEvents then take maxWarningEvents results else results))"

section \<open>Pod logs\<close>

definition maxTailLines :: nat where
  "maxTailLines = 50"

definition isPodReady :: "k8s_pod \<Rightarrow> bool" where
  "isPodReady pod = list_ex (\<lambda>(t, s). t = ''Ready'' \<and> s = ''True'') (podConditions pod)"

text \<open>\<open>stream pod container n\<close> opens a log of at most \<open>n\<close> lines and yields the lines the
  scanner reads from it. The flag of a loop says that the function has returned.\<close>

type_synonym log_stream = "string \<Rightarrow> string \<Rightarrow> nat \<Rightarrow> go_error + string list"

fun scan_lines :: "string \<Rightarrow> string list \<Rightarrow> string list \<Rightarrow> string list \<times> bool" where
  "scan_lines prfx [] lns = (lns, False)"
| "scan_lines prfx (t # ts) lns =
     (let lns' = lns @ [prfx @ t] in
      if length lns' \<ge> maxTailLines then (lns', True) else scan_lines prfx ts lns')"

fun scan_containers ::
  "log_stream \<Rightarrow> k8s_pod \<Rightarrow> string list \<Rightarrow> string list \<Rightarrow> string list \<times> bool" where
  "scan_containers stream pod [] lns = (lns, False)"
| "scan_containers stream pod (c # cs) lns =
     (case stream (podName pod) c maxTailLines of
        Inl e \<Rightarrow> scan_containers stream pod cs lns
      | Inr ts \<Rightarrow>
          (case scan_lines (''['' @ podName pod @ ''/'' @ c @ ''] '') ts lns of
             (lns', True) \<Rightarrow> (lns', True)
           | (lns', False) \<Rightarrow> scan_containers stream pod cs lns'))"

fun scan_pods :: "log_stream \<Rightarrow> k8s_pod list \<Rightarrow> string list \<Rightarrow> string list \<times> bool" where
  "scan_pods stream [] lns = (lns, False)"
| "scan_pods stream (pod # pods) lns =
     (if isPodReady pod then scan_pods stream pods lns
      else case scan_containers stream pod (podContainers pod) lns of
             (lns', True) \<Rightarrow> (lns', True)
           | (lns', False) \<Rightarrow> scan_pods stream pods lns')"

text \<open>\<open>lst\<close> is the client's \<open>List\<close> of pods by namespace, label and limit; a list call that
  fails leaves the (empty) list as it is.\<close>

definition collectPodLogs ::
  "bool \<Rightarrow> (string \<Rightarrow> string \<times> string \<Rightarrow> nat \<Rightarrow> go_error + k8s_pod list) \<Rightarrow>
    (string \<Rightarrow> log_stream) \<Rightarrow> string \<Rightarrow> string \<Rightarrow> string list" where
  "collectPodLogs has_clientset lst logs ns appName =
     (if \<not> has_clientset then []
      else case lst ns (''app'', appName) 100 of
             Inl e \<Rightarrow> []
           | Inr items \<Rightarrow>
               (let pods = (if items = [] then
                              (case lst ns (''app.kubernetes.io/name'', appName) 100 of
                                 Inl e \<Rightarrow> [] | Inr items' \<Rightarrow> items')
                            else items)
                in fst (scan_pods (logs ns) pods [])))"

section \<open>Annotations of the descriptor\<close>

definition newline :: char where
  "newline = char_of (10 :: nat)"

definition change_line :: "string \<Rightarrow> ObjectChangeSummary list" where
  "change_line rawLine =
     (let line = trim_space rawLine in
      if line = '''' then []
      else
        (let (kind, nm, changeType, fieldsStr) =
           (if CHR ''|'' \<in> set line then
              (case split_at CHR ''|'' line of
                 a # b # c # d # _ \<Rightarrow> (a, b, c, d)
               | [a, b, c] \<Rightarrow> (a, b, c, '''')
               | _ \<Rightarrow> ('''', '''', '''', ''''))
            else if CHR ''='' \<in> set line \<and> CHR ''/'' \<in> set line then
              (let eqParts = split2 CHR ''='' line;
                   (kind, nm) = (case split2 CHR ''/'' (hd eqParts) of
                                     [k, n] \<Rightarrow> (k, n) | _ \<Rightarrow> ('''', ''''));
                   (changeType, fieldsStr) =
                     (case eqParts of
                        [_, r] \<Rightarrow> (case split2 CHR '':'' r of
                                    [ct, f] \<Rightarrow> (ct, f) | [ct] \<Rightarrow> (ct, '''') | _ \<Rightarrow> ('''', ''''))
                      | _ \<Rightarrow> ('''', ''''))
               in (kind, nm, changeType, fieldsStr))
            else ('''', '''', '''', ''''))
         in if kind \<noteq> '''' \<and> nm \<noteq> '''' then
              [\<lparr>ocKind = kind, ocName = nm, ocChangeType = changeType,
                ocChangedFields =
                  (if fieldsStr \<noteq> '''' then split_at CHR '','' fieldsStr else [])\<rparr>]
            else []))"

definition objectChangesFromAnnotation :: "config_map \<Rightarrow> ObjectChangeSummary list" where
  "objectChangesFromAnnotation cm =
     (case gm_get (cmAnnotations cm) ''gitops.example.com/last-sync-resources'' of
        None \<Rightarrow> []
      | Some raw \<Rightarrow>
          if raw = '''' then []
          else concat (map change_line (split_at newline (trim_space raw))))"

text \<open>\<open>get kind namespace name\<close> is the error of a typed \<open>Get\<close>.\<close>

definition isMachineConfigReady :: "kube_client \<Rightarrow> string \<Rightarrow> bool" where
  "isMachineConfigReady kc nm =
     (case kcGet kc (''machineconfiguration.openshift.io'', ''v1'', ''MachineConfig'') '''' nm of
        Inl e \<Rightarrow> False | Inr mc \<Rightarrow> True)"

definition isStorageClassReady :: "kube_client \<Rightarrow> string \<Rightarrow> bool" where
  "isStorageClassReady kc nm =
     (case kcGet kc (''storage.k8s.io'', ''v1'', ''StorageClass'') '''' nm of
        Inl e \<Rightarrow> False | Inr sc \<Rightarrow> True)"

definition isDataVolumeReady :: "kube_client \<Rightarrow> string \<Rightarrow> string \<Rightarrow> bool" where
  "isDataVolumeReady kc ns nm =
     (case kcGet kc (''cdi.kubevirt.io'', ''v1beta1'', ''DataVolume'') ns nm of
        Inl e \<Rightarrow> False
      | Inr dv \<Rightarrow> uString dv [''status'', ''phase''] = ''Succeeded'')"

definition dependency_line ::
  "kube_client \<Rightarrow> (string \<Rightarrow> string \<Rightarrow> string \<Rightarrow> go_error option) \<Rightarrow> string \<Rightarrow> string \<Rightarrow>
    DependencyRef list" where
  "dependency_line kc get ns line =
     (case split2 CHR ''/'' (trim_space line) of
        [kind, nm] \<Rightarrow>
          (let dep = \<lparr>drKind = kind, drName = nm, drReady = False, drNote = ''''\<rparr> in
           [if kind = ''ConfigMap'' \<or> kind = ''Secret'' \<or> kind = ''ServiceAccount'' then
              dep\<lparr>drReady := (get kind ns nm = None)\<rparr>
            else if kind = ''DataVolume'' then dep\<lparr>drReady := isDataVolumeReady kc ns nm\<rparr>
            else if kind = ''MachineConfig'' then dep\<lparr>drReady := isMachineConfigReady kc nm\<rparr>
            else if kind = ''StorageClass'' then dep\<lparr>drReady := isStorageClassReady kc nm\<rparr>
            else dep\<lparr>drReady := False,
                   drNote := ''readiness check not implemented for kind '' @ kind\<rparr>])
      | _ \<Rightarrow> [])"

definition checkDependencies ::
  "kube_client \<Rightarrow> (string \<Rightarrow> string \<Rightarrow> string \<Rightarrow> go_error option) \<Rightarrow> string \<Rightarrow> config_map \<Rightarrow>
    DependencyRef list" where
  "checkDependencies kc get ns cm =
     (case gm_get (cmAnnotations cm) ''gitops.example.com/dependencies'' of
        None \<Rightarrow> []
      | Some raw \<Rightarrow>
          if raw = '''' then []
          else concat (map (dependency_line kc get ns) (split_at newline (trim_space raw))))"

end
