(* ===== verification/Platform.thy ===== *)
theory Platform
  imports ApiTypes Float64
begin

text \<open>
  The evaluators of \<open>internal/controller/platform_validator.go\<close>: the causal dependency graph
  over six stages, the topological DAG from machine config to live migration, the ordering of
  the core cluster operators, and the prediction of a pool's convergence. They are pure
  functions of one platform observation. The loop-free specifications (\<open>dg_spec\<close>,
  \<open>dag_spec\<close>) state what the graph and the DAG contain; the refinement theorems show that the
  code's cascades of updates compute them.
\<close>

section \<open>EvaluatePlatformDependencyGraph\<close>

text \<open>The variables \<open>rootCauseResource\<close> and \<open>rootCauseSummary\<close>, set by the first failing
  stage only.\<close>

type_synonym root_cause = "string \<times> string"

definition set_root :: "string \<Rightarrow> string \<Rightarrow> root_cause \<Rightarrow> root_cause" where
  "set_root res sumry rc = (if fst rc = '''' then (res, sumry) else rc)"

definition mcp_unsettled :: "MachineConfigPoolStatus \<Rightarrow> bool" where
  "mcp_unsettled mcp \<longleftrightarrow> mcpPhase mcp = ''Updating'' \<or> mcpPhase mcp = ''Degraded''"

definition co_failing :: "ClusterOperatorStatus \<Rightarrow> bool" where
  "co_failing co \<longleftrightarrow> coDegraded co \<or> \<not> coAvailable co"

definition causal_node :: "string \<Rightarrow> string \<Rightarrow> string \<Rightarrow> string \<Rightarrow> CausalNode" where
  "causal_node stage res status impactedBy =
     \<lparr>cnStage = stage, cnResource = res, cnStatus = status, cnRootCauseOf = [],
      cnImpactedBy = impactedBy\<rparr>"

text \<open>Each stage yields its status, the resource it blames, and the root cause so far.\<close>

definition stage1 :: "PlatformObservationStatus \<Rightarrow> root_cause \<Rightarrow> string \<times> root_cause" where
  "stage1 obs rc =
     (let cv = poClusterVersion obs in
      if cvProgressing cv then
        (''Updating'', set_root ''ClusterVersion/version''
           ''ClusterVersion upgrade is actively progressing'' rc)
      else if \<not> cvAvailable cv \<and> cvVersion cv \<noteq> '''' then
        (''Degraded'', set_root ''ClusterVersion/version''
           ''ClusterVersion reports Available=False'' rc)
      else (''Healthy'', rc))"

definition stage2 ::
  "PlatformObservationStatus \<Rightarrow> root_cause \<Rightarrow> string \<times> string \<times> root_cause" where
  "stage2 obs rc =
     (case List.find mcp_unsettled (poMachineConfigPools obs) of
        None \<Rightarrow> (''Healthy'', '''', rc)
      | Some mcp \<Rightarrow>
          (let updatingMCP = ''MachineConfigPool/'' @ mcpName mcp in
           (mcpPhase mcp, updatingMCP,
            set_root updatingMCP
              (''MachineConfigPool '' @ mcpName mcp @ '' is in phase '' @ mcpPhase mcp) rc)))"

definition stage3 ::
  "PlatformObservationStatus \<Rightarrow> root_cause \<Rightarrow> string \<times> string \<times> root_cause" where
  "stage3 obs rc =
     (case List.find co_failing (poClusterOperators obs) of
        None \<Rightarrow> (''Healthy'', '''', rc)
      | Some co \<Rightarrow>
          (let degradedCO = ''ClusterOperator/'' @ coName co in
           (''Degraded'', degradedCO,
            set_root degradedCO
              (''ClusterOperator '' @ coName co @ '' is Degraded or Unavailable'') rc)))"

definition not_deployed :: "OperatorDeployStatus \<Rightarrow> bool" where
  "not_deployed od \<longleftrightarrow> odPhase od \<noteq> '''' \<and> odPhase od \<noteq> ''Deployed''"

definition stage4 ::
  "PlatformObservationStatus \<Rightarrow> root_cause \<Rightarrow> string \<times> string \<times> root_cause" where
  "stage4 obs rc =
     (let (stage4Status, unreadyVirtOp) =
            (if not_deployed (poKubeVirt obs) then (''Updating'', ''KubeVirt/kubevirt'')
             else if not_deployed (poCDI obs) then (''Updating'', ''CDI/cdi'')
             else if not_deployed (poSSP obs) then (''Updating'', ''SSP/ssp'')
             else (''Healthy'', ''''))
      in (stage4Status, unreadyVirtOp,
          if stage4Status \<noteq> ''Healthy'' then
            set_root unreadyVirtOp (unreadyVirtOp @ '' operator phase is not Deployed'') rc
          else rc))"

definition stage5 ::
  "PlatformObservationStatus \<Rightarrow> root_cause \<Rightarrow> string \<times> string \<times> root_cause" where
  "stage5 obs rc =
     (let n = nmActiveMaintenanceNodes (poNodeMaintenance obs) in
      if sint n > 0 then
        (''Maintenance'', ''NodeMaintenance/active'',
         set_root ''NodeMaintenance/active'' (itoa32 n @ '' node(s) under active NodeMaintenance'') rc)
      else if viVirtHandlerReady (poVirtHealth obs) = False
          \<and> viHyperConvergedHealth (poVirtHealth obs) \<noteq> '''' then
        (''Degraded'', ''DaemonSet/virt-handler'',
         set_root ''DaemonSet/virt-handler'' ''virt-handler DaemonSet is not ready'' rc)
      else (''Healthy'', '''', rc))"

definition stage6 :: "PlatformObservationStatus \<Rightarrow> root_cause \<Rightarrow> string \<times> root_cause" where
  "stage6 obs rc =
     (let n = viStalledMigrations (poVirtHealth obs) in
      if sint n > 0 then
        (''Stalled'', set_root ''VirtualMachineInstanceMigration/stalled''
           (itoa32 n @ '' live migration(s) stalled'') rc)
      else (''Healthy'', rc))"

text \<open>The loop that links the root cause to its downstream impact.\<close>

definition link_root :: "string \<Rightarrow> CausalNode \<Rightarrow> CausalNode" where
  "link_root rootCauseResource n =
     (if cnResource n = rootCauseResource \<or> (cnImpactedBy n = '''' \<and> cnStatus n \<noteq> ''Healthy'') then n
      else if cnImpactedBy n \<noteq> '''' then
        n\<lparr>cnRootCauseOf := cnRootCauseOf n @ [''downstream-workloads'']\<rparr>
      else n)"

definition EvaluatePlatformDependencyGraph :: "PlatformObservationStatus \<Rightarrow> DependencyGraphResult" where
  "EvaluatePlatformDependencyGraph obs =
     (let (s1, rc1) = stage1 obs ('''', '''');
          (s2, updatingMCP, rc2) = stage2 obs rc1;
          (s3, degradedCO, rc3) = stage3 obs rc2;
          (s4, unreadyVirtOp, rc4) = stage4 obs rc3;
          (s5, execCause, rc5) = stage5 obs rc4;
          (s6, rc6) = stage6 obs rc5;
          nodes =
            [causal_node ''ClusterVersion'' ''ClusterVersion/version'' s1 '''',
             causal_node ''NodeConfig'' ''MachineConfigPools'' s2
               (if s1 \<noteq> ''Healthy'' then ''ClusterVersion/version'' else ''''),
             causal_node ''ControlPlane'' ''ClusterOperators'' s3
               (if s2 \<noteq> ''Healthy'' then updatingMCP
                else if s1 \<noteq> ''Healthy'' then ''ClusterVersion/version'' else ''''),
             causal_node ''VirtOperators'' ''KubeVirtOperators'' s4
               (if s3 \<noteq> ''Healthy'' then degradedCO
                else if s2 \<noteq> ''Healthy'' then updatingMCP else ''''),
             causal_node ''WorkloadExecution'' ''NodeExecutionLayer'' s5
               (if s4 \<noteq> ''Healthy'' then unreadyVirtOp
                else if s2 \<noteq> ''Healthy'' then updatingMCP else ''''),
             causal_node ''LiveMigration'' ''VMIWorkloads'' s6
               (if s5 \<noteq> ''Healthy'' then execCause
                else if s2 \<noteq> ''Healthy'' then updatingMCP else '''')]
      in \<lparr>dgHealthy = (fst rc6 = ''''), dgRootCauseResource = fst rc6, dgRootCauseSummary = snd rc6,
          dgNodes = (if fst rc6 \<noteq> '''' then map (link_root (fst rc6)) nodes else nodes)\<rparr>)"

section \<open>EvaluateTopologicalDAG\<close>

definition EvaluateTopologicalDAG :: "PlatformObservationStatus \<Rightarrow> TopologicalDAGResult" where
  "EvaluateTopologicalDAG obs =
     (let blockedReason = '''';
          mcpState = (case List.find mcp_unsettled (poMachineConfigPools obs) of
                        None \<Rightarrow> ''Healthy'' | Some mcp \<Rightarrow> mcpPhase mcp);
          node1 = \<lparr>rnID = ''mcp/worker'', rnKind = ''MachineConfigPool'', rnNamespace = '''',
                   rnName = ''worker'', rnState = mcpState, rnParentIDs = [], rnBlockedBy = ''''\<rparr>;
          (mcdState, mcdBlockedBy, blockedReason) =
            (if mcpState \<noteq> ''Healthy'' then
               (''Blocked'', ''mcp/worker'',
                if blockedReason = '''' then
                  ''Parent mcp/worker is in state '' @ mcpState
                    @ ''; blocking MachineConfigDaemon evaluation''
                else blockedReason)
             else (''Healthy'', '''', blockedReason));
          node2 = \<lparr>rnID = ''mcd/worker'', rnKind = ''Pod'',
                   rnNamespace = ''openshift-machine-config-operator'',
                   rnName = ''machine-config-daemon'', rnState = mcdState,
                   rnParentIDs = [''mcp/worker''], rnBlockedBy = mcdBlockedBy\<rparr>;
          (virtState, virtBlockedBy, blockedReason) =
            (if mcdState \<noteq> ''Healthy'' then
               (''Blocked'', ''mcd/worker'',
                if blockedReason = '''' then
                  ''Parent mcd/worker is blocked; halting virt-handler evaluation''
                else blockedReason)
             else if \<not> viVirtHandlerReady (poVirtHealth obs)
                 \<and> viHyperConvergedHealth (poVirtHealth obs) \<noteq> '''' then
               (''Degraded'', '''', blockedReason)
             else (''Healthy'', '''', blockedReason));
          node3 = \<lparr>rnID = ''daemonset/virt-handler'', rnKind = ''DaemonSet'',
                   rnNamespace = ''openshift-cnv'', rnName = ''virt-handler'', rnState = virtState,
                   rnParentIDs = [''mcd/worker''], rnBlockedBy = virtBlockedBy\<rparr>;
          (vmimState, vmimBlockedBy, blockedReason) =
            (if virtState \<noteq> ''Healthy'' then
               (''Blocked'', ''daemonset/virt-handler'',
                if blockedReason = '''' then
                  ''Parent virt-handler is unready/blocked; halting VMI migration evaluation''
                else blockedReason)
             else if sint (viStalledMigrations (poVirtHealth obs)) > 0 then
               (''Degraded'', '''', blockedReason)
             else (''Healthy'', '''', blockedReason));
          node4 = \<lparr>rnID = ''vmim/active-migrations'', rnKind = ''VirtualMachineInstanceMigration'',
                   rnNamespace = '''', rnName = ''active-migrations'', rnState = vmimState,
                   rnParentIDs = [''daemonset/virt-handler''], rnBlockedBy = vmimBlockedBy\<rparr>
      in \<lparr>tdEvaluated = True, tdHealthy = (blockedReason = '''' \<and> vmimState = ''Healthy''),
          tdBlockedReason = blockedReason, tdNodes = [node1, node2, node3, node4]\<rparr>)"

section \<open>EvaluateClusterOperatorOrdering\<close>

record ClusterOperatorOrderResult =
  orOrderedCheckPassed :: bool
  orFailedOperator :: string
  orImpactedOperators :: "string list"
  orSummary :: string

definition operator_order :: "string list" where
  "operator_order = [''network'', ''kube-apiserver'', ''openshift-apiserver'', ''storage'', ''kubevirt'']"

definition opMap :: "ClusterOperatorStatus list \<Rightarrow> ClusterOperatorStatus gomap" where
  "opMap operators = fold (\<lambda>op m. gm_put m (coName op) op) operators []"

definition order_step ::
  "ClusterOperatorStatus gomap \<Rightarrow> string \<Rightarrow> string \<times> string list \<Rightarrow> string \<times> string list" where
  "order_step m k acc =
     (case acc of (firstFailed, impacted) \<Rightarrow>
       (case gm_get m k of
          None \<Rightarrow> (firstFailed, impacted)
        | Some op \<Rightarrow>
            if firstFailed \<noteq> '''' then (firstFailed, impacted @ [k])
            else if coDegraded op \<or> \<not> coAvailable op then (k, impacted)
            else (firstFailed, impacted)))"

definition EvaluateClusterOperatorOrdering ::
  "ClusterOperatorStatus list \<Rightarrow> ClusterOperatorOrderResult" where
  "EvaluateClusterOperatorOrdering operators =
     (let (firstFailed, impacted) = fold (order_step (opMap operators)) operator_order ('''', [])
      in if firstFailed \<noteq> '''' then
           \<lparr>orOrderedCheckPassed = False, orFailedOperator = firstFailed,
            orImpactedOperators = impacted,
            orSummary = ''Upstream ClusterOperator ['' @ firstFailed
              @ ''] degraded; downstream operators '' @ stringsv impacted @ '' impacted''\<rparr>
         else
           \<lparr>orOrderedCheckPassed = True, orFailedOperator = '''', orImpactedOperators = [],
            orSummary = ''All core ClusterOperators available in topological order''\<rparr>)"

section \<open>PredictMCPConvergence\<close>

record MCPConvergencePrediction =
  prPoolName :: string
  prTotalNodes :: int32
  prUpdatedNodes :: int32
  prUpdatingNodes :: int32
  prEstimatedETASeconds :: int
  prIsStalled :: bool
  prReason :: string

text \<open>The conversion of the quotient to \<open>int64\<close> is taken in range: out of it Go leaves the
  value to the implementation.\<close>

definition PredictMCPConvergence :: "MachineConfigPoolStatus \<Rightarrow> int \<Rightarrow> MCPConvergencePrediction" where
  "PredictMCPConvergence mcp elapsedSeconds =
     (let pred = \<lparr>prPoolName = mcpName mcp, prTotalNodes = mcpMachineCount mcp,
                  prUpdatedNodes = mcpUpdatedNodeCount mcp,
                  prUpdatingNodes = mcpUpdatingNodeCount mcp, prEstimatedETASeconds = 0,
                  prIsStalled = False, prReason = ''''\<rparr>;
          ratePerSecond = f64_round (f64_round (of_int (sint (mcpUpdatedNodeCount mcp)))
            / f64_round (of_int elapsedSeconds));
          eta = f64_to_int (f64_round (f64_round (of_int (sint (mcpUpdatingNodeCount mcp)))
            / ratePerSecond))
      in if mcpPhase mcp = ''Updated'' \<or> mcpUpdatingNodeCount mcp = 0 then
           pred\<lparr>prEstimatedETASeconds := 0, prReason := ''Pool fully converged''\<rparr>
         else if sint (mcpDegradedNodeCount mcp) > 0 then
           pred\<lparr>prIsStalled := True,
             prReason := itoa32 (mcpDegradedNodeCount mcp) @ '' node(s) degraded in pool '' @ mcpName mcp\<rparr>
         else if elapsedSeconds > 0 \<and> sint (mcpUpdatedNodeCount mcp) > 0 \<and> ratePerSecond > 0 then
           pred\<lparr>prEstimatedETASeconds := eta,
             prReason := ''Rollout in progress (ETA ~'' @ itoa eta @ ''s)''\<rparr>
         else if elapsedSeconds > 300 \<and> mcpUpdatedNodeCount mcp = 0 then
           pred\<lparr>prIsStalled := True,
             prReason := ''No nodes updated after '' @ itoa elapsedSeconds @ ''s; rollout stalled''\<rparr>
         else pred\<lparr>prReason := ''Rollout initiated; observing node progress''\<rparr>)"

end
