(* ===== verification/LocalWatch.thy ===== *)
theory LocalWatch
  imports LocalCollect Platform
begin

text \<open>
  The rest of \<open>internal/controller/localwatch_controller.go\<close>: the readers of cluster operators,
  the machine config pool and virtualization, the correlation of signals, and the reconciler
  that writes one \<open>ClusterAppReport\<close> per application of the spoke.
\<close>

section \<open>Cluster operators and the machine config pool\<close>

definition operator_condition ::
  "string \<Rightarrow> string \<Rightarrow> ClusterOperatorStatus \<Rightarrow> ClusterOperatorStatus" where
  "operator_condition cType cStatus status =
     (if cType = ''Available'' then status\<lparr>coAvailable := (cStatus = ''True'')\<rparr>
      else if cType = ''Degraded'' then status\<lparr>coDegraded := (cStatus = ''True'')\<rparr>
      else if cType = ''Progressing'' then status\<lparr>coProgressing := (cStatus = ''True'')\<rparr>
      else status)"

definition operator_status :: "unstructured \<Rightarrow> ClusterOperatorStatus" where
  "operator_status co =
     (conditions_loop operator_condition co
        \<lparr>coName = uName co, coAvailable = False, coDegraded = False, coProgressing = False,
         coVersion = ''''\<rparr>)\<lparr>coVersion := first_version (uSlice co [''status'', ''versions''])\<rparr>"

definition readClusterOperators :: "kube_client \<Rightarrow> ClusterOperatorStatus list" where
  "readClusterOperators kc =
     (case kcList kc (''config.openshift.io'', ''v1'', ''ClusterOperator'') '''' [] 0 of
        Inl e \<Rightarrow> []
      | Inr items \<Rightarrow> map operator_status items)"

fun probe_pool :: "kube_client \<Rightarrow> string list \<Rightarrow> string" where
  "probe_pool kc [] = ''''"
| "probe_pool kc (tryName # names) =
     (case kcGet kc mcp_gvk '''' tryName of
        Inl e \<Rightarrow> probe_pool kc names
      | Inr mcp \<Rightarrow> tryName)"

text \<open>The pool is fetched a second time once its name is known; \<open>kc'\<close> answers that call.\<close>

definition readMachineConfigPool ::
  "kube_client \<Rightarrow> kube_client \<Rightarrow> string \<Rightarrow> MachineConfigPoolStatus" where
  "readMachineConfigPool kc kc' preferredPool =
     (let poolName = (if preferredPool = '''' then probe_pool kc [''virt-worker'', ''virt'', ''worker'']
                      else preferredPool)
      in if poolName = '''' then zero_MachineConfigPoolStatus\<lparr>mcpPhase := ''Unknown''\<rparr>
         else case kcGet kc' mcp_gvk '''' poolName of
                Inl e \<Rightarrow> zero_MachineConfigPoolStatus\<lparr>mcpName := poolName, mcpPhase := ''Unknown''\<rparr>
              | Inr mcp \<Rightarrow> pool_status poolName mcp)"

section \<open>Virtualization\<close>

type_synonym virt_state = "VirtualizationImpactStatus \<times> VirtualizationWorkloadSummary"

definition hco_condition ::
  "string \<Rightarrow> string \<Rightarrow> VirtualizationImpactStatus \<Rightarrow> VirtualizationImpactStatus" where
  "hco_condition cType cStatus health =
     (if cType = ''Degraded'' \<and> cStatus = ''True'' then health\<lparr>viHyperConvergedHealth := ''Degraded''\<rparr>
      else health)"

fun read_hco ::
  "kube_client \<Rightarrow> string list \<Rightarrow> VirtualizationImpactStatus \<Rightarrow> VirtualizationImpactStatus" where
  "read_hco kc [] health = health\<lparr>viHyperConvergedHealth := ''Unknown''\<rparr>"
| "read_hco kc (ns # nss) health =
     (case kcGet kc (''hco.kubevirt.io'', ''v1beta1'', ''HyperConverged'') ns ''kubevirt-hyperconverged'' of
        Inl e \<Rightarrow> read_hco kc nss health
      | Inr hco \<Rightarrow> conditions_loop hco_condition hco health)"

definition daemonset_lags :: "unstructured \<Rightarrow> bool" where
  "daemonset_lags ds \<longleftrightarrow>
     (let desired = uInt64 ds [''status'', ''desiredNumberScheduled''];
          ready = uInt64 ds [''status'', ''numberReady'']
      in sint desired > 0 \<and> sint ready < sint desired)"

definition handler_step :: "kube_client \<Rightarrow> string \<Rightarrow> VirtualizationImpactStatus \<Rightarrow>
    VirtualizationImpactStatus" where
  "handler_step kc ns health =
     (case kcList kc (''apps'', ''v1'', ''DaemonSet'') ns [(''kubevirt.io'', ''virt-handler'')] 0 of
        Inl e \<Rightarrow> health
      | Inr items \<Rightarrow>
          fold (\<lambda>ds health. if daemonset_lags ds then health\<lparr>viVirtHandlerReady := False\<rparr> else health)
            items health)"

definition migration_active :: "unstructured \<Rightarrow> bool" where
  "migration_active vmim \<longleftrightarrow> uString vmim [''status'', ''phase''] \<in>
     {''Scheduling'', ''Scheduled'', ''PreparingTarget'', ''TargetReady'', ''Running''}"

definition migration_stalled :: "unstructured \<Rightarrow> bool" where
  "migration_stalled vmim =
     conditions_loop (\<lambda>t s b. if t = ''Stalled'' \<and> s = ''True'' then True else b) vmim False"

definition vmim_step :: "unstructured \<Rightarrow> virt_state \<Rightarrow> virt_state" where
  "vmim_step vmim st =
     (let (health, workloads) = st;
          (health, workloads) =
            (if migration_active vmim then
               (health\<lparr>viActiveMigrations := viActiveMigrations health + 1\<rparr>,
                workloads\<lparr>vwActiveMigrations := vwActiveMigrations workloads + 1\<rparr>)
             else (health, workloads))
      in if migration_stalled vmim then
           (health\<lparr>viStalledMigrations := viStalledMigrations health + 1\<rparr>,
            workloads\<lparr>vwStalledMigrations := vwStalledMigrations workloads + 1\<rparr>)
         else (health, workloads))"

definition slice_filled :: "slice_entry list option \<Rightarrow> bool" where
  "slice_filled s = (case s of None \<Rightarrow> False | Some xs \<Rightarrow> xs \<noteq> [])"

definition live_migratable :: "unstructured \<Rightarrow> bool" where
  "live_migratable vmi =
     (let isLiveMigratable =
            conditions_loop (\<lambda>t s b. if t = ''LiveMigratable'' \<and> s = ''False'' then False else b) vmi True;
          isLiveMigratable =
            (if slice_filled (uSlice vmi [''spec'', ''domain'', ''devices'', ''gpus'']) then False
             else isLiveMigratable)
      in if slice_filled (uSlice vmi [''spec'', ''domain'', ''devices'', ''hostDevices'']) then False
         else isLiveMigratable)"

definition vmi_step :: "unstructured \<Rightarrow> virt_state \<Rightarrow> virt_state" where
  "vmi_step vmi st =
     (let (health, workloads) = st;
          workloads = (if uString vmi [''status'', ''phase''] = ''Running'' then
                         workloads\<lparr>vwRunningVMIs := vwRunningVMIs workloads + 1\<rparr> else workloads)
      in if \<not> live_migratable vmi then
           (health\<lparr>viUnmigratableVMIs := viUnmigratableVMIs health + 1\<rparr>,
            workloads\<lparr>vwUnmigratableVMIs := vwUnmigratableVMIs workloads + 1\<rparr>)
         else (health, workloads\<lparr>vwLiveMigratableVMIs := vwLiveMigratableVMIs workloads + 1\<rparr>))"

definition vmim_gvk :: gvk where
  "vmim_gvk = (''kubevirt.io'', ''v1'', ''VirtualMachineInstanceMigration'')"

definition vmi_gvk :: gvk where
  "vmi_gvk = (''kubevirt.io'', ''v1'', ''VirtualMachineInstance'')"

definition namespace_step :: "kube_client \<Rightarrow> string \<Rightarrow> virt_state \<Rightarrow> virt_state" where
  "namespace_step kc targetNS st =
     (if targetNS = '''' then st
      else
        (let st = (case kcList kc vmim_gvk targetNS [] 100 of
                     Inl e \<Rightarrow> st | Inr items \<Rightarrow> fold vmim_step items st)
         in case kcList kc vmi_gvk targetNS [] 100 of
              Inl e \<Rightarrow> st
            | Inr items \<Rightarrow>
                fold vmi_step items
                  (fst st, (snd st)\<lparr>vwTotalVMIs := vwTotalVMIs (snd st) + word_of_nat (length items)\<rparr>)))"

definition readVirtualizationStatus :: "kube_client \<Rightarrow> string list \<Rightarrow> virt_state" where
  "readVirtualizationStatus kc targetNSList =
     (let health = zero_VirtualizationImpactStatus
            \<lparr>viHyperConvergedHealth := ''Healthy'', viVirtHandlerReady := True\<rparr>;
          health = read_hco kc [''openshift-cnv'', ''kubevirt-hyperconverged''] health;
          health = fold (handler_step kc) [''openshift-cnv'', ''kubevirt''] health;
          targetNSList = (if targetNSList = [] then [''default''] else targetNSList)
      in fold (namespace_step kc) targetNSList (health, zero_VirtualizationWorkloadSummary))"

section \<open>Correlation of signals\<close>

definition severity_of_reason :: "string \<Rightarrow> EvidenceSeverity" where
  "severity_of_reason reason =
     (if str_contains reason ''Failed'' \<or> str_contains reason ''Stalled'' \<or> str_contains reason ''Error''
      then SeverityCritical else SeverityWarning)"

definition log_signal_line :: "string \<Rightarrow> bool" where
  "log_signal_line l \<longleftrightarrow>
     str_contains l ''qemu monitor socket closed'' \<or> str_contains l ''attachment failed''
     \<or> str_contains l ''domain-migrated'' \<or> str_contains l ''ERROR''"

text \<open>The clock is read once per log line that is a signal; \<open>clock n\<close> is its \<open>n\<close>-th reading.\<close>

fun log_signals :: "(nat \<Rightarrow> gtime) \<Rightarrow> nat \<Rightarrow> string list \<Rightarrow> CorrelatedEvidence list" where
  "log_signals clock n [] = []"
| "log_signals clock n (l # ls) =
     (if log_signal_line l then
        \<lparr>ceTimestamp = clock n, ceComponent = ''virt-handler'', ceObjectID = ''pod/virt-handler'',
         ceEventType = ''LogSignal'', ceMessage = l, ceSeverity = SeverityCritical,
         ceSource = ''PodLog''\<rparr> # log_signals clock (Suc n) ls
      else log_signals clock n ls)"

definition correlateMultiSignalEvidence ::
  "(nat \<Rightarrow> gtime) \<Rightarrow> EventSummary list \<Rightarrow> string list \<Rightarrow> CorrelatedEvidence list" where
  "correlateMultiSignalEvidence clock events logs =
     map (\<lambda>evt. \<lparr>ceTimestamp = esLastObservedAt evt, ceComponent = esInvolvedObject evt,
            ceObjectID = esInvolvedObject evt, ceEventType = esReason evt,
            ceMessage = esMessage evt, ceSeverity = severity_of_reason (esReason evt),
            ceSource = ''K8sAPI''\<rparr>) events
     @ log_signals clock 0 logs"

section \<open>Descriptor and report\<close>

definition AppLabelKey :: string where
  "AppLabelKey = ''gitops.example.com/app''"

definition reportNamespace :: string where
  "reportNamespace = ''gitops-fleet''"

record AppDescriptor =
  adAppName :: string
  adNamespace :: string
  adSyncStatus :: string
  adHealth :: string
  adRevision :: string

definition parseDescriptor :: "config_map \<Rightarrow> AppDescriptor" where
  "parseDescriptor cm =
     \<lparr>adAppName = gm_str (cmLabels cm) AppLabelKey, adNamespace = cmNamespace cm,
      adSyncStatus = gm_str (cmData cm) ''syncStatus'', adHealth = gm_str (cmData cm) ''health'',
      adRevision = gm_str (cmData cm) ''observedRevision''\<rparr>"

text \<open>What the reconciler reads and calls. \<open>leGet\<close> answers the request's \<open>Get\<close>, \<open>leNow\<close> and
  \<open>leNow'\<close> are the two readings of the clock, \<open>leClock\<close> those of the correlation.\<close>

record local_env =
  leClusterName :: string
  leHasClientset :: bool
  leGet :: "go_error + config_map"
  leKube :: kube_client
  leKube' :: kube_client
  leGetTyped :: "string \<Rightarrow> string \<Rightarrow> string \<Rightarrow> go_error option"
  leListEvents :: "string \<Rightarrow> nat \<Rightarrow> go_error + k8s_event list"
  leEventOrder :: "EventSummary list \<Rightarrow> EventSummary list"
  leListPods :: "string \<Rightarrow> string \<times> string \<Rightarrow> nat \<Rightarrow> go_error + k8s_pod list"
  leLogs :: "string \<Rightarrow> log_stream"
  leNow :: gtime
  leNow' :: gtime
  leClock :: "nat \<Rightarrow> gtime"
  leGetReport :: "string \<Rightarrow> string \<Rightarrow> go_error + ClusterAppReport"
  leCreate :: "ClusterAppReport \<Rightarrow> go_error option"
  lePatch :: "ClusterAppReport \<Rightarrow> ClusterAppReport \<Rightarrow> go_error option"

text \<open>The namespaces of the annotation, or the descriptor's own.\<close>

definition target_namespaces :: "config_map \<Rightarrow> string \<Rightarrow> string list" where
  "target_namespaces cm ns =
     (let rawNS = gm_str (cmAnnotations cm) ''gitops.example.com/target-namespaces'';
          targetNSList =
            (if rawNS \<noteq> '''' then filter (\<lambda>n. n \<noteq> '''') (map trim_space (split_at CHR '','' rawNS))
             else [])
      in if targetNSList = [] \<and> ns \<noteq> '''' then [ns] else targetNSList)"

definition report_spec :: "local_env \<Rightarrow> config_map \<Rightarrow> ClusterAppReportSpec" where
  "report_spec env cm =
     (let desc = parseDescriptor cm; kc = leKube env;
          diagnose = (adSyncStatus desc = ''OutOfSync'' \<or> adHealth desc = ''Degraded'');
          recentEvents =
            (if diagnose then collectWarningEvents (leEventOrder env) (leListEvents env (adNamespace desc) 100)
             else []);
          tailLogs =
            (if diagnose then
               collectPodLogs (leHasClientset env) (leListPods env) (leLogs env) (adNamespace desc)
                 (adAppName desc)
             else []);
          objectChanges = (if diagnose then objectChangesFromAnnotation cm else []);
          dependencies =
            (if diagnose then checkDependencies kc (leGetTyped env) (adNamespace desc) cm else []);
          mcpStatus = readMachineConfigPool kc (leKube' env)
            (gm_str (cmLabels cm) ''gitops.example.com/mcp-pool'');
          (virtHealth, virtWorkloads) =
            readVirtualizationStatus kc (target_namespaces cm (adNamespace desc));
          allMCPs = readAllMachineConfigPools kc;
          allMCPs = (if allMCPs = [] then [mcpStatus] else allMCPs);
          platformObs = zero_PlatformObservationStatus
            \<lparr>poClusterOperators := readClusterOperators kc, poMachineConfigPools := allMCPs,
             poVirtHealth := virtHealth, poVirtWorkloads := virtWorkloads,
             poClusterVersion := readClusterVersion kc, poKubeVirt := readKubeVirtStatus kc,
             poCDI := readCDIStatus kc, poSSP := readSSPStatus kc,
             poNodeMaintenance := readNodeMaintenanceStatus kc,
             poMigrationPolicies := readMigrationPolicies kc, poObservedAt := leNow' env\<rparr>;
          platformObs = platformObs\<lparr>poDependencyGraph := EvaluatePlatformDependencyGraph platformObs\<rparr>;
          platformObs = platformObs\<lparr>poTopologicalDAG := EvaluateTopologicalDAG platformObs\<rparr>;
          platformObs = platformObs\<lparr>poCorrelatedEvidence :=
            correlateMultiSignalEvidence (leClock env) recentEvents tailLogs\<rparr>
      in \<lparr>rsClusterName = leClusterName env, rsAppName = adAppName desc,
          rsAppNamespace = adNamespace desc, rsObservedRevision = adRevision desc,
          rsSyncStatus = adSyncStatus desc, rsHealth = adHealth desc, rsMCPStatus = mcpStatus,
          rsVirtStatus = virtHealth, rsPlatformObservation = platformObs,
          rsObservedAt = leNow env, rsRecentEvents = recentEvents, rsTailLogs = tailLogs,
          rsObjectChanges = objectChanges, rsDependencies = dependencies\<rparr>)"

text \<open>A write that was sent to the API server.\<close>

datatype report_write =
    CreateReport ClusterAppReport
  | PatchReport ClusterAppReport ClusterAppReport

definition upsertReport ::
  "local_env \<Rightarrow> string \<Rightarrow> ClusterAppReportSpec \<Rightarrow> go_error option \<times> report_write option" where
  "upsertReport env nm spec =
     (let new = (\<lambda>r. (leCreate env r, Some (CreateReport r))) in
      case leGetReport env reportNamespace nm of
        Inl e \<Rightarrow>
          if IsNotFound e then
            new \<lparr>carName = nm, carNamespace = reportNamespace,
                 carLabels = [(AppLabelKey, rsAppName spec)], carSpec = spec\<rparr>
          else (Some e, None)
      | Inr existing \<Rightarrow>
          (let updated = existing\<lparr>carSpec := spec\<rparr> in
           (lePatch env existing updated, Some (PatchReport existing updated))))"

record local_out =
  loResult :: "go_error + ctrl_result"
  loWrite :: "report_write option"

definition local_deleting :: "config_map \<Rightarrow> bool" where
  "local_deleting cm =
     (case cmDeletionTimestamp cm of None \<Rightarrow> False | Some t \<Rightarrow> \<not> time_is_zero t)"

definition report_name :: "string \<Rightarrow> string \<Rightarrow> string" where
  "report_name cluster app = cluster @ ''-'' @ app"

definition local_reconcile :: "local_env \<Rightarrow> string \<Rightarrow> local_out" where
  "local_reconcile env req =
     (case leGet env of
        Inl e \<Rightarrow>
          \<lparr>loResult = (if IsNotFound e then Inr empty_result
                       else Inl (WrapErr (''failed to get ConfigMap '' @ req) e)), loWrite = None\<rparr>
      | Inr cm \<Rightarrow>
          if local_deleting cm then \<lparr>loResult = Inr empty_result, loWrite = None\<rparr>
          else if adAppName (parseDescriptor cm) = '''' then
            \<lparr>loResult = Inr (requeue_after (60 * Second)), loWrite = None\<rparr>
          else
            (let reportName = report_name (leClusterName env) (adAppName (parseDescriptor cm));
                 (err, w) = upsertReport env reportName (report_spec env cm)
             in \<lparr>loResult =
                   (case err of
                      None \<Rightarrow> Inr (requeue_after (30 * Second))
                    | Some e \<Rightarrow>
                        if IsConflict e then Inr requeue_now
                        else Inl (WrapErr (''failed to upsert report '' @ reportName) e)),
                 loWrite = w\<rparr>))"

text \<open>The event filter of the controller: objects with the application label.\<close>

definition local_predicate :: "config_map \<Rightarrow> bool" where
  "local_predicate cm \<longleftrightarrow> gm_str (cmLabels cm) AppLabelKey \<noteq> ''''"

end
