(* ===== verification/LocalCollectProps.thy ===== *)
theory LocalCollectProps
  imports LocalCollect
begin

text \<open>
  What the collectors promise: the twenty most frequent de-duplicated warnings, the first fifty
  log lines, and annotations that read back what was printed into them. The reading of an
  annotation line by line is the locale \<open>line_codec\<close>, interpreted on the two formats of object
  changes and on dependencies.
\<close>

section \<open>Warning events\<close>

definition event_key :: "k8s_event \<Rightarrow> string \<times> string" where
  "event_key ev = (keReason ev, event_object ev)"

definition summary_of :: "k8s_event \<Rightarrow> EventSummary" where
  "summary_of ev =
     \<lparr>esReason = keReason ev, esMessage = keMessage ev, esCount = keCount ev,
      esLastObservedAt = keLastTimestamp ev, esInvolvedObject = event_object ev\<rparr>"

definition summary_key :: "EventSummary \<Rightarrow> string \<times> string" where
  "summary_key s = (esReason s, esInvolvedObject s)"

definition warnings :: "k8s_event list \<Rightarrow> k8s_event list" where
  "warnings items = filter (\<lambda>ev. keType ev = ''Warning'') items"

text \<open>An event that no event of the same reason and object exceeds in count.\<close>

definition most_frequent :: "k8s_event set \<Rightarrow> k8s_event \<Rightarrow> bool" where
  "most_frequent ws ev \<longleftrightarrow> ev \<in> ws
     \<and> (\<forall>ev'\<in>ws. event_key ev' = event_key ev \<longrightarrow> sint (keCount ev') \<le> sint (keCount ev))"

lemma summary_key_of [simp]: "summary_key (summary_of ev) = event_key ev"
  by (simp add: summary_key_def summary_of_def event_key_def)

lemma esCount_summary [simp]: "esCount (summary_of ev) = keCount ev"
  by (simp add: summary_of_def)

text \<open>The map under construction: one entry per key, its summary that of a most frequent event.\<close>

definition event_inv :: "k8s_event set \<Rightarrow> event_map \<Rightarrow> bool" where
  "event_inv ws m \<longleftrightarrow> distinct (map fst m) \<and> fst ` set m = event_key ` ws
     \<and> (\<forall>(k, s)\<in>set m. \<exists>ev. most_frequent ws ev \<and> event_key ev = k \<and> s = summary_of ev)"

interpretation evm: keyed_store map_of "\<lambda>m k v. AList.update k v m" "\<lambda>m. distinct (map fst m)"
  by unfold_locales (simp_all add: update_conv' distinct_update)

lemma map_of_in_set: "distinct (map fst m) \<Longrightarrow> (k, v) \<in> set m \<longleftrightarrow> map_of m k = Some v"
  by auto

lemma event_step_warning:
  assumes "keType ev = ''Warning''" "\<forall>(k, s)\<in>set m. summary_key s = k"
  shows "event_step ev m =
    (case map_of m (event_key ev) of
       None \<Rightarrow> AList.update (event_key ev) (summary_of ev) m
     | Some s \<Rightarrow> if sint (keCount ev) > sint (esCount s)
                 then AList.update (event_key ev) (summary_of ev) m else m)"
proof (cases "map_of m (event_key ev)")
  case None
  then show ?thesis using assms(1) by (simp add: event_step_def event_key_def summary_of_def Let_def)
next
  case (Some s)
  then have "summary_key s = event_key ev" using assms(2) map_of_SomeD by fastforce
  then have "s\<lparr>esCount := keCount ev, esMessage := keMessage ev,
      esLastObservedAt := keLastTimestamp ev\<rparr> = summary_of ev"
    by (simp add: summary_of_def summary_key_def event_key_def)
  with Some assms(1) show ?thesis by (simp add: event_step_def event_key_def Let_def)
qed

lemma most_frequent_mono:
  assumes "most_frequent ws ev" "event_key e = event_key ev \<longrightarrow> sint (keCount e) \<le> sint (keCount ev)"
  shows "most_frequent (insert e ws) ev"
  using assms by (auto simp: most_frequent_def)

lemma event_inv_step:
  assumes inv: "event_inv ws m" and warn: "keType ev = ''Warning''"
  shows "event_inv (insert ev ws) (event_step ev m)"
proof -
  let ?k = "event_key ev"
  have d: "distinct (map fst m)" and dom: "fst ` set m = event_key ` ws"
    and each: "\<And>k s. (k, s) \<in> set m \<Longrightarrow> \<exists>e. most_frequent ws e \<and> event_key e = k \<and> s = summary_of e"
    using inv by (auto simp: event_inv_def)
  have "\<forall>(k, s)\<in>set m. summary_key s = k" using each by fastforce
  note step = event_step_warning [OF warn this]
  have other: "\<exists>e. most_frequent (insert ev ws) e \<and> event_key e = k \<and> s = summary_of e"
    if "(k, s) \<in> set m" "k \<noteq> ?k" for k s
    using each [OF that(1)] that(2) most_frequent_mono by metis
  have put: "event_inv (insert ev ws) (AList.update ?k (summary_of ev) m)"
    if top: "most_frequent (insert ev ws) ev"
  proof -
    have "distinct (map fst (AList.update ?k (summary_of ev) m))" using d by (rule evm.wf_put)
    moreover have "fst ` set (AList.update ?k (summary_of ev) m) = event_key ` insert ev ws"
      using dom by (simp add: dom_map_of_conv_image_fst [symmetric] update_conv' insert_commute)
    moreover have "\<exists>e. most_frequent (insert ev ws) e \<and> event_key e = k \<and> s = summary_of e"
      if "(k, s) \<in> set (AList.update ?k (summary_of ev) m)" for k s
    proof -
      have "map_of (AList.update ?k (summary_of ev) m) k = Some s"
        using that map_of_in_set [OF evm.wf_put [OF d]] by blast
      then show ?thesis
        using top other [of k s] map_of_in_set [OF d] by (auto simp: evm.get_put split: if_splits)
    qed
    ultimately show ?thesis by (auto simp: event_inv_def)
  qed
  show ?thesis
  proof (cases "map_of m ?k")
    case None
    then have "?k \<notin> event_key ` ws" by (simp add: map_of_eq_None_iff dom)
    then have "most_frequent (insert ev ws) ev"
      unfolding most_frequent_def by (metis imageI insertE insertI1 order_refl)
    then show ?thesis using put None by (simp add: step)
  next
    case (Some s)
    then obtain e where e: "most_frequent ws e" "event_key e = ?k" "s = summary_of e"
      using each map_of_SomeD by metis
    show ?thesis
    proof (cases "sint (keCount ev) > sint (keCount e)")
      case True
      then have "most_frequent (insert ev ws) ev"
        using e by (fastforce simp: most_frequent_def)
      then show ?thesis using put Some e True by (simp add: step)
    next
      case False
      then have "most_frequent (insert ev ws) e" using e most_frequent_mono [of ws e ev] by simp
      then have "\<exists>e. most_frequent (insert ev ws) e \<and> event_key e = k \<and> t = summary_of e"
        if "(k, t) \<in> set m" for k t
        using other [OF that] that Some e map_of_in_set [OF d, of k t] by (cases "k = ?k") auto
      moreover have "?k \<in> event_key ` ws" using e unfolding most_frequent_def by (metis imageI)
      ultimately show ?thesis
        using d dom Some e False by (auto simp: step event_inv_def)
    qed
  qed
qed

lemma event_inv_fold: "event_inv (set (warnings items)) (fold event_step items [])"
proof (induction items rule: rev_induct)
  case Nil
  then show ?case by (simp add: event_inv_def warnings_def)
next
  case (snoc ev items)
  show ?case
  proof (cases "keType ev = ''Warning''")
    case True
    then show ?thesis using event_inv_step [OF snoc True] by (simp add: warnings_def)
  next
    case False
    then show ?thesis using snoc by (simp add: warnings_def event_step_def)
  qed
qed

text \<open>Sorting by descending count and cutting off: what was cut counts no more than what stayed.\<close>

lemma take_sorted_rest:
  assumes "sorted (map f xs)" "x \<in> set xs" "x \<notin> set (take n xs)" "y \<in> set (take n xs)"
  shows "f y \<le> (f x :: int)"
proof -
  have "sorted (map f (take n xs) @ map f (drop n xs))"
    using assms(1) by (simp flip: map_append)
  moreover have "x \<in> set (drop n xs)"
    using assms(2,3) by (metis Un_iff append_take_drop_id set_append)
  ultimately show ?thesis using assms(4) by (auto simp: sorted_append)
qed

text \<open>The summaries before the cut, in whatever order the range loop met them.\<close>

lemma collected_summaries:
  assumes full: "mset full = mset (map snd (fold event_step items []))"
  shows "distinct (map summary_key full)"
    and "length full = card (event_key ` set (warnings items))"
    and "r \<in> set full \<Longrightarrow> \<exists>ev. most_frequent (set (warnings items)) ev \<and> r = summary_of ev"
    and "ev \<in> set (warnings items) \<Longrightarrow>
      \<exists>s\<in>set full. summary_key s = event_key ev \<and> sint (keCount ev) \<le> sint (esCount s)"
proof -
  let ?ws = "set (warnings items)"
  let ?m = "fold event_step items []"
  have inv: "distinct (map fst ?m)" "fst ` set ?m = event_key ` ?ws"
    "\<And>k s. (k, s) \<in> set ?m \<Longrightarrow> \<exists>ev. most_frequent ?ws ev \<and> event_key ev = k \<and> s = summary_of ev"
    using event_inv_fold [of items] by (auto simp: event_inv_def)
  have keys: "map summary_key (map snd ?m) = map fst ?m"
    using inv(3) by fastforce
  have sfull: "set full = snd ` set ?m" using full by (metis list.set_map mset_eq_setD)
  have "mset (map summary_key full) = mset (map fst ?m)"
    by (simp only: mset_map full flip: keys)
  then show "distinct (map summary_key full)" using inv(1) mset_eq_imp_distinct_iff by blast
  have "length full = length ?m" using full by (metis length_map mset_eq_length)
  then show "length full = card (event_key ` ?ws)"
    using inv(1,2) distinct_card [of "map fst ?m"] by simp
  show "\<exists>ev. most_frequent ?ws ev \<and> r = summary_of ev" if "r \<in> set full"
    using that inv(3) by (fastforce simp: sfull)
  show "\<exists>s\<in>set full. summary_key s = event_key ev \<and> sint (keCount ev) \<le> sint (esCount s)"
    if "ev \<in> ?ws"
  proof -
    have "event_key ev \<in> fst ` set ?m" using that unfolding inv(2) by (rule imageI)
    then obtain s where s: "(event_key ev, s) \<in> set ?m" by fastforce
    then obtain e where e: "most_frequent ?ws e" "event_key e = event_key ev" "s = summary_of e"
      using inv(3) by blast
    have "s \<in> set full" unfolding sfull using image_eqI [OF _ s, of s snd] by simp
    moreover have "sint (keCount ev) \<le> sint (esCount s)" using e that by (simp add: most_frequent_def)
    moreover have "summary_key s = event_key ev" by (simp add: e(2,3))
    ultimately show ?thesis by blast
  qed
qed

text \<open>C20: Whatever the iteration order, the collected summaries are those of the most frequent warning
  per reason and object, one per pair, in descending order of count, at most twenty of them
  and all when there are no more pairs; a warning whose pair is left out counts no more than
  any summary that is kept.\<close>

theorem warning_events_correct:
  assumes "\<forall>xs. mset (order xs) = mset xs"
  shows "let rs = collectWarningEvents order (Inr items); ws = set (warnings items) in
    length rs = min 20 (card (event_key ` ws)) \<and> distinct (map summary_key rs)
    \<and> sorted (map (\<lambda>r. - sint (esCount r)) rs)
    \<and> (\<forall>r\<in>set rs. \<exists>ev. most_frequent ws ev \<and> r = summary_of ev)
    \<and> (\<forall>ev\<in>ws. event_key ev \<in> summary_key ` set rs
         \<or> (\<forall>r\<in>set rs. sint (keCount ev) \<le> sint (esCount r)))"
proof -
  let ?ws = "set (warnings items)"
  let ?f = "\<lambda>s. - sint (esCount s)"
  define full where "full = sort_key ?f (order (map snd (fold event_step items [])))"
  have "mset full = mset (map snd (fold event_step items []))"
    using assms by (simp only: full_def mset_sort)
  note full = collected_summaries [OF this]
  have sorted: "sorted (map ?f full)" by (simp only: full_def sorted_sort_key)
  have rs: "collectWarningEvents order (Inr items) = take 20 full"
    by (simp add: collectWarningEvents_def full_def maxWarningEvents_def Let_def)
  have rest: "event_key ev \<in> summary_key ` set (take 20 full)
      \<or> (\<forall>r\<in>set (take 20 full). sint (keCount ev) \<le> sint (esCount r))" if ev: "ev \<in> ?ws" for ev
  proof -
    obtain s where s: "s \<in> set full" "summary_key s = event_key ev" "sint (keCount ev) \<le> sint (esCount s)"
      using full(4) [OF ev] by blast
    have "sint (keCount ev) \<le> sint (esCount r)"
      if "s \<notin> set (take 20 full)" "r \<in> set (take 20 full)" for r
      using take_sorted_rest [OF sorted s(1) that] s(3) by linarith
    then show ?thesis using s(2) by (metis imageI)
  qed
  have "distinct (map summary_key (take 20 full))" "sorted (map ?f (take 20 full))"
    using full(1) sorted by (simp_all add: sorted_wrt_take distinct_take flip: take_map)
  moreover have "length (take 20 full) = min 20 (card (event_key ` ?ws))"
    by (simp add: full(2) min.commute)
  moreover have "\<exists>ev. most_frequent ?ws ev \<and> r = summary_of ev" if "r \<in> set (take 20 full)" for r
    using in_set_takeD [OF that] by (rule full(3))
  ultimately show ?thesis
    unfolding Let_def rs using rest by blast
qed

definition sample_event :: "string \<Rightarrow> string \<Rightarrow> int32 \<Rightarrow> k8s_event" where
  "sample_event ty nm n =
     \<lparr>keType = ty, keReason = ''BackOff'', keMessage = ''m'' @ itoa32 n, keCount = n,
      keLastTimestamp = 0, keKind = ''Pod'', keName = nm\<rparr>"

lemma warning_events_correct_witness:
  "let rs = collectWarningEvents rev (Inr [sample_event ''Warning'' ''p'' 2,
              sample_event ''Normal'' ''q'' 9, sample_event ''Warning'' ''p'' 5])
   in length rs = 1 \<and> (\<exists>ev. rs = [summary_of ev])"
proof -
  let ?items = "[sample_event ''Warning'' ''p'' 2, sample_event ''Normal'' ''q'' 9,
    sample_event ''Warning'' ''p'' 5]"
  let ?rs = "collectWarningEvents rev (Inr ?items)"
  have "card (event_key ` set (warnings ?items)) = 1"
    by (simp add: warnings_def sample_event_def event_key_def event_object_def)
  then have "length ?rs = 1" "\<forall>r\<in>set ?rs. \<exists>ev. r = summary_of ev"
    using warning_events_correct [of rev ?items] by (auto simp: Let_def)
  then show ?thesis by (auto simp: Let_def length_Suc_conv)
qed

section \<open>Pod logs\<close>

text \<open>What the loops would collect without the cut, and the cut: an early return keeps exactly the
  first lines.\<close>

definition container_lines :: "log_stream \<Rightarrow> k8s_pod \<Rightarrow> string \<Rightarrow> string list" where
  "container_lines stream pod c =
     (case stream (podName pod) c maxTailLines of
        Inl e \<Rightarrow> [] | Inr ts \<Rightarrow> map (\<lambda>t. (''['' @ podName pod @ ''/'' @ c @ ''] '') @ t) ts)"

definition pod_lines :: "log_stream \<Rightarrow> k8s_pod \<Rightarrow> string list" where
  "pod_lines stream pod =
     (if isPodReady pod then [] else concat (map (container_lines stream pod) (podContainers pod)))"

definition cut_lines :: "string list \<Rightarrow> string list \<Rightarrow> string list \<times> bool" where
  "cut_lines lns new = (take maxTailLines (lns @ new), maxTailLines \<le> length (lns @ new))"

lemma cut_lines_Nil: "length lns < maxTailLines \<Longrightarrow> cut_lines lns [] = (lns, False)"
  by (simp add: cut_lines_def)

lemma cut_lines_append:
  "(case cut_lines lns a of (l, True) \<Rightarrow> (l, True) | (l, False) \<Rightarrow> cut_lines l b) = cut_lines lns (a @ b)"
  by (cases "maxTailLines \<le> length lns + length a") (simp_all add: cut_lines_def)

lemma cut_lines_False: "cut_lines lns a = (l, False) \<Longrightarrow> length l < maxTailLines"
  by (auto simp: cut_lines_def)

lemma scan_lines_cut:
  "length lns < maxTailLines \<Longrightarrow> scan_lines p ts lns = cut_lines lns (map (\<lambda>t. p @ t) ts)"
proof (induction ts arbitrary: lns)
  case (Cons t ts)
  show ?case
  proof (cases "maxTailLines \<le> length (lns @ [p @ t])")
    case True
    with Cons.prems have "maxTailLines = length (lns @ [p @ t])" by simp
    then have "take maxTailLines ((lns @ [p @ t]) @ ys) = lns @ [p @ t]" for ys
      by (simp only: take_append take_all_iff) simp
    with True show ?thesis by (simp add: cut_lines_def)
  next
    case False
    then have "scan_lines p ts (lns @ [p @ t]) = cut_lines (lns @ [p @ t]) (map (\<lambda>t. p @ t) ts)"
      using Cons.IH by simp
    with False show ?thesis by (simp add: cut_lines_def Let_def)
  qed
qed (simp add: cut_lines_Nil)

lemma scan_containers_cut:
  "length lns < maxTailLines \<Longrightarrow>
    scan_containers stream pod cs lns = cut_lines lns (concat (map (container_lines stream pod) cs))"
proof (induction cs arbitrary: lns)
  case (Cons c cs)
  show ?case
  proof (cases "stream (podName pod) c maxTailLines")
    case (Inl e)
    with Cons show ?thesis by (simp add: container_lines_def)
  next
    case (Inr ts)
    then have "scan_containers stream pod (c # cs) lns =
        (case cut_lines lns (container_lines stream pod c) of
           (l, True) \<Rightarrow> (l, True) | (l, False) \<Rightarrow> scan_containers stream pod cs l)"
      by (simp only: scan_containers.simps container_lines_def sum.case scan_lines_cut [OF Cons.prems])
    also have "\<dots> = (case cut_lines lns (container_lines stream pod c) of
           (l, True) \<Rightarrow> (l, True)
         | (l, False) \<Rightarrow> cut_lines l (concat (map (container_lines stream pod) cs)))"
      using Cons.IH cut_lines_False by (auto split: prod.split bool.split)
    finally show ?thesis by (simp add: cut_lines_append)
  qed
qed (simp add: cut_lines_Nil)

lemma scan_pods_cut:
  "length lns < maxTailLines \<Longrightarrow>
    scan_pods stream pods lns = cut_lines lns (concat (map (pod_lines stream) pods))"
proof (induction pods arbitrary: lns)
  case (Cons pod pods)
  have "scan_pods stream (pod # pods) lns = (case cut_lines lns (pod_lines stream pod) of
      (l, True) \<Rightarrow> (l, True) | (l, False) \<Rightarrow> scan_pods stream pods l)"
    using Cons.prems by (simp add: pod_lines_def scan_containers_cut cut_lines_Nil)
  also have "\<dots> = (case cut_lines lns (pod_lines stream pod) of
      (l, True) \<Rightarrow> (l, True) | (l, False) \<Rightarrow> cut_lines l (concat (map (pod_lines stream) pods)))"
    using Cons.IH cut_lines_False by (auto split: prod.split bool.split)
  finally show ?case by (simp add: cut_lines_append)
qed (simp add: cut_lines_Nil)

text \<open>The pods of the application: by the label \<open>app\<close>, by \<open>app.kubernetes.io/name\<close> when the
  first call answers with none, and none when it fails.\<close>

definition app_pods ::
  "(string \<Rightarrow> string \<times> string \<Rightarrow> nat \<Rightarrow> go_error + k8s_pod list) \<Rightarrow> string \<Rightarrow> string \<Rightarrow> k8s_pod list" where
  "app_pods lst ns appName =
     (case lst ns (''app'', appName) 100 of
        Inl e \<Rightarrow> []
      | Inr (p # ps) \<Rightarrow> p # ps
      | Inr [] \<Rightarrow>
          (case lst ns (''app.kubernetes.io/name'', appName) 100 of Inl e \<Rightarrow> [] | Inr ps \<Rightarrow> ps))"

lemma pod_logs_eq:
  "collectPodLogs has_clientset lst logs ns appName =
     (if has_clientset
      then take 50 (concat (map (pod_lines (logs ns)) (app_pods lst ns appName)))
      else [])"
proof -
  have "fst (scan_pods (logs ns) ps []) = take 50 (concat (map (pod_lines (logs ns)) ps))" for ps
    by (simp add: scan_pods_cut maxTailLines_def) (simp add: cut_lines_def maxTailLines_def)
  then show ?thesis
    by (auto simp: collectPodLogs_def app_pods_def Let_def split: sum.split list.split)
qed

text \<open>With a clientset the collected log tail is the first fifty lines of the logs of the
  application's pods that are not ready, container by container, each line under its pod and
  container; a log that cannot be opened is skipped, and without a clientset there is none.\<close>

theorem pod_logs_correct:
  "collectPodLogs has_clientset lst logs ns appName =
     (if has_clientset
      then take 50 (concat (map (pod_lines (logs ns)) (app_pods lst ns appName)))
      else [])"
  by (rule pod_logs_eq)

section \<open>Annotations\<close>

text \<open>
  An annotation holds one entry per line. A format is a printer and a parser of lines that
  agree on its well-formed entries; the annotation then reads back as the list of entries.
\<close>

locale line_codec =
  fixes ok :: "'a \<Rightarrow> bool"
    and printer :: "'a \<Rightarrow> string"
    and parser :: "string \<Rightarrow> 'b list"
    and val :: "'a \<Rightarrow> 'b"
  assumes parse_print: "ok x \<Longrightarrow> parser (printer x) = [val x]"
    and parse_Nil: "parser [] = []"
    and one_line: "ok x \<Longrightarrow> newline \<notin> set (printer x)"
    and no_blank: "ok x \<Longrightarrow> printer x \<noteq> [] \<and> \<not> is_space (hd (printer x)) \<and> \<not> is_space (last (printer x))"
begin

lemma hd_join: "ps \<noteq> [] \<Longrightarrow> hd ps \<noteq> [] \<Longrightarrow> join sep ps \<noteq> [] \<and> hd (join sep ps) = hd (hd ps)"
  by (cases "(sep, ps)" rule: join.cases) auto

lemma last_join: "ps \<noteq> [] \<Longrightarrow> last ps \<noteq> [] \<Longrightarrow> join sep ps \<noteq> [] \<and> last (join sep ps) = last (last ps)"
  by (induction sep ps rule: join.induct) auto

lemma trim_lines:
  assumes "list_all ok xs"
  shows "trim_space (join [newline] (map printer xs)) = join [newline] (map printer xs)"
proof (cases "xs = []")
  case False
  have "ok (hd xs)" "ok (last xs)" using assms False by (auto simp: list_all_iff)
  then show ?thesis
    using False no_blank [of "hd xs"] no_blank [of "last xs"]
      hd_join [of "map printer xs" "[newline]"] last_join [of "map printer xs" "[newline]"]
    by (intro trim_space_id) (simp_all add: hd_map last_map)
qed simp

lemma parse_lines:
  assumes "list_all ok xs"
  shows "concat (map parser (split_at newline (trim_space (join [newline] (map printer xs))))) = map val xs"
proof (cases "xs = []")
  case True
  then show ?thesis by (simp add: parse_Nil)
next
  case False
  have "\<forall>l\<in>set (map printer xs). newline \<notin> set l"
    using assms one_line by (auto simp: list_all_iff)
  then have "split_at newline (join [newline] (map printer xs)) = map printer xs"
    using False by (intro split_at_join) simp_all
  moreover have "concat (map (\<lambda>x. parser (printer x)) xs) = map val xs"
    using assms by (induction xs) (simp_all add: parse_print)
  ultimately show ?thesis by (simp add: trim_lines [OF assms] o_def)
qed

lemma join_not_Nil: "list_all ok xs \<Longrightarrow> xs \<noteq> [] \<Longrightarrow> join [newline] (map printer xs) \<noteq> []"
  using hd_join [of "map printer xs" "[newline]"] no_blank [of "hd xs"]
  by (cases xs) (simp_all add: list_all_iff)

end

text \<open>Words without blanks and without the characters that separate fields.\<close>

definition word_char :: "char \<Rightarrow> bool" where
  "word_char c \<longleftrightarrow> \<not> is_space c \<and> c \<notin> {CHR ''|'', CHR ''='', CHR ''/'', CHR '':'', CHR '',''}"

definition is_word :: "string \<Rightarrow> bool" where
  "is_word s \<longleftrightarrow> s \<noteq> '''' \<and> list_all word_char s"

definition change_ok :: "ObjectChangeSummary \<Rightarrow> bool" where
  "change_ok c \<longleftrightarrow> is_word (ocKind c) \<and> is_word (ocName c) \<and> is_word (ocChangeType c)
     \<and> list_all is_word (ocChangedFields c)"

definition bar_line :: "ObjectChangeSummary \<Rightarrow> string" where
  "bar_line c = ocKind c @ ''|'' @ ocName c @ ''|'' @ ocChangeType c @ ''|'' @ join '','' (ocChangedFields c)"

definition eq_line :: "ObjectChangeSummary \<Rightarrow> string" where
  "eq_line c = ocKind c @ ''/'' @ ocName c @ ''='' @ ocChangeType c @ '':'' @ join '','' (ocChangedFields c)"

lemma newline_space [simp]: "is_space newline"
  by (simp add: is_space_def newline_def)

lemma word_no_sep:
  assumes "is_word s"
  shows "CHR ''|'' \<notin> set s" "CHR ''='' \<notin> set s" "CHR ''/'' \<notin> set s" "CHR '':'' \<notin> set s"
    "CHR '','' \<notin> set s" "newline \<notin> set s" "s \<noteq> []"
  using assms newline_space by (auto simp: is_word_def list_all_iff word_char_def simp del: newline_space)

lemma set_join: "set (join sep ps) \<subseteq> set sep \<union> (\<Union>p\<in>set ps. set p)"
  by (induction sep ps rule: join.induct) auto

lemma sep_not_space [simp]:
  "\<not> is_space CHR ''|''" "\<not> is_space CHR ''/''" "\<not> is_space CHR ''=''" "\<not> is_space CHR '':''"
  "\<not> is_space CHR '',''"
  by (simp_all add: is_space_def)

lemma join_chars:
  assumes "list_all is_word fs" "c \<in> set (join '','' fs)"
  shows "c = CHR '','' \<or> word_char c"
proof (cases "c = CHR '',''")
  case False
  then obtain f where "f \<in> set fs" "c \<in> set f" using set_join [of "'',''" fs] assms(2) by auto
  then show ?thesis using assms(1) by (simp add: list_all_iff is_word_def)
qed simp

lemma fields_no_sep:
  assumes "list_all is_word fs"
  shows "CHR ''|'' \<notin> set (join '','' fs)" "newline \<notin> set (join '','' fs)"
    "CHR ''='' \<notin> set (join '','' fs)" "CHR '':'' \<notin> set (join '','' fs)"
proof -
  have "\<not> word_char CHR ''|''" "\<not> word_char newline" "\<not> word_char CHR ''=''" "\<not> word_char CHR '':''"
    by (simp_all add: word_char_def)
  moreover have "newline \<noteq> CHR '',''" using newline_space sep_not_space(5) by metis
  ultimately show "CHR ''|'' \<notin> set (join '','' fs)" "newline \<notin> set (join '','' fs)"
    "CHR ''='' \<notin> set (join '','' fs)" "CHR '':'' \<notin> set (join '','' fs)"
    using join_chars [OF assms] by auto
qed

lemma join_fields_Nil: "list_all is_word fs \<Longrightarrow> join '','' fs = [] \<longleftrightarrow> fs = []"
  by (induction "'',''" fs rule: join.induct) (auto simp: word_no_sep)

lemma split_fields: "list_all is_word fs \<Longrightarrow> fs \<noteq> [] \<Longrightarrow> split_at CHR '','' (join '','' fs) = fs"
  by (intro split_at_join) (auto simp: list_all_iff word_no_sep)

text \<open>A line that begins with a word and does not end in a blank.\<close>

lemma line_no_blank:
  assumes "is_word a" "list_all is_word fs" "\<not> is_space c"
  shows "a @ s @ c # join '','' fs \<noteq> [] \<and> \<not> is_space (hd (a @ s @ c # join '','' fs))
    \<and> \<not> is_space (last (a @ s @ c # join '','' fs))"
proof -
  have hd: "a \<noteq> []" "\<not> is_space (hd a)"
    using assms(1) by (cases a; simp add: is_word_def word_char_def)+
  have "\<not> is_space (last (join '','' fs))" if "join '','' fs \<noteq> []"
  proof -
    have "last (join '','' fs) = CHR '','' \<or> word_char (last (join '','' fs))"
      using that by (intro join_chars [OF assms(2)]) simp
    then show ?thesis using sep_not_space(5) by (auto simp only: word_char_def)
  qed
  then show ?thesis using hd assms(3) by auto
qed

lemma bar_no_blank:
  assumes "change_ok c"
  shows "bar_line c \<noteq> [] \<and> \<not> is_space (hd (bar_line c)) \<and> \<not> is_space (last (bar_line c))"
proof -
  have "bar_line c = ocKind c @ (''|'' @ ocName c @ ''|'' @ ocChangeType c)
      @ CHR ''|'' # join '','' (ocChangedFields c)"
    by (simp add: bar_line_def)
  then show ?thesis using line_no_blank assms by (simp only: change_ok_def sep_not_space simp_thms)
qed

lemma eq_no_blank:
  assumes "change_ok c"
  shows "eq_line c \<noteq> [] \<and> \<not> is_space (hd (eq_line c)) \<and> \<not> is_space (last (eq_line c))"
proof -
  have "eq_line c = ocKind c @ (''/'' @ ocName c @ ''='' @ ocChangeType c)
      @ CHR '':'' # join '','' (ocChangedFields c)"
    by (simp add: eq_line_def)
  then show ?thesis using line_no_blank assms by (simp only: change_ok_def sep_not_space simp_thms)
qed

lemma bar_line_parse: "change_ok c \<Longrightarrow> change_line (bar_line c) = [c]"
proof -
  assume ok: "change_ok c"
  note w = word_no_sep fields_no_sep
  have "split_at CHR ''|'' (bar_line c)
      = [ocKind c, ocName c, ocChangeType c, join '','' (ocChangedFields c)]"
    using ok by (simp add: bar_line_def change_ok_def split_at_append split_at_no_sep w)
  moreover have "CHR ''|'' \<in> set (bar_line c)" by (simp add: bar_line_def)
  moreover have "trim_space (bar_line c) = bar_line c" "bar_line c \<noteq> []"
    using bar_no_blank [OF ok] by (simp_all add: trim_space_id)
  ultimately show ?thesis
    using ok by (simp add: change_line_def Let_def change_ok_def w join_fields_Nil split_fields)
qed

lemma eq_line_parse: "change_ok c \<Longrightarrow> change_line (eq_line c) = [c]"
proof -
  assume ok: "change_ok c"
  note w = word_no_sep fields_no_sep
  have "split2 CHR ''='' (eq_line c) =
      [ocKind c @ ''/'' @ ocName c, ocChangeType c @ '':'' @ join '','' (ocChangedFields c)]"
    using ok split2_append [of "CHR ''=''" "ocKind c @ ''/'' @ ocName c"]
    by (simp add: eq_line_def change_ok_def w)
  moreover have "split2 CHR ''/'' (ocKind c @ ''/'' @ ocName c) = [ocKind c, ocName c]"
    "split2 CHR '':'' (ocChangeType c @ '':'' @ join '','' (ocChangedFields c)) =
       [ocChangeType c, join '','' (ocChangedFields c)]"
    using ok by (simp_all add: split2_append change_ok_def w)
  moreover have "CHR ''|'' \<notin> set (eq_line c)" "CHR ''='' \<in> set (eq_line c)" "CHR ''/'' \<in> set (eq_line c)"
    using ok by (simp_all add: eq_line_def change_ok_def w)
  moreover have "trim_space (eq_line c) = eq_line c" "eq_line c \<noteq> []"
    using eq_no_blank [OF ok] by (simp_all add: trim_space_id)
  ultimately show ?thesis
    using ok by (simp add: change_line_def Let_def change_ok_def w join_fields_Nil split_fields)
qed

lemma change_line_Nil: "change_line [] = []"
  by (simp add: change_line_def)

lemma line_no_newline:
  assumes "change_ok c"
  shows "newline \<notin> set (bar_line c)" "newline \<notin> set (eq_line c)"
proof -
  have "newline \<noteq> CHR ''|''" "newline \<noteq> CHR ''/''" "newline \<noteq> CHR ''=''" "newline \<noteq> CHR '':''"
    using newline_space sep_not_space by metis+
  then show "newline \<notin> set (bar_line c)" "newline \<notin> set (eq_line c)"
    using assms by (simp_all add: bar_line_def eq_line_def change_ok_def word_no_sep fields_no_sep)
qed

interpretation bar_codec: line_codec change_ok bar_line change_line "\<lambda>c. c"
  by unfold_locales (simp_all add: bar_line_parse change_line_Nil line_no_newline bar_no_blank)

interpretation eq_codec: line_codec change_ok eq_line change_line "\<lambda>c. c"
  by unfold_locales (simp_all add: eq_line_parse change_line_Nil line_no_newline eq_no_blank)

text \<open>Dependencies: what counts as met, and the reference that is reported.\<close>

definition dependency_met ::
  "kube_client \<Rightarrow> (string \<Rightarrow> string \<Rightarrow> string \<Rightarrow> go_error option) \<Rightarrow> string \<Rightarrow> string \<Rightarrow> string \<Rightarrow> bool" where
  "dependency_met kc get ns kind nm \<longleftrightarrow>
     kind \<in> {''ConfigMap'', ''Secret'', ''ServiceAccount''} \<and> get kind ns nm = None
     \<or> kind = ''DataVolume'' \<and> isDataVolumeReady kc ns nm
     \<or> kind = ''MachineConfig'' \<and> isMachineConfigReady kc nm
     \<or> kind = ''StorageClass'' \<and> isStorageClassReady kc nm"

definition checked_kinds :: "string list" where
  "checked_kinds =
     [''ConfigMap'', ''Secret'', ''ServiceAccount'', ''DataVolume'', ''MachineConfig'', ''StorageClass'']"

definition dependency_ref ::
  "kube_client \<Rightarrow> (string \<Rightarrow> string \<Rightarrow> string \<Rightarrow> go_error option) \<Rightarrow> string \<Rightarrow> string \<times> string \<Rightarrow>
    DependencyRef" where
  "dependency_ref kc get ns d =
     \<lparr>drKind = fst d, drName = snd d, drReady = dependency_met kc get ns (fst d) (snd d),
      drNote = (if fst d \<in> set checked_kinds then ''''
                else ''readiness check not implemented for kind '' @ fst d)\<rparr>"

definition dep_ok :: "string \<times> string \<Rightarrow> bool" where
  "dep_ok d \<longleftrightarrow> is_word (fst d) \<and> is_word (snd d)"

definition dep_line :: "string \<times> string \<Rightarrow> string" where
  "dep_line d = fst d @ ''/'' @ snd d"

lemma dep_no_blank:
  assumes "dep_ok d"
  shows "dep_line d \<noteq> [] \<and> \<not> is_space (hd (dep_line d)) \<and> \<not> is_space (last (dep_line d))"
proof -
  have "dep_line d = fst d @ [] @ CHR ''/'' # join '','' [snd d]" by (simp add: dep_line_def)
  then show ?thesis
    using line_no_blank [of "fst d" "[snd d]" "CHR ''/''" "[]"] assms by (simp add: dep_ok_def)
qed

lemma dependency_line_ref:
  assumes "split2 CHR ''/'' (trim_space l) = [k, n]"
  shows "dependency_line kc get ns l = [dependency_ref kc get ns (k, n)]"
proof -
  have "k \<in> set checked_kinds \<or> k \<notin> set checked_kinds" by blast
  then show ?thesis
    unfolding dependency_line_def assms
    by (auto simp: dependency_ref_def dependency_met_def checked_kinds_def Let_def)
qed

lemma dep_line_parse: "dep_ok d \<Longrightarrow> dependency_line kc get ns (dep_line d) = [dependency_ref kc get ns d]"
proof -
  assume ok: "dep_ok d"
  have "trim_space (dep_line d) = dep_line d"
    using dep_no_blank [OF ok] by (simp add: trim_space_id)
  moreover have "split2 CHR ''/'' (dep_line d) = [fst d, snd d]"
    using ok by (simp add: dep_line_def dep_ok_def split2_append word_no_sep)
  ultimately show ?thesis using dependency_line_ref [of "dep_line d" "fst d" "snd d"] by simp
qed

lemma dependency_line_Nil: "dependency_line kc get ns [] = []"
  by (simp add: dependency_line_def split2_no_sep)

interpretation dep_codec: line_codec dep_ok dep_line "dependency_line kc get ns" "dependency_ref kc get ns"
  for kc get ns
proof unfold_locales
  fix d
  assume ok: "dep_ok d"
  have "newline \<noteq> CHR ''/''" using newline_space sep_not_space by metis
  then show "newline \<notin> set (dep_line d)"
    using ok by (simp add: dep_line_def dep_ok_def word_no_sep)
qed (simp_all add: dep_line_parse dep_no_blank dependency_line_Nil)

text \<open>C23: Object changes written into the annotation in either format, one per line, are read back as
  they were, and dependencies written as kind and name are reported in their order, each ready
  exactly when its own check says so: a kind without a check and a check that fails count as
  not ready, and only the former carries a note.\<close>

theorem annotations_read_back:
  assumes "list_all change_ok cs" "fmt = bar_line \<or> fmt = eq_line" "list_all dep_ok ds"
    and "gm_get (cmAnnotations cm) ''gitops.example.com/last-sync-resources'' =
      Some (join [newline] (map fmt cs))"
    and "gm_get (cmAnnotations cm) ''gitops.example.com/dependencies'' =
      Some (join [newline] (map dep_line ds))"
  shows "objectChangesFromAnnotation cm = cs
    \<and> checkDependencies kc get ns cm = map (dependency_ref kc get ns) ds"
proof
  have "concat (map change_line (split_at newline (trim_space (join [newline] (map fmt cs))))) = cs"
    "join [newline] (map fmt cs) = [] \<Longrightarrow> cs = []"
    using assms(1,2) bar_codec.parse_lines eq_codec.parse_lines bar_codec.join_not_Nil
      eq_codec.join_not_Nil by auto
  then show "objectChangesFromAnnotation cm = cs"
    by (auto simp: objectChangesFromAnnotation_def assms(4))
  show "checkDependencies kc get ns cm = map (dependency_ref kc get ns) ds"
    using dep_codec.parse_lines [OF assms(3)] dep_codec.join_not_Nil [OF assms(3)]
    by (auto simp: checkDependencies_def assms(5))
qed

definition sample_kube :: kube_client where
  "sample_kube = \<lparr>kcGet = (\<lambda>g ns nm. Inl NotFound), kcList = (\<lambda>g ns ls n. Inr [])\<rparr>"

definition sample_cm :: config_map where
  "sample_cm =
     \<lparr>cmName = ''d'', cmNamespace = ''ns'', cmLabels = [(''gitops.example.com/app'', ''a'')],
      cmAnnotations =
        [(''gitops.example.com/last-sync-resources'', ''Deployment|web|Modified|spec.replicas,spec.image''),
         (''gitops.example.com/dependencies'', ''Secret/db'')],
      cmData = [(''syncStatus'', ''OutOfSync''), (''health'', ''Healthy''), (''observedRevision'', ''r1'')],
      cmDeletionTimestamp = None\<rparr>"

lemma annotations_read_back_witness:
  "objectChangesFromAnnotation sample_cm =
     [\<lparr>ocKind = ''Deployment'', ocName = ''web'', ocChangeType = ''Modified'',
       ocChangedFields = [''spec.replicas'', ''spec.image'']\<rparr>]
   \<and> map drReady (checkDependencies sample_kube (\<lambda>k ns nm. Some NotFound) ''ns'' sample_cm) = [False]"
proof -
  let ?c = "\<lparr>ocKind = ''Deployment'', ocName = ''web'', ocChangeType = ''Modified'',
       ocChangedFields = [''spec.replicas'', ''spec.image'']\<rparr>"
  have "list_all change_ok [?c]" "list_all dep_ok [(''Secret'', ''db'')]"
    by code_simp+
  moreover have "gm_get (cmAnnotations sample_cm) ''gitops.example.com/last-sync-resources'' =
      Some (join [newline] (map bar_line [?c]))"
    "gm_get (cmAnnotations sample_cm) ''gitops.example.com/dependencies'' =
      Some (join [newline] (map dep_line [(''Secret'', ''db'')]))"
    by (simp_all add: sample_cm_def gm_get_def bar_line_def dep_line_def)
  ultimately show ?thesis
    using annotations_read_back [of "[?c]" bar_line "[(''Secret'', ''db'')]" sample_cm sample_kube
        "\<lambda>k ns nm. Some NotFound" "''ns''"]
    by (simp add: dependency_ref_def dependency_met_def)
qed

end
