(* ===== verification/PlatformProps.thy ===== *)
theory PlatformProps
  imports Platform
begin

text \<open>
  Specifications of the platform evaluators and their refinement: which stage fails, what a
  stage blames, which node a failure blocks, what the operator ordering reports, and how close
  the predicted time is to the exact quotient.
\<close>

section \<open>The dependency graph\<close>

text \<open>How each of the six stages fails: the status it shows, the resource it blames, the
  summary of the root cause.\<close>

type_synonym stage_fault = "(string \<times> string \<times> string) option"

definition version_fault :: "ClusterVersionStatus \<Rightarrow> stage_fault" where
  "version_fault cv =
     (if cvProgressing cv then
        Some (''Updating'', ''ClusterVersion/version'',
          ''ClusterVersion upgrade is actively progressing'')
      else if \<not> cvAvailable cv \<and> cvVersion cv \<noteq> [] then
        Some (''Degraded'', ''ClusterVersion/version'', ''ClusterVersion reports Available=False'')
      else None)"

definition pool_fault :: "MachineConfigPoolStatus list \<Rightarrow> stage_fault" where
  "pool_fault ms =
     map_option (\<lambda>m. (mcpPhase m, ''MachineConfigPool/'' @ mcpName m,
         ''MachineConfigPool '' @ mcpName m @ '' is in phase '' @ mcpPhase m))
       (List.find mcp_unsettled ms)"

definition operator_fault :: "ClusterOperatorStatus list \<Rightarrow> stage_fault" where
  "operator_fault ops =
     map_option (\<lambda>c. (''Degraded'', ''ClusterOperator/'' @ coName c,
         ''ClusterOperator '' @ coName c @ '' is Degraded or Unavailable''))
       (List.find co_failing ops)"

definition deploy_fault :: "(OperatorDeployStatus \<times> string) list \<Rightarrow> stage_fault" where
  "deploy_fault ods =
     map_option (\<lambda>(od, r). (''Updating'', r, r @ '' operator phase is not Deployed''))
       (List.find (not_deployed \<circ> fst) ods)"

definition virt_operators :: "PlatformObservationStatus \<Rightarrow> (OperatorDeployStatus \<times> string) list" where
  "virt_operators obs =
     [(poKubeVirt obs, ''KubeVirt/kubevirt''), (poCDI obs, ''CDI/cdi''), (poSSP obs, ''SSP/ssp'')]"

definition handler_unready :: "VirtualizationImpactStatus \<Rightarrow> bool" where
  "handler_unready vh \<longleftrightarrow> \<not> viVirtHandlerReady vh \<and> viHyperConvergedHealth vh \<noteq> []"

definition execution_fault :: "int32 \<Rightarrow> VirtualizationImpactStatus \<Rightarrow> stage_fault" where
  "execution_fault n vh =
     (if 0 < sint n then
        Some (''Maintenance'', ''NodeMaintenance/active'',
          itoa32 n @ '' node(s) under active NodeMaintenance'')
      else if handler_unready vh then
        Some (''Degraded'', ''DaemonSet/virt-handler'', ''virt-handler DaemonSet is not ready'')
      else None)"

definition migration_fault :: "int32 \<Rightarrow> stage_fault" where
  "migration_fault n =
     (if 0 < sint n then
        Some (''Stalled'', ''VirtualMachineInstanceMigration/stalled'',
          itoa32 n @ '' live migration(s) stalled'')
      else None)"

definition stage_failure :: "PlatformObservationStatus \<Rightarrow> nat \<Rightarrow> stage_fault" where
  "stage_failure obs i =
     [version_fault (poClusterVersion obs), pool_fault (poMachineConfigPools obs),
      operator_fault (poClusterOperators obs), deploy_fault (virt_operators obs),
      execution_fault (nmActiveMaintenanceNodes (poNodeMaintenance obs)) (poVirtHealth obs),
      migration_fault (viStalledMigrations (poVirtHealth obs))] ! i"

lemmas fault_defs = version_fault_def pool_fault_def operator_fault_def deploy_fault_def
  execution_fault_def migration_fault_def

definition fail_status :: "stage_fault \<Rightarrow> string" where
  "fail_status f = (case f of None \<Rightarrow> ''Healthy'' | Some (s, _, _) \<Rightarrow> s)"

definition fail_resource :: "stage_fault \<Rightarrow> string" where
  "fail_resource f = (case f of None \<Rightarrow> '''' | Some (_, r, _) \<Rightarrow> r)"

definition fail_root :: "stage_fault \<Rightarrow> root_cause \<Rightarrow> root_cause" where
  "fail_root f rc = (case f of None \<Rightarrow> rc | Some (_, r, m) \<Rightarrow> set_root r m rc)"

text \<open>The first failure among some stages.\<close>

definition first_failure ::
  "PlatformObservationStatus \<Rightarrow> nat list \<Rightarrow> stage_fault" where
  "first_failure obs is =
     (case List.find (\<lambda>i. stage_failure obs i \<noteq> None) is of None \<Rightarrow> None | Some i \<Rightarrow> stage_failure obs i)"

text \<open>The stages a stage may be impacted by, the nearest first.\<close>

definition upstream_stages :: "nat \<Rightarrow> nat list" where
  "upstream_stages i = [[], [0], [1, 0], [2, 1], [3, 1], [4, 1]] ! i"

definition graph_node :: "PlatformObservationStatus \<Rightarrow> nat \<Rightarrow> CausalNode" where
  "graph_node obs i =
     (let blame = fail_resource (first_failure obs (upstream_stages i)) in
      \<lparr>cnStage = [''ClusterVersion'', ''NodeConfig'', ''ControlPlane'', ''VirtOperators'',
         ''WorkloadExecution'', ''LiveMigration''] ! i,
       cnResource = [''ClusterVersion/version'', ''MachineConfigPools'', ''ClusterOperators'',
         ''KubeVirtOperators'', ''NodeExecutionLayer'', ''VMIWorkloads''] ! i,
       cnStatus = fail_status (stage_failure obs i),
       cnRootCauseOf = (if blame = '''' then [] else [''downstream-workloads'']),
       cnImpactedBy = blame\<rparr>)"

lemma stage_failure_simps [simp]:
  "stage_failure obs 0 = version_fault (poClusterVersion obs)"
  "stage_failure obs (Suc 0) = pool_fault (poMachineConfigPools obs)"
  "stage_failure obs 2 = operator_fault (poClusterOperators obs)"
  "stage_failure obs 3 = deploy_fault (virt_operators obs)"
  "stage_failure obs 4 =
     execution_fault (nmActiveMaintenanceNodes (poNodeMaintenance obs)) (poVirtHealth obs)"
  "stage_failure obs 5 = migration_fault (viStalledMigrations (poVirtHealth obs))"
  by (simp_all add: stage_failure_def numeral_eq_Suc)

lemmas fail_defs = fail_status_def fail_resource_def fail_root_def

lemma stage1_refine:
  "stage1 obs rc = (fail_status (stage_failure obs 0), fail_root (stage_failure obs 0) rc)"
  by (simp add: stage1_def version_fault_def fail_defs Let_def)

lemma stage2_refine:
  "stage2 obs rc = (fail_status (stage_failure obs 1), fail_resource (stage_failure obs 1),
     fail_root (stage_failure obs 1) rc)"
  by (simp add: stage2_def pool_fault_def fail_defs Let_def split: option.split)

lemma stage3_refine:
  "stage3 obs rc = (fail_status (stage_failure obs 2), fail_resource (stage_failure obs 2),
     fail_root (stage_failure obs 2) rc)"
  by (simp add: stage3_def operator_fault_def fail_defs Let_def split: option.split)

lemma stage4_refine:
  "stage4 obs rc = (fail_status (stage_failure obs 3), fail_resource (stage_failure obs 3),
     fail_root (stage_failure obs 3) rc)"
  by (simp add: stage4_def deploy_fault_def virt_operators_def fail_defs)

lemma stage5_refine:
  "stage5 obs rc = (fail_status (stage_failure obs 4), fail_resource (stage_failure obs 4),
     fail_root (stage_failure obs 4) rc)"
  by (simp add: stage5_def execution_fault_def handler_unready_def fail_defs Let_def)

lemma stage6_refine:
  "stage6 obs rc = (fail_status (stage_failure obs 5), fail_root (stage_failure obs 5) rc)"
  by (simp add: stage6_def migration_fault_def fail_defs Let_def)

lemmas stage_refine = stage1_refine stage2_refine stage3_refine stage4_refine stage5_refine stage6_refine

definition real_fault :: "stage_fault \<Rightarrow> bool" where
  "real_fault f \<longleftrightarrow> (case f of None \<Rightarrow> True | Some (s, r, m) \<Rightarrow> s \<noteq> ''Healthy'' \<and> s \<noteq> ''Blocked''
     \<and> CHR ''/'' \<in> set r)"

lemma unsettled_phase:
  assumes "List.find mcp_unsettled ms = Some m"
  shows "mcpPhase m \<noteq> ''Healthy'' \<and> mcpPhase m \<noteq> ''Blocked''"
proof -
  have "mcp_unsettled m" using assms by (auto simp: find_Some_iff)
  then show ?thesis by (auto simp: mcp_unsettled_def)
qed

lemma pool_fault_real: "real_fault (pool_fault ms)"
  by (cases "List.find mcp_unsettled ms")
    (simp_all add: real_fault_def pool_fault_def unsettled_phase)

lemma deploy_fault_real: "real_fault (deploy_fault (virt_operators obs))"
  by (simp add: real_fault_def deploy_fault_def virt_operators_def)

lemma operator_fault_real: "real_fault (operator_fault ops)"
  by (cases "List.find co_failing ops") (simp_all add: real_fault_def operator_fault_def)

lemma fault_real:
  "real_fault (version_fault cv)" "real_fault (execution_fault n vh)" "real_fault (migration_fault k)"
  by (simp_all add: real_fault_def version_fault_def execution_fault_def migration_fault_def)

lemma less_6: "i < 6 \<longleftrightarrow> i = 0 \<or> i = Suc 0 \<or> i = 2 \<or> i = 3 \<or> i = 4 \<or> i = (5 :: nat)"
  by presburger

lemma real_faults: "i < 6 \<Longrightarrow> real_fault (stage_failure obs i)"
  unfolding less_6
  by (elim disjE) (simp_all add: fault_real operator_fault_real pool_fault_real deploy_fault_real)

lemma fail_status_iff: "real_fault f \<Longrightarrow> fail_status f = ''Healthy'' \<longleftrightarrow> f = None"
  by (auto simp: real_fault_def fail_status_def split: option.splits)

lemma fail_resource_iff: "real_fault f \<Longrightarrow> fail_resource f = [] \<longleftrightarrow> f = None"
  by (auto simp: real_fault_def fail_resource_def split: option.splits)

lemma all_stages: "(\<forall>i<6. P i) \<longleftrightarrow> P 0 \<and> P (Suc 0) \<and> P 2 \<and> P 3 \<and> P 4 \<and> P (5 :: nat)"
  unfolding less_6 by blast

lemma all_stages_list: "[0..<6] = [0, Suc 0, 2, 3, 4, 5]"
  by (simp add: upt_rec)

lemma real_faultD:
  "real_fault (Some (s, r, m)) \<Longrightarrow> s \<noteq> ''Healthy'' \<and> s \<noteq> ''Blocked'' \<and> r \<noteq> [] \<and> CHR ''/'' \<in> set r"
  by (auto simp: real_fault_def)

lemma fold_fail_root:
  assumes "\<forall>i\<in>set is. real_fault (stage_failure obs i)"
  shows "fold (\<lambda>i. fail_root (stage_failure obs i)) is rc =
    (if fst rc \<noteq> [] then rc
     else case first_failure obs is of None \<Rightarrow> rc | Some (s, r, m) \<Rightarrow> (r, m))"
  using assms
proof (induction "is" arbitrary: rc)
  case Nil
  then show ?case by (simp add: first_failure_def)
next
  case (Cons i "is")
  show ?case
  proof (cases "stage_failure obs i")
    case None
    with Cons show ?thesis by (simp add: fail_root_def first_failure_def)
  next
    case (Some f)
    obtain s r m where f: "f = (s, r, m)" by (cases f)
    have "r \<noteq> []" using Cons.prems Some f real_faultD by fastforce
    then have fr: "fail_root (Some f) rc = (if fst rc = [] then (r, m) else rc)"
        "fst (fail_root (Some f) rc) \<noteq> []"
      by (simp_all add: f fail_root_def set_root_def)
    then have "fold (\<lambda>i. fail_root (stage_failure obs i)) is (fail_root (Some f) rc) =
        fail_root (Some f) rc"
      using Cons.IH [of "fail_root (Some f) rc"] Cons.prems by simp
    then show ?thesis using fr(1) by (simp add: Some f first_failure_def)
  qed
qed

definition root_of :: "stage_fault \<Rightarrow> root_cause" where
  "root_of f = (case f of None \<Rightarrow> ('''', '''') | Some (s, r, m) \<Rightarrow> (r, m))"

lemma fail_root_chain:
  "fail_root (stage_failure obs 5) (fail_root (stage_failure obs 4) (fail_root (stage_failure obs 3)
     (fail_root (stage_failure obs 2) (fail_root (stage_failure obs (Suc 0))
       (fail_root (stage_failure obs 0) ([], [])))))) = root_of (first_failure obs [0..<6])"
proof -
  have "fold (\<lambda>i. fail_root (stage_failure obs i)) [0..<6] ([], []) = root_of (first_failure obs [0..<6])"
    by (subst fold_fail_root) (auto simp: real_faults root_of_def split: option.split)
  then show ?thesis by (simp only: all_stages_list fold_simps)
qed

lemma first_failure_cases:
  assumes "set is \<subseteq> {..<6}"
  shows "real_fault (first_failure obs is)
    \<and> (first_failure obs is = None \<longleftrightarrow> (\<forall>i\<in>set is. stage_failure obs i = None))"
proof (cases "List.find (\<lambda>i. stage_failure obs i \<noteq> None) is")
  case None
  then have "first_failure obs is = None" by (simp only: first_failure_def option.case)
  moreover have "\<forall>i\<in>set is. stage_failure obs i = None"
    using None unfolding find_None_iff by blast
  ultimately show ?thesis by (simp add: real_fault_def)
next
  case (Some i)
  then have i: "i \<in> set is" "stage_failure obs i \<noteq> None" by (auto simp: find_Some_iff)
  have "first_failure obs is = stage_failure obs i"
    by (simp only: first_failure_def Some option.case)
  then show ?thesis using i assms real_faults [of i obs] by auto
qed

text \<open>The cascade of a node's \<open>ImpactedBy\<close> is the first failure among two stages.\<close>

lemma blame_pair:
  assumes "i < 6" "j < 6"
  shows "(if fail_status (stage_failure obs i) \<noteq> ''Healthy'' then fail_resource (stage_failure obs i)
     else if fail_status (stage_failure obs j) \<noteq> ''Healthy'' then fail_resource (stage_failure obs j)
     else []) = fail_resource (first_failure obs [i, j])"
  using real_faults [OF assms(1), of obs] real_faults [OF assms(2), of obs]
  by (auto simp: fail_status_iff first_failure_def fail_resource_def)

lemma blame_one:
  assumes "i < 6"
  shows "(if fail_status (stage_failure obs i) \<noteq> ''Healthy'' then fail_resource (stage_failure obs i)
     else []) = fail_resource (first_failure obs [i])"
  using real_faults [OF assms(1), of obs]
  by (auto simp: fail_status_iff first_failure_def fail_resource_def)

lemma version_resource:
  "version_fault cv \<noteq> None \<Longrightarrow> fail_resource (version_fault cv) = ''ClusterVersion/version''"
  by (auto simp: version_fault_def fail_resource_def split: if_splits)

text \<open>A node as the code builds it and links it to the root cause.\<close>

definition link_if :: "string \<Rightarrow> CausalNode \<Rightarrow> CausalNode" where
  "link_if rc n = (if rc \<noteq> [] then link_root rc n else n)"

lemma linked_node:
  assumes "CHR ''/'' \<notin> set res" "rc \<noteq> [] \<longrightarrow> CHR ''/'' \<in> set rc" "rc = [] \<longrightarrow> blame = []"
  shows "link_if rc (causal_node stage res status blame) =
    \<lparr>cnStage = stage, cnResource = res, cnStatus = status,
     cnRootCauseOf = (if blame = [] then [] else [''downstream-workloads'']),
     cnImpactedBy = blame\<rparr>"
  using assms by (auto simp: link_if_def link_root_def causal_node_def)

lemma linked_first:
  "link_if rc (causal_node stage res status []) =
    \<lparr>cnStage = stage, cnResource = res, cnStatus = status, cnRootCauseOf = [], cnImpactedBy = []\<rparr>"
  by (simp add: link_if_def link_root_def causal_node_def)

definition root_cause_of :: "PlatformObservationStatus \<Rightarrow> root_cause" where
  "root_cause_of obs = root_of (first_failure obs [0..<6])"

lemma root_cause_facts:
  shows "fst (root_cause_of obs) \<noteq> [] \<longrightarrow> CHR ''/'' \<in> set (fst (root_cause_of obs))"
    and "fst (root_cause_of obs) = [] \<longleftrightarrow> (\<forall>i<6. stage_failure obs i = None)"
proof -
  have f: "real_fault (first_failure obs [0..<6])"
    "first_failure obs [0..<6] = None \<longleftrightarrow> (\<forall>i<6. stage_failure obs i = None)"
    using first_failure_cases [of "[0..<6]" obs] by (auto simp: subset_iff)
  show "fst (root_cause_of obs) \<noteq> [] \<longrightarrow> CHR ''/'' \<in> set (fst (root_cause_of obs))"
    "fst (root_cause_of obs) = [] \<longleftrightarrow> (\<forall>i<6. stage_failure obs i = None)"
    using f real_faultD
    by (cases "first_failure obs [0..<6]"; fastforce simp: root_cause_of_def root_of_def)+
qed

lemma blame_empty:
  assumes "\<forall>i<6. stage_failure obs i = None" "set is \<subseteq> {..<6}"
  shows "fail_resource (first_failure obs is) = []"
  using assms first_failure_cases [OF assms(2), of obs] by (auto simp: fail_resource_def)

lemma evaluate_graph_unfold:
  "EvaluatePlatformDependencyGraph obs =
    (let rc = root_cause_of obs;
         s = (\<lambda>i. fail_status (stage_failure obs i)); b = (\<lambda>is. fail_resource (first_failure obs is))
     in \<lparr>dgHealthy = (fst rc = []), dgRootCauseResource = fst rc, dgRootCauseSummary = snd rc,
         dgNodes = map (link_if (fst rc))
           [causal_node ''ClusterVersion'' ''ClusterVersion/version'' (s 0) [],
            causal_node ''NodeConfig'' ''MachineConfigPools'' (s 1) (b [0]),
            causal_node ''ControlPlane'' ''ClusterOperators'' (s 2) (b [1, 0]),
            causal_node ''VirtOperators'' ''KubeVirtOperators'' (s 3) (b [2, 1]),
            causal_node ''WorkloadExecution'' ''NodeExecutionLayer'' (s 4) (b [3, 1]),
            causal_node ''LiveMigration'' ''VMIWorkloads'' (s 5) (b [4, 1])]\<rparr>)"
proof -
  let ?f = "stage_failure obs"
  have cv: "(if fail_status (?f 0) \<noteq> ''Healthy'' then ''ClusterVersion/version'' else d) =
      (if fail_status (?f 0) \<noteq> ''Healthy'' then fail_resource (?f 0) else d)" for d
    using version_resource [of "poClusterVersion obs"] real_faults [of 0 obs] fail_status_iff
    by auto
  show ?thesis
    unfolding EvaluatePlatformDependencyGraph_def stage_refine Let_def prod.case cv One_nat_def
      fail_root_chain
    by (simp add: root_cause_of_def blame_one blame_pair link_if_def del: stage_failure_simps)
qed

lemma dgNodes_eq: "dgNodes (EvaluatePlatformDependencyGraph obs) = map (graph_node obs) [0..<6]"
proof -
  have b: "fail_resource (first_failure obs is) = []"
    if "fst (root_cause_of obs) = []" "set is \<subseteq> {..<6}" for "is"
    using that blame_empty root_cause_facts(2) by blast
  then show ?thesis
    unfolding evaluate_graph_unfold Let_def
    by (simp add: linked_first linked_node root_cause_facts(1) b all_stages_list graph_node_def
        upstream_stages_def first_failure_def [of obs "[]"] fail_resource_def [of None] numeral_eq_Suc
        Let_def del: stage_failure_simps)
qed

text \<open>C11: The dependency graph is the specified one: its root cause is what the first failing of the
  six stages blames, it is healthy exactly when no stage fails, and every node shows its own
  fault and names as impact the nearest failing one of the two stages above it, and
  \<open>downstream-workloads\<close> as what it causes exactly when it is itself impacted. So a running
  ClusterVersion upgrade alone is documented by the next two stages only.\<close>

theorem dependency_graph_correct:
  "let r = EvaluatePlatformDependencyGraph obs; f = first_failure obs [0..<6] in
     dgNodes r = map (graph_node obs) [0..<6]
     \<and> dgRootCauseResource r = fst (root_of f) \<and> dgRootCauseSummary r = snd (root_of f)
     \<and> (dgHealthy r \<longleftrightarrow> list_all (\<lambda>i. stage_failure obs i = None) [0..<6])
     \<and> (dgHealthy r \<longleftrightarrow> list_all (\<lambda>n. cnStatus n = ''Healthy'') (dgNodes r))"
proof -
  have "(\<forall>n\<in>set (map (graph_node obs) [0..<6]). cnStatus n = ''Healthy'') \<longleftrightarrow>
      (\<forall>i<6. stage_failure obs i = None)"
    using real_faults [of _ obs] fail_status_iff by (auto simp: graph_node_def Let_def)
  then show ?thesis
    unfolding Let_def dgNodes_eq list_all_iff
    by (simp add: evaluate_graph_unfold Let_def root_cause_facts(2) Ball_def flip: root_cause_of_def)
qed

section \<open>The topological DAG\<close>

text \<open>What each node's own check says, and the state once its parent is taken into account.\<close>

definition own_state :: "PlatformObservationStatus \<Rightarrow> nat \<Rightarrow> string" where
  "own_state obs i =
     [fail_status (pool_fault (poMachineConfigPools obs)), ''Healthy'',
      if handler_unready (poVirtHealth obs) then ''Degraded'' else ''Healthy'',
      if 0 < sint (viStalledMigrations (poVirtHealth obs)) then ''Degraded'' else ''Healthy''] ! i"

fun dag_state :: "PlatformObservationStatus \<Rightarrow> nat \<Rightarrow> string" where
  "dag_state obs 0 = own_state obs 0"
| "dag_state obs (Suc i) =
     (if dag_state obs i = ''Healthy'' then own_state obs (Suc i) else ''Blocked'')"

definition dag_ids :: "string list" where
  "dag_ids = [''mcp/worker'', ''mcd/worker'', ''daemonset/virt-handler'', ''vmim/active-migrations'']"

lemma own_state_not_Blocked: "i < 4 \<Longrightarrow> own_state obs i \<noteq> ''Blocked''"
  using pool_fault_real [of "poMachineConfigPools obs"]
  by (auto simp: own_state_def less_Suc_eq numeral_eq_Suc fail_status_def real_fault_def
      split: option.splits)

lemma dag_state_Healthy:
  "dag_state obs i = ''Healthy'' \<longleftrightarrow> (\<forall>j\<le>i. own_state obs j = ''Healthy'')"
  by (induction i) (auto simp: le_Suc_eq)

lemma dag_state_Blocked:
  assumes "i < 4"
  shows "dag_state obs i = ''Blocked'' \<longleftrightarrow> (\<exists>j<i. own_state obs j \<noteq> ''Healthy'')"
proof (cases i)
  case 0
  then show ?thesis using own_state_not_Blocked [OF assms] by simp
next
  case (Suc k)
  then have "own_state obs (Suc k) \<noteq> ''Blocked''" using own_state_not_Blocked assms by blast
  then show ?thesis using dag_state_Healthy [of obs k] by (auto simp: Suc less_Suc_eq_le)
qed

lemma four: "[0..<4] = [0, Suc 0, Suc (Suc 0), Suc (Suc (Suc 0))]"
  by (simp add: upt_rec)

lemma four_numeral: "[0..<4] = [0, Suc 0, 2, 3]"
  by (simp add: four numeral_eq_Suc)

lemma dag_refine:
  "let r = EvaluateTopologicalDAG obs in
     map rnID (tdNodes r) = dag_ids \<and> map rnState (tdNodes r) = map (dag_state obs) [0..<4]
     \<and> map rnBlockedBy (tdNodes r) =
         map (\<lambda>i. if dag_state obs i = ''Blocked'' then dag_ids ! (i - 1) else []) [0..<4]
     \<and> (tdBlockedReason r = [] \<longleftrightarrow> dag_state obs 2 = ''Healthy'')
     \<and> (tdHealthy r \<longleftrightarrow> dag_state obs 3 = ''Healthy'')"
proof -
  have pool: "(case List.find mcp_unsettled (poMachineConfigPools obs) of
      None \<Rightarrow> ''Healthy'' | Some mcp \<Rightarrow> mcpPhase mcp) = own_state obs 0"
    by (simp add: own_state_def pool_fault_def fail_status_def split: option.split)
  have own: "own_state obs (Suc 0) = ''Healthy''"
    "own_state obs (Suc (Suc 0)) =
       (if handler_unready (poVirtHealth obs) then ''Degraded'' else ''Healthy'')"
    "own_state obs (Suc (Suc (Suc 0))) =
       (if 0 < sint (viStalledMigrations (poVirtHealth obs)) then ''Degraded'' else ''Healthy'')"
    by (simp_all add: own_state_def)
  show ?thesis
    using own_state_not_Blocked [of 0 obs]
    unfolding EvaluateTopologicalDAG_def pool handler_unready_def [symmetric]
    by (simp add: Let_def own four dag_ids_def numeral_eq_Suc)
qed

text \<open>C18: In the topological DAG every node below the first node whose own check fails is blocked by
  its parent and no other node is; the blocked reason is empty exactly when nothing is
  blocked, and the DAG is healthy exactly when all four own checks pass. The dependency graph
  of the same observation is healthy exactly when the DAG is, ClusterVersion, operators and
  virtualization operators show no fault and no node is under maintenance.\<close>

theorem topological_dag_correct:
  "let r = EvaluateTopologicalDAG obs; fails = (\<lambda>j. own_state obs j \<noteq> ''Healthy'') in
     map rnID (tdNodes r) = dag_ids
     \<and> map rnState (tdNodes r) =
         map (\<lambda>i. if list_ex fails [0..<i] then ''Blocked'' else own_state obs i) [0..<4]
     \<and> map rnBlockedBy (tdNodes r) =
         map (\<lambda>i. if list_ex fails [0..<i] then dag_ids ! (i - 1) else '''') [0..<4]
     \<and> (tdBlockedReason r = '''' \<longleftrightarrow> \<not> list_ex fails [0..<3])
     \<and> (tdHealthy r \<longleftrightarrow> \<not> list_ex fails [0..<4])
     \<and> (dgHealthy (EvaluatePlatformDependencyGraph obs) \<longleftrightarrow>
          tdHealthy r \<and> list_all (\<lambda>i. stage_failure obs i = None) [0, 2, 3]
          \<and> \<not> 0 < sint (nmActiveMaintenanceNodes (poNodeMaintenance obs)))"
proof -
  let ?r = "EvaluateTopologicalDAG obs"
  let ?fails = "\<lambda>j. own_state obs j \<noteq> ''Healthy''"
  have ex: "list_ex ?fails [0..<i] \<longleftrightarrow> (\<exists>j<i. ?fails j)" for i
    by (auto simp: list_ex_iff)
  have state: "dag_state obs i = (if list_ex ?fails [0..<i] then ''Blocked'' else own_state obs i)" for i
    unfolding ex by (cases i) (auto simp: dag_state_Healthy less_Suc_eq_le)
  have upto: "dag_state obs i = ''Healthy'' \<longleftrightarrow> \<not> list_ex ?fails [0..<Suc i]" for i
    unfolding ex by (auto simp: dag_state_Healthy less_Suc_eq_le)
  have blocked: "dag_state obs i = ''Blocked'' \<longleftrightarrow> list_ex ?fails [0..<i]" if "i < 4" for i
    unfolding ex using dag_state_Blocked [OF that] .
  have healthy: "tdHealthy ?r \<longleftrightarrow> \<not> list_ex ?fails [0..<4]"
    using dag_refine [of obs] upto [of 3] by (simp add: Let_def)
  have "stage_failure obs 4 = None \<longleftrightarrow>
      \<not> 0 < sint (nmActiveMaintenanceNodes (poNodeMaintenance obs)) \<and> own_state obs 2 = ''Healthy''"
    "stage_failure obs 5 = None \<longleftrightarrow> own_state obs 3 = ''Healthy''"
    "stage_failure obs 1 = None \<longleftrightarrow> own_state obs 0 = ''Healthy''" "own_state obs 1 = ''Healthy''"
    using fail_status_iff [OF pool_fault_real [of "poMachineConfigPools obs"]]
    by (simp_all add: own_state_def execution_fault_def migration_fault_def numeral_eq_Suc
        del: stage_failure_simps add: stage_failure_def)
  then have graph: "dgHealthy (EvaluatePlatformDependencyGraph obs) \<longleftrightarrow>
      tdHealthy ?r \<and> list_all (\<lambda>i. stage_failure obs i = None) [0, 2, 3]
      \<and> \<not> 0 < sint (nmActiveMaintenanceNodes (poNodeMaintenance obs))"
    unfolding healthy evaluate_graph_unfold Let_def
    by (auto simp: root_cause_facts(2) all_stages four_numeral simp del: stage_failure_simps)
  have r: "map rnID (tdNodes ?r) = dag_ids" "map rnState (tdNodes ?r) = map (dag_state obs) [0..<4]"
    "map rnBlockedBy (tdNodes ?r) =
       map (\<lambda>i. if dag_state obs i = ''Blocked'' then dag_ids ! (i - 1) else []) [0..<4]"
    "tdBlockedReason ?r = [] \<longleftrightarrow> dag_state obs 2 = ''Healthy''"
    using dag_refine [of obs] by (simp_all only: Let_def)
  have "map rnBlockedBy (tdNodes ?r) =
      map (\<lambda>i. if list_ex ?fails [0..<i] then dag_ids ! (i - 1) else []) [0..<4]"
    unfolding r(3) by (rule map_cong [OF refl]) (simp only: blocked atLeastLessThan_iff set_upt)
  moreover have states: "map rnState (tdNodes ?r) =
      map (\<lambda>i. if list_ex ?fails [0..<i] then ''Blocked'' else own_state obs i) [0..<4]"
    unfolding r(2) by (rule map_cong [OF refl]) (rule state)
  moreover have "tdBlockedReason ?r = [] \<longleftrightarrow> \<not> list_ex ?fails [0..<3]"
    using r(4) upto [of 2] by (simp only: eval_nat_numeral)
  ultimately show ?thesis
    unfolding Let_def using r(1) healthy graph by blast
qed

section \<open>Operator ordering\<close>

text \<open>The last report of an operator counts; an operator that is not reported is skipped.\<close>

definition op_state :: "ClusterOperatorStatus list \<Rightarrow> string \<Rightarrow> ClusterOperatorStatus option" where
  "op_state operators k = gm_get (opMap operators) k"

definition op_fails :: "ClusterOperatorStatus list \<Rightarrow> string \<Rightarrow> bool" where
  "op_fails operators k \<longleftrightarrow> (case op_state operators k of None \<Rightarrow> False | Some op \<Rightarrow> co_failing op)"

lemma op_state_last:
  "op_state operators k =
     (case filter (\<lambda>op. coName op = k) operators of [] \<Rightarrow> None | ops \<Rightarrow> Some (last ops))"
  unfolding op_state_def opMap_def gm.get_fold_put by (simp add: gm_get_def split: list.split)

lemma order_fold_failed:
  assumes "k \<noteq> []"
  shows "fold (order_step (opMap ops)) ks (k, imp) =
    (k, imp @ filter (\<lambda>k. op_state ops k \<noteq> None) ks)"
  using assms
  by (induction ks arbitrary: imp) (auto simp: order_step_def op_state_def)

lemma order_fold:
  assumes "[] \<notin> set ks"
  shows "fold (order_step (opMap ops)) ks ([], []) =
    (case dropWhile (\<lambda>k. \<not> op_fails ops k) ks of
       [] \<Rightarrow> ([], []) | k # rest \<Rightarrow> (k, filter (\<lambda>k. op_state ops k \<noteq> None) rest))"
  using assms
proof (induction ks)
  case (Cons k ks)
  show ?case
  proof (cases "op_fails ops k")
    case True
    then have "order_step (opMap ops) k ([], []) = (k, [])"
      by (auto simp: order_step_def op_fails_def op_state_def co_failing_def split: option.splits)
    moreover have "k \<noteq> []" using Cons.prems by auto
    ultimately show ?thesis using True by (simp add: order_fold_failed)
  next
    case False
    then have "order_step (opMap ops) k ([], []) = ([], [])"
      by (auto simp: order_step_def op_fails_def op_state_def co_failing_def split: option.splits)
    with False Cons show ?thesis by simp
  qed
qed simp

text \<open>The ordering check fails exactly when a core operator's last report is degraded or
  unavailable; it names the first such operator of network, kube-apiserver,
  openshift-apiserver, storage, kubevirt, and as impacted exactly the later ones of that order
  that are reported, whatever their own state.\<close>

theorem operator_ordering_correct:
  "let r = EvaluateClusterOperatorOrdering ops;
       tail = dropWhile (\<lambda>k. \<not> op_fails ops k) operator_order
   in (orOrderedCheckPassed r \<longleftrightarrow> \<not> list_ex (op_fails ops) operator_order)
      \<and> orFailedOperator r = (case tail of [] \<Rightarrow> '''' | k # rest \<Rightarrow> k)
      \<and> orImpactedOperators r =
          (case tail of [] \<Rightarrow> [] | k # rest \<Rightarrow> filter (\<lambda>k. op_state ops k \<noteq> None) rest)"
proof -
  let ?tail = "dropWhile (\<lambda>k. \<not> op_fails ops k) operator_order"
  have ne: "[] \<notin> set operator_order" by (simp add: operator_order_def)
  have "?tail = [] \<longleftrightarrow> \<not> list_ex (op_fails ops) operator_order"
    by (auto simp: dropWhile_eq_Nil_conv list_ex_iff)
  then have ex: "list_ex (op_fails ops) operator_order \<longleftrightarrow> ?tail \<noteq> []" by simp
  show ?thesis
  proof (cases ?tail)
    case Nil
    then show ?thesis
      unfolding EvaluateClusterOperatorOrdering_def order_fold [OF ne] Let_def ex Nil by simp
  next
    case (Cons k rest)
    then have "k \<noteq> []"
      using ne set_dropWhileD [of k _ operator_order] by (metis list.set_intros(1))
    then show ?thesis
      unfolding EvaluateClusterOperatorOrdering_def order_fold [OF ne] Let_def ex Cons by simp
  qed
qed

section \<open>Convergence of a pool\<close>

definition pool_settled :: "MachineConfigPoolStatus \<Rightarrow> bool" where
  "pool_settled mcp \<longleftrightarrow> mcpPhase mcp = ''Updated'' \<or> mcpUpdatingNodeCount mcp = 0"

lemma rate_positive:
  assumes "0 < sint u" "0 < e"
  shows "0 < f64_round (f64_round (of_int (sint u)) / f64_round (of_int e))"
  by (intro f64_round_pos divide_pos_pos) (simp_all only: of_int_0_less_iff assms)

text \<open>C25: A rollout is predicted to be stalled exactly when the pool is not settled and either a node is
  degraded or no node was updated in more than 300 seconds; without a degraded node and with
  some node updated, the estimate is the exact quotient of remaining nodes and observed rate,
  at most one second off in spite of the three roundings in double precision, and zero is
  estimated for a settled or stalled pool.\<close>

theorem convergence_prediction_correct:
  "let p = PredictMCPConvergence mcp e; updated = sint (mcpUpdatedNodeCount mcp);
       updating = sint (mcpUpdatingNodeCount mcp)
   in (prIsStalled p \<longleftrightarrow> \<not> pool_settled mcp
         \<and> (0 < sint (mcpDegradedNodeCount mcp) \<or> mcpUpdatedNodeCount mcp = 0 \<and> 300 < e))
      \<and> (pool_settled mcp \<or> prIsStalled p \<longrightarrow> prEstimatedETASeconds p = 0)
      \<and> (\<not> pool_settled mcp \<and> \<not> 0 < sint (mcpDegradedNodeCount mcp) \<and> 0 < e \<and> e < 2 ^ 53
           \<and> 0 < updating \<and> 0 < updated \<and> updating * e < 2 ^ 50 * updated \<longrightarrow>
         updating * e div updated - 1 \<le> prEstimatedETASeconds p
         \<and> prEstimatedETASeconds p \<le> updating * e div updated + 1)"
proof -
  have zero: "sint (mcpUpdatedNodeCount mcp) = 0 \<longleftrightarrow> mcpUpdatedNodeCount mcp = 0"
    by (rule signed_eq_0_iff)
  have small: "sint w < 2 ^ 53" for w :: int32
    using sint32_bounds(2) [of w] by simp
  show ?thesis
    using rate_positive [of "mcpUpdatedNodeCount mcp" e]
      f64_eta_bounds [OF _ small [of "mcpUpdatingNodeCount mcp"] _ small [of "mcpUpdatedNodeCount mcp"], of e]
    by (auto simp: PredictMCPConvergence_def pool_settled_def Let_def)
qed

theorem convergence_prediction_correct_witness:
  "let p = PredictMCPConvergence (zero_MachineConfigPoolStatus
             \<lparr>mcpMachineCount := 10, mcpUpdatedNodeCount := 5, mcpUpdatingNodeCount := 5,
              mcpPhase := ''Updating''\<rparr>) 100
   in 99 \<le> prEstimatedETASeconds p \<and> prEstimatedETASeconds p \<le> 101"
  using convergence_prediction_correct [of "zero_MachineConfigPoolStatus
             \<lparr>mcpMachineCount := 10, mcpUpdatedNodeCount := 5, mcpUpdatingNodeCount := 5,
              mcpPhase := ''Updating''\<rparr>" 100]
  by (simp add: Let_def pool_settled_def zero_MachineConfigPoolStatus_def)

end
