(* ===== verification/LocalWatchProps.thy ===== *)
theory LocalWatchProps
  imports LocalWatch LocalCollectProps PlatformProps GateProps PropagationSpec
begin

text \<open>
  Properties of the spoke-side readers and of the local reconciler: the counters of the
  virtualization status as counts over the listed objects, the pool status at 32 bits, the
  shape of every written report, and the report store over a run of reconciles.
\<close>

section \<open>Virtualization counters\<close>

definition listed :: "go_error + 'a list \<Rightarrow> 'a list" where
  "listed r = (case r of Inl e \<Rightarrow> [] | Inr xs \<Rightarrow> xs)"

lemma listed_simps [simp]: "listed (Inl e) = []" "listed (Inr xs) = xs"
  by (simp_all add: listed_def)

text \<open>The namespaces that are visited, with repetitions, and the objects found there.\<close>

definition visited :: "string list \<Rightarrow> string list" where
  "visited nss = filter (\<lambda>ns. ns \<noteq> '''') (if nss = [] then [''default''] else nss)"

definition found_in :: "kube_client \<Rightarrow> gvk \<Rightarrow> string list \<Rightarrow> unstructured list" where
  "found_in kc g nss = concat (map (\<lambda>ns. listed (kcList kc g ns [] 100)) nss)"

definition count_if :: "('a \<Rightarrow> bool) \<Rightarrow> 'a list \<Rightarrow> int32" where
  "count_if p xs = of_nat (length (filter p xs))"

lemma count_if_simps [simp]:
  "count_if p [] = 0" "count_if p (x # xs) = (if p x then 1 else 0) + count_if p xs"
  "count_if p (xs @ ys) = count_if p xs + count_if p ys"
  by (simp_all add: count_if_def)

definition add_migrations :: "unstructured list \<Rightarrow> virt_state \<Rightarrow> virt_state" where
  "add_migrations ms st =
     ((fst st)\<lparr>viActiveMigrations := viActiveMigrations (fst st) + count_if migration_active ms,
        viStalledMigrations := viStalledMigrations (fst st) + count_if migration_stalled ms\<rparr>,
      (snd st)\<lparr>vwActiveMigrations := vwActiveMigrations (snd st) + count_if migration_active ms,
        vwStalledMigrations := vwStalledMigrations (snd st) + count_if migration_stalled ms\<rparr>)"

definition vmi_running :: "unstructured \<Rightarrow> bool" where
  "vmi_running vmi \<longleftrightarrow> uString vmi [''status'', ''phase''] = ''Running''"

definition add_vmis :: "unstructured list \<Rightarrow> virt_state \<Rightarrow> virt_state" where
  "add_vmis vs st =
     ((fst st)\<lparr>viUnmigratableVMIs := viUnmigratableVMIs (fst st) + count_if (\<lambda>v. \<not> live_migratable v) vs\<rparr>,
      (snd st)\<lparr>vwRunningVMIs := vwRunningVMIs (snd st) + count_if vmi_running vs,
        vwUnmigratableVMIs := vwUnmigratableVMIs (snd st) + count_if (\<lambda>v. \<not> live_migratable v) vs,
        vwLiveMigratableVMIs := vwLiveMigratableVMIs (snd st) + count_if live_migratable vs\<rparr>)"

lemma fold_vmim_step: "fold vmim_step ms st = add_migrations ms st"
  by (induction ms arbitrary: st) (simp_all add: add_migrations_def vmim_step_def split_beta Let_def)

lemma fold_vmi_step: "fold vmi_step vs st = add_vmis vs st"
  by (induction vs arbitrary: st) (simp_all add: add_vmis_def vmi_step_def vmi_running_def split_beta Let_def)

definition add_total :: "unstructured list \<Rightarrow> virt_state \<Rightarrow> virt_state" where
  "add_total vs st = (fst st, (snd st)\<lparr>vwTotalVMIs := vwTotalVMIs (snd st) + of_nat (length vs)\<rparr>)"

definition add_objects :: "unstructured list \<Rightarrow> unstructured list \<Rightarrow> virt_state \<Rightarrow> virt_state" where
  "add_objects ms vs st = add_vmis vs (add_total vs (add_migrations ms st))"

lemmas add_defs = add_objects_def add_vmis_def add_total_def add_migrations_def

lemma add_objects_Nil: "add_objects [] [] st = st"
  by (simp add: add_defs)

lemma add_objects_append:
  "add_objects ms' vs' (add_objects ms vs st) = add_objects (ms @ ms') (vs @ vs') st"
  by (simp add: add_defs)

lemma namespace_step_eq:
  "ns \<noteq> [] \<Longrightarrow> namespace_step kc ns st =
     add_objects (listed (kcList kc vmim_gvk ns [] 100)) (listed (kcList kc vmi_gvk ns [] 100)) st"
  by (cases "kcList kc vmim_gvk ns [] 100"; cases "kcList kc vmi_gvk ns [] 100")
    (simp_all add: namespace_step_def fold_vmim_step fold_vmi_step add_defs)

lemma fold_namespace_step:
  "fold (namespace_step kc) nss st =
     (let vis = filter (\<lambda>ns. ns \<noteq> []) nss in
      add_objects (found_in kc vmim_gvk vis) (found_in kc vmi_gvk vis) st)"
proof (induction nss arbitrary: st)
  case Nil
  then show ?case by (simp add: found_in_def add_objects_Nil)
next
  case (Cons ns nss)
  show ?case
  proof (cases "ns = []")
    case True
    then show ?thesis using Cons by (simp add: namespace_step_def)
  next
    case False
    then show ?thesis using Cons
      by (simp add: namespace_step_eq add_objects_append found_in_def Let_def)
  qed
qed

text \<open>The first HyperConverged resource that can be read decides about its health.\<close>

definition hco_health :: "kube_client \<Rightarrow> string" where
  "hco_health kc =
     (case filter (\<lambda>r. \<not> isl r)
        (map (\<lambda>ns. kcGet kc (''hco.kubevirt.io'', ''v1beta1'', ''HyperConverged'') ns ''kubevirt-hyperconverged'')
          [''openshift-cnv'', ''kubevirt-hyperconverged'']) of
        Inr hco # _ \<Rightarrow> if has_cond ''Degraded'' ''True'' hco then ''Degraded'' else ''Healthy''
      | _ \<Rightarrow> ''Unknown'')"

lemma hco_conditions:
  "conditions_loop hco_condition hco h =
     (if has_cond ''Degraded'' ''True'' hco then h\<lparr>viHyperConvergedHealth := ''Degraded''\<rparr> else h)"
proof -
  have "fold (\<lambda>(t, s). hco_condition t s) cs h =
      (if (''Degraded'', ''True'') \<in> set cs then h\<lparr>viHyperConvergedHealth := ''Degraded''\<rparr> else h)" for cs h
  proof (induction cs arbitrary: h)
    case (Cons c cs)
    obtain t s where "c = (t, s)" by (cases c)
    with Cons show ?case by (simp add: hco_condition_def)
  qed simp
  then show ?thesis by (simp add: conditions_loop_eq has_cond_def)
qed

definition handler_sets :: "kube_client \<Rightarrow> unstructured list" where
  "handler_sets kc =
     concat (map (\<lambda>ns. listed (kcList kc (''apps'', ''v1'', ''DaemonSet'') ns
       [(''kubevirt.io'', ''virt-handler'')] 0)) [''openshift-cnv'', ''kubevirt''])"

lemma handler_fold:
  "fold (\<lambda>ds h. if daemonset_lags ds then h\<lparr>viVirtHandlerReady := False\<rparr> else h) dss h =
     (if list_ex daemonset_lags dss then h\<lparr>viVirtHandlerReady := False\<rparr> else h)"
  by (induction dss arbitrary: h) simp_all

lemma handler_step_eq:
  "handler_step kc ns h =
     (if list_ex daemonset_lags (listed (kcList kc (''apps'', ''v1'', ''DaemonSet'') ns
        [(''kubevirt.io'', ''virt-handler'')] 0))
      then h\<lparr>viVirtHandlerReady := False\<rparr> else h)"
  by (simp add: handler_step_def handler_fold split: sum.split)

lemma migration_stalled_iff: "migration_stalled m \<longleftrightarrow> has_cond ''Stalled'' ''True'' m"
  unfolding migration_stalled_def conditions_loop_eq has_cond_def
  by (subst fold_any [where get = "\<lambda>b. b" and v = True and t = "''Stalled''" and s = "''True''"]) auto

lemma live_migratable_iff:
  "live_migratable v \<longleftrightarrow> \<not> has_cond ''LiveMigratable'' ''False'' v
     \<and> \<not> slice_filled (uSlice v [''spec'', ''domain'', ''devices'', ''gpus''])
     \<and> \<not> slice_filled (uSlice v [''spec'', ''domain'', ''devices'', ''hostDevices''])"
  unfolding live_migratable_def conditions_loop_eq has_cond_def Let_def
  by (subst fold_any [where get = "\<lambda>b. b" and v = False and t = "''LiveMigratable''" and s = "''False''"]) auto

lemma virtualization_status_eq:
  "readVirtualizationStatus kc nss =
     (let ms = found_in kc vmim_gvk (visited nss); vs = found_in kc vmi_gvk (visited nss);
          active = count_if migration_active ms;
          stalled = count_if (has_cond ''Stalled'' ''True'') ms;
          stuck = count_if (\<lambda>v. \<not> live_migratable v) vs
      in (\<lparr>viHyperConvergedHealth = hco_health kc,
           viVirtHandlerReady = (\<not> list_ex daemonset_lags (handler_sets kc)),
           viActiveMigrations = active, viStalledMigrations = stalled, viUnmigratableVMIs = stuck\<rparr>,
          \<lparr>vwTotalVMIs = count_if live_migratable vs + stuck,
           vwRunningVMIs = count_if vmi_running vs,
           vwLiveMigratableVMIs = count_if live_migratable vs, vwActiveMigrations = active,
           vwStalledMigrations = stalled, vwUnmigratableVMIs = stuck\<rparr>))"
proof -
  let ?h0 = "zero_VirtualizationImpactStatus
      \<lparr>viHyperConvergedHealth := ''Healthy'', viVirtHandlerReady := True\<rparr>"
  have hco: "read_hco kc [''openshift-cnv'', ''kubevirt-hyperconverged''] ?h0 =
      ?h0\<lparr>viHyperConvergedHealth := hco_health kc\<rparr>"
    by (simp add: hco_health_def hco_conditions zero_VirtualizationImpactStatus_def split: sum.split)
  have handler: "fold (handler_step kc) [''openshift-cnv'', ''kubevirt''] h =
      (if list_ex daemonset_lags (handler_sets kc) then h\<lparr>viVirtHandlerReady := False\<rparr> else h)" for h
    by (simp add: handler_step_eq handler_sets_def)
  have total: "of_nat (length vs) = count_if live_migratable vs + count_if (\<lambda>v. \<not> live_migratable v) vs"
    for vs by (induction vs) simp_all
  have "migration_stalled = has_cond ''Stalled'' ''True''" by (rule ext) (rule migration_stalled_iff)
  then show ?thesis
    unfolding readVirtualizationStatus_def Let_def hco handler fold_namespace_step visited_def [symmetric]
    by (simp add: add_defs total zero_VirtualizationImpactStatus_def zero_VirtualizationWorkloadSummary_def)
qed

text \<open>C17: The virtualization status counts what was listed in the visited namespaces, a namespace
  named twice being counted twice: active and stalled migrations, running, migratable and
  unmigratable VMIs (an unmigratable one has a \<open>LiveMigratable\<close> condition that is false, a
  GPU or a host device), the last two adding up to the total; the handlers are ready unless a
  virt-handler DaemonSet lags, and the health is that of the first readable HyperConverged.\<close>

theorem virtualization_counts:
  "readVirtualizationStatus kc nss =
     (let ms = found_in kc vmim_gvk (visited nss); vs = found_in kc vmi_gvk (visited nss);
          active = count_if migration_active ms;
          stalled = count_if (has_cond ''Stalled'' ''True'') ms;
          stuck = count_if (\<lambda>v. \<not> live_migratable v) vs
      in (\<lparr>viHyperConvergedHealth = hco_health kc,
           viVirtHandlerReady = (\<not> list_ex daemonset_lags (handler_sets kc)),
           viActiveMigrations = active, viStalledMigrations = stalled, viUnmigratableVMIs = stuck\<rparr>,
          \<lparr>vwTotalVMIs = count_if live_migratable vs + stuck,
           vwRunningVMIs = count_if vmi_running vs,
           vwLiveMigratableVMIs = count_if live_migratable vs, vwActiveMigrations = active,
           vwStalledMigrations = stalled, vwUnmigratableVMIs = stuck\<rparr>))"
  by (rule virtualization_status_eq)

section \<open>Pool status\<close>

text \<open>A count that the 32-bit field can hold.\<close>

definition count_fits :: "unstructured \<Rightarrow> string \<Rightarrow> bool" where
  "count_fits mcp f \<longleftrightarrow> 0 \<le> sint (uInt64 mcp [''status'', f]) \<and> sint (uInt64 mcp [''status'', f]) < 2 ^ 31"

definition pool_count :: "unstructured \<Rightarrow> string \<Rightarrow> int" where
  "pool_count mcp f = sint (uInt64 mcp [''status'', f])"

definition pool_fields :: "string list" where
  "pool_fields = [''machineCount'', ''readyMachineCount'', ''updatedMachineCount'',
     ''unavailableMachineCount'', ''degradedMachineCount'']"

lemma ucast_fits: "0 \<le> sint (w :: 64 word) \<Longrightarrow> sint w < 2 ^ 31 \<Longrightarrow> sint (ucast w :: int32) = sint w"
proof -
  assume w: "0 \<le> sint w" "sint w < 2 ^ 31"
  then have u: "uint w = sint w" by (simp add: uint_sint take_bit_int_eq_self)
  have "sint (ucast w :: int32) = signed_take_bit 31 (take_bit 32 (uint w))"
    by (simp add: sint_uint unsigned_ucast_eq)
  then show ?thesis using w by (simp add: u take_bit_int_eq_self signed_take_bit_int_eq_self)
qed

lemma sint_diff_fits:
  fixes a b :: "64 word"
  assumes "0 \<le> sint a" "sint a < 2 ^ 31" "0 \<le> sint b" "sint b < 2 ^ 31"
  shows "sint (a - b) = sint a - sint b"
  using assms by (simp add: sint_word_ariths signed_take_bit_int_eq_self)

lemma pool_counts_nonneg:
  assumes "list_all (count_fits mcp) pool_fields"
  shows "0 \<le> pool_count mcp ''machineCount''" "0 \<le> pool_count mcp ''readyMachineCount''"
    "0 \<le> pool_count mcp ''updatedMachineCount''" "0 \<le> pool_count mcp ''unavailableMachineCount''"
    "0 \<le> pool_count mcp ''degradedMachineCount''"
  using assms by (simp_all add: pool_fields_def count_fits_def pool_count_def)

lemma pool_status_counts:
  assumes "list_all (count_fits mcp) pool_fields"
  shows "sint (mcpMachineCount (pool_status nm mcp)) = pool_count mcp ''machineCount''"
    "sint (mcpReadyMachineCount (pool_status nm mcp)) = pool_count mcp ''readyMachineCount''"
    "sint (mcpUpdatedNodeCount (pool_status nm mcp)) = pool_count mcp ''updatedMachineCount''"
    "sint (mcpUpdatingNodeCount (pool_status nm mcp)) =
       max 0 (pool_count mcp ''machineCount'' - pool_count mcp ''updatedMachineCount'')"
    "sint (mcpUnavailableNodeCount (pool_status nm mcp)) = pool_count mcp ''unavailableMachineCount''"
    "sint (mcpDegradedNodeCount (pool_status nm mcp)) = pool_count mcp ''degradedMachineCount''"
    "mcpPhase (pool_status nm mcp) =
      (if 0 < pool_count mcp ''degradedMachineCount'' then ''Degraded''
       else if pool_count mcp ''machineCount'' \<le> pool_count mcp ''updatedMachineCount''
         \<and> pool_count mcp ''machineCount'' \<le> pool_count mcp ''readyMachineCount''
         \<and> pool_count mcp ''unavailableMachineCount'' = 0
       then ''Updated'' else ''Updating'')"
proof -
  let ?w = "\<lambda>f. uInt64 mcp [''status'', f]"
  let ?d = "?w ''machineCount'' - ?w ''updatedMachineCount''"
  let ?u = "if sint ?d < 0 then 0 else ?d"
  have fits: "0 \<le> pool_count mcp f" "pool_count mcp f < 2 ^ 31"
      "sint (ucast (?w f) :: int32) = pool_count mcp f" "sint (?w f) = pool_count mcp f"
    if "f \<in> set pool_fields" for f
    using assms that ucast_fits [of "?w f"] by (auto simp: list_all_iff count_fits_def pool_count_def)
  have fields: "''machineCount'' \<in> set pool_fields" "''readyMachineCount'' \<in> set pool_fields"
    "''updatedMachineCount'' \<in> set pool_fields" "''unavailableMachineCount'' \<in> set pool_fields"
    "''degradedMachineCount'' \<in> set pool_fields"
    by (simp_all add: pool_fields_def)
  note c = fields [THEN fits(1)] fields [THEN fits(2)] fields [THEN fits(3)] fields [THEN fits(4)]
  have d: "sint ?d = pool_count mcp ''machineCount'' - pool_count mcp ''updatedMachineCount''"
    using c by (simp add: sint_diff_fits)
  then have u: "sint ?u = max 0 (pool_count mcp ''machineCount'' - pool_count mcp ''updatedMachineCount'')"
    by simp
  then have uu: "sint (ucast ?u :: int32) = sint ?u"
    using c by (intro ucast_fits) linarith+
  show "sint (mcpMachineCount (pool_status nm mcp)) = pool_count mcp ''machineCount''"
    "sint (mcpReadyMachineCount (pool_status nm mcp)) = pool_count mcp ''readyMachineCount''"
    "sint (mcpUpdatedNodeCount (pool_status nm mcp)) = pool_count mcp ''updatedMachineCount''"
    "sint (mcpUpdatingNodeCount (pool_status nm mcp)) =
       max 0 (pool_count mcp ''machineCount'' - pool_count mcp ''updatedMachineCount'')"
    "sint (mcpUnavailableNodeCount (pool_status nm mcp)) = pool_count mcp ''unavailableMachineCount''"
    "sint (mcpDegradedNodeCount (pool_status nm mcp)) = pool_count mcp ''degradedMachineCount''"
    using c uu u by (simp_all only: pool_status_def Let_def MachineConfigPoolStatus.simps)
  show "mcpPhase (pool_status nm mcp) =
      (if 0 < pool_count mcp ''degradedMachineCount'' then ''Degraded''
       else if pool_count mcp ''machineCount'' \<le> pool_count mcp ''updatedMachineCount''
         \<and> pool_count mcp ''machineCount'' \<le> pool_count mcp ''readyMachineCount''
         \<and> pool_count mcp ''unavailableMachineCount'' = 0
       then ''Updated'' else ''Updating'')"
    unfolding pool_status_def Let_def MachineConfigPoolStatus.simps u
    using c by (auto simp: d)
qed

text \<open>C24: When the counts of a pool fit into 32 bits the status holds them exactly, the number of
  updating nodes is what is left to update and never negative, and the phase is \<open>Degraded\<close>
  with a degraded node, \<open>Updated\<close> when every node is updated, ready and available, and
  \<open>Updating\<close> otherwise; so on the hub the pool passes the gate exactly when it is \<open>Updated\<close>
  and its rendered configurations do not differ.\<close>

theorem pool_status_correct:
  assumes "list_all (count_fits mcp) pool_fields"
  shows "let p = pool_status nm mcp; n = pool_count mcp in
    sint (mcpMachineCount p) = n ''machineCount''
    \<and> sint (mcpReadyMachineCount p) = n ''readyMachineCount''
    \<and> sint (mcpUpdatedNodeCount p) = n ''updatedMachineCount''
    \<and> sint (mcpUpdatingNodeCount p) = max 0 (n ''machineCount'' - n ''updatedMachineCount'')
    \<and> sint (mcpUnavailableNodeCount p) = n ''unavailableMachineCount''
    \<and> sint (mcpDegradedNodeCount p) = n ''degradedMachineCount''
    \<and> mcpPhase p =
        (if 0 < n ''degradedMachineCount'' then ''Degraded''
         else if n ''machineCount'' \<le> n ''updatedMachineCount''
              \<and> n ''machineCount'' \<le> n ''readyMachineCount'' \<and> n ''unavailableMachineCount'' = 0
         then ''Updated'' else ''Updating'')
    \<and> (mcp_bad p \<longleftrightarrow> mcpPhase p \<noteq> ''Updated''
        \<or> mcpDesiredRenderedConfig p \<noteq> '''' \<and> mcpCurrentRenderedConfig p \<noteq> ''''
          \<and> mcpDesiredRenderedConfig p \<noteq> mcpCurrentRenderedConfig p)"
proof -
  define p where "p = pool_status nm mcp"
  note n = pool_status_counts [OF assms, of nm, folded p_def] pool_counts_nonneg [OF assms]
  have bad: "mcp_bad p \<longleftrightarrow> mcpPhase p \<noteq> ''Updated''
      \<or> mcpDesiredRenderedConfig p \<noteq> [] \<and> mcpCurrentRenderedConfig p \<noteq> []
        \<and> mcpDesiredRenderedConfig p \<noteq> mcpCurrentRenderedConfig p"
    unfolding mcp_bad_def mcp_reported_def n using n by auto
  show ?thesis
    unfolding Let_def p_def [symmetric] using n bad by blast
qed

definition sample_pool :: unstructured where
  "sample_pool =
     \<lparr>uName = ''worker'', uString = (\<lambda>p. ''''),
      uInt64 = (\<lambda>p. if p = [''status'', ''machineCount''] then 3
                    else if p = [''status'', ''readyMachineCount''] then 3
                    else if p = [''status'', ''updatedMachineCount''] then 1 else 0),
      uBool = (\<lambda>p. False), uSlice = (\<lambda>p. None)\<rparr>"

lemma pool_status_correct_witness:
  "sint (mcpUpdatingNodeCount (pool_status ''worker'' sample_pool)) = 2
   \<and> mcp_bad (pool_status ''worker'' sample_pool)"
proof -
  have "list_all (count_fits sample_pool) pool_fields"
    by (simp add: pool_fields_def count_fits_def sample_pool_def)
  from pool_status_correct [OF this, of "''worker''"] show ?thesis
    by (simp add: Let_def pool_count_def) (simp add: sample_pool_def)
qed

section \<open>The store of reports\<close>

text \<open>The reports of the spoke's API server by name, in the namespace the reconciler writes to; a
  reconcile reads the store and its accepted write changes it.\<close>

type_synonym report_store = "ClusterAppReport gomap"

definition store_env :: "report_store \<Rightarrow> local_env \<Rightarrow> local_env" where
  "store_env s env =
     env\<lparr>leGetReport := (\<lambda>ns nm. case gm_get s nm of None \<Rightarrow> Inl NotFound | Some r \<Rightarrow> Inr r),
         leCreate := (\<lambda>r. None), lePatch := (\<lambda>old new. None)\<rparr>"

definition apply_write :: "report_write option \<Rightarrow> report_store \<Rightarrow> report_store" where
  "apply_write w s =
     (case w of None \<Rightarrow> s
      | Some (CreateReport r) \<Rightarrow> gm_put s (carName r) r
      | Some (PatchReport old new) \<Rightarrow> gm_put s (carName new) new)"

definition local_run :: "(local_env \<times> string) list \<Rightarrow> report_store \<Rightarrow> report_store" where
  "local_run rs s =
     fold (\<lambda>(env, req) s. apply_write (loWrite (local_reconcile (store_env s env) req)) s) rs s"

text \<open>The descriptor a reconcile acts on, if it acts.\<close>

definition acts_on :: "local_env \<Rightarrow> config_map option" where
  "acts_on env =
     (case leGet env of Inl e \<Rightarrow> None
      | Inr cm \<Rightarrow>
          if local_deleting cm \<or> adAppName (parseDescriptor cm) = '''' then None else Some cm)"

definition written_name :: "local_env \<Rightarrow> string option" where
  "written_name env =
     map_option (\<lambda>cm. report_name (leClusterName env) (adAppName (parseDescriptor cm))) (acts_on env)"

definition store_ok :: "report_store \<Rightarrow> bool" where
  "store_ok s \<longleftrightarrow> (\<forall>k r. gm_get s k = Some r \<longrightarrow> carName r = k)"

lemma report_spec_store: "report_spec (store_env s env) cm = report_spec env cm"
  by (cases env) (simp add: report_spec_def store_env_def Let_def split_beta)

lemma rsAppName_report_spec: "rsAppName (report_spec env cm) = adAppName (parseDescriptor cm)"
  by (simp add: report_spec_def Let_def split_beta)

text \<open>The report after an accepted write: the old one with the new spec, or a new one under the
  application's label.\<close>

definition upserted :: "report_store \<Rightarrow> string \<Rightarrow> ClusterAppReportSpec \<Rightarrow> ClusterAppReport" where
  "upserted s nm spec =
     (case gm_get s nm of
        None \<Rightarrow> \<lparr>carName = nm, carNamespace = reportNamespace,
                 carLabels = [(AppLabelKey, rsAppName spec)], carSpec = spec\<rparr>
      | Some r \<Rightarrow> r\<lparr>carSpec := spec\<rparr>)"

lemma upserted_simps:
  "carSpec (upserted s nm spec) = spec"
  "store_ok s \<Longrightarrow> carName (upserted s nm spec) = nm"
  by (auto simp: upserted_def store_ok_def split: option.split)

lemma local_reconcile_store:
  assumes "store_ok s"
  shows "apply_write (loWrite (local_reconcile (store_env s env) req)) s =
    (case acts_on env of
       None \<Rightarrow> s
     | Some cm \<Rightarrow>
         (let nm = report_name (leClusterName env) (adAppName (parseDescriptor cm)) in
          gm_put s nm (upserted s nm (report_spec env cm))))"
proof (cases "acts_on env")
  case None
  then show ?thesis
    by (auto simp: acts_on_def local_reconcile_def store_env_def apply_write_def Let_def
        split: sum.splits if_splits)
next
  case (Some cm)
  let ?nm = "report_name (leClusterName env) (adAppName (parseDescriptor cm))"
  have cm: "leGet env = Inr cm" "\<not> local_deleting cm" "adAppName (parseDescriptor cm) \<noteq> ''''"
    using Some by (auto simp: acts_on_def split: sum.splits if_splits)
  then have "leGet (store_env s env) = Inr cm" "leClusterName (store_env s env) = leClusterName env"
    by (simp_all add: store_env_def)
  then have "loWrite (local_reconcile (store_env s env) req) =
      snd (upsertReport (store_env s env) ?nm (report_spec env cm))"
    using cm by (simp add: local_reconcile_def report_spec_store split_beta Let_def)
  moreover have "apply_write (snd (upsertReport (store_env s env) ?nm (report_spec env cm))) s =
      gm_put s ?nm (upserted s ?nm (report_spec env cm))"
  proof (cases "gm_get s ?nm")
    case None
    then show ?thesis
      by (simp add: upsertReport_def store_env_def IsNotFound_def apply_write_def upserted_def Let_def)
  next
    case (Some r)
    then have "carName r = ?nm" using assms by (simp add: store_ok_def)
    with Some show ?thesis
      by (simp add: upsertReport_def store_env_def apply_write_def upserted_def Let_def)
  qed
  ultimately show ?thesis by (simp add: Some Let_def)
qed

lemma store_ok_put: "store_ok s \<Longrightarrow> carName r = nm \<Longrightarrow> store_ok (gm_put s nm r)"
  by (simp add: store_ok_def gm.get_put)

lemma store_ok_step:
  "store_ok s \<Longrightarrow> store_ok (apply_write (loWrite (local_reconcile (store_env s env) req)) s)"
  by (auto simp: local_reconcile_store Let_def upserted_simps intro: store_ok_put split: option.split)

lemma case_snoc: "(case xs @ [x] of [] \<Rightarrow> a | y # ys \<Rightarrow> f (last (y # ys))) = f x"
  by (cases xs) simp_all


definition sample_local :: "config_map \<Rightarrow> local_env" where
  "sample_local cm =
     \<lparr>leClusterName = ''c1'', leHasClientset = False, leGet = Inr cm, leKube = sample_kube,
      leKube' = sample_kube, leGetTyped = (\<lambda>k ns nm. Some NotFound), leListEvents = (\<lambda>ns n. Inr []),
      leEventOrder = (\<lambda>xs. xs), leListPods = (\<lambda>ns l n. Inr []), leLogs = (\<lambda>ns p c n. Inr []),
      leNow = 7, leNow' = 7, leClock = (\<lambda>n. 7), leGetReport = (\<lambda>ns nm. Inl NotFound),
      leCreate = (\<lambda>r. None), lePatch = (\<lambda>old new. None)\<rparr>"


section \<open>The shape of a report\<close>

lemma pool_status_phase: "mcpPhase (pool_status nm mcp) \<in> {''Updated'', ''Updating'', ''Degraded''}"
  by (simp add: pool_status_def Let_def)

lemma read_pool_phase:
  "mcpPhase (readMachineConfigPool kc kc' p) \<in> {''Updated'', ''Updating'', ''Degraded'', ''Unknown''}"
  using pool_status_phase
  by (auto simp: readMachineConfigPool_def zero_MachineConfigPoolStatus_def Let_def split: sum.split)

lemma read_pools_phase:
  "m \<in> set (readAllMachineConfigPools kc) \<Longrightarrow> mcpPhase m \<in> {''Updated'', ''Updating'', ''Degraded''}"
  using pool_status_phase by (auto simp: readAllMachineConfigPools_def split: sum.splits)

lemma hco_health_range: "hco_health kc \<in> {''Healthy'', ''Degraded'', ''Unknown''}"
  by (simp add: hco_health_def split: list.split sum.split)

lemma log_signals_severity: "\<forall>e\<in>set (log_signals clock n ls). ceSeverity e = SeverityCritical"
  by (induction ls arbitrary: n) simp_all

lemma evidence_severity:
  "e \<in> set (correlateMultiSignalEvidence clock evs ls) \<Longrightarrow>
     SeverityWarning \<le> ceSeverity e"
  using log_signals_severity
  by (auto simp: correlateMultiSignalEvidence_def severity_of_reason_def severity_at_least_warning
      split: if_splits)

text \<open>The parts of a report that the rest refers to.\<close>

lemma report_spec_fields:
  "rsClusterName (report_spec env cm) = leClusterName env"
  "rsAppName (report_spec env cm) = adAppName (parseDescriptor cm)"
  "rsObservedRevision (report_spec env cm) = adRevision (parseDescriptor cm)"
  "rsSyncStatus (report_spec env cm) = adSyncStatus (parseDescriptor cm)"
  "rsHealth (report_spec env cm) = adHealth (parseDescriptor cm)"
  "rsObservedAt (report_spec env cm) = leNow env"
  "rsMCPStatus (report_spec env cm) = readMachineConfigPool (leKube env) (leKube' env)
     (gm_str (cmLabels cm) ''gitops.example.com/mcp-pool'')"
  "rsVirtStatus (report_spec env cm) =
     fst (readVirtualizationStatus (leKube env) (target_namespaces cm (cmNamespace cm)))"
  by (simp_all add: report_spec_def Let_def split_beta parseDescriptor_def)

lemma report_platform_fields:
  fixes env cm
  defines "po \<equiv> rsPlatformObservation (report_spec env cm)"
  shows "poClusterOperators po = readClusterOperators (leKube env)"
    "poVirtHealth po = rsVirtStatus (report_spec env cm)"
    "poVirtWorkloads po =
       snd (readVirtualizationStatus (leKube env) (target_namespaces cm (cmNamespace cm)))"
    "poMachineConfigPools po =
       (if readAllMachineConfigPools (leKube env) = [] then [rsMCPStatus (report_spec env cm)]
        else readAllMachineConfigPools (leKube env))"
    "poClusterVersion po = readClusterVersion (leKube env)"
    "poKubeVirt po = readKubeVirtStatus (leKube env)" "poCDI po = readCDIStatus (leKube env)"
    "poSSP po = readSSPStatus (leKube env)"
    "poNodeMaintenance po = readNodeMaintenanceStatus (leKube env)"
    "poCorrelatedEvidence po = correlateMultiSignalEvidence (leClock env)
       (rsRecentEvents (report_spec env cm)) (rsTailLogs (report_spec env cm))"
  by (simp_all add: po_def report_spec_def Let_def split_beta parseDescriptor_def)

text \<open>The evaluators do not read their own results.\<close>

definition same_inputs :: "PlatformObservationStatus \<Rightarrow> PlatformObservationStatus \<Rightarrow> bool" where
  "same_inputs p q \<longleftrightarrow> poClusterOperators p = poClusterOperators q
     \<and> poMachineConfigPools p = poMachineConfigPools q \<and> poVirtHealth p = poVirtHealth q
     \<and> poClusterVersion p = poClusterVersion q \<and> poKubeVirt p = poKubeVirt q
     \<and> poCDI p = poCDI q \<and> poSSP p = poSSP q \<and> poNodeMaintenance p = poNodeMaintenance q"

lemma same_inputs_stages:
  assumes "same_inputs p q"
  shows "stage1 p = stage1 q" "stage2 p = stage2 q" "stage3 p = stage3 q" "stage4 p = stage4 q"
    "stage5 p = stage5 q" "stage6 p = stage6 q"
  using assms
  by (simp_all add: same_inputs_def stage1_def stage2_def stage3_def stage4_def stage5_def stage6_def
      fun_eq_iff)

lemma same_inputs_graphs:
  assumes "same_inputs p q"
  shows "EvaluatePlatformDependencyGraph p = EvaluatePlatformDependencyGraph q"
    "EvaluateTopologicalDAG p = EvaluateTopologicalDAG q"
proof -
  show "EvaluatePlatformDependencyGraph p = EvaluatePlatformDependencyGraph q"
    by (simp only: EvaluatePlatformDependencyGraph_def same_inputs_stages [OF assms])
  show "EvaluateTopologicalDAG p = EvaluateTopologicalDAG q"
    using assms by (simp only: EvaluateTopologicalDAG_def same_inputs_def)
qed

lemma report_graphs:
  fixes env cm
  defines "po \<equiv> rsPlatformObservation (report_spec env cm)"
  shows "poDependencyGraph po = EvaluatePlatformDependencyGraph po"
    "poTopologicalDAG po = EvaluateTopologicalDAG po"
proof -
  obtain p g d e where p: "po = p\<lparr>poDependencyGraph := g, poTopologicalDAG := d,
      poCorrelatedEvidence := e\<rparr>"
    and gd: "g = EvaluatePlatformDependencyGraph p"
      "d = EvaluateTopologicalDAG (p\<lparr>poDependencyGraph := g\<rparr>)"
    unfolding po_def report_spec_def Let_def split_beta by simp
  have same: "same_inputs p po" "same_inputs (p\<lparr>poDependencyGraph := g\<rparr>) po"
    and f: "poDependencyGraph po = g" "poTopologicalDAG po = d"
    by (simp_all add: p same_inputs_def)
  show "poDependencyGraph po = EvaluatePlatformDependencyGraph po"
    unfolding f gd(1) by (rule same_inputs_graphs(1) [OF same(1)])
  show "poTopologicalDAG po = EvaluateTopologicalDAG po"
    unfolding f gd(2) by (rule same_inputs_graphs(2) [OF same(2)])
qed

lemma report_diagnostics:
  assumes "rsSyncStatus (report_spec env cm) \<noteq> ''OutOfSync''" "rsHealth (report_spec env cm) \<noteq> ''Degraded''"
  shows "rsRecentEvents (report_spec env cm) = []" "rsTailLogs (report_spec env cm) = []"
    "rsObjectChanges (report_spec env cm) = []" "rsDependencies (report_spec env cm) = []"
  using assms by (simp_all add: report_spec_def Let_def split_beta)

definition graph_statuses :: "string list" where
  "graph_statuses = [''Healthy'', ''Updating'', ''Degraded'', ''Maintenance'', ''Stalled'']"

lemma fault_statuses: "i < 6 \<Longrightarrow> fail_status (stage_failure obs i) \<in> set graph_statuses"
proof -
  have pool: "fail_status (pool_fault ms) \<in> set graph_statuses" for ms
  proof (cases "List.find mcp_unsettled ms")
    case (Some m)
    then have "mcp_unsettled m" by (auto simp: find_Some_iff)
    with Some show ?thesis by (auto simp: pool_fault_def fail_status_def mcp_unsettled_def graph_statuses_def)
  qed (simp add: pool_fault_def fail_status_def graph_statuses_def)
  have op: "fail_status (operator_fault ops) \<in> set graph_statuses" for ops
    by (cases "List.find co_failing ops")
      (simp_all add: operator_fault_def fail_status_def graph_statuses_def)
  have rest: "fail_status (version_fault cv) \<in> set graph_statuses"
    "fail_status (deploy_fault (virt_operators obs)) \<in> set graph_statuses"
    "fail_status (execution_fault n vh) \<in> set graph_statuses"
    "fail_status (migration_fault k) \<in> set graph_statuses" for cv n vh k
    by (simp_all add: version_fault_def deploy_fault_def virt_operators_def execution_fault_def
        migration_fault_def fail_status_def graph_statuses_def)
  assume "i < 6"
  then show ?thesis
    unfolding less_6 by (elim disjE) (simp_all add: pool op rest)
qed

lemma dag_statuses: "i < 4 \<Longrightarrow> dag_state obs i \<in> {''Healthy'', ''Updating'', ''Degraded'', ''Blocked''}"
proof -
  have pool: "fail_status (pool_fault ms) \<in> {''Healthy'', ''Updating'', ''Degraded''}" for ms
  proof (cases "List.find mcp_unsettled ms")
    case (Some m)
    then have "mcp_unsettled m" by (auto simp: find_Some_iff)
    with Some show ?thesis by (auto simp: pool_fault_def fail_status_def mcp_unsettled_def)
  qed (simp add: pool_fault_def fail_status_def)
  have own: "own_state obs j \<in> {''Healthy'', ''Updating'', ''Degraded''}" if "j < 4" for j
    using that pool [of "poMachineConfigPools obs"]
    by (auto simp: own_state_def less_Suc_eq numeral_eq_Suc)
  assume "i < 4"
  then show ?thesis using own [of i] by (cases i) auto
qed

lemma graph_nodes_typed:
  "map cnStage (dgNodes (EvaluatePlatformDependencyGraph obs)) = [''ClusterVersion'', ''NodeConfig'',
     ''ControlPlane'', ''VirtOperators'', ''WorkloadExecution'', ''LiveMigration'']"
  "list_all (\<lambda>n. cnStatus n \<in> set graph_statuses) (dgNodes (EvaluatePlatformDependencyGraph obs))"
proof -
  show "map cnStage (dgNodes (EvaluatePlatformDependencyGraph obs)) = [''ClusterVersion'', ''NodeConfig'',
     ''ControlPlane'', ''VirtOperators'', ''WorkloadExecution'', ''LiveMigration'']"
    by (simp add: dgNodes_eq all_stages_list graph_node_def Let_def numeral_eq_Suc)
  show "list_all (\<lambda>n. cnStatus n \<in> set graph_statuses) (dgNodes (EvaluatePlatformDependencyGraph obs))"
    using fault_statuses by (auto simp: dgNodes_eq list_all_iff graph_node_def Let_def)
qed

lemma dag_nodes_typed:
  "map rnID (tdNodes (EvaluateTopologicalDAG obs)) = dag_ids"
  "list_all (\<lambda>n. rnState n \<in> {''Healthy'', ''Updating'', ''Degraded'', ''Blocked''})
     (tdNodes (EvaluateTopologicalDAG obs))"
proof -
  have states: "map rnState (tdNodes (EvaluateTopologicalDAG obs)) = map (dag_state obs) [0..<4]"
    using dag_refine [of obs] by (simp only: Let_def)
  have "list_all (\<lambda>st. st \<in> {''Healthy'', ''Updating'', ''Degraded'', ''Blocked''})
      (map rnState (tdNodes (EvaluateTopologicalDAG obs)))"
    unfolding states using dag_statuses [of _ obs] by (auto simp: list_all_iff)
  then show "list_all (\<lambda>n. rnState n \<in> {''Healthy'', ''Updating'', ''Degraded'', ''Blocked''})
     (tdNodes (EvaluateTopologicalDAG obs))"
    by (simp add: list.pred_map o_def)
  show "map rnID (tdNodes (EvaluateTopologicalDAG obs)) = dag_ids"
    using dag_refine [of obs] by (simp only: Let_def)
qed

text \<open>C19: Every report the spoke computes is well formed: at most twenty events and fifty log lines,
  phases, health and node states from their fixed vocabularies, a non-empty list of pools
  sorted by name, the same virtualization status in the report and in the observation, the
  six stages and four DAG nodes evaluated on the very observation they are stored with, and
  events, logs, changes and dependencies only when the descriptor is out of sync or degraded.\<close>

theorem report_well_formed:
  "let s = report_spec env cm; po = rsPlatformObservation s in
     length (rsRecentEvents s) \<le> 20 \<and> length (rsTailLogs s) \<le> 50
     \<and> list_all (\<lambda>m. mcpPhase m \<in> {''Updated'', ''Updating'', ''Degraded'', ''Unknown''})
         (rsMCPStatus s # poMachineConfigPools po)
     \<and> poMachineConfigPools po \<noteq> [] \<and> sorted (map mcpName (poMachineConfigPools po))
     \<and> viHyperConvergedHealth (rsVirtStatus s) \<in> {''Healthy'', ''Degraded'', ''Unknown''}
     \<and> poVirtHealth po = rsVirtStatus s
     \<and> poDependencyGraph po = EvaluatePlatformDependencyGraph po
     \<and> poTopologicalDAG po = EvaluateTopologicalDAG po
     \<and> map cnStage (dgNodes (poDependencyGraph po)) = [''ClusterVersion'', ''NodeConfig'', ''ControlPlane'',
         ''VirtOperators'', ''WorkloadExecution'', ''LiveMigration'']
     \<and> list_all (\<lambda>n. cnStatus n \<in> set graph_statuses) (dgNodes (poDependencyGraph po))
     \<and> map rnID (tdNodes (poTopologicalDAG po)) = dag_ids
     \<and> list_all (\<lambda>n. rnState n \<in> {''Healthy'', ''Updating'', ''Degraded'', ''Blocked''})
         (tdNodes (poTopologicalDAG po))
     \<and> list_all (\<lambda>e. SeverityWarning \<le> ceSeverity e) (poCorrelatedEvidence po)
     \<and> (rsSyncStatus s = ''OutOfSync'' \<or> rsHealth s = ''Degraded''
        \<or> rsRecentEvents s = [] \<and> rsTailLogs s = [] \<and> rsObjectChanges s = []
          \<and> rsDependencies s = [] \<and> poCorrelatedEvidence po = [])"
proof -
  define s where "s = report_spec env cm"
  define po where "po = rsPlatformObservation s"
  note fields = report_platform_fields [of env cm, folded s_def, folded po_def]
  have events: "length (rsRecentEvents s) \<le> 20"
    by (simp add: s_def report_spec_def Let_def split_beta collectWarningEvents_def maxWarningEvents_def
        split: sum.split)
  have logs: "length (rsTailLogs s) \<le> 50"
    by (simp add: s_def report_spec_def Let_def split_beta pod_logs_eq)
  have pools: "list_all (\<lambda>m. mcpPhase m \<in> {''Updated'', ''Updating'', ''Degraded'', ''Unknown''})
      (rsMCPStatus s # poMachineConfigPools po)"
    using read_pool_phase read_pools_phase [of _ "leKube env"]
    unfolding list_all_iff fields s_def report_spec_fields by (auto split: if_splits)
  have names: "poMachineConfigPools po \<noteq> []" "sorted (map mcpName (poMachineConfigPools po))"
    by (auto simp: fields readAllMachineConfigPools_def split: sum.split)
  have virt: "viHyperConvergedHealth (rsVirtStatus s) \<in> {''Healthy'', ''Degraded'', ''Unknown''}"
    using hco_health_range by (simp add: s_def report_spec_fields virtualization_status_eq Let_def)
  have graphs: "poDependencyGraph po = EvaluatePlatformDependencyGraph po"
    "poTopologicalDAG po = EvaluateTopologicalDAG po"
    unfolding po_def s_def by (rule report_graphs)+
  have sev: "list_all (\<lambda>e. SeverityWarning \<le> ceSeverity e) (poCorrelatedEvidence po)"
    unfolding fields list_all_iff using evidence_severity by blast
  have quiet: "rsSyncStatus s = ''OutOfSync'' \<or> rsHealth s = ''Degraded''
        \<or> rsRecentEvents s = [] \<and> rsTailLogs s = [] \<and> rsObjectChanges s = []
          \<and> rsDependencies s = [] \<and> poCorrelatedEvidence po = []"
    using report_diagnostics [of env cm, folded s_def]
    by (auto simp: fields correlateMultiSignalEvidence_def)
  show ?thesis
    unfolding Let_def s_def [symmetric] po_def [symmetric] graphs
    using events logs pools names virt fields(2) graph_nodes_typed dag_nodes_typed sev quiet by blast
qed

end
