(* ===== verification/SpokeHub.thy ===== *)
theory SpokeHub
  imports LocalWatchProps PropagationProps
begin

text \<open>
  From the spoke to the hub: what a row that the aggregation builds from a spoke's report means
  for the gates of a change window, in terms of what the spoke read from its own API server.
\<close>

section \<open>Rows of the aggregation\<close>

lemma window_clusters_mem:
  assumes "iter_ok it" "gm_get (app_states chg) a = Some m" "cs \<in> set (acClusterStates m)"
  shows "cs \<in> set (window_clusters it chg)"
  using assms by (auto simp: window_clusters_def set_range_map intro!: bexI [of _ "(a, m)"])

lemma row_state: "csState (row ps byC now c) = verdict ps byC now c"
  by (cases "gm_get byC c") (simp_all add: row_def verdict_def missing_state_def reported_state_def)

lemma byCluster_Some:
  assumes "gm_get (byCluster reports) c = Some r"
  shows "r \<in> set reports \<and> rsClusterName (carSpec r) = c"
proof -
  let ?f = "filter (\<lambda>r. rsClusterName (carSpec r) = c) reports"
  have "gm_get (byCluster reports) c = (case ?f of [] \<Rightarrow> None | ys \<Rightarrow> Some (last ys))"
    unfolding byCluster_def gm.get_fold_put by (simp add: gm_get_def split: list.split)
  then have "?f \<noteq> [] \<and> r = last ?f"
    using assms by (auto split: list.splits)
  then have "r \<in> set ?f" using last_in_set by blast
  then show ?thesis by simp
qed

section \<open>What a good row means\<close>

text \<open>What the gates can see of a spoke that reports its application as healthy.\<close>

definition spoke_ok :: "local_env \<Rightarrow> config_map \<Rightarrow> bool" where
  "spoke_ok env cm \<longleftrightarrow> adHealth (parseDescriptor cm) = ''Healthy''
     \<and> \<not> list_ex co_bad (readClusterOperators (leKube env))
     \<and> \<not> mcp_bad (readMachineConfigPool (leKube env) (leKube' env)
           (gm_str (cmLabels cm) ''gitops.example.com/mcp-pool''))
     \<and> \<not> 0 < sint (nmActiveMaintenanceNodes (readNodeMaintenanceStatus (leKube env)))
     \<and> \<not> virt_bad (fst (readVirtualizationStatus (leKube env) (target_namespaces cm (cmNamespace cm))))"

lemma verdict_InSync:
  assumes "gm_get byC c = Some r" "verdict ps byC now c = StateInSync"
  shows "now - rsObservedAt (carSpec r) \<le> stale_seconds ps * Second
    \<and> rsSyncStatus (carSpec r) \<noteq> ''OutOfSync''
    \<and> rsObservedRevision (carSpec r) = psExpectedRevision (psSpec ps)"
  using assms by (auto simp: verdict_def report_verdict_def split: if_splits)

lemma spoke_row:
  assumes "gm_get byC c = Some r" "carSpec r = report_spec env cm"
  shows "cluster_ok ws (row ps byC now c) \<longleftrightarrow>
    verdict ps byC now c = StateInSync \<and> spoke_ok env cm"
proof -
  let ?s = "report_spec env cm"
  have row: "row ps byC now c = reported_state c ?s (verdict ps byC now c)"
    using assms by (simp add: row_def)
  have quiet: "rsRecentEvents ?s = [] \<and> rsObjectChanges ?s = [] \<and> rsDependencies ?s = []"
    if "verdict ps byC now c = StateInSync" "adHealth (parseDescriptor cm) = ''Healthy''"
    using verdict_InSync [OF assms(1) that(1)] that(2) report_diagnostics [of env cm]
    by (simp add: assms(2) report_spec_fields)
  show ?thesis
    using quiet
    by (auto simp: row reported_state_def cluster_ok_def spoke_ok_def ops_bad_def maint_bad_def
        events_bad_def objects_bad_def deps_bad_def report_spec_fields report_platform_fields)
qed

text \<open>C16: For a row the aggregation builds from a spoke's report, the per-cluster conditions of a
  change window hold exactly when the report is in sync and what the spoke read is good: a
  healthy descriptor, operators, pool, maintenance and virtualization. Events, object changes
  and dependencies play no part: a spoke collects them only for an unhealthy or diverged
  application, so those three gates can never fail a window that the other gates pass.\<close>

theorem spoke_row_ok_iff:
  assumes "gm_get byC c = Some r" "carSpec r = report_spec env cm"
  shows "(cluster_ok ws (row ps byC now c) \<longleftrightarrow> verdict ps byC now c = StateInSync \<and> spoke_ok env cm)
    \<and> (csState (row ps byC now c) = ''InSync'' \<and> csHealth (row ps byC now c) = ''Healthy'' \<longrightarrow>
         \<not> events_bad ws (row ps byC now c) \<and> \<not> objects_bad (row ps byC now c)
         \<and> \<not> deps_bad (row ps byC now c))"
proof -
  have "rsRecentEvents (report_spec env cm) = [] \<and> rsObjectChanges (report_spec env cm) = []
      \<and> rsDependencies (report_spec env cm) = []"
    if "verdict ps byC now c = StateInSync" "rsHealth (report_spec env cm) = ''Healthy''"
    using verdict_InSync [OF assms(1) that(1)] that(2) report_diagnostics [of env cm]
    by (simp add: assms(2))
  then show ?thesis
    using spoke_row [OF assms] assms
    by (auto simp: row_def reported_state_def events_bad_def objects_bad_def deps_bad_def)
qed

definition spoke_report :: "local_env \<Rightarrow> config_map \<Rightarrow> ClusterAppReport" where
  "spoke_report env cm =
     \<lparr>carName = ''r'', carNamespace = reportNamespace, carLabels = [], carSpec = report_spec env cm\<rparr>"

text \<open>A descriptor of a healthy application in sync, read by the spoke \<open>c1\<close>.\<close>

definition good_cm :: config_map where
  "good_cm = sample_cm\<lparr>cmData := [(''syncStatus'', ''Synced''), (''health'', ''Healthy''),
     (''observedRevision'', ''r1'')]\<rparr>"

lemma good_cm_fields:
  "adHealth (parseDescriptor good_cm) = ''Healthy''" "adSyncStatus (parseDescriptor good_cm) = ''Synced''"
  "adRevision (parseDescriptor good_cm) = ''r1''"
  by (simp_all add: good_cm_def sample_cm_def parseDescriptor_def gm_str_def gm_get_def)

lemma spoke_row_ok_iff_witness:
  "\<not> deps_bad (row (sample_ps [''c1'']) [(''c1'', spoke_report (sample_local good_cm) good_cm)] 10 ''c1'')"
proof -
  let ?env = "sample_local good_cm"
  let ?byC = "[(''c1'', spoke_report ?env good_cm)]"
  have get: "gm_get ?byC ''c1'' = Some (spoke_report ?env good_cm)"
    "carSpec (spoke_report ?env good_cm) = report_spec ?env good_cm"
    by (simp_all add: gm_get_def spoke_report_def)
  have "leNow ?env = 7" by (simp add: sample_local_def)
  then have "verdict (sample_ps [''c1'']) ?byC 10 ''c1'' = ''InSync''"
    using good_cm_fields
    by (simp add: verdict_def get report_verdict_def report_spec_fields stale_seconds_def orDefault_def
        sample_ps_def Second_def)
  then show ?thesis
    using spoke_row_ok_iff [OF get, of 0 "sample_ps [''c1'']" 10] good_cm_fields(1)
    by (simp add: row_def get reported_state_def report_spec_fields)
qed

text \<open>An API server that answers well: converged pools, available operators and ClusterVersion,
  deployed virtualization operators, nothing under maintenance.\<close>

definition good_object :: unstructured where
  "good_object =
     \<lparr>uName = ''o'', uString = (\<lambda>p. if p = [''status'', ''phase''] then ''Deployed'' else ''4.16''),
      uInt64 = (\<lambda>p. 0), uBool = (\<lambda>p. False),
      uSlice = (\<lambda>p. if p = [''status'', ''conditions'']
        then Some [Some [''type'' \<mapsto> ''Available'', ''status'' \<mapsto> ''True'']] else None)\<rparr>"

definition good_kube :: kube_client where
  "good_kube =
     \<lparr>kcGet = (\<lambda>g ns nm. Inr good_object),
      kcList = (\<lambda>g ns ls n. if snd (snd g) \<in> {''ClusterOperator'', ''KubeVirt'', ''CDI'', ''SSP''}
        then Inr [good_object] else Inr [])\<rparr>"

definition good_local :: local_env where
  "good_local = (sample_local good_cm)\<lparr>leKube := good_kube, leKube' := good_kube, leNow := 0\<rparr>"

end
