(* ===== verification/ClusterRole.thy ===== *)
theory ClusterRole
  imports Prelude GoText
begin

text \<open>
  \<open>internal/controller/cluster_detector.go\<close>: whether the operator runs on the hub or on a
  spoke. The process environment is a function (an unset variable reads as the empty string);
  the answers of the API server to the two gets and two lists are fields of \<open>role_api\<close>, and
  no client at all is \<open>None\<close>.
\<close>

type_synonym environ = "string \<Rightarrow> string"

record role_api =
  raGetNamespace :: "string \<Rightarrow> go_error option"
  raListMultiClusterHub :: "nat \<Rightarrow> go_error + string list"
  raListManagedCluster :: "nat \<Rightarrow> go_error + string list"

definition checkEnvFallback :: "environ \<Rightarrow> bool" where
  "checkEnvFallback env =
     (let cn = env ''CLUSTER_NAME'' in
      if cn = '''' \<or> equal_fold cn ''hub'' \<or> has_prefix (to_lower cn) ''hub-''
         \<or> has_prefix (to_lower cn) ''mgmt-''
      then True else False)"

definition lists_some :: "go_error + string list \<Rightarrow> bool" where
  "lists_some r = (case r of Inl e \<Rightarrow> False | Inr items \<Rightarrow> items \<noteq> [])"

definition DetectClusterRole :: "environ \<Rightarrow> role_api option \<Rightarrow> bool" where
  "DetectClusterRole env api =
     (if equal_fold (env ''OPERATOR_ROLE'') ''hub'' then True
      else if equal_fold (env ''OPERATOR_ROLE'') ''spoke'' then False
      else if env ''IS_HUB_CLUSTER'' \<noteq> '''' then
        equal_fold (env ''IS_HUB_CLUSTER'') ''true'' \<or> env ''IS_HUB_CLUSTER'' = ''1''
      else case api of
        None \<Rightarrow> checkEnvFallback env
      | Some k8s \<Rightarrow>
          if raGetNamespace k8s ''open-cluster-management-agent'' = None then False
          else if lists_some (raListMultiClusterHub k8s 1) then True
          else if lists_some (raListManagedCluster k8s 1) then True
          else if raGetNamespace k8s ''open-cluster-management'' = None then True
          else checkEnvFallback env)"

section \<open>Properties\<close>

text \<open>An environment that leaves the decision to the cluster.\<close>

definition no_override :: "environ \<Rightarrow> bool" where
  "no_override env \<longleftrightarrow> \<not> equal_fold (env ''OPERATOR_ROLE'') ''hub''
     \<and> \<not> equal_fold (env ''OPERATOR_ROLE'') ''spoke'' \<and> env ''IS_HUB_CLUSTER'' = ''''"

definition hub_evidence :: "role_api \<Rightarrow> bool" where
  "hub_evidence k8s \<longleftrightarrow> lists_some (raListMultiClusterHub k8s 1)
     \<or> lists_some (raListManagedCluster k8s 1)
     \<or> raGetNamespace k8s ''open-cluster-management'' = None"

text \<open>Without an override in the environment a cluster is a hub exactly when the agent namespace
  cannot be read and either there is evidence of a hub or the cluster's name says so; in
  particular a hub that also runs the agent counts as a spoke, whatever its resources.\<close>

theorem DetectClusterRole_correct:
  assumes "no_override env"
  shows "DetectClusterRole env (Some k8s) \<longleftrightarrow>
     raGetNamespace k8s ''open-cluster-management-agent'' \<noteq> None
     \<and> (hub_evidence k8s \<or> checkEnvFallback env)"
  using assms by (auto simp: DetectClusterRole_def no_override_def hub_evidence_def)

text \<open>A hub that manages itself: it has the hub resources and the agent's namespace.\<close>

definition self_managed_hub :: role_api where
  "self_managed_hub =
     \<lparr>raGetNamespace = (\<lambda>n. None), raListMultiClusterHub = (\<lambda>n. Inr [''multiclusterhub'']),
      raListManagedCluster = (\<lambda>n. Inr [''local-cluster''])\<rparr>"

lemma DetectClusterRole_correct_witness:
  "hub_evidence self_managed_hub
   \<and> \<not> DetectClusterRole (\<lambda>v. []) (Some self_managed_hub)"
proof -
  have "no_override (\<lambda>v. [])"
    by (simp add: no_override_def equal_fold_def to_lower_def)
  from DetectClusterRole_correct [OF this, of self_managed_hub] show ?thesis
    by (simp add: self_managed_hub_def hub_evidence_def lists_some_def)
qed

end
