(* ===== verification/KafkaBridge.thy ===== *)
theory KafkaBridge
  imports ApiTypes ClusterRole Window
begin

text \<open>
  \<open>internal/kafka/kafka_bridge.go\<close>: the TLS configuration, the decision whether a cluster is
  targeted, the producer, and the consumer of \<open>Start\<close>. The Kafka client library is reached
  through parameters: \<open>WriteMessages\<close> is the writer of a bridge, and the answers of
  \<open>FetchMessage\<close>, \<open>CommitMessages\<close> and the API server's \<open>Create\<close> are the nondeterminism of
  the step relation.
\<close>

section \<open>Configuration\<close>

record KafkaConfig =
  kcBrokers :: "string list"
  kcIngestTopic :: string
  kcEmitTopic :: string
  kcSecurityProtocol :: string
  kcCAFilePath :: string
  kcClientCertPath :: string
  kcClientKeyPath :: string
  kcServerCN :: string

text \<open>The file system and the certificate parsers.\<close>

record 'cert tls_files =
  tfReadFile :: "string \<Rightarrow> go_error + string"
  tfAppendCerts :: "string \<Rightarrow> bool"
  tfLoadKeyPair :: "string \<Rightarrow> string \<Rightarrow> go_error + 'cert"

record 'cert tls_config =
  tcRootCAs :: string
  tcServerName :: string
  tcInsecureSkipVerify :: bool
  tcCertificates :: "'cert list"

definition NewKafkaTLSConfig ::
  "'cert tls_files \<Rightarrow> string \<Rightarrow> string \<Rightarrow> string \<Rightarrow> string \<Rightarrow> go_error + 'cert tls_config option" where
  "NewKafkaTLSConfig fs caCertPath clientCertPath clientKeyPath serverCN =
     (if caCertPath = '''' then Inr None
      else case tfReadFile fs caCertPath of
        Inl e \<Rightarrow> Inl (WrapErr (''failed to read CA cert from '' @ caCertPath) e)
      | Inr caCert \<Rightarrow>
          if \<not> tfAppendCerts fs caCert then Inl (OtherErr ''failed to parse PEM CA certificate'')
          else
            (let tlsConfig = \<lparr>tcRootCAs = caCert, tcServerName = serverCN,
                   tcInsecureSkipVerify = False, tcCertificates = []\<rparr>
             in if clientCertPath \<noteq> '''' \<and> clientKeyPath \<noteq> '''' then
                  (case tfLoadKeyPair fs clientCertPath clientKeyPath of
                     Inl e \<Rightarrow> Inl (WrapErr ''failed to load client cert keypair'' e)
                   | Inr cert \<Rightarrow> Inr (Some (tlsConfig\<lparr>tcCertificates := [cert]\<rparr>)))
                else Inr (Some tlsConfig)))"

section \<open>The bridge\<close>

text \<open>The writer takes the key and the value of a message; nil pointers are \<open>None\<close>. A reader
  is known by its topic.\<close>

type_synonym kafka_writer = "string \<Rightarrow> string \<Rightarrow> go_error option"

record 'cert KafkaBridge =
  kbWriter :: "kafka_writer option"
  kbWriterTLS :: "'cert tls_config option"
  kbReader :: "string option"
  kbReaderTLS :: "'cert tls_config option"
  kbNamespace :: string
  kbClusterName :: string

text \<open>\<open>connect\<close> is the writer the library builds for a topic and a TLS configuration.\<close>

definition NewKafkaBridge ::
  "'cert tls_files \<Rightarrow> (string \<Rightarrow> 'cert tls_config option \<Rightarrow> kafka_writer) \<Rightarrow> environ \<Rightarrow> KafkaConfig \<Rightarrow>
    string \<Rightarrow> go_error + 'cert KafkaBridge" where
  "NewKafkaBridge fs connect env cfg namespace =
     (case NewKafkaTLSConfig fs (kcCAFilePath cfg) (kcClientCertPath cfg) (kcClientKeyPath cfg)
             (kcServerCN cfg) of
        Inl e \<Rightarrow> Inl (WrapErr ''setting up Kafka TLS'' e)
      | Inr tls \<Rightarrow> Inr
          \<lparr>kbWriter = Some (connect (kcEmitTopic cfg) tls), kbWriterTLS = tls,
           kbReader = (if kcIngestTopic cfg \<noteq> '''' then Some (kcIngestTopic cfg) else None),
           kbReaderTLS = tls, kbNamespace = namespace,
           kbClusterName = env ''CLUSTER_NAME''\<rparr>)"

definition isClusterTargeted :: "string \<Rightarrow> string list \<Rightarrow> bool" where
  "isClusterTargeted clusterName targetClusters =
     (if clusterName = '''' \<or> equal_fold clusterName ''hub'' \<or> targetClusters = [] then True
      else list_ex (\<lambda>tc. tc = ''*'' \<or> equal_fold tc clusterName) targetClusters)"

definition ProduceReport :: "kafka_writer option option \<Rightarrow> string \<Rightarrow> string \<Rightarrow> go_error option" where
  "ProduceReport kb chgNumber payload =
     (case kb of
        None \<Rightarrow> Some (OtherErr ''kafka bridge or writer is uninitialized/nil'')
      | Some None \<Rightarrow> Some (OtherErr ''kafka bridge or writer is uninitialized/nil'')
      | Some (Some writer) \<Rightarrow> writer chgNumber payload)"

section \<open>What the consumer does with a message\<close>

record IngestEventPayload =
  ipEventType :: string
  ipCHGNumber :: string
  ipStartTime :: gtime
  ipEndTime :: gtime
  ipStaleReportThresholdSeconds :: int32
  ipReleaseTag :: string
  ipExpectedRevision :: string
  ipBaselineRevision :: string
  ipRootApp :: string
  ipImpactedApps :: "string list"
  ipTargetNamespaces :: "string list"
  ipAppNamespaces :: "string gomap"
  ipTargetClusters :: "string list"

definition window_of :: "string \<Rightarrow> IngestEventPayload \<Rightarrow> ChangeWindow" where
  "window_of namespace p =
     \<lparr>chgName = to_lower (ipCHGNumber p), chgNamespace = namespace, chgDeletionTimestamp = None,
      chgSpec =
        \<lparr>cwCHGNumber = ipCHGNumber p, cwReleaseTag = ipReleaseTag p,
         cwBaselineRevision = ipBaselineRevision p, cwExpectedRevision = ipExpectedRevision p,
         cwRootApp = ipRootApp p, cwImpactedApps = ipImpactedApps p,
         cwTargetNamespaces = ipTargetNamespaces p, cwStartTime = ipStartTime p,
         cwEndTime = ipEndTime p, cwStabilizationPeriodSeconds = 0,
         cwStaleReportThresholdSeconds = ipStaleReportThresholdSeconds p, cwEvidenceRepoURL = '''',
         cwHardRefresh = \<lparr>hrMaxAttempts = 0, hrWaitBetweenSeconds = 0,
           hrActionExecutionMode = ''''\<rparr>\<rparr>,
      chgStatus = zero_ChangeWindowStatus\<rparr>"

text \<open>\<open>unmarshal\<close> is \<open>json.Unmarshal\<close> into the payload, \<open>None\<close> when it fails; the decision is
  the window to create, or to skip the message.\<close>

definition message_decision ::
  "(string \<Rightarrow> IngestEventPayload option) \<Rightarrow> string \<Rightarrow> string \<Rightarrow> string \<Rightarrow> ChangeWindow option" where
  "message_decision unmarshal clusterName namespace msg =
     (case unmarshal msg of
        None \<Rightarrow> None
      | Some p \<Rightarrow>
          if ipCHGNumber p = '''' then None
          else if \<not> isClusterTargeted clusterName (ipTargetClusters p) then None
          else Some (window_of namespace p))"

section \<open>The consumer loop\<close>

datatype consumer_pc =
    Fetching
  | Creating ChangeWindow
  | Committing
  | Stopped

text \<open>
  The consumer reads the messages \<open>cmLog\<close> of its partition; \<open>cmNext\<close> is the offset of the
  message in work (the next one while fetching), \<open>cmCommitted\<close> the group's committed offset,
  and \<open>cmServer\<close> the change windows of the namespace on the API server, by name.
\<close>

record consumer =
  cmPC :: consumer_pc
  cmLog :: "string list"
  cmNext :: nat
  cmCommitted :: nat
  cmServer :: "string \<rightharpoonup> ChangeWindow"

inductive consumer_step :: "(string \<Rightarrow> ChangeWindow option) \<Rightarrow> consumer \<Rightarrow> consumer \<Rightarrow> bool"
  for decide :: "string \<Rightarrow> ChangeWindow option" where
  cancelled: "cmPC s = Fetching \<or> (\<exists>w. cmPC s = Creating w) \<Longrightarrow>
     consumer_step decide s (s\<lparr>cmPC := Stopped\<rparr>)"
| fetch_error: "cmPC s = Fetching \<Longrightarrow> consumer_step decide s s"
| fetch_skip: "cmPC s = Fetching \<Longrightarrow> cmNext s < length (cmLog s) \<Longrightarrow>
     decide (cmLog s ! cmNext s) = None \<Longrightarrow> consumer_step decide s (s\<lparr>cmPC := Committing\<rparr>)"
| fetch_window: "cmPC s = Fetching \<Longrightarrow> cmNext s < length (cmLog s) \<Longrightarrow>
     decide (cmLog s ! cmNext s) = Some w \<Longrightarrow> consumer_step decide s (s\<lparr>cmPC := Creating w\<rparr>)"
| create_ok: "cmPC s = Creating w \<Longrightarrow> cmServer s (chgName w) = None \<Longrightarrow>
     consumer_step decide s
       (s\<lparr>cmPC := Committing, cmServer := (cmServer s)(chgName w \<mapsto> w)\<rparr>)"
| create_exists: "cmPC s = Creating w \<Longrightarrow> cmServer s (chgName w) \<noteq> None \<Longrightarrow>
     consumer_step decide s (s\<lparr>cmPC := Committing\<rparr>)"
| create_error: "cmPC s = Creating w \<Longrightarrow> consumer_step decide s s"
| commit_ok: "cmPC s = Committing \<Longrightarrow>
     consumer_step decide s
       (s\<lparr>cmPC := Fetching, cmCommitted := Suc (cmNext s), cmNext := Suc (cmNext s)\<rparr>)"
| commit_error: "cmPC s = Committing \<Longrightarrow>
     consumer_step decide s (s\<lparr>cmPC := Fetching, cmNext := Suc (cmNext s)\<rparr>)"
| restart: "consumer_step decide s (s\<lparr>cmPC := Fetching, cmNext := cmCommitted s\<rparr>)"
| produced: "consumer_step decide s (s\<lparr>cmLog := cmLog s @ msgs\<rparr>)"

inductive_cases consumer_stepE: "consumer_step decide s t"

definition consumer_start :: "consumer \<Rightarrow> bool" where
  "consumer_start s \<longleftrightarrow> cmPC s = Fetching \<and> cmNext s = 0 \<and> cmCommitted s = 0"

section \<open>Invariants of the consumer\<close>

text \<open>A message is handled when it is one to skip or its window exists.\<close>

definition handled :: "(string \<Rightarrow> ChangeWindow option) \<Rightarrow> consumer \<Rightarrow> nat \<Rightarrow> bool" where
  "handled decide s i \<longleftrightarrow> i < length (cmLog s) \<and>
     (\<forall>w. decide (cmLog s ! i) = Some w \<longrightarrow> cmServer s (chgName w) \<noteq> None)"

lemma handled_update [simp]:
  "handled decide (s\<lparr>cmPC := pc\<rparr>) i = handled decide s i"
  "handled decide (s\<lparr>cmNext := n\<rparr>) i = handled decide s i"
  "handled decide (s\<lparr>cmCommitted := n\<rparr>) i = handled decide s i"
  by (simp_all add: handled_def)

definition consumer_inv :: "(string \<Rightarrow> ChangeWindow option) \<Rightarrow> consumer \<Rightarrow> bool" where
  "consumer_inv decide s \<longleftrightarrow>
     cmCommitted s \<le> cmNext s \<and> (\<forall>i<cmNext s. handled decide s i)
     \<and> (case cmPC s of
          Creating w \<Rightarrow> cmNext s < length (cmLog s) \<and> decide (cmLog s ! cmNext s) = Some w
        | Committing \<Rightarrow> handled decide s (cmNext s)
        | _ \<Rightarrow> True)"

lemma handled_mono:
  "handled decide s i \<Longrightarrow> cmLog t = cmLog s @ ms \<Longrightarrow> (\<And>k. cmServer s k \<noteq> None \<Longrightarrow> cmServer t k \<noteq> None) \<Longrightarrow>
     handled decide t i"
  by (simp add: handled_def nth_append)

lemma consumer_step_inv:
  assumes "consumer_inv decide s" "consumer_step decide s t"
  shows "consumer_inv decide t"
  using assms(2,1)
proof (induction rule: consumer_step.induct)
  case (create_ok s w)
  let ?t = "s\<lparr>cmPC := Committing, cmServer := (cmServer s)(chgName w \<mapsto> w)\<rparr>"
  have "handled decide ?t i" if "handled decide s i" for i
    using that by (rule handled_mono [where ms = "[]"]) auto
  moreover have "handled decide ?t (cmNext s)"
    using create_ok by (simp add: consumer_inv_def handled_def)
  ultimately show ?case
    using create_ok by (simp add: consumer_inv_def)
next
  case (produced s msgs)
  let ?t = "s\<lparr>cmLog := cmLog s @ msgs\<rparr>"
  have "handled decide ?t i" if "handled decide s i" for i
    using that by (rule handled_mono [where ms = msgs]) auto
  then show ?case
    using produced by (auto simp: consumer_inv_def nth_append split: consumer_pc.splits)
next
  case (fetch_skip s)
  then show ?case by (simp add: consumer_inv_def handled_def)
next
  case (create_exists s w)
  then show ?case by (simp add: consumer_inv_def handled_def)
next
  case (restart s)
  then show ?case by (auto simp: consumer_inv_def)
qed (simp_all add: consumer_inv_def less_Suc_eq split: consumer_pc.splits)

interpretation ingest: invariant_system consumer_start "consumer_step decide" "consumer_inv decide"
  for decide
proof
  show "consumer_inv decide s" if "consumer_start s" for s
    using that by (simp add: consumer_start_def consumer_inv_def)
qed (rule consumer_step_inv)

lemma consumer_step_server:
  "consumer_step decide s t \<Longrightarrow> cmServer s \<subseteq>\<^sub>m cmServer t"
  by (erule consumer_stepE) (auto simp: map_le_def)

lemma consumer_run_server:
  "(consumer_step decide)\<^sup>*\<^sup>* s t \<Longrightarrow> cmServer s \<subseteq>\<^sub>m cmServer t"
  by (induction rule: rtranclp_induct) (auto intro: consumer_step_server map_le_trans)

section \<open>Properties\<close>


definition sample_payload :: IngestEventPayload where
  "sample_payload =
     \<lparr>ipEventType = '''', ipCHGNumber = ''CHG1'', ipStartTime = 0, ipEndTime = 10,
      ipStaleReportThresholdSeconds = 0, ipReleaseTag = '''', ipExpectedRevision = '''',
      ipBaselineRevision = '''', ipRootApp = '''', ipImpactedApps = [''a''],
      ipTargetNamespaces = [], ipAppNamespaces = [], ipTargetClusters = [''c1'']\<rparr>"

definition sample_decide :: "string \<Rightarrow> ChangeWindow option" where
  "sample_decide = message_decision (\<lambda>m. Some sample_payload) ''C1'' ''ns''"

definition sample_consumer :: consumer where
  "sample_consumer =
     \<lparr>cmPC = Fetching, cmLog = [''m''], cmNext = 0, cmCommitted = 0, cmServer = Map.empty\<rparr>"


text \<open>The consumer never changes or removes a change window: a redelivered event leaves the
  window it created, with whatever status it has, as it is.\<close>

theorem consumer_keeps_windows:
  assumes "(consumer_step decide)\<^sup>*\<^sup>* s t" "cmServer s n = Some w"
  shows "cmServer t n = Some w"
  using consumer_run_server [OF assms(1)] assms(2) by (auto simp: map_le_def dom_def)

lemma consumer_keeps_windows_witness:
  "cmServer (sample_consumer\<lparr>cmServer := [''chg1'' \<mapsto> window_of ''ns'' sample_payload], cmPC := Stopped\<rparr>)
     ''chg1'' = Some (window_of ''ns'' sample_payload)"
proof (rule consumer_keeps_windows)
  let ?s = "sample_consumer\<lparr>cmServer := [''chg1'' \<mapsto> window_of ''ns'' sample_payload]\<rparr>"
  have "consumer_step sample_decide ?s (?s\<lparr>cmPC := Stopped\<rparr>)"
    by (rule cancelled) (simp add: sample_consumer_def)
  then show "(consumer_step sample_decide)\<^sup>*\<^sup>* ?s
      (sample_consumer\<lparr>cmServer := [''chg1'' \<mapsto> window_of ''ns'' sample_payload], cmPC := Stopped\<rparr>)"
    by (simp add: r_into_rtranclp)
  show "cmServer ?s ''chg1'' = Some (window_of ''ns'' sample_payload)" by simp
qed

text \<open>A message leads to a window exactly when it parses, has a change number and targets the
  cluster (an operator without a cluster name, or named hub, is targeted by every event, as is
  every cluster by an event without targets or with a star); names compare without case.\<close>

theorem message_decision_correct:
  "message_decision unmarshal c ns m = Some w \<longleftrightarrow>
     (\<exists>p. unmarshal m = Some p \<and> ipCHGNumber p \<noteq> '''' \<and> w = window_of ns p
        \<and> (c = '''' \<or> to_lower c = ''hub'' \<or> ipTargetClusters p = []
           \<or> ''*'' \<in> set (ipTargetClusters p)
           \<or> to_lower c \<in> to_lower ` set (ipTargetClusters p)))"
proof -
  have hub: "to_lower ''hub'' = ''hub''" by code_simp
  show ?thesis
    unfolding message_decision_def isClusterTargeted_def list_ex_iff equal_fold_def hub
    by (auto simp: image_iff split: option.splits) (metis)+
qed

text \<open>The TLS configuration never disables certificate verification, is absent only when no CA
  file is configured, and presents a client certificate only when both of its files are
  configured and load.\<close>

theorem NewKafkaTLSConfig_safe:
  assumes "NewKafkaTLSConfig fs ca crt key cn = Inr r"
  shows "(r = None \<longleftrightarrow> ca = '''')
    \<and> (\<forall>t. r = Some t \<longrightarrow> \<not> tcInsecureSkipVerify t \<and> tcServerName t = cn
        \<and> tfReadFile fs ca = Inr (tcRootCAs t) \<and> tfAppendCerts fs (tcRootCAs t)
        \<and> (tcCertificates t \<noteq> [] \<longleftrightarrow> crt \<noteq> '''' \<and> key \<noteq> '''')
        \<and> (\<forall>k\<in>set (tcCertificates t). tfLoadKeyPair fs crt key = Inr k))"
  using assms
  by (auto simp: NewKafkaTLSConfig_def Let_def split: if_splits sum.splits)

lemma NewKafkaTLSConfig_safe_witness:
  "\<not> tcInsecureSkipVerify \<lparr>tcRootCAs = ''pem'', tcServerName = ''cn'',
     tcInsecureSkipVerify = False, tcCertificates = [''k'']\<rparr>"
proof -
  let ?fs = "\<lparr>tfReadFile = (\<lambda>f. Inr ''pem''), tfAppendCerts = (\<lambda>c. True),
      tfLoadKeyPair = (\<lambda>c k. Inr ''k'')\<rparr> :: string tls_files"
  have "NewKafkaTLSConfig ?fs ''ca'' ''crt'' ''key'' ''cn'' = Inr (Some
      \<lparr>tcRootCAs = ''pem'', tcServerName = ''cn'', tcInsecureSkipVerify = False,
       tcCertificates = [''k'']\<rparr>)"
    by (simp add: NewKafkaTLSConfig_def)
  from NewKafkaTLSConfig_safe [OF this] show ?thesis by blast
qed

end
