(* ===== verification/WindowReconcile.thy ===== *)
theory WindowReconcile
  imports Gates Window KafkaBridge
begin

text \<open>
  \<open>ChangeWindowReconciler.Reconcile\<close>. Everything the reconciler asks of its surroundings is a
  field of \<open>chg_env\<close>: the answers of the API server, the two readings of the clock (its own
  and the one in \<open>GenerateSignedReport\<close>), the four unspecified map orders, the environment for
  the role of the cluster, the Kafka bridge and the time formats. The steps are functions in
  the order of the source; the outcome holds the result, the reports handed to Kafka and the
  object of the status patch.
\<close>

record chg_env =
  weGet :: "go_error + ChangeWindow"
  weNow :: gtime
  weList :: "string \<Rightarrow> string \<Rightarrow> nat \<Rightarrow> go_error + PropagationStatus list"
  weGetPS :: "string \<Rightarrow> string \<Rightarrow> go_error + PropagationStatus"
  weEnviron :: environ
  weRoleAPI :: "role_api option"
  weBaselineOrder :: iter_order
  weSilenceOrder :: iter_order
  weActionOrder :: iter_order
  weGateOrder :: iter_order
  weSignNow :: gtime
  weTimeFmt :: time_fmt
  weKafka :: "kafka_writer option option"
  wePatch :: "ChangeWindow \<Rightarrow> go_error option"

record chg_out =
  woResult :: "go_error + ctrl_result"
  woReports :: "(string \<times> string) list"
  woPatch :: "ChangeWindow option"

definition chg_return :: "go_error + ctrl_result \<Rightarrow> chg_out" where
  "chg_return r = \<lparr>woResult = r, woReports = [], woPatch = None\<rparr>"

abbreviation upd_status ::
  "(ChangeWindowStatus \<Rightarrow> ChangeWindowStatus) \<Rightarrow> ChangeWindow \<Rightarrow> ChangeWindow" where
  "upd_status f \<equiv> chgStatus_update f"

definition isHubCluster :: "chg_env \<Rightarrow> bool" where
  "isHubCluster env = DetectClusterRole (weEnviron env) (weRoleAPI env)"

section \<open>The steps\<close>

text \<open>The two maps are made before they are written.\<close>

definition init_maps :: "ChangeWindow \<Rightarrow> ChangeWindow" where
  "init_maps chg =
     upd_status (\<lambda>st. st\<lparr>stAppStates := Some (app_states chg), stActions := Some (get_actions chg)\<rparr>) chg"

definition store_app :: "string \<Rightarrow> PropagationStatus \<Rightarrow> ChangeWindow \<Rightarrow> ChangeWindow" where
  "store_app appName ps chg =
     upd_status (\<lambda>st. st\<lparr>stAppStates := Some (gm_put (app_states chg) appName
       \<lparr>acPhase = pssPhase (psStatus ps), acClusterStates = pssClusterStates (psStatus ps)\<rparr>)\<rparr>) chg"

definition fetch_app :: "chg_env \<Rightarrow> string \<Rightarrow> ChangeWindow \<Rightarrow> go_error + ChangeWindow" where
  "fetch_app env appName chg =
     (case weList env (chgNamespace chg) appName 100 of
        Inr (ps # _) \<Rightarrow> Inr (store_app appName ps chg)
      | _ \<Rightarrow>
          (case weGetPS env (chgNamespace chg) appName of
             Inl e \<Rightarrow>
               if IsNotFound e then Inr chg
               else Inl (WrapErr (''failed to get PropagationStatus '' @ chgNamespace chg @ ''/''
                 @ appName) e)
           | Inr ps \<Rightarrow> Inr (store_app appName ps chg)))"

fun fetch_apps :: "chg_env \<Rightarrow> string list \<Rightarrow> ChangeWindow \<Rightarrow> go_error + ChangeWindow" where
  "fetch_apps env [] chg = Inr chg"
| "fetch_apps env (a # as) chg =
     (case fetch_app env a chg of Inl e \<Rightarrow> Inl e | Inr chg' \<Rightarrow> fetch_apps env as chg')"

definition capture_step :: "chg_env \<Rightarrow> ChangeWindow \<Rightarrow> ChangeWindow" where
  "capture_step env chg =
     (if stBaseline (chgStatus chg) = None then
        upd_status (\<lambda>st. st\<lparr>stBaseline :=
            Some (captureBaseline (weBaselineOrder env) (app_states chg) (weNow env)),
          stPhase := PhaseBaselineCaptured\<rparr>) chg
      else chg)"

definition silence_step :: "chg_env \<Rightarrow> duration \<Rightarrow> ChangeWindow \<Rightarrow> ChangeWindow" where
  "silence_step env staleThreshold chg =
     upd_status (\<lambda>st. st\<lparr>stSilentClusters :=
       concat (map (\<lambda>a. filter (\<lambda>s. scState s \<noteq> ''Reporting'')
           (map (\<lambda>cs. classifySilence (fst a) cs chg (weNow env) staleThreshold)
             (acClusterStates (snd a))))
         (range_map (weSilenceOrder env) (app_states chg)))\<rparr>) chg"

definition action_cluster ::
  "gtime \<Rightarrow> string \<Rightarrow> ClusterRevisionState \<Rightarrow> ChangeWindow \<Rightarrow> ChangeWindow" where
  "action_cluster now appName cs chg =
     (if csState cs = ''Diverged'' \<or> csState cs = ''OutOfSync''
      then runParkedHardRefreshAction chg appName cs now else chg)"

definition action_step :: "chg_env \<Rightarrow> ChangeWindow \<Rightarrow> ChangeWindow" where
  "action_step env chg =
     fold (\<lambda>a. fold (action_cluster (weNow env) (fst a)) (acClusterStates (snd a)))
       (range_map (weActionOrder env) (app_states chg)) chg"

definition validate_step :: "chg_env \<Rightarrow> ChangeWindow \<Rightarrow> ChangeWindow" where
  "validate_step env chg =
     upd_status (\<lambda>st. st\<lparr>stValidation :=
       fst (evaluateGates (isHubCluster env) (weGateOrder env) chg (weNow env))\<rparr>) chg"

definition phase_step :: "gtime \<Rightarrow> ChangeWindow \<Rightarrow> ChangeWindow \<times> duration" where
  "phase_step now chg =
     (let st = chgStatus chg; sp = chgSpec chg; previousPhase = stPhase st;
          stabSeconds = seconds32 (orDefault (cwStabilizationPeriodSeconds sp) 0);
          succeeded = (\<lambda>st. st\<lparr>stPhase := PhaseSucceeded, stOverallStatus := ''Good''\<rparr>)
      in if vrPassed (stValidation st) then
           (if stabSeconds > 0 then
              (let started = (case stStabilizationStartedAt st of None \<Rightarrow> now | Some t \<Rightarrow> t);
                   st1 = st\<lparr>stStabilizationStartedAt := Some started\<rparr>
               in if now < started + stabSeconds then
                    (chg\<lparr>chgStatus := st1\<lparr>stPhase := PhasePlatformRecovering,
                       stOverallStatus := ''InProgress''\<rparr>\<rparr>, 15 * Second)
                  else (chg\<lparr>chgStatus := succeeded st1\<rparr>, 60 * Second))
            else (chg\<lparr>chgStatus := succeeded st\<rparr>, 60 * Second))
         else if now > cwEndTime sp then
           (chg\<lparr>chgStatus := st\<lparr>stStabilizationStartedAt := None, stPhase := PhaseTimedOut,
              stOverallStatus := ''Degraded''\<rparr>\<rparr>, 60 * Second)
         else
           (chg\<lparr>chgStatus := st\<lparr>stStabilizationStartedAt := None,
              stPhase :=
                (if previousPhase = PhaseScheduled \<or> previousPhase = PhaseBaselineCaptured
                    \<or> previousPhase = ''Pending'' \<or> previousPhase = ''''
                 then PhaseWaitingForChange else PhaseExecuting),
              stOverallStatus := ''InProgress''\<rparr>\<rparr>, 15 * Second))"

definition signing_key :: "ChangeWindow \<Rightarrow> 8 word list" where
  "signing_key chg =
     (let secretKey = bytes_of (cwCHGNumber (chgSpec chg)) in
      if secretKey = [] then bytes_of ''chg-signing-key-default'' else secretKey)"

definition sign_step :: "chg_env \<Rightarrow> ChangeWindow \<Rightarrow> ChangeWindow" where
  "sign_step env chg =
     (let st = chgStatus chg in
      if stPhase st = PhaseSucceeded \<or> stPhase st = PhaseFailed \<or> stPhase st = PhaseTimedOut then
        (let baselineDigest =
               (case stBaseline st of None \<Rightarrow> ''baseline-digest-none''
                | Some b \<Rightarrow> bsClusterOperatorDigest b);
             report = GenerateSignedReport (tfMeta (weTimeFmt env)) (weSignNow env)
               (cwCHGNumber (chgSpec chg)) baselineDigest (vrGateResults (stValidation st))
               (stPhase st) (signing_key chg)
         in chg\<lparr>chgStatus := st\<lparr>stSignedReport := Some report\<rparr>\<rparr>)
      else chg)"

definition last50 :: "'a list \<Rightarrow> 'a list" where
  "last50 xs = (if length xs > 50 then drop (length xs - 50) xs else xs)"

definition timeline_step :: "gtime \<Rightarrow> string \<Rightarrow> ChangeWindow \<Rightarrow> ChangeWindow" where
  "timeline_step now previousPhase chg =
     (let st = chgStatus chg in
      if stPhase st \<noteq> previousPhase then
        chg\<lparr>chgStatus := st\<lparr>stTimeline := last50 (stTimeline st @
          [\<lparr>tlTimestamp = now, tlStage = stPhase st, tlCategory = ''Platform'',
            tlResource = cwCHGNumber (chgSpec chg), tlEvent = ''PhaseTransition'',
            tlDescription = ''Maintenance window phase transitioned from '' @ [CHR 0x27]
              @ previousPhase @ [CHR 0x27] @ '' to '' @ [CHR 0x27] @ stPhase st @ [CHR 0x27],
            tlCausalImpact = ''''\<rparr>])\<rparr>\<rparr>
      else chg)"

definition report_due :: "gtime \<Rightarrow> string \<Rightarrow> ChangeWindow \<Rightarrow> ChangeWindow \<Rightarrow> bool" where
  "report_due now previousPhase original chg \<longleftrightarrow>
     stPhase (chgStatus chg) \<noteq> previousPhase
     \<or> stValidation (chgStatus original) \<noteq> stValidation (chgStatus chg)
     \<or> (\<not> time_is_zero (stLastReportedAt (chgStatus chg))
        \<and> time_sub now (stLastReportedAt (chgStatus chg)) \<ge> 15 * 60 * Second)"

definition publish_step ::
  "chg_env \<Rightarrow> string \<Rightarrow> ChangeWindow \<Rightarrow> ChangeWindow \<Rightarrow> ChangeWindow \<times> (string \<times> string) list" where
  "publish_step env previousPhase original chg =
     (if report_due (weNow env) previousPhase original chg then
        (let payload = BuildKafkaReportJSON (weTimeFmt env) chg (weNow env);
             chgNumber = cwCHGNumber (chgSpec chg);
             ok = (case weKafka env of None \<Rightarrow> True
                   | Some b \<Rightarrow> ProduceReport (Some b) chgNumber payload = None)
         in (if ok then upd_status (\<lambda>st. st\<lparr>stLastReportedAt := weNow env\<rparr>) chg else chg,
             case weKafka env of None \<Rightarrow> [] | Some b \<Rightarrow> [(chgNumber, payload)]))
      else (chg, []))"

section \<open>Reconcile\<close>

definition chg_pipeline :: "chg_env \<Rightarrow> ChangeWindow \<Rightarrow> go_error + ChangeWindow" where
  "chg_pipeline env original =
     (case fetch_apps env (cwImpactedApps (chgSpec original)) (init_maps original) of
        Inl e \<Rightarrow> Inl e
      | Inr chg \<Rightarrow> Inr
          (validate_step env (action_step env (silence_step env
            (seconds32 (orDefault (cwStaleReportThresholdSeconds (chgSpec original)) 300))
            (capture_step env chg)))))"

definition chg_reconcile :: "chg_env \<Rightarrow> string \<Rightarrow> chg_out" where
  "chg_reconcile env req =
     (case weGet env of
        Inl e \<Rightarrow>
          if IsNotFound e then chg_return (Inr empty_result)
          else chg_return (Inl (WrapErr (''failed to get ChangeWindow '' @ req) e))
      | Inr original \<Rightarrow>
          if (case chgDeletionTimestamp original of None \<Rightarrow> False | Some t \<Rightarrow> \<not> time_is_zero t) then
            chg_return (Inr empty_result)
          else if weNow env < cwStartTime (chgSpec original) then
            (let waitDuration = time_sub (cwStartTime (chgSpec original)) (weNow env);
                 chg = upd_status (\<lambda>st. st\<lparr>stPhase := PhaseScheduled,
                   stOverallStatus := ''Pending''\<rparr>) original
             in \<lparr>woResult = Inr (requeue_after waitDuration), woReports = [],
                 woPatch = (if chgStatus chg \<noteq> chgStatus original then Some chg else None)\<rparr>)
          else case chg_pipeline env original of
            Inl e \<Rightarrow> chg_return (Inl e)
          | Inr chg \<Rightarrow>
              (let previousPhase = stPhase (chgStatus chg);
                   (chg1, requeueAfter) = phase_step (weNow env) chg;
                   chg2 = sign_step env chg1;
                   chg3 = timeline_step (weNow env) previousPhase chg2;
                   (chg4, reports) = publish_step env previousPhase original chg3
               in if chgStatus chg4 \<noteq> chgStatus original then
                    (case wePatch env chg4 of
                       Some e \<Rightarrow>
                         \<lparr>woResult =
                            (if IsConflict e then Inr requeue_now
                             else Inl (WrapErr
                               (''failed to patch ChangeWindow status '' @ req) e)),
                          woReports = reports, woPatch = Some chg4\<rparr>
                     | None \<Rightarrow>
                         \<lparr>woResult = Inr (requeue_after requeueAfter), woReports = reports,
                          woPatch = Some chg4\<rparr>)
                  else
                    \<lparr>woResult = Inr (requeue_after requeueAfter), woReports = reports,
                     woPatch = None\<rparr>))"

end
