(* ===== verification/WindowFrame.thy ===== *)
theory WindowFrame
  imports WindowReconcile WindowProps GateProps
begin

text \<open>
  What each step of a window reconcile leaves alone, and the reconcile that evaluates the
  gates in closed form. The frame facts are collected in \<open>frame\<close>; \<open>reconcile_evaluates\<close> is
  what the properties of a reconcile and of a run rest on.
\<close>

named_theorems frame \<open>fields a step does not change, and those it sets\<close>

section \<open>The pipeline\<close>

text \<open>The fields that no step up to the validation writes.\<close>

definition untouched where
  "untouched c =
     (chgSpec c, stTimeline (chgStatus c), stStabilizationStartedAt (chgStatus c),
      stSignedReport (chgStatus c), stLastReportedAt (chgStatus c), chgDeletionTimestamp c)"

lemma untouched_frame [frame]:
  "untouched (init_maps c) = untouched c" "untouched (store_app a ps c) = untouched c"
  "untouched (runParkedHardRefreshAction c a cs now) = untouched c"
  "untouched (capture_step env c) = untouched c" "untouched (silence_step env t c) = untouched c"
  "untouched (validate_step env c) = untouched c"
  by (simp_all add: untouched_def init_maps_def store_app_def runParkedHardRefreshAction_def
      put_action_def Let_def capture_step_def silence_step_def validate_step_def)

lemma phase_baseline_frame [frame]:
  "stPhase (chgStatus (init_maps c)) = stPhase (chgStatus c)"
  "stPhase (chgStatus (store_app a ps c)) = stPhase (chgStatus c)"
  "stPhase (chgStatus (runParkedHardRefreshAction c a cs now)) = stPhase (chgStatus c)"
  "stPhase (chgStatus (silence_step env t c)) = stPhase (chgStatus c)"
  "stPhase (chgStatus (validate_step env c)) = stPhase (chgStatus c)"
  "stBaseline (chgStatus (init_maps c)) = stBaseline (chgStatus c)"
  "stBaseline (chgStatus (store_app a ps c)) = stBaseline (chgStatus c)"
  "stBaseline (chgStatus (runParkedHardRefreshAction c a cs now)) = stBaseline (chgStatus c)"
  "stBaseline (chgStatus (silence_step env t c)) = stBaseline (chgStatus c)"
  "stBaseline (chgStatus (validate_step env c)) = stBaseline (chgStatus c)"
  by (simp_all add: init_maps_def store_app_def runParkedHardRefreshAction_def
      put_action_def Let_def silence_step_def validate_step_def)

lemma actions_frame [frame]:
  "get_actions (init_maps c) = get_actions c" "get_actions (store_app a ps c) = get_actions c"
  "get_actions (capture_step env c) = get_actions c"
  "get_actions (silence_step env t c) = get_actions c"
  "get_actions (validate_step env c) = get_actions c"
  "app_states (init_maps c) = app_states c" "app_states (capture_step env c) = app_states c"
  "app_states (silence_step env t c) = app_states c"
  "app_states (validate_step env c) = app_states c"
  "app_states (runParkedHardRefreshAction c a cs now) = app_states c"
  "stSilentClusters (chgStatus (runParkedHardRefreshAction c a cs now)) =
     stSilentClusters (chgStatus c)"
  by (simp_all add: init_maps_def store_app_def get_actions_def app_states_def capture_step_def
      silence_step_def validate_step_def runParkedHardRefreshAction_def put_action_def Let_def)

lemma capture_step_sets [frame]:
  "stPhase (chgStatus (capture_step env c)) =
     (if stBaseline (chgStatus c) = None then PhaseBaselineCaptured else stPhase (chgStatus c))"
  "stBaseline (chgStatus (capture_step env c)) =
     (case stBaseline (chgStatus c) of
        None \<Rightarrow> Some (captureBaseline (weBaselineOrder env) (app_states c) (weNow env))
      | Some b \<Rightarrow> Some b)"
  by (auto simp: capture_step_def split: option.split)

text \<open>What storing an application keeps, fetching all of them keeps; what an action keeps, the
  action step keeps.\<close>

lemma fetch_app_cases:
  "fetch_app env a c = Inr c' \<Longrightarrow> c' = c \<or> (\<exists>ps. c' = store_app a ps c)"
  by (auto simp: fetch_app_def split: sum.splits list.splits if_splits)

lemma fetch_apps_keeps:
  assumes "\<And>a ps c. P (store_app a ps c) = P c"
  shows "fetch_apps env as c = Inr c' \<Longrightarrow> P c' = P c"
proof (induction as arbitrary: c)
  case (Cons a as)
  then obtain c1 where c1: "fetch_app env a c = Inr c1" "fetch_apps env as c1 = Inr c'"
    by (auto split: sum.splits)
  have "P c1 = P c" using fetch_app_cases [OF c1(1)] assms by auto
  with Cons.IH [OF c1(2)] show ?case by simp
qed simp

lemma action_step_keeps:
  assumes "\<And>a cs c. P (runParkedHardRefreshAction c a cs (weNow env)) = P c"
  shows "P (action_step env c) = P c"
proof -
  have inner: "P (fold (action_cluster (weNow env) a) css c) = P c" for a css c
    by (rule fold_frame) (simp add: action_cluster_def assms)
  show ?thesis
    unfolding action_step_def by (rule fold_frame) (rule inner)
qed

lemma action_step_frame [frame]:
  "untouched (action_step env c) = untouched c"
  "stPhase (chgStatus (action_step env c)) = stPhase (chgStatus c)"
  "stBaseline (chgStatus (action_step env c)) = stBaseline (chgStatus c)"
  "app_states (action_step env c) = app_states c"
  "stSilentClusters (chgStatus (action_step env c)) = stSilentClusters (chgStatus c)"
  by (rule action_step_keeps; simp add: frame)+

lemma action_step_actions_ok:
  assumes "actions_ok c" "\<not> time_is_zero (weNow env)"
  shows "actions_ok (action_step env c)"
proof -
  have inner: "actions_ok (fold (action_cluster (weNow env) a) css c)" if "actions_ok c" for a css c
    by (rule fold_invariant_on [where P = actions_ok])
      (use that assms(2) in \<open>simp_all add: action_cluster_def runParked_actions_ok\<close>)
  show ?thesis
    unfolding action_step_def
    by (rule fold_invariant_on [where P = actions_ok]) (rule inner, assumption, rule assms(1))
qed

lemma untouchedD:
  assumes "untouched c = untouched d"
  shows "chgSpec c = chgSpec d" "stTimeline (chgStatus c) = stTimeline (chgStatus d)"
    "stStabilizationStartedAt (chgStatus c) = stStabilizationStartedAt (chgStatus d)"
    "stSignedReport (chgStatus c) = stSignedReport (chgStatus d)"
    "stLastReportedAt (chgStatus c) = stLastReportedAt (chgStatus d)"
    "chgDeletionTimestamp c = chgDeletionTimestamp d"
  using assms by (simp_all add: untouched_def)

lemma actions_ok_cong:
  "get_actions c = get_actions d \<Longrightarrow> untouched c = untouched d \<Longrightarrow> actions_ok c = actions_ok d"
  by (simp add: actions_ok_def max_attempts_def wait_between_def untouched_def)

lemma pipeline_frame:
  assumes "chg_pipeline env original = Inr c"
  shows "untouched c = untouched original"
    "stPhase (chgStatus c) =
       (if stBaseline (chgStatus original) = None then PhaseBaselineCaptured
        else stPhase (chgStatus original))"
    "stBaseline (chgStatus c) \<noteq> None"
    "stBaseline (chgStatus original) = Some b \<Longrightarrow> stBaseline (chgStatus c) = Some b"
    "actions_ok original \<Longrightarrow> \<not> time_is_zero (weNow env) \<Longrightarrow> actions_ok c"
proof -
  define thr where
    "thr = seconds32 (orDefault (cwStaleReportThresholdSeconds (chgSpec original)) 300)"
  obtain f where f: "fetch_apps env (cwImpactedApps (chgSpec original)) (init_maps original) = Inr f"
    and c: "c = validate_step env (action_step env (silence_step env thr (capture_step env f)))"
    using assms by (auto simp: chg_pipeline_def thr_def split: sum.splits)
  have keep: "untouched f = untouched original"
    "stPhase (chgStatus f) = stPhase (chgStatus original)"
    "stBaseline (chgStatus f) = stBaseline (chgStatus original)"
    "get_actions f = get_actions original"
    using fetch_apps_keeps [of untouched, OF untouched_frame(2) f]
      fetch_apps_keeps [of "\<lambda>c. stPhase (chgStatus c)", OF phase_baseline_frame(2) f]
      fetch_apps_keeps [of "\<lambda>c. stBaseline (chgStatus c)", OF phase_baseline_frame(7) f]
      fetch_apps_keeps [of get_actions, OF actions_frame(2) f]
    by (simp_all add: frame)
  show "untouched c = untouched original"
    "stPhase (chgStatus c) =
       (if stBaseline (chgStatus original) = None then PhaseBaselineCaptured
        else stPhase (chgStatus original))"
    "stBaseline (chgStatus c) \<noteq> None"
    "stBaseline (chgStatus original) = Some b \<Longrightarrow> stBaseline (chgStatus c) = Some b"
    by (simp_all add: c frame keep split: option.split)
  assume ok: "actions_ok original" "\<not> time_is_zero (weNow env)"
  have "actions_ok (silence_step env thr (capture_step env f))"
    using ok(1) by (subst actions_ok_cong [of _ original]) (simp_all add: frame keep)
  then have "actions_ok (action_step env (silence_step env thr (capture_step env f)))"
    by (rule action_step_actions_ok) (rule ok(2))
  then show "actions_ok c"
    unfolding c
    by (subst actions_ok_cong [where d = "action_step env (silence_step env thr (capture_step env f))"])
      (simp_all add: frame)
qed

text \<open>The validation the pipeline stores is that of the gates on the window as it stands, with
  the silent clusters of the same reconcile.\<close>

lemma validation_frame [frame]:
  "stValidation (chgStatus (init_maps c)) = stValidation (chgStatus c)"
  "stValidation (chgStatus (store_app a ps c)) = stValidation (chgStatus c)"
  "stValidation (chgStatus (capture_step env c)) = stValidation (chgStatus c)"
  "stValidation (chgStatus (silence_step env t c)) = stValidation (chgStatus c)"
  "stValidation (chgStatus (action_step env c)) = stValidation (chgStatus c)"
proof -
  show "stValidation (chgStatus (action_step env c)) = stValidation (chgStatus c)"
    by (rule action_step_keeps) (simp add: runParkedHardRefreshAction_def put_action_def Let_def)
qed (simp_all add: init_maps_def store_app_def capture_step_def silence_step_def)

lemma pipeline_validation:
  assumes "chg_pipeline env original = Inr c"
  obtains d where "stValidation (chgStatus c) =
      fst (evaluateGates (isHubCluster env) (weGateOrder env) d (weNow env))"
    "chgSpec d = chgSpec c" "app_states d = app_states c"
    "stSilentClusters (chgStatus d) = stSilentClusters (chgStatus c)"
    "stValidation (chgStatus d) = stValidation (chgStatus original)"
proof -
  define thr where
    "thr = seconds32 (orDefault (cwStaleReportThresholdSeconds (chgSpec original)) 300)"
  obtain f where f: "fetch_apps env (cwImpactedApps (chgSpec original)) (init_maps original) = Inr f"
    and c: "c = validate_step env (action_step env (silence_step env thr (capture_step env f)))"
    using assms by (auto simp: chg_pipeline_def thr_def split: sum.splits)
  have "stValidation (chgStatus f) = stValidation (chgStatus original)"
    using fetch_apps_keeps [of "\<lambda>c. stValidation (chgStatus c)", OF validation_frame(2) f]
    by (simp add: frame)
  then show ?thesis
    by (intro that [of "action_step env (silence_step env thr (capture_step env f))"])
      (simp_all add: c validate_step_def app_states_def frame)
qed

section \<open>The steps after the validation\<close>

definition late_window :: "chg_env \<Rightarrow> ChangeWindow \<Rightarrow> ChangeWindow \<Rightarrow> ChangeWindow \<times> (string \<times> string) list" where
  "late_window env original c =
     publish_step env (stPhase (chgStatus c)) original
       (timeline_step (weNow env) (stPhase (chgStatus c))
         (sign_step env (fst (phase_step (weNow env) c))))"

lemma sign_step_frame [frame]:
  "chgSpec (sign_step env c) = chgSpec c" "stPhase (chgStatus (sign_step env c)) = stPhase (chgStatus c)"
  "stBaseline (chgStatus (sign_step env c)) = stBaseline (chgStatus c)"
  "stValidation (chgStatus (sign_step env c)) = stValidation (chgStatus c)"
  "stStabilizationStartedAt (chgStatus (sign_step env c)) = stStabilizationStartedAt (chgStatus c)"
  "stTimeline (chgStatus (sign_step env c)) = stTimeline (chgStatus c)"
  "stLastReportedAt (chgStatus (sign_step env c)) = stLastReportedAt (chgStatus c)"
  "get_actions (sign_step env c) = get_actions c"
  "app_states (sign_step env c) = app_states c"
  "chgDeletionTimestamp (sign_step env c) = chgDeletionTimestamp c"
  by (simp_all add: sign_step_def Let_def get_actions_def app_states_def)

lemma timeline_step_frame [frame]:
  "chgSpec (timeline_step now p c) = chgSpec c"
  "stPhase (chgStatus (timeline_step now p c)) = stPhase (chgStatus c)"
  "stBaseline (chgStatus (timeline_step now p c)) = stBaseline (chgStatus c)"
  "stValidation (chgStatus (timeline_step now p c)) = stValidation (chgStatus c)"
  "stStabilizationStartedAt (chgStatus (timeline_step now p c)) = stStabilizationStartedAt (chgStatus c)"
  "stSignedReport (chgStatus (timeline_step now p c)) = stSignedReport (chgStatus c)"
  "stLastReportedAt (chgStatus (timeline_step now p c)) = stLastReportedAt (chgStatus c)"
  "get_actions (timeline_step now p c) = get_actions c"
  "app_states (timeline_step now p c) = app_states c"
  "chgDeletionTimestamp (timeline_step now p c) = chgDeletionTimestamp c"
  by (simp_all add: timeline_step_def Let_def get_actions_def app_states_def)

lemma publish_step_frame [frame]:
  "chgSpec (fst (publish_step env p o' c)) = chgSpec c"
  "stPhase (chgStatus (fst (publish_step env p o' c))) = stPhase (chgStatus c)"
  "stBaseline (chgStatus (fst (publish_step env p o' c))) = stBaseline (chgStatus c)"
  "stValidation (chgStatus (fst (publish_step env p o' c))) = stValidation (chgStatus c)"
  "stStabilizationStartedAt (chgStatus (fst (publish_step env p o' c))) =
     stStabilizationStartedAt (chgStatus c)"
  "stSignedReport (chgStatus (fst (publish_step env p o' c))) = stSignedReport (chgStatus c)"
  "stTimeline (chgStatus (fst (publish_step env p o' c))) = stTimeline (chgStatus c)"
  "get_actions (fst (publish_step env p o' c)) = get_actions c"
  "app_states (fst (publish_step env p o' c)) = app_states c"
  "chgDeletionTimestamp (fst (publish_step env p o' c)) = chgDeletionTimestamp c"
  by (simp_all add: publish_step_def Let_def get_actions_def app_states_def)

lemma phase_step_frame [frame]:
  "chgSpec (fst (phase_step now c)) = chgSpec c"
  "stBaseline (chgStatus (fst (phase_step now c))) = stBaseline (chgStatus c)"
  "stValidation (chgStatus (fst (phase_step now c))) = stValidation (chgStatus c)"
  "stSignedReport (chgStatus (fst (phase_step now c))) = stSignedReport (chgStatus c)"
  "stTimeline (chgStatus (fst (phase_step now c))) = stTimeline (chgStatus c)"
  "stLastReportedAt (chgStatus (fst (phase_step now c))) = stLastReportedAt (chgStatus c)"
  "get_actions (fst (phase_step now c)) = get_actions c"
  "app_states (fst (phase_step now c)) = app_states c"
  "chgDeletionTimestamp (fst (phase_step now c)) = chgDeletionTimestamp c"
  by (simp_all add: phase_step_def Let_def get_actions_def app_states_def)

text \<open>The phase and the stabilisation clock after \<open>phase_step\<close>.\<close>

definition stab_seconds :: "ChangeWindow \<Rightarrow> int" where
  "stab_seconds c = sint (orDefault (cwStabilizationPeriodSeconds (chgSpec c)) 0)"

definition next_stab :: "gtime \<Rightarrow> ChangeWindow \<Rightarrow> gtime option" where
  "next_stab now c =
     (if \<not> vrPassed (stValidation (chgStatus c)) then None
      else if stab_seconds c > 0 then
        Some (case stStabilizationStartedAt (chgStatus c) of None \<Rightarrow> now | Some t \<Rightarrow> t)
      else stStabilizationStartedAt (chgStatus c))"

definition next_phase :: "gtime \<Rightarrow> ChangeWindow \<Rightarrow> string" where
  "next_phase now c =
     (if vrPassed (stValidation (chgStatus c)) then
        (case next_stab now c of
           Some t \<Rightarrow> if stab_seconds c > 0 \<and> now < t + stab_seconds c * Second
                     then PhasePlatformRecovering else PhaseSucceeded
         | None \<Rightarrow> PhaseSucceeded)
      else if cwEndTime (chgSpec c) < now then PhaseTimedOut
      else if stPhase (chgStatus c) \<in> {PhaseScheduled, PhaseBaselineCaptured, ''Pending'', ''''}
      then PhaseWaitingForChange else PhaseExecuting)"

lemma phase_step_sets [frame]:
  "stPhase (chgStatus (fst (phase_step now c))) = next_phase now c"
  "stStabilizationStartedAt (chgStatus (fst (phase_step now c))) = next_stab now c"
  "snd (phase_step now c) =
     (if next_phase now c \<in> {PhaseSucceeded, PhaseTimedOut} then 60 * Second else 15 * Second)"
proof -
  have pos: "0 < seconds32 n \<longleftrightarrow> 0 < sint n" for n
    by (auto simp: seconds32_eq Second_def)
  show "stPhase (chgStatus (fst (phase_step now c))) = next_phase now c"
    "stStabilizationStartedAt (chgStatus (fst (phase_step now c))) = next_stab now c"
    "snd (phase_step now c) =
       (if next_phase now c \<in> {PhaseSucceeded, PhaseTimedOut} then 60 * Second else 15 * Second)"
    by (simp_all add: phase_step_def next_phase_def next_stab_def stab_seconds_def Let_def pos
        seconds32_eq [symmetric] split: option.split)
qed

section \<open>A reconcile that evaluates the gates\<close>

definition chg_deleting :: "ChangeWindow \<Rightarrow> bool" where
  "chg_deleting c \<longleftrightarrow>
     (case chgDeletionTimestamp c of None \<Rightarrow> False | Some t \<Rightarrow> \<not> time_is_zero t)"

text \<open>The reconcile found the live window \<open>original\<close>, started, and brought it to \<open>c\<close> up to the
  validation.\<close>

definition evaluates :: "chg_env \<Rightarrow> ChangeWindow \<Rightarrow> ChangeWindow \<Rightarrow> bool" where
  "evaluates env original c \<longleftrightarrow> weGet env = Inr original \<and> \<not> chg_deleting original
     \<and> cwStartTime (chgSpec original) \<le> weNow env \<and> chg_pipeline env original = Inr c"

lemma reconcile_evaluates:
  assumes "evaluates env original c"
  shows "chg_reconcile env req =
    (let (w, reports) = late_window env original c;
         d = (if next_phase (weNow env) c \<in> {PhaseSucceeded, PhaseTimedOut}
              then 60 * Second else 15 * Second)
     in \<lparr>woResult =
           (if chgStatus w = chgStatus original then Inr (requeue_after d)
            else case wePatch env w of None \<Rightarrow> Inr (requeue_after d)
              | Some e \<Rightarrow> if IsConflict e then Inr requeue_now
                  else Inl (WrapErr (''failed to patch ChangeWindow status '' @ req) e)),
         woReports = reports,
         woPatch = (if chgStatus w = chgStatus original then None else Some w)\<rparr>)"
proof -
  have "\<not> weNow env < cwStartTime (chgSpec original)" "\<not> chg_deleting original"
    "weGet env = Inr original" "chg_pipeline env original = Inr c"
    using assms by (auto simp: evaluates_def)
  then show ?thesis
    unfolding chg_reconcile_def late_window_def chg_deleting_def phase_step_sets(3) [symmetric]
    by (simp add: Let_def split_beta split: option.splits)
qed

text \<open>The window after all steps.\<close>

lemma late_window_fields:
  fixes env :: chg_env and original c :: ChangeWindow
  defines "w \<equiv> fst (late_window env original c)"
  shows "chgSpec w = chgSpec c" "stPhase (chgStatus w) = next_phase (weNow env) c"
    "stStabilizationStartedAt (chgStatus w) = next_stab (weNow env) c"
    "stBaseline (chgStatus w) = stBaseline (chgStatus c)"
    "stValidation (chgStatus w) = stValidation (chgStatus c)"
    "get_actions w = get_actions c"
    "stTimeline (chgStatus w) = stTimeline (chgStatus (timeline_step (weNow env)
       (stPhase (chgStatus c)) (sign_step env (fst (phase_step (weNow env) c)))))"
    "stSignedReport (chgStatus w) =
       stSignedReport (chgStatus (sign_step env (fst (phase_step (weNow env) c))))"
    "app_states w = app_states c" "chgDeletionTimestamp w = chgDeletionTimestamp c"
  by (simp_all add: w_def late_window_def frame)

end
