(* ===== verification/WindowRun.thy ===== *)
theory WindowRun
  imports WindowFrame
begin

text \<open>
  A change window over its life: reconciles against the stored object, each with its own
  answers of the server, clock readings and map orders, accepted or refused patches. The
  invariant of the run (an instance of \<open>invariant_system\<close>) gives the phases a window can be
  in, the meaning of success, the signed report of a finished window, and the bounds of the
  timeline and of the actions. The specification of the window does not change in a run.
\<close>

section \<open>Runs\<close>

text \<open>The history holds the time and the verdict of every stored evaluation, newest first.\<close>

record window_state =
  wsWindow :: ChangeWindow
  wsHist :: "(gtime \<times> bool) list"

definition evaluated_window :: "chg_env \<Rightarrow> ChangeWindow \<Rightarrow> ChangeWindow option" where
  "evaluated_window env original =
     (if chg_deleting original \<or> weNow env < cwStartTime (chgSpec original) then None
      else case chg_pipeline env original of Inl e \<Rightarrow> None | Inr c \<Rightarrow> Some c)"

definition accepted :: "chg_env \<Rightarrow> chg_out \<Rightarrow> bool" where
  "accepted env out = (case woPatch out of None \<Rightarrow> True | Some w \<Rightarrow> wePatch env w = None)"

definition stored_window :: "chg_env \<Rightarrow> ChangeWindow \<Rightarrow> chg_out \<Rightarrow> ChangeWindow" where
  "stored_window env original out =
     (case woPatch out of None \<Rightarrow> original
      | Some w \<Rightarrow> if wePatch env w = None then w else original)"

definition advance :: "chg_env \<Rightarrow> window_state \<Rightarrow> window_state" where
  "advance env s =
     (let original = wsWindow s;
          out = chg_reconcile (env\<lparr>weGet := Inr original\<rparr>) ''''
      in \<lparr>wsWindow = stored_window env original out,
          wsHist =
            (case evaluated_window env original of
               None \<Rightarrow> wsHist s
             | Some c \<Rightarrow>
                 if accepted env out
                 then (weNow env, vrPassed (stValidation (chgStatus c))) # wsHist s else wsHist s)\<rparr>)"

inductive window_step :: "window_state \<Rightarrow> window_state \<Rightarrow> bool" where
  reconcile: "\<not> time_is_zero (weNow env) \<Longrightarrow> window_step s (advance env s)"

inductive_cases window_stepE: "window_step s t"

definition window_start :: "window_state \<Rightarrow> bool" where
  "window_start s \<longleftrightarrow> chgStatus (wsWindow s) = zero_ChangeWindowStatus \<and> wsHist s = []"

section \<open>The invariant\<close>

definition run_phases :: "string set" where
  "run_phases = {'''', PhaseScheduled, PhaseWaitingForChange, PhaseExecuting,
     PhasePlatformRecovering, PhaseSucceeded, PhaseTimedOut}"

text \<open>The latest evaluations, back to the one at \<open>t\<close>, all passed.\<close>

definition passed_since :: "gtime \<Rightarrow> (gtime \<times> bool) list \<Rightarrow> bool" where
  "passed_since t hist \<longleftrightarrow>
     (\<exists>ps rest. hist = ps @ rest \<and> ps \<noteq> [] \<and> list_all snd ps \<and> fst (last ps) = t)"

definition success_ok :: "ChangeWindow \<Rightarrow> (gtime \<times> bool) list \<Rightarrow> bool" where
  "success_ok w hist \<longleftrightarrow> vrPassed (stValidation (chgStatus w)) \<and> hist \<noteq> [] \<and> snd (hd hist)
     \<and> (stab_seconds w > 0 \<longrightarrow> (\<exists>t. stStabilizationStartedAt (chgStatus w) = Some t
          \<and> t + stab_seconds w * Second \<le> fst (hd hist)))"

definition signed_ok :: "ChangeWindow \<Rightarrow> bool" where
  "signed_ok w \<longleftrightarrow> (\<exists>r. stSignedReport (chgStatus w) = Some r
     \<and> VerifyReportSignature (Some r) (signing_key w)
     \<and> saOverallResult r = stPhase (chgStatus w) \<and> saWindowID r = cwCHGNumber (chgSpec w)
     \<and> saGateResults r = vrGateResults (stValidation (chgStatus w)))"

definition window_inv :: "window_state \<Rightarrow> bool" where
  "window_inv s \<longleftrightarrow>
     (let w = wsWindow s; st = chgStatus w in
      stPhase st \<in> run_phases \<and> length (stTimeline st) \<le> 50 \<and> actions_ok w
      \<and> (\<forall>t. stStabilizationStartedAt st = Some t \<longrightarrow> passed_since t (wsHist s))
      \<and> (stPhase st = PhaseSucceeded \<longrightarrow> success_ok w (wsHist s))
      \<and> (stPhase st \<in> {PhaseSucceeded, PhaseTimedOut} \<longrightarrow> signed_ok w)
      \<and> (stPhase st = PhasePlatformRecovering \<longrightarrow> vrPassed (stValidation st))
      \<and> (stPhase st \<notin> {'''', PhaseScheduled} \<longrightarrow> stBaseline st \<noteq> None))"

lemma passed_since_Cons:
  "passed_since t hist \<Longrightarrow> passed_since t ((n, True) # hist)"
  unfolding passed_since_def
proof (elim exE conjE)
  fix ps rest assume "hist = ps @ rest" "ps \<noteq> []" "list_all snd ps" "fst (last ps) = t"
  then show "\<exists>ps rest. (n, True) # hist = ps @ rest \<and> ps \<noteq> [] \<and> list_all snd ps \<and> fst (last ps) = t"
    by (intro exI [of _ "(n, True) # ps"] exI [of _ rest]) simp
qed

lemma passed_since_now: "passed_since n ((n, True) # hist)"
  unfolding passed_since_def by (intro exI [of _ "[(n, True)]"] exI [of _ hist]) simp

lemma next_phase_range: "next_phase now c \<in> run_phases - {'''', PhaseScheduled}"
  by (auto simp: next_phase_def run_phases_def split: option.split)

lemma evaluates_iff:
  "weGet env = Inr original \<Longrightarrow>
     evaluates env original c \<longleftrightarrow> evaluated_window env original = Some c"
  by (auto simp: evaluates_def evaluated_window_def split: sum.splits)

text \<open>What the gates see does not depend on how the object was read.\<close>

lemma env_get:
  "weNow (env\<lparr>weGet := r\<rparr>) = weNow env" "wePatch (env\<lparr>weGet := r\<rparr>) = wePatch env"
  "weList (env\<lparr>weGet := r\<rparr>) = weList env" "weGetPS (env\<lparr>weGet := r\<rparr>) = weGetPS env"
  "weEnviron (env\<lparr>weGet := r\<rparr>) = weEnviron env" "weRoleAPI (env\<lparr>weGet := r\<rparr>) = weRoleAPI env"
  "weBaselineOrder (env\<lparr>weGet := r\<rparr>) = weBaselineOrder env"
  "weSilenceOrder (env\<lparr>weGet := r\<rparr>) = weSilenceOrder env"
  "weActionOrder (env\<lparr>weGet := r\<rparr>) = weActionOrder env"
  "weGateOrder (env\<lparr>weGet := r\<rparr>) = weGateOrder env"
  by simp_all

lemma fetch_app_get [simp]: "fetch_app (env\<lparr>weGet := r\<rparr>) a c = fetch_app env a c"
  unfolding fetch_app_def env_get by (rule refl)

lemma fetch_apps_get [simp]: "fetch_apps (env\<lparr>weGet := r\<rparr>) as c = fetch_apps env as c"
proof (induction as arbitrary: c)
  case (Cons a as)
  then show ?case by (cases "fetch_app env a c") simp_all
qed simp

lemma steps_get [simp]:
  "capture_step (env\<lparr>weGet := r\<rparr>) c = capture_step env c"
  "silence_step (env\<lparr>weGet := r\<rparr>) t c = silence_step env t c"
  "action_step (env\<lparr>weGet := r\<rparr>) c = action_step env c"
  "validate_step (env\<lparr>weGet := r\<rparr>) c = validate_step env c"
  unfolding capture_step_def silence_step_def action_step_def validate_step_def isHubCluster_def
    env_get
  by (rule refl)+

lemma pipeline_get [simp]: "chg_pipeline (env\<lparr>weGet := r\<rparr>) c = chg_pipeline env c"
  by (simp only: chg_pipeline_def fetch_apps_get steps_get)

lemma evaluated_window_get [simp]: "evaluated_window (env\<lparr>weGet := r\<rparr>) c = evaluated_window env c"
  by (simp add: evaluated_window_def)

text \<open>A reconcile that does not evaluate leaves the window alone or schedules it.\<close>

lemma advance_not_evaluated:
  assumes "evaluated_window env (wsWindow s) = None"
  shows "wsHist (advance env s) = wsHist s"
    "wsWindow (advance env s) = wsWindow s
     \<or> wsWindow (advance env s) = upd_status (\<lambda>st. st\<lparr>stPhase := PhaseScheduled,
         stOverallStatus := ''Pending''\<rparr>) (wsWindow s)"
proof -
  have "woPatch (chg_reconcile (env\<lparr>weGet := Inr (wsWindow s)\<rparr>) []) \<in>
      {None, Some (upd_status (\<lambda>st. st\<lparr>stPhase := PhaseScheduled,
         stOverallStatus := ''Pending''\<rparr>) (wsWindow s))}"
  proof (cases "chg_deleting (wsWindow s)")
    case True
    then show ?thesis
      unfolding chg_reconcile_def chg_deleting_def [symmetric] by (simp add: chg_return_def)
  next
    case False
    show ?thesis
    proof (cases "weNow env < cwStartTime (chgSpec (wsWindow s))")
      case True
      with False show ?thesis
        unfolding chg_reconcile_def chg_deleting_def [symmetric] by (simp add: Let_def)
    next
      case started: False
      with assms False obtain e where "chg_pipeline env (wsWindow s) = Inl e"
        by (auto simp: evaluated_window_def split: sum.splits)
      with started False show ?thesis
        unfolding chg_reconcile_def chg_deleting_def [symmetric] by (simp add: chg_return_def)
    qed
  qed
  then show "wsHist (advance env s) = wsHist s"
    "wsWindow (advance env s) = wsWindow s
     \<or> wsWindow (advance env s) = upd_status (\<lambda>st. st\<lparr>stPhase := PhaseScheduled,
         stOverallStatus := ''Pending''\<rparr>) (wsWindow s)"
    using assms by (auto simp: advance_def Let_def stored_window_def)
qed

text \<open>A stored evaluation has the status of the late window.\<close>

lemma advance_evaluated:
  assumes "evaluated_window env (wsWindow s) = Some c"
  shows "(chgStatus (wsWindow (advance env s)) =
        chgStatus (fst (late_window (env\<lparr>weGet := Inr (wsWindow s)\<rparr>) (wsWindow s) c))
      \<and> chgSpec (wsWindow (advance env s)) = chgSpec (wsWindow s)
      \<and> wsHist (advance env s) = (weNow env, vrPassed (stValidation (chgStatus c))) # wsHist s)
    \<or> (wsWindow (advance env s) = wsWindow s \<and> wsHist (advance env s) = wsHist s)"
proof -
  let ?env = "env\<lparr>weGet := Inr (wsWindow s)\<rparr>"
  let ?w = "fst (late_window ?env (wsWindow s) c)"
  have ev: "evaluates ?env (wsWindow s) c"
    using assms by (simp add: evaluates_iff)
  have out: "woPatch (chg_reconcile ?env []) =
      (if chgStatus ?w = chgStatus (wsWindow s) then None else Some ?w)"
    by (simp add: reconcile_evaluates [OF ev] split_beta Let_def)
  have "chg_pipeline env (wsWindow s) = Inr c"
    using ev by (simp add: evaluates_def)
  then have "chgSpec c = chgSpec (wsWindow s)"
    using pipeline_frame(1) untouchedD(1) by blast
  then have "chgSpec ?w = chgSpec (wsWindow s)"
    by (simp add: late_window_fields)
  then show ?thesis
    using out by (simp add: advance_def Let_def stored_window_def accepted_def assms)
qed

lemma actions_ok_scheduled [simp]:
  "actions_ok (upd_status (\<lambda>st. st\<lparr>stPhase := p, stOverallStatus := o'\<rparr>) w) = actions_ok w"
  by (simp add: actions_ok_def get_actions_def max_attempts_def wait_between_def)

lemma signed_ok_late:
  assumes "next_phase (weNow env) c \<in> {PhaseSucceeded, PhaseTimedOut}"
    and "chgStatus w = chgStatus (fst (late_window env original c))" "chgSpec w = chgSpec c"
  shows "signed_ok w"
proof -
  have key: "signing_key w = signing_key (fst (phase_step (weNow env) c))"
    using assms(3) by (simp add: signing_key_def frame)
  obtain d where d: "stSignedReport (chgStatus (fst (late_window env original c))) = Some
      (GenerateSignedReport (tfMeta (weTimeFmt env)) (weSignNow env) (cwCHGNumber (chgSpec c)) d
        (vrGateResults (stValidation (chgStatus c))) (next_phase (weNow env) c)
        (signing_key (fst (phase_step (weNow env) c))))"
    using assms(1) by (auto simp: late_window_fields sign_step_def Let_def frame)
  show ?thesis
    using audit.verify_generate [of "tfMeta (weTimeFmt env)"
        "(weSignNow env, cwCHGNumber (chgSpec c), d, vrGateResults (stValidation (chgStatus c)),
          next_phase (weNow env) c)" "signing_key w"]
    unfolding signed_ok_def assms(2) d key
    by (simp add: sign_document_def late_window_fields assms(3)) (simp add: GenerateSignedReport_def Let_def)
qed

lemma timeline_bound:
  assumes "length (stTimeline (chgStatus c)) \<le> 50"
  shows "length (stTimeline (chgStatus (timeline_step now p c))) \<le> 50"
  using assms by (simp add: timeline_step_def last50_def Let_def)

lemma window_inv_evaluated:
  assumes inv: "window_inv s" and c: "chg_pipeline env (wsWindow s) = Inr c"
    and now: "\<not> time_is_zero (weNow env)"
    and st: "chgStatus w = chgStatus (fst (late_window env original c))"
    and sp: "chgSpec w = chgSpec (wsWindow s)"
  shows "window_inv \<lparr>wsWindow = w,
    wsHist = (weNow env, vrPassed (stValidation (chgStatus c))) # wsHist s\<rparr>"
proof -
  let ?h = "(weNow env, vrPassed (stValidation (chgStatus c))) # wsHist s"
  note un = untouchedD [OF pipeline_frame(1) [OF c]]
  have spc: "chgSpec w = chgSpec c" by (simp add: sp un)
  have stabs: "stab_seconds w = stab_seconds c" by (simp add: stab_seconds_def spc)
  note f = late_window_fields [of env original c, folded st]
  have "length (stTimeline (chgStatus w)) \<le> 50"
    unfolding f(7) by (rule timeline_bound) (use inv in \<open>simp add: frame un window_inv_def Let_def\<close>)
  moreover have "actions_ok c"
    using inv by (intro pipeline_frame(5) [OF c _ now]) (simp add: window_inv_def Let_def)
  then have "actions_ok w"
    using f(6) by (simp add: actions_ok_def get_actions_def max_attempts_def wait_between_def spc st)
  moreover have stab: "passed_since t ?h" if "next_stab (weNow env) c = Some t" for t
  proof -
    have passed: "vrPassed (stValidation (chgStatus c))"
      using that by (auto simp: next_stab_def split: if_splits)
    show ?thesis
    proof (cases "stStabilizationStartedAt (chgStatus c)")
      case None
      then show ?thesis
        using that passed by (auto simp: next_stab_def passed_since_now split: if_splits)
    next
      case (Some u)
      then have "u = t" using that by (auto simp: next_stab_def split: if_splits)
      with Some inv passed show ?thesis
        by (auto simp: un window_inv_def Let_def intro: passed_since_Cons)
    qed
  qed
  moreover have "success_ok w ?h" if "next_phase (weNow env) c = PhaseSucceeded"
    using that unfolding success_ok_def f stabs
    by (auto simp: next_phase_def next_stab_def split: if_splits option.splits)
  moreover have "signed_ok w" if "next_phase (weNow env) c \<in> {PhaseSucceeded, PhaseTimedOut}"
    using signed_ok_late [OF that st spc] .
  moreover have "vrPassed (stValidation (chgStatus c))"
    if "next_phase (weNow env) c = PhasePlatformRecovering"
    using that by (auto simp: next_phase_def split: if_splits)
  ultimately show ?thesis
    using next_phase_range [of "weNow env" c] pipeline_frame(3) [OF c]
    unfolding window_inv_def Let_def by (simp add: f)
qed

lemma window_inv_step:
  assumes inv: "window_inv s" and step: "window_step s t"
  shows "window_inv t"
proof -
  obtain env where t: "t = advance env s" and now: "\<not> time_is_zero (weNow env)"
    using step by (auto elim: window_stepE)
  show ?thesis
  proof (cases "evaluated_window env (wsWindow s)")
    case None
    from advance_not_evaluated [OF None] show ?thesis
    proof (elim disjE)
      assume "wsWindow (advance env s) = wsWindow s"
      with inv advance_not_evaluated(1) [OF None] show ?thesis
        by (simp add: t window_inv_def Let_def)
    next
      assume "wsWindow (advance env s) = upd_status (\<lambda>st. st\<lparr>stPhase := PhaseScheduled,
         stOverallStatus := ''Pending''\<rparr>) (wsWindow s)"
      with inv advance_not_evaluated(1) [OF None] show ?thesis
        by (simp add: t window_inv_def Let_def run_phases_def)
    qed
  next
    case (Some c)
    have c: "chg_pipeline (env\<lparr>weGet := Inr (wsWindow s)\<rparr>) (wsWindow s) = Inr c"
      using Some by (auto simp: evaluated_window_def split: if_splits sum.splits)
    from advance_evaluated [OF Some] show ?thesis
    proof (elim disjE conjE)
      assume a: "chgStatus (wsWindow (advance env s)) =
          chgStatus (fst (late_window (env\<lparr>weGet := Inr (wsWindow s)\<rparr>) (wsWindow s) c))"
        "chgSpec (wsWindow (advance env s)) = chgSpec (wsWindow s)"
        "wsHist (advance env s) = (weNow env, vrPassed (stValidation (chgStatus c))) # wsHist s"
      from window_inv_evaluated [OF inv c _ a(1,2)] now a(3) show ?thesis
        unfolding t by (cases "advance env s") simp
    next
      assume "wsWindow (advance env s) = wsWindow s" "wsHist (advance env s) = wsHist s"
      with inv show ?thesis by (simp add: t window_inv_def Let_def)
    qed
  qed
qed

interpretation window_run: invariant_system window_start window_step window_inv
proof
  show "window_inv s" if "window_start s" for s
    using that
    by (simp add: window_start_def window_inv_def zero_ChangeWindowStatus_def run_phases_def
        actions_ok_def get_actions_def gm_get_def)
qed (rule window_inv_step)

end
