(* ===== verification/System.thy ===== *)
theory System
  imports SpokeHub WindowRun
begin

text \<open>
  The controllers together. Spokes write reports, the hub aggregates them into
  \<open>PropagationStatus\<close> objects, and a change window is evaluated on these, in any order and as
  often as one likes. The hub's reads may be late: a reconcile may see any report that was ever
  written and any version of a status that the server ever held, so informer caches, refused
  patches and the transport from the spokes to the hub need no separate treatment. A status is
  stored by a merge patch against the version that was read, which need not be the one the
  server holds, so what is stored then can be a mixture of the two. The invariant of the system says where every row a window can see comes from; what it means for a
  window that succeeded is stated in the root theory.
\<close>

section \<open>States and steps\<close>

text \<open>The specs of all reports written so far, all versions of all statuses, the window with its
  history, and the evaluations that were stored, newest first, with the window they gave.\<close>

record sys_state =
  syReports :: "ClusterAppReportSpec list"
  syStatuses :: "PropagationStatus list"
  syRun :: window_state
  syLog :: "(gtime \<times> ChangeWindow) list"

fun written_spec :: "report_write \<Rightarrow> ClusterAppReportSpec" where
  "written_spec (CreateReport r) = carSpec r"
| "written_spec (PatchReport old new) = carSpec new"

text \<open>What the aggregation may read: an object of the server, and reports in the namespace it
  asks for with the application it asks for.\<close>

definition prop_reads :: "sys_state \<Rightarrow> prop_env \<Rightarrow> bool" where
  "prop_reads s env \<longleftrightarrow>
     (\<forall>ps. peGet env = Inr ps \<longrightarrow> ps \<in> set (syStatuses s))
     \<and> (\<forall>ns app n rs. peList env ns app n = Inr rs \<longrightarrow>
          (\<forall>r\<in>set rs. carSpec r \<in> set (syReports s) \<and> rsAppName (carSpec r) = app))"

text \<open>What a window may read: \<open>List\<close> selects by application, \<open>Get\<close> by name.\<close>

definition status_answer :: "chg_env \<Rightarrow> string \<Rightarrow> string \<Rightarrow> PropagationStatus \<Rightarrow> bool" where
  "status_answer env ns app ps \<longleftrightarrow>
     (\<exists>n pss. weList env ns app n = Inr pss \<and> ps \<in> set pss) \<or> weGetPS env ns app = Inr ps"

definition window_reads :: "sys_state \<Rightarrow> chg_env \<Rightarrow> bool" where
  "window_reads s env \<longleftrightarrow> iter_ok (weSilenceOrder env) \<and> iter_ok (weGateOrder env)
     \<and> \<not> time_is_zero (weNow env)
     \<and> (\<forall>ns app ps. status_answer env ns app ps \<longrightarrow>
          ps \<in> set (syStatuses s) \<and> (psName ps = app \<or> psAppName (psSpec ps) = app))"

definition log_evaluation ::
  "chg_env \<Rightarrow> window_state \<Rightarrow> (gtime \<times> ChangeWindow) list \<Rightarrow> (gtime \<times> ChangeWindow) list" where
  "log_evaluation env s lg =
     (case evaluated_window env (wsWindow s) of
        None \<Rightarrow> lg
      | Some c \<Rightarrow>
          if accepted env (chg_reconcile (env\<lparr>weGet := Inr (wsWindow s)\<rparr>) '''')
          then (weNow env, c) # lg else lg)"

text \<open>Two versions of one object, and what a merge patch of a status may leave: each field is the new
  one or, where the new one is as it was read, the one the server held.\<close>

definition same_object :: "PropagationStatus \<Rightarrow> PropagationStatus \<Rightarrow> bool" where
  "same_object ps ps' \<longleftrightarrow> psNamespace ps = psNamespace ps' \<and> psName ps = psName ps'"

definition merged :: "('s \<Rightarrow> 'f) \<Rightarrow> 's \<Rightarrow> 's \<Rightarrow> 's \<Rightarrow> 's \<Rightarrow> bool" where
  "merged f base new cur st \<longleftrightarrow> f st = f new \<or> f new = f base \<and> f st = f cur"

definition merged_status ::
  "PropagationStatusStatus \<Rightarrow> PropagationStatusStatus \<Rightarrow> PropagationStatusStatus \<Rightarrow> PropagationStatusStatus \<Rightarrow> bool" where
  "merged_status base new cur st \<longleftrightarrow>
     merged pssPhase base new cur st \<and> merged pssClusterStates base new cur st
     \<and> merged pssExpectedRevisionSince base new cur st \<and> merged pssLastExpectedRevision base new cur st
     \<and> merged pssDivergedClusters base new cur st \<and> merged pssLaggingClusters base new cur st
     \<and> merged pssStaleClusters base new cur st \<and> merged pssMissingClusters base new cur st
     \<and> merged pssObservedGeneration base new cur st \<and> merged pssConditions base new cur st"

text \<open>The object that a merge patch changes is the newest version; that any version is allowed in its
  place only adds runs. A name that is used again keeps its application.\<close>

inductive sys_step :: "sys_state \<Rightarrow> sys_state \<Rightarrow> bool" where
  spoke_writes: "loWrite (local_reconcile lenv req) = Some w \<Longrightarrow>
     sys_step s (s\<lparr>syReports := written_spec w # syReports s\<rparr>)"
| status_created: "pssClusterStates (psStatus ps) = [] \<Longrightarrow>
     \<forall>ps'\<in>set (syStatuses s). same_object ps ps' \<longrightarrow> psAppName (psSpec ps) = psAppName (psSpec ps') \<Longrightarrow>
     sys_step s (s\<lparr>syStatuses := ps # syStatuses s\<rparr>)"
| status_edited: "ps \<in> set (syStatuses s) \<Longrightarrow> psAppName sp = psAppName (psSpec ps) \<Longrightarrow>
     sys_step s (s\<lparr>syStatuses := ps\<lparr>psSpec := sp\<rparr> # syStatuses s\<rparr>)"
| aggregates: "prop_reads s env \<Longrightarrow> peGet env = Inr base \<Longrightarrow>
     prPatch (prop_reconcile env req g) = Some new \<Longrightarrow> pePatch env new = None \<Longrightarrow>
     cur \<in> set (syStatuses s) \<Longrightarrow> same_object base cur \<Longrightarrow>
     merged_status (psStatus base) (psStatus new) (psStatus cur) st \<Longrightarrow>
     sys_step s (s\<lparr>syStatuses := cur\<lparr>psStatus := st\<rparr> # syStatuses s\<rparr>)"
| evaluates: "window_reads s env \<Longrightarrow>
     sys_step s (s\<lparr>syRun := advance env (syRun s), syLog := log_evaluation env (syRun s) (syLog s)\<rparr>)"

inductive_cases sys_stepE: "sys_step s t"

definition sys_start :: "sys_state \<Rightarrow> bool" where
  "sys_start s \<longleftrightarrow> syReports s = [] \<and> syStatuses s = [] \<and> window_start (syRun s) \<and> syLog s = []"

section \<open>Where rows come from\<close>

text \<open>A spec that a reconcile of a spoke computed from the descriptor it acted on.\<close>

definition from_spoke :: "ClusterAppReportSpec \<Rightarrow> bool" where
  "from_spoke spec \<longleftrightarrow> (\<exists>lenv cm. acts_on lenv = Some cm \<and> spec = report_spec lenv cm)"

lemma written_from_spoke:
  assumes "loWrite (local_reconcile lenv req) = Some w"
  shows "from_spoke (written_spec w)"
proof -
  obtain cm where cm: "leGet lenv = Inr cm" "\<not> local_deleting cm" "adAppName (parseDescriptor cm) \<noteq> []"
    using assms by (auto simp: local_reconcile_def split: sum.splits if_splits)
  then have "acts_on lenv = Some cm" by (simp add: acts_on_def)
  moreover have "written_spec w = report_spec lenv cm"
    using assms cm
    by (auto simp: local_reconcile_def upsertReport_def Let_def split: sum.splits if_splits)
  ultimately show ?thesis unfolding from_spoke_def by blast
qed

text \<open>A row in sync shows a report of its cluster for the application \<open>app\<close>.\<close>

definition sound_row :: "ClusterAppReportSpec set \<Rightarrow> string \<Rightarrow> ClusterRevisionState \<Rightarrow> bool" where
  "sound_row specs app cs \<longleftrightarrow>
     (csState cs = StateInSync \<longrightarrow>
        (\<exists>spec\<in>specs. rsAppName spec = app \<and> rsClusterName spec = csClusterName cs
           \<and> rsSyncStatus spec \<noteq> ''OutOfSync''
           \<and> cs = reported_state (csClusterName cs) spec StateInSync))"

lemma sound_row_mono: "sound_row A app cs \<Longrightarrow> A \<subseteq> B \<Longrightarrow> sound_row B app cs"
  unfolding sound_row_def by blast

definition sound_rows ::
  "ClusterAppReportSpec set \<Rightarrow> PropagationStatus list \<Rightarrow> PropagationStatus \<Rightarrow> ClusterRevisionState list \<Rightarrow> bool" where
  "sound_rows specs pss ps rows \<longleftrightarrow>
     (\<forall>cs\<in>set rows. sound_row specs (psAppName (psSpec ps)) cs
        \<and> (csState cs = StateInSync \<longrightarrow>
             (\<exists>v\<in>set pss. same_object v ps \<and> csObservedRevision cs = psExpectedRevision (psSpec v))))"

definition sound_status ::
  "ClusterAppReportSpec set \<Rightarrow> PropagationStatus list \<Rightarrow> PropagationStatus \<Rightarrow> bool" where
  "sound_status specs pss ps \<longleftrightarrow> sound_rows specs pss ps (pssClusterStates (psStatus ps))"

lemma sound_status_mono:
  "sound_status A pss ps \<Longrightarrow> A \<subseteq> B \<Longrightarrow> set pss \<subseteq> set qss \<Longrightarrow> sound_status B qss ps"
  unfolding sound_status_def sound_rows_def using sound_row_mono by blast

text \<open>One application per object.\<close>

definition apps_fixed :: "PropagationStatus list \<Rightarrow> bool" where
  "apps_fixed pss \<longleftrightarrow> (\<forall>ps\<in>set pss. \<forall>ps'\<in>set pss. same_object ps ps' \<longrightarrow>
     psAppName (psSpec ps) = psAppName (psSpec ps'))"

text \<open>The aggregation yields sound rows.\<close>

lemma row_sound:
  assumes "\<forall>r\<in>set rs. carSpec r \<in> specs \<and> rsAppName (carSpec r) = app"
  shows "sound_row specs app (row ps (byCluster rs) now c)
    \<and> (csState (row ps (byCluster rs) now c) = StateInSync \<longrightarrow>
         csObservedRevision (row ps (byCluster rs) now c) = psExpectedRevision (psSpec ps))"
proof (cases "gm_get (byCluster rs) c")
  case None
  then show ?thesis
    by (simp add: row_def missing_state_def sound_row_def)
next
  case (Some r)
  have r: "carSpec r \<in> specs" "rsAppName (carSpec r) = app" "rsClusterName (carSpec r) = c"
    using byCluster_Some [OF Some] assms by auto
  show ?thesis
  proof (cases "verdict ps (byCluster rs) now c = StateInSync")
    case True
    then have "row ps (byCluster rs) now c = reported_state c (carSpec r) StateInSync"
      by (simp add: row_def Some)
    then show ?thesis
      using r verdict_InSync [OF Some True] by (auto simp: sound_row_def reported_state_def)
  next
    case False
    then show ?thesis by (simp add: sound_row_def row_state)
  qed
qed

lemma reconcile_sound:
  assumes reads: "prop_reads s env" and get: "peGet env = Inr ps"
    and patch: "prPatch (prop_reconcile env req g) = Some new"
  shows "sound_rows (set (syReports s)) (syStatuses s) ps (pssClusterStates (psStatus new))"
proof -
  obtain rs where agg: "aggregates env ps rs"
    using get patch
    by (auto simp: aggregates_def deleting_def prop_reconcile_def prop_return_def Let_def reset_lag_clock_def
        split: sum.splits if_splits option.splits)
  let ?ps0 = "reset_lag_clock (peMetaNow env) ps"
  have new: "new = ?ps0\<lparr>psStatus := computed_status env ps rs g\<rparr>"
    using patch by (simp add: reconcile_aggregates [OF agg] Let_def split: if_splits)
  have "\<forall>r\<in>set rs. carSpec r \<in> set (syReports s) \<and> rsAppName (carSpec r) = psAppName (psSpec ps)"
    using reads agg unfolding prop_reads_def aggregates_def by blast
  note sound = row_sound [OF this, of ?ps0 "peNow env"]
  have "ps \<in> set (syStatuses s)" using reads get by (simp add: prop_reads_def)
  moreover have "same_object ps ps" by (simp add: same_object_def)
  moreover have "psSpec ?ps0 = psSpec ps" by (simp add: reset_lag_clock_def)
  ultimately show ?thesis
    unfolding sound_rows_def new using sound by (auto simp: computed_status_fields)
qed

text \<open>So does a merge patch of what it computed, whichever version of the object it meets.\<close>

lemma merge_sound:
  assumes reads: "prop_reads s env" and get: "peGet env = Inr base"
    and patch: "prPatch (prop_reconcile env req g) = Some new"
    and cur: "cur \<in> set (syStatuses s)" "same_object base cur" "sound_status (set (syReports s)) (syStatuses s) cur"
    and st: "merged_status (psStatus base) (psStatus new) (psStatus cur) st"
    and fixed: "apps_fixed (syStatuses s)"
  shows "sound_status (set (syReports s)) (syStatuses s) (cur\<lparr>psStatus := st\<rparr>)"
proof -
  have "base \<in> set (syStatuses s)" using reads get by (simp add: prop_reads_def)
  then have app: "psAppName (psSpec base) = psAppName (psSpec cur)"
    using fixed cur(1,2) by (simp add: apps_fixed_def)
  have "same_object v (cur\<lparr>psStatus := st\<rparr>) = same_object v base" "same_object v cur = same_object v base" for v
    using cur(2) by (auto simp: same_object_def)
  then have "sound_rows (set (syReports s)) (syStatuses s) (cur\<lparr>psStatus := st\<rparr>) rows =
      sound_rows (set (syReports s)) (syStatuses s) base rows"
    "sound_rows (set (syReports s)) (syStatuses s) cur rows =
      sound_rows (set (syReports s)) (syStatuses s) base rows" for rows
    using app by (simp_all add: sound_rows_def)
  moreover have "pssClusterStates st = pssClusterStates (psStatus new)
      \<or> pssClusterStates st = pssClusterStates (psStatus cur)"
    using st by (auto simp: merged_status_def merged_def)
  ultimately show ?thesis
    using reconcile_sound [OF reads get patch] cur(3) by (auto simp: sound_status_def)
qed

section \<open>What a window sees\<close>

text \<open>An entry of the window's map: sound rows of the application itself, or of a status that is
  named after it.\<close>

definition sound_entry ::
  "ClusterAppReportSpec set \<Rightarrow> PropagationStatus list \<Rightarrow> string \<Rightarrow> AppClusterStateMap \<Rightarrow> bool" where
  "sound_entry specs pss a m \<longleftrightarrow>
     (\<exists>ps\<in>set pss. (psName ps = a \<or> psAppName (psSpec ps) = a) \<and> sound_status specs pss ps
        \<and> m = \<lparr>acPhase = pssPhase (psStatus ps), acClusterStates = pssClusterStates (psStatus ps)\<rparr>)"

definition sound_window :: "ClusterAppReportSpec set \<Rightarrow> PropagationStatus list \<Rightarrow> ChangeWindow \<Rightarrow> bool" where
  "sound_window specs pss c \<longleftrightarrow>
     (\<forall>a m. gm_get (app_states c) a = Some m \<longrightarrow> sound_entry specs pss a m)"

lemma sound_window_mono:
  "sound_window A pss c \<Longrightarrow> A \<subseteq> B \<Longrightarrow> set pss \<subseteq> set qss \<Longrightarrow> sound_window B qss c"
  unfolding sound_window_def sound_entry_def using sound_status_mono by blast

lemma sound_window_cong: "app_states c = app_states d \<Longrightarrow> sound_window A pss c = sound_window A pss d"
  by (simp add: sound_window_def)

text \<open>Fetching keeps the namespace and stores answers of the server only.\<close>

lemma fetch_app_sound:
  assumes reads: "window_reads s env" and sound: "\<forall>ps\<in>set (syStatuses s). sound_status specs (syStatuses s) ps"
    and c: "sound_window specs (syStatuses s) c" and f: "fetch_app env a c = Inr c'"
  shows "sound_window specs (syStatuses s) c'"
proof (cases "c' = c")
  case False
  obtain ps where ps: "status_answer env (chgNamespace c) a ps" "c' = store_app a ps c"
  proof (cases "weList env (chgNamespace c) a 100")
    case (Inr pss)
    then show ?thesis
      using f False that
      by (cases pss) (fastforce simp: fetch_app_def status_answer_def split: sum.splits if_splits)+
  next
    case (Inl e)
    then show ?thesis
      using f False that by (auto simp: fetch_app_def status_answer_def split: sum.splits if_splits)
  qed
  then have "sound_entry specs (syStatuses s) a
      \<lparr>acPhase = pssPhase (psStatus ps), acClusterStates = pssClusterStates (psStatus ps)\<rparr>"
    using reads sound unfolding window_reads_def sound_entry_def by blast
  then show ?thesis
    using c ps(2) by (auto simp: sound_window_def store_app_def app_states_def gm.get_put)
qed (use c in simp)

lemma fetch_apps_sound:
  assumes "window_reads s env" "\<forall>ps\<in>set (syStatuses s). sound_status specs (syStatuses s) ps"
    and "sound_window specs (syStatuses s) c" "fetch_apps env as c = Inr c'"
  shows "sound_window specs (syStatuses s) c'"
  using assms(3,4)
proof (induction as arbitrary: c)
  case (Cons a as)
  then obtain d where "fetch_app env a c = Inr d" "fetch_apps env as d = Inr c'"
    by (auto split: sum.splits)
  then show ?case using Cons fetch_app_sound [OF assms(1,2)] by blast
qed simp

text \<open>The pipeline up to the validation: its application states are the fetched ones, and its
  silent clusters are classified on them.\<close>

lemma validate_silent:
  "stSilentClusters (chgStatus (validate_step env c)) = stSilentClusters (chgStatus c)"
  by (simp add: validate_step_def)

lemma pipeline_fetched:
  assumes "chg_pipeline env original = Inr c"
  obtains f where "fetch_apps env (cwImpactedApps (chgSpec original)) (init_maps original) = Inr f"
    "app_states c = app_states f" "chgSpec f = chgSpec original"
    "stSilentClusters (chgStatus c) = stSilentClusters (chgStatus (silence_step env
       (seconds32 (orDefault (cwStaleReportThresholdSeconds (chgSpec original)) 300)) (capture_step env f)))"
proof -
  obtain f where f: "fetch_apps env (cwImpactedApps (chgSpec original)) (init_maps original) = Inr f"
    and c: "c = validate_step env (action_step env (silence_step env
      (seconds32 (orDefault (cwStaleReportThresholdSeconds (chgSpec original)) 300)) (capture_step env f)))"
    using assms by (auto simp: chg_pipeline_def split: sum.splits)
  have "chgSpec f = chgSpec original"
    using fetch_apps_keeps [of untouched, OF untouched_frame(2) f] untouchedD(1) by (metis untouched_frame(1))
  then show ?thesis
    by (intro that [OF f]) (simp_all only: c frame validate_silent)
qed

definition silence_seconds :: "ChangeWindow \<Rightarrow> int" where
  "silence_seconds w = sint (orDefault (cwStaleReportThresholdSeconds (chgSpec w)) 300)"

definition window_row :: "ChangeWindow \<Rightarrow> string \<Rightarrow> ClusterRevisionState \<Rightarrow> bool" where
  "window_row c a cs \<longleftrightarrow> (\<exists>m. gm_get (app_states c) a = Some m \<and> cs \<in> set (acClusterStates m))"

lemma window_clusters_row:
  assumes "iter_ok it"
  shows "cs \<in> set (window_clusters it c) \<longleftrightarrow> (\<exists>a. window_row c a cs)"
  using assms by (auto simp: window_clusters_def set_range_map window_row_def)

lemma silent_Nil:
  assumes c: "chg_pipeline env original = Inr c" and it: "iter_ok (weSilenceOrder env)"
    and none: "stSilentClusters (chgStatus c) = []" and row: "window_row c a cs"
  shows "weNow env - csObservedAt cs \<le> silence_seconds c * Second"
proof -
  let ?n = "orDefault (cwStaleReportThresholdSeconds (chgSpec original)) 300"
  obtain f where f: "app_states c = app_states f"
    "stSilentClusters (chgStatus c) =
       stSilentClusters (chgStatus (silence_step env (seconds32 ?n) (capture_step env f)))"
    using pipeline_fetched [OF c] by metis
  obtain m where m: "gm_get (app_states c) a = Some m" "cs \<in> set (acClusterStates m)"
    using row by (auto simp: window_row_def)
  have "(a, m) \<in> set (range_map (weSilenceOrder env) (app_states f))"
    using m(1) by (simp add: set_range_map [OF it] f(1))
  then have "scState (classifySilence a cs (capture_step env f) (weNow env) (seconds32 ?n)) = ''Reporting''"
    using none m(2) by (fastforce simp: f(2) silence_step_def frame filter_empty_conv)
  then have "time_sub (weNow env) (csObservedAt cs) \<le> seconds32 ?n"
    by (auto simp: classifySilence_def Let_def split: if_splits)
  moreover have "chgSpec c = chgSpec original"
    using pipeline_frame(1) [OF c] by (rule untouchedD(1))
  ultimately show ?thesis
    by (simp add: time_sub_seconds32_le silence_seconds_def)
qed

text \<open>What a passing evaluation has seen.\<close>

definition converged :: "gtime \<Rightarrow> ChangeWindow \<Rightarrow> bool" where
  "converged now c \<longleftrightarrow> (\<exists>a cs. window_row c a cs)
     \<and> (\<forall>a cs. window_row c a cs \<longrightarrow>
          cluster_ok (cwStartTime (chgSpec c)) cs \<and> now - csObservedAt cs \<le> silence_seconds c * Second)"

lemma passing_converged:
  assumes c: "chg_pipeline env original = Inr c" and reads: "window_reads s env"
    and passed: "vrPassed (stValidation (chgStatus c))"
  shows "converged (weNow env) c"
proof -
  have it: "iter_ok (weSilenceOrder env)" "iter_ok (weGateOrder env)"
    using reads by (auto simp: window_reads_def)
  obtain d where d: "stValidation (chgStatus c) =
      fst (evaluateGates (isHubCluster env) (weGateOrder env) d (weNow env))"
    "chgSpec d = chgSpec c" "app_states d = app_states c"
    "stSilentClusters (chgStatus d) = stSilentClusters (chgStatus c)"
    using pipeline_validation [OF c] by metis
  have rows: "window_row d = window_row c" by (intro ext) (simp add: window_row_def d(3))
  have p: "stSilentClusters (chgStatus c) = []"
    "list_all (cluster_ok (cwStartTime (chgSpec c))) (window_clusters (weGateOrder env) d)"
    "telemetry_seen (window_clusters (weGateOrder env) d)"
    using passed unfolding d(1) passed_iff by (simp_all add: d(2,4))
  have "\<exists>cs. cs \<in> set (window_clusters (weGateOrder env) d)"
    using p(3) by (auto simp: telemetry_seen_def list_ex_iff)
  then have "\<exists>a cs. window_row c a cs"
    by (auto simp: window_clusters_row [OF it(2)] rows)
  moreover have "cluster_ok (cwStartTime (chgSpec c)) cs" if "window_row c a cs" for a cs
    using p(2) that by (auto simp: list_all_iff window_clusters_row [OF it(2)] rows)
  ultimately show ?thesis
    using silent_Nil [OF c it(1) p(1)] unfolding converged_def by blast
qed

section \<open>The invariant of the system\<close>

definition evaluation_ok :: "sys_state \<Rightarrow> gtime \<times> ChangeWindow \<Rightarrow> bool" where
  "evaluation_ok s e \<longleftrightarrow>
     chgSpec (snd e) = chgSpec (wsWindow (syRun s))
     \<and> sound_window (set (syReports s)) (syStatuses s) (snd e)
     \<and> (vrPassed (stValidation (chgStatus (snd e))) \<longrightarrow> converged (fst e) (snd e))"

definition verdicts :: "(gtime \<times> ChangeWindow) list \<Rightarrow> (gtime \<times> bool) list" where
  "verdicts = map (\<lambda>e. (fst e, vrPassed (stValidation (chgStatus (snd e)))))"

definition sys_inv :: "sys_state \<Rightarrow> bool" where
  "sys_inv s \<longleftrightarrow>
     (\<forall>spec\<in>set (syReports s). from_spoke spec)
     \<and> (\<forall>ps\<in>set (syStatuses s). sound_status (set (syReports s)) (syStatuses s) ps)
     \<and> apps_fixed (syStatuses s)
     \<and> sound_window (set (syReports s)) (syStatuses s) (wsWindow (syRun s))
     \<and> window_inv (syRun s)
     \<and> wsHist (syRun s) = verdicts (syLog s)
     \<and> (\<forall>e\<in>set (syLog s). evaluation_ok s e)"

text \<open>More reports and more versions of statuses do not hurt.\<close>

lemma sys_inv_grow:
  assumes inv: "sys_inv s" and run: "syRun t = syRun s" "syLog t = syLog s"
    and sub: "set (syReports s) \<subseteq> set (syReports t)" "set (syStatuses s) \<subseteq> set (syStatuses t)"
    and specs: "\<forall>spec\<in>set (syReports t) - set (syReports s). from_spoke spec"
    and stats: "\<forall>ps\<in>set (syStatuses t) - set (syStatuses s). sound_status (set (syReports t)) (syStatuses t) ps"
    and fixed: "apps_fixed (syStatuses t)"
  shows "sys_inv t"
proof -
  have "sound_status (set (syReports t)) (syStatuses t) ps" if "ps \<in> set (syStatuses t)" for ps
    using inv stats that sound_status_mono [OF _ sub] unfolding sys_inv_def by (cases "ps \<in> set (syStatuses s)") blast+
  moreover have "from_spoke spec" if "spec \<in> set (syReports t)" for spec
    using inv specs that unfolding sys_inv_def by blast
  moreover have "evaluation_ok t e" if "evaluation_ok s e" for e
    using that sound_window_mono [OF _ sub] by (auto simp: evaluation_ok_def run)
  moreover have "sound_window (set (syReports t)) (syStatuses t) (wsWindow (syRun t))"
    using inv sound_window_mono [OF _ sub] by (simp add: sys_inv_def run)
  ultimately show ?thesis
    using inv fixed by (simp add: sys_inv_def run)
qed

lemma sys_inv_status:
  assumes inv: "sys_inv s" and new: "sound_status (set (syReports s)) (syStatuses s) ps"
    and app: "\<forall>ps'\<in>set (syStatuses s). same_object ps ps' \<longrightarrow> psAppName (psSpec ps) = psAppName (psSpec ps')"
  shows "sys_inv (s\<lparr>syStatuses := ps # syStatuses s\<rparr>)" (is "sys_inv ?t")
proof (rule sys_inv_grow [OF inv])
  show "\<forall>p\<in>set (syStatuses ?t) - set (syStatuses s). sound_status (set (syReports ?t)) (syStatuses ?t) p"
    using sound_status_mono [OF new subset_refl, of "syStatuses ?t"] by auto
  have old: "apps_fixed (syStatuses s)" using inv by (simp add: sys_inv_def)
  show "apps_fixed (syStatuses ?t)"
    unfolding apps_fixed_def
  proof (intro ballI impI)
    fix p q
    assume mem: "p \<in> set (syStatuses ?t)" "q \<in> set (syStatuses ?t)" and same: "same_object p q"
    then have "same_object q p" by (simp add: same_object_def)
    with mem same consider "p = ps" "q = ps" | "p = ps" "q \<in> set (syStatuses s)" "same_object ps q"
      | "q = ps" "p \<in> set (syStatuses s)" "same_object ps p"
      | "p \<in> set (syStatuses s)" "q \<in> set (syStatuses s)" by auto
    then show "psAppName (psSpec p) = psAppName (psSpec q)"
    proof cases
      case 2 then show ?thesis using app by blast
    next
      case 3 then show ?thesis using app [rule_format, of p] by simp
    next
      case 4 then show ?thesis using old same unfolding apps_fixed_def by blast
    qed simp
  qed
qed auto

text \<open>An evaluation: what the pipeline yields is sound, and it is what the server then holds, if
  the patch was accepted.\<close>

lemma evaluation_sound:
  assumes inv: "sys_inv s" and reads: "window_reads s env"
    and ev: "evaluated_window env (wsWindow (syRun s)) = Some c"
  shows "chg_pipeline env (wsWindow (syRun s)) = Inr c" "evaluation_ok s (weNow env, c)"
proof -
  let ?w = "wsWindow (syRun s)"
  show c: "chg_pipeline env ?w = Inr c"
    using ev by (auto simp: evaluated_window_def split: if_splits sum.splits)
  obtain f where f: "fetch_apps env (cwImpactedApps (chgSpec ?w)) (init_maps ?w) = Inr f"
    "app_states c = app_states f"
    using pipeline_fetched [OF c] by metis
  have "sound_window (set (syReports s)) (syStatuses s) ?w"
    "\<forall>ps\<in>set (syStatuses s). sound_status (set (syReports s)) (syStatuses s) ps"
    using inv unfolding sys_inv_def by blast+
  then have "sound_window (set (syReports s)) (syStatuses s) f"
    using fetch_apps_sound [OF reads _ _ f(1)] sound_window_cong [OF actions_frame(6)] by blast
  then have "sound_window (set (syReports s)) (syStatuses s) c"
    by (simp only: sound_window_cong [OF f(2)])
  moreover have "chgSpec c = chgSpec ?w"
    using pipeline_frame(1) [OF c] by (rule untouchedD(1))
  ultimately show "evaluation_ok s (weNow env, c)"
    using passing_converged [OF c reads] by (simp add: evaluation_ok_def)
qed

lemma advance_app_states:
  "app_states (wsWindow (advance env r)) = app_states (wsWindow r)
   \<or> (\<exists>c. evaluated_window env (wsWindow r) = Some c
        \<and> app_states (wsWindow (advance env r)) = app_states c)"
  "chgSpec (wsWindow (advance env r)) = chgSpec (wsWindow r)"
proof -
  have same: "app_states v = app_states w" if "chgStatus v = chgStatus w" for v w
    using that by (simp add: app_states_def)
  have both: "(app_states (wsWindow (advance env r)) = app_states (wsWindow r)
      \<or> (\<exists>c. evaluated_window env (wsWindow r) = Some c
           \<and> app_states (wsWindow (advance env r)) = app_states c))
      \<and> chgSpec (wsWindow (advance env r)) = chgSpec (wsWindow r)"
  proof (cases "evaluated_window env (wsWindow r)")
    case None
    then show ?thesis using advance_not_evaluated(2) [OF None] by (auto simp: app_states_def)
  next
    case (Some c)
    from advance_evaluated [OF Some] show ?thesis
    proof (elim disjE conjE)
      assume "chgStatus (wsWindow (advance env r)) =
          chgStatus (fst (late_window (env\<lparr>weGet := Inr (wsWindow r)\<rparr>) (wsWindow r) c))"
        "chgSpec (wsWindow (advance env r)) = chgSpec (wsWindow r)"
      from same [OF this(1)] this(2) Some show ?thesis by (simp add: late_window_fields)
    qed simp
  qed
  then show "app_states (wsWindow (advance env r)) = app_states (wsWindow r)
   \<or> (\<exists>c. evaluated_window env (wsWindow r) = Some c
        \<and> app_states (wsWindow (advance env r)) = app_states c)"
    "chgSpec (wsWindow (advance env r)) = chgSpec (wsWindow r)"
    by auto
qed

lemma advance_log:
  assumes "wsHist r = verdicts lg"
  shows "wsHist (advance env r) = verdicts (log_evaluation env r lg)"
  using assms by (simp add: advance_def log_evaluation_def verdicts_def Let_def accepted_def split: option.split)

lemma evaluate_inv:
  assumes inv: "sys_inv s" and reads: "window_reads s env"
  shows "sys_inv (s\<lparr>syRun := advance env (syRun s), syLog := log_evaluation env (syRun s) (syLog s)\<rparr>)"
    (is "sys_inv ?t")
proof -
  have same: "evaluation_ok ?t e = evaluation_ok s e" for e
    by (simp add: evaluation_ok_def advance_app_states(2))
  have "window_step (syRun s) (advance env (syRun s))"
    using reads by (intro window_step.reconcile) (simp add: window_reads_def)
  then have "window_inv (advance env (syRun s))"
    using inv window_inv_step unfolding sys_inv_def by blast
  moreover have "sound_window (set (syReports s)) (syStatuses s) (wsWindow (advance env (syRun s)))"
    using advance_app_states(1) [of env "syRun s"]
  proof (elim disjE exE conjE)
    assume "app_states (wsWindow (advance env (syRun s))) = app_states (wsWindow (syRun s))"
    from sound_window_cong [OF this] show ?thesis using inv by (simp add: sys_inv_def)
  next
    fix c assume c: "evaluated_window env (wsWindow (syRun s)) = Some c"
      "app_states (wsWindow (advance env (syRun s))) = app_states c"
    from evaluation_sound(2) [OF inv reads c(1)] sound_window_cong [OF c(2)] show ?thesis
      by (simp add: evaluation_ok_def)
  qed
  moreover have "evaluation_ok s e" if "e \<in> set (log_evaluation env (syRun s) (syLog s))" for e
    using that inv evaluation_sound(2) [OF inv reads]
    by (auto simp: log_evaluation_def sys_inv_def split: option.splits if_splits)
  ultimately show ?thesis
    using inv advance_log [of "syRun s" "syLog s" env] by (simp add: sys_inv_def same)
qed

lemma sys_inv_step: "sys_inv s \<Longrightarrow> sys_step s t \<Longrightarrow> sys_inv t"
proof (erule sys_stepE)
  fix lenv req w
  assume "sys_inv s" "t = s\<lparr>syReports := written_spec w # syReports s\<rparr>"
    "loWrite (local_reconcile lenv req) = Some w"
  then show "sys_inv t"
    using written_from_spoke by (intro sys_inv_grow [of s t]) (auto simp: sys_inv_def)
next
  fix ps
  assume "sys_inv s" "t = s\<lparr>syStatuses := ps # syStatuses s\<rparr>" "pssClusterStates (psStatus ps) = []"
    "\<forall>ps'\<in>set (syStatuses s). same_object ps ps' \<longrightarrow> psAppName (psSpec ps) = psAppName (psSpec ps')"
  then show "sys_inv t" using sys_inv_status by (simp add: sound_status_def sound_rows_def)
next
  fix ps sp
  assume inv: "sys_inv s" and t: "t = s\<lparr>syStatuses := ps\<lparr>psSpec := sp\<rparr> # syStatuses s\<rparr>"
    and ps: "ps \<in> set (syStatuses s)" "psAppName sp = psAppName (psSpec ps)"
  have "same_object v (ps\<lparr>psSpec := sp\<rparr>) = same_object v ps"
    "same_object (ps\<lparr>psSpec := sp\<rparr>) v = same_object ps v" for v
    by (simp_all add: same_object_def)
  moreover have "sound_status (set (syReports s)) (syStatuses s) ps" "apps_fixed (syStatuses s)"
    using inv ps(1) by (simp_all add: sys_inv_def)
  ultimately show "sys_inv t"
    unfolding t using ps by (intro sys_inv_status [OF inv]) (simp_all add: sound_status_def sound_rows_def apps_fixed_def)
next
  fix env base req g new cur st
  assume inv: "sys_inv s" and t: "t = s\<lparr>syStatuses := cur\<lparr>psStatus := st\<rparr> # syStatuses s\<rparr>"
    and r: "prop_reads s env" "peGet env = Inr base" "prPatch (prop_reconcile env req g) = Some new"
    and cur: "cur \<in> set (syStatuses s)" "same_object base cur"
    and st: "merged_status (psStatus base) (psStatus new) (psStatus cur) st"
  have "same_object (cur\<lparr>psStatus := st\<rparr>) v = same_object cur v" for v
    by (simp add: same_object_def)
  moreover have known: "sound_status (set (syReports s)) (syStatuses s) cur" "apps_fixed (syStatuses s)"
    using inv cur(1) by (simp_all add: sys_inv_def)
  ultimately show "sys_inv t"
    unfolding t using cur(1) merge_sound [OF r cur known(1) st known(2)]
    by (intro sys_inv_status [OF inv]) (simp_all add: apps_fixed_def)
next
  fix env
  assume "sys_inv s" "window_reads s env"
    "t = s\<lparr>syRun := advance env (syRun s), syLog := log_evaluation env (syRun s) (syLog s)\<rparr>"
  then show "sys_inv t" using evaluate_inv by simp
qed

interpretation sys: invariant_system sys_start sys_step sys_inv
proof
  fix s assume s: "sys_start s"
  then have "app_states (wsWindow (syRun s)) = []"
    by (simp add: sys_start_def window_start_def app_states_def zero_ChangeWindowStatus_def)
  then show "sys_inv s"
    using s window_run.start_inv by (simp add: sys_start_def sys_inv_def apps_fixed_def sound_window_def gm_get_def
        window_start_def verdicts_def)
qed (rule sys_inv_step)

end
