(* ===== verification/WindowThms.thy ===== *)
theory WindowThms
  imports WindowRun GateStability
begin

text \<open>
  The properties of a window reconcile and of the life of a window, with a concrete run (a
  window over two applications whose cluster is healthy) on which they are witnessed.
\<close>

section \<open>A concrete run\<close>

definition demo_cluster :: "gtime \<Rightarrow> ClusterRevisionState" where
  "demo_cluster t = good_cluster\<lparr>csObservedAt := t\<rparr>"

definition demo_ps :: "gtime \<Rightarrow> PropagationStatus" where
  "demo_ps t =
     \<lparr>psName = ''p'', psNamespace = ''ns'', psGeneration = 1, psDeletionTimestamp = None,
      psSpec = \<lparr>psAppName = ''a'', psAppNamespace = '''', psExpectedRevision = ''r1'',
        psTargetClusters = [''c1''], psLagThresholdSeconds = 0, psStaleReportThresholdSeconds = 0,
        psParentApp = '''', psRootApp = ''''\<rparr>,
      psStatus = \<lparr>pssPhase = ''Synced'', pssClusterStates = [demo_cluster t],
        pssExpectedRevisionSince = zero_time, pssLastExpectedRevision = ''r1'',
        pssDivergedClusters = [], pssLaggingClusters = [], pssStaleClusters = [],
        pssMissingClusters = [], pssObservedGeneration = 0, pssConditions = []\<rparr>\<rparr>"

text \<open>The server knows the propagation status of application \<open>a\<close>, as of time \<open>u\<close>, and that of
  \<open>b\<close> too where \<open>both\<close> says so; Kafka is down.\<close>

definition demo_env :: "bool \<Rightarrow> gtime \<Rightarrow> gtime \<Rightarrow> chg_env" where
  "demo_env both u t =
     \<lparr>weGet = Inl NotFound, weNow = t,
      weList = (\<lambda>ns a n. if a = ''a'' \<or> both then Inr [demo_ps u] else Inr []),
      weGetPS = (\<lambda>ns a. Inl NotFound), weEnviron = (\<lambda>v. if v = ''OPERATOR_ROLE'' then ''spoke'' else ''''), weRoleAPI = None,
      weBaselineOrder = (\<lambda>ks. ks), weSilenceOrder = (\<lambda>ks. ks), weActionOrder = (\<lambda>ks. ks),
      weGateOrder = (\<lambda>ks. ks), weSignNow = t,
      weTimeFmt = \<lparr>tfMeta = JInt, tfRFC3339 = itoa\<rparr>, weKafka = Some (Some (\<lambda>k v. Some (OtherErr ''down''))), wePatch = (\<lambda>w. None)\<rparr>"

definition demo_window :: ChangeWindow where
  "demo_window =
     \<lparr>chgName = ''w'', chgNamespace = ''ns'', chgDeletionTimestamp = None, chgSpec = sample_spec,
      chgStatus = zero_ChangeWindowStatus\<rparr>"

definition demo_app :: "gtime \<Rightarrow> AppClusterStateMap" where
  "demo_app t = \<lparr>acPhase = ''Synced'', acClusterStates = [demo_cluster t]\<rparr>"

lemma demo_fields [simp]:
  "weNow (demo_env both u t) = t" "weGateOrder (demo_env both u t) = (\<lambda>ks. ks)"
  "weSilenceOrder (demo_env both u t) = (\<lambda>ks. ks)" "wePatch (demo_env both u t) w = None"
  by (simp_all add: demo_env_def)

lemma demo_gates:
  "cluster_ok 0 (demo_cluster t) \<and> cv_verdict (demo_cluster t) = Some GateStatusTrue
   \<and> platform_verdict (demo_cluster t) = Some GateStatusTrue
   \<and> telemetry_seen [demo_cluster t] \<and> csState (demo_cluster t) = ''InSync''"
  unfolding demo_cluster_def by code_simp

lemma demo_app_states [simp]: "acClusterStates (demo_app t) = [demo_cluster t]"
  by (simp add: demo_app_def)

lemma range_map_id:
  assumes "distinct (gm_keys m)"
  shows "range_map (\<lambda>ks. ks) m = m"
proof -
  have "concat (map (\<lambda>k. case map_of m' k of None \<Rightarrow> [] | Some v \<Rightarrow> [(k, v)]) (map fst m)) = m"
    if "distinct (map fst m)" "\<forall>(k, v)\<in>set m. map_of m' k = Some v" for m m' :: "(string \<times> 'a) list"
    using that by (induction m) auto
  then show ?thesis
    using assms by (auto simp: range_map_def gm_keys_def gm_get_def)
qed

text \<open>Fetching the applications of the sample window.\<close>

lemma demo_fetch:
  assumes "app_states w = [] \<or> (\<exists>x y. app_states w = [(''a'', x), (''b'', y)])"
  shows "\<exists>f. fetch_apps (demo_env True u t) [''a'', ''b''] (init_maps w) = Inr f
    \<and> app_states f = map (\<lambda>k. (k, demo_app u)) [''a'', ''b'']"
  using assms
  by (auto simp: fetch_app_def demo_env_def store_app_def init_maps_def app_states_def gm_put_def
      demo_ps_def demo_app_def)

text \<open>An evaluation passes when every application it knows runs on one good cluster.\<close>

lemma one_cluster_pipeline:
  assumes f: "fetch_apps env (cwImpactedApps (chgSpec w)) (init_maps w) = Inr f"
    and it: "weSilenceOrder env = (\<lambda>ks. ks)" "weGateOrder env = (\<lambda>ks. ks)"
    and apps: "app_states f = map (\<lambda>k. (k, m)) ks" "distinct ks" "ks \<noteq> []" "acClusterStates m = [cs]"
    and good: "cluster_ok (cwStartTime (chgSpec w)) cs" "cv_verdict cs = Some GateStatusTrue"
      "platform_verdict cs = Some GateStatusTrue" "telemetry_seen [cs]"
    and age: "weNow env - csObservedAt cs
      \<le> sint (orDefault (cwStaleReportThresholdSeconds (chgSpec w)) 300) * Second"
    and impacted: "cwImpactedApps (chgSpec w) \<noteq> []"
  shows "\<exists>c. chg_pipeline env w = Inr c \<and> vrPassed (stValidation (chgStatus c))
     \<and> app_states c = map (\<lambda>k. (k, m)) ks \<and> stSilentClusters (chgStatus c) = []"
proof -
  let ?n = "orDefault (cwStaleReportThresholdSeconds (chgSpec w)) 300"
  define c where "c = validate_step env (action_step env
      (silence_step env (seconds32 ?n) (capture_step env f)))"
  have c: "chg_pipeline env w = Inr c"
    by (simp only: chg_pipeline_def f c_def sum.case)
  have appsc: "app_states c = map (\<lambda>k. (k, m)) ks"
    by (simp add: c_def frame apps(1))
  have range: "range_map (\<lambda>ks. ks) (map (\<lambda>k. (k, m)) ks) = map (\<lambda>k. (k, m)) ks"
    by (rule range_map_id) (simp add: gm_keys_def comp_def apps(2))
  have "classifySilence a cs d (weNow env) (seconds32 ?n) = reporting" for a d
    using age by (simp add: classifySilence_def time_sub_seconds32_le)
  then have "stSilentClusters (chgStatus (silence_step env (seconds32 ?n) (capture_step env f))) = []"
    by (simp add: silence_step_def frame apps(1,4) range reporting_def it)
  then have silent: "stSilentClusters (chgStatus c) = []"
    by (simp add: c_def validate_step_def frame)
  obtain d where d: "stValidation (chgStatus c) =
      fst (evaluateGates (isHubCluster env) (\<lambda>ks. ks) d (weNow env))"
    "chgSpec d = chgSpec c" "app_states d = app_states c"
    "stSilentClusters (chgStatus d) = stSilentClusters (chgStatus c)"
    using pipeline_validation [OF c] it(2) by auto
  have spd: "chgSpec d = chgSpec w"
    using untouchedD(1) [OF pipeline_frame(1) [OF c]] d(2) by simp
  have css: "window_clusters (\<lambda>ks. ks) d = map (\<lambda>k. cs) ks"
    by (simp add: window_clusters_def d(3) appsc range comp_def apps(4))
  have last: "last_says_true g (map (\<lambda>k. cs) ks)" if "g cs = Some GateStatusTrue" for g
  proof -
    have "List.map_filter g (map (\<lambda>k. cs) ks) = map (\<lambda>k. GateStatusTrue) ks"
      using that by (induction ks) simp_all
    then show ?thesis
      using apps(3) by (cases ks rule: rev_cases) (simp_all add: last_says_true_def)
  qed
  have "telemetry_seen (map (\<lambda>k. cs) ks)"
    using good(4) apps(3) by (cases ks) (auto simp: telemetry_seen_def)
  moreover have "no_missing_app h d (\<lambda>ks. ks)" for h
    by (simp add: no_missing_app_def d(3) appsc range list_all_iff apps(4))
  moreover have "list_all (cluster_ok (cwStartTime (chgSpec w))) (map (\<lambda>k. cs) ks)"
    using good(1) by (simp add: list_all_iff)
  ultimately have "vrPassed (stValidation (chgStatus c))"
    unfolding d(1) passed_iff css spd using good(2,3) impacted silent d(4) last by simp
  with c appsc silent show ?thesis by blast
qed

text \<open>The stored window after an evaluation whose patch is accepted.\<close>

lemma accepted_advance:
  assumes c: "chg_pipeline env (wsWindow s) = Inr c" and live: "\<not> chg_deleting (wsWindow s)"
    and started: "cwStartTime (chgSpec (wsWindow s)) \<le> weNow env" and acc: "\<And>w. wePatch env w = None"
  shows "evaluated_window env (wsWindow s) = Some c"
    "stPhase (chgStatus (wsWindow (advance env s))) = next_phase (weNow env) c"
    "stStabilizationStartedAt (chgStatus (wsWindow (advance env s))) = next_stab (weNow env) c"
    "app_states (wsWindow (advance env s)) = app_states c"
    "chgSpec (wsWindow (advance env s)) = chgSpec (wsWindow s)"
    "chgDeletionTimestamp (wsWindow (advance env s)) = chgDeletionTimestamp (wsWindow s)"
proof -
  let ?env = "env\<lparr>weGet := Inr (wsWindow s)\<rparr>"
  let ?l = "fst (late_window ?env (wsWindow s) c)"
  show "evaluated_window env (wsWindow s) = Some c"
    using c live started by (simp add: evaluated_window_def)
  have ev: "evaluates ?env (wsWindow s) c"
    using c live started by (simp add: evaluates_def)
  note un = untouchedD [OF pipeline_frame(1) [OF c]]
  have w: "wsWindow (advance env s) =
      (if chgStatus ?l = chgStatus (wsWindow s) then wsWindow s else ?l)"
    by (simp add: advance_def stored_window_def reconcile_evaluates [OF ev] Let_def split_beta acc)
  have "chgStatus (wsWindow (advance env s)) = chgStatus ?l"
    by (simp add: w)
  then show "stPhase (chgStatus (wsWindow (advance env s))) = next_phase (weNow env) c"
    "stStabilizationStartedAt (chgStatus (wsWindow (advance env s))) = next_stab (weNow env) c"
    "app_states (wsWindow (advance env s)) = app_states c"
    by (simp_all add: late_window_fields app_states_def [of "wsWindow (advance env s)"]
        app_states_def [of ?l, symmetric])
  show "chgSpec (wsWindow (advance env s)) = chgSpec (wsWindow s)"
    "chgDeletionTimestamp (wsWindow (advance env s)) = chgDeletionTimestamp (wsWindow s)"
    by (simp_all add: w late_window_fields un)
qed

lemma demo_pipeline:
  assumes f: "fetch_apps (demo_env both u t) [''a'', ''b''] (init_maps w) = Inr f"
    and apps: "app_states f = map (\<lambda>k. (k, demo_app u)) ks" "distinct ks" "ks \<noteq> []"
    and spw: "chgSpec w = sample_spec" and age: "0 \<le> t - u" "t - u \<le> 300 * Second"
  shows "\<exists>c. chg_pipeline (demo_env both u t) w = Inr c \<and> vrPassed (stValidation (chgStatus c))
     \<and> app_states c = map (\<lambda>k. (k, demo_app u)) ks \<and> stSilentClusters (chgStatus c) = []"
proof -
  have sp: "cwImpactedApps (chgSpec w) = [''a'', ''b'']" "cwStartTime (chgSpec w) = 0"
    "orDefault (cwStaleReportThresholdSeconds (chgSpec w)) 300 = 300"
    by (simp_all add: spw sample_spec_def orDefault_def)
  have f': "fetch_apps (demo_env both u t) (cwImpactedApps (chgSpec w)) (init_maps w) = Inr f"
    using f by (simp only: sp)
  have "csObservedAt (demo_cluster u) = u" by (simp add: demo_cluster_def)
  then show ?thesis
    using demo_gates [of u] age
    by (intro one_cluster_pipeline [OF f' _ _ apps demo_app_states]) (simp_all add: sp)
qed

text \<open>A first evaluation after five nanoseconds starts the stabilisation of 60 seconds; a second
  one after 61 seconds ends it.\<close>

definition demo_start :: window_state where
  "demo_start = \<lparr>wsWindow = demo_window, wsHist = []\<rparr>"

definition demo_end :: window_state where
  "demo_end = advance (demo_env True (61 * Second) (61 * Second)) (advance (demo_env True 5 5) demo_start)"

lemma demo_advance:
  assumes "app_states (wsWindow s) = [] \<or> (\<exists>u v. app_states (wsWindow s) = [(''a'', u), (''b'', v)])"
    and "chgSpec (wsWindow s) = sample_spec" "chgDeletionTimestamp (wsWindow s) = None" "0 \<le> t"
  shows "\<exists>c. vrPassed (stValidation (chgStatus c)) \<and> chgSpec c = sample_spec
      \<and> stStabilizationStartedAt (chgStatus c) = stStabilizationStartedAt (chgStatus (wsWindow s))
      \<and> (let w = wsWindow (advance (demo_env True t t) s) in
           stPhase (chgStatus w) = next_phase t c
           \<and> stStabilizationStartedAt (chgStatus w) = next_stab t c
           \<and> app_states w = [(''a'', demo_app t), (''b'', demo_app t)]
           \<and> chgSpec w = sample_spec \<and> chgDeletionTimestamp w = None)"
proof -
  obtain f where f: "fetch_apps (demo_env True t t) [''a'', ''b''] (init_maps (wsWindow s)) = Inr f"
    "app_states f = map (\<lambda>k. (k, demo_app t)) [''a'', ''b'']"
    using demo_fetch [OF assms(1), of t t] by blast
  obtain c where c: "chg_pipeline (demo_env True t t) (wsWindow s) = Inr c"
    "vrPassed (stValidation (chgStatus c))"
    "app_states c = [(''a'', demo_app t), (''b'', demo_app t)]"
    using demo_pipeline [OF f _ _ assms(2)] by (auto simp: Second_def)
  note un = untouchedD [OF pipeline_frame(1) [OF c(1)]]
  have live: "\<not> chg_deleting (wsWindow s)" "cwStartTime (chgSpec (wsWindow s)) \<le> weNow (demo_env True t t)"
    using assms(2-4) by (simp_all add: chg_deleting_def sample_spec_def)
  note adv = accepted_advance [OF c(1) live]
  show ?thesis
    using adv(2-6) c(2,3) un assms(2,3) by (intro exI [of _ c]) (simp add: Let_def)
qed

lemma demo_stab: "stab_seconds c = 60" if "chgSpec c = sample_spec"
  using that by (simp add: stab_seconds_def sample_spec_def orDefault_def)

lemma demo_run:
  "window_start demo_start" "window_step\<^sup>*\<^sup>* demo_start demo_end"
  "stPhase (chgStatus (wsWindow demo_end)) = PhaseSucceeded"
  "stab_seconds (wsWindow demo_end) = 60"
proof -
  show "window_start demo_start"
    by (simp add: window_start_def demo_start_def demo_window_def)
  have "window_step demo_start (advance (demo_env True 5 5) demo_start)"
    "window_step (advance (demo_env True 5 5) demo_start) demo_end"
    unfolding demo_end_def
    by (rule window_step.reconcile; simp add: time_is_zero_def zero_time_def Second_def)+
  then show "window_step\<^sup>*\<^sup>* demo_start demo_end" by simp
  have start: "app_states (wsWindow demo_start) = []" "chgSpec (wsWindow demo_start) = sample_spec"
    "chgDeletionTimestamp (wsWindow demo_start) = None"
    "stStabilizationStartedAt (chgStatus (wsWindow demo_start)) = None"
    by (simp_all add: demo_start_def demo_window_def app_states_def zero_ChangeWindowStatus_def)
  let ?w1 = "wsWindow (advance (demo_env True 5 5) demo_start)"
  obtain c1 where c1: "vrPassed (stValidation (chgStatus c1))" "chgSpec c1 = sample_spec"
    "stStabilizationStartedAt (chgStatus c1) = None"
    "stStabilizationStartedAt (chgStatus ?w1) = next_stab 5 c1"
    "app_states ?w1 = [(''a'', demo_app 5), (''b'', demo_app 5)]"
    "chgSpec ?w1 = sample_spec" "chgDeletionTimestamp ?w1 = None"
    using demo_advance [of demo_start 5] start by (auto simp: Let_def)
  have stab1: "stStabilizationStartedAt (chgStatus ?w1) = Some 5"
    using c1(1-3) by (simp add: c1(4) next_stab_def demo_stab)
  obtain c2 where c2: "vrPassed (stValidation (chgStatus c2))" "chgSpec c2 = sample_spec"
    "stStabilizationStartedAt (chgStatus c2) = Some 5"
    "stPhase (chgStatus (wsWindow demo_end)) = next_phase (61 * Second) c2"
    "chgSpec (wsWindow demo_end) = sample_spec"
    using demo_advance [of "advance (demo_env True 5 5) demo_start" "61 * Second"] c1(5-7) stab1
    unfolding demo_end_def by (auto simp: Let_def Second_def)
  then show "stPhase (chgStatus (wsWindow demo_end)) = PhaseSucceeded"
    "stab_seconds (wsWindow demo_end) = 60"
    by (simp_all add: next_phase_def next_stab_def demo_stab Second_def)
qed

lemma demo_evaluates:
  assumes "0 \<le> t"
  shows "\<exists>c. evaluates ((demo_env True t t)\<lparr>weGet := Inr demo_window\<rparr>) demo_window c
     \<and> vrPassed (stValidation (chgStatus c))"
proof -
  have w: "app_states demo_window = []" "chgSpec demo_window = sample_spec"
    "chgDeletionTimestamp demo_window = None" "cwStartTime sample_spec = 0"
    by (simp_all add: demo_window_def app_states_def zero_ChangeWindowStatus_def sample_spec_def)
  obtain f where "fetch_apps (demo_env True t t) [''a'', ''b''] (init_maps demo_window) = Inr f"
    "app_states f = map (\<lambda>k. (k, demo_app t)) [''a'', ''b'']"
    using demo_fetch [of demo_window t t] w(1) by blast
  from demo_pipeline [OF this _ _ w(2)] assms show ?thesis
    by (auto simp: evaluates_def chg_deleting_def w Second_def)
qed

section \<open>The life of a window\<close>



text \<open>C13: A finished window (\<open>Succeeded\<close> or \<open>TimedOut\<close>) always carries a signed report that
  verifies under its key and states the window's change number, its phase and the gate results
  of its stored validation.\<close>

theorem finished_window_signed:
  assumes "window_start s" "window_step\<^sup>*\<^sup>* s t"
    and "stPhase (chgStatus (wsWindow t)) \<in> {PhaseSucceeded, PhaseTimedOut}"
  shows "\<exists>r. stSignedReport (chgStatus (wsWindow t)) = Some r
     \<and> VerifyReportSignature (Some r) (signing_key (wsWindow t))
     \<and> saWindowID r = cwCHGNumber (chgSpec (wsWindow t))
     \<and> saOverallResult r = stPhase (chgStatus (wsWindow t))
     \<and> saGateResults r = vrGateResults (stValidation (chgStatus (wsWindow t)))"
  using window_run.reachable_inv [OF assms(1,2)] assms(3)
  by (auto simp: window_inv_def signed_ok_def Let_def)

lemma finished_window_signed_witness:
  "\<exists>r. stSignedReport (chgStatus (wsWindow demo_end)) = Some r \<and> saOverallResult r = ''Succeeded''"
  using finished_window_signed [OF demo_run(1,2)] demo_run(3) by auto

text \<open>C12: In every state of its life a window is in one of seven phases (never the declared
  \<open>BaselineCaptured\<close>, \<open>ValidationRunning\<close> or \<open>Failed\<close>), its timeline has at most fifty
  entries, its action records keep the bound and the spacing of attempts, and it has a
  baseline once it left \<open>Scheduled\<close>.\<close>

theorem window_life_bounds:
  assumes "window_start s" "window_step\<^sup>*\<^sup>* s t"
  shows "stPhase (chgStatus (wsWindow t)) \<in>
       {'''', ''Scheduled'', ''WaitingForChange'', ''Executing'', ''PlatformRecovering'',
        ''Succeeded'', ''TimedOut''}
     \<and> length (stTimeline (chgStatus (wsWindow t))) \<le> 50
     \<and> actions_ok (wsWindow t)
     \<and> (stPhase (chgStatus (wsWindow t)) \<notin> {'''', ''Scheduled''} \<longrightarrow>
         stBaseline (chgStatus (wsWindow t)) \<noteq> None)"
  using window_run.reachable_inv [OF assms] by (simp add: window_inv_def run_phases_def Let_def)

lemma window_life_bounds_witness:
  "length (stTimeline (chgStatus (wsWindow demo_end))) \<le> 50
   \<and> stBaseline (chgStatus (wsWindow demo_end)) \<noteq> None"
  using window_life_bounds [OF demo_run(1,2)] demo_run(3) by auto

section \<open>One reconcile\<close>

lemma stored_evaluation:
  assumes "evaluates env original c" "accepted env (chg_reconcile env req)"
  shows "chgStatus (stored_window env original (chg_reconcile env req)) =
      chgStatus (fst (late_window env original c))"
  using assms(2) by (auto simp: reconcile_evaluates [OF assms(1)] Let_def split_beta accepted_def
      stored_window_def split: if_splits option.splits)

text \<open>C7: The phase a reconcile stores is a function of the verdict, the clock and the phase before:
  passed windows recover until the stabilisation period is over and then succeed, failing ones
  time out after the end, else wait once for the change and then execute; finished phases are
  looked at again after 60 seconds, others after 15, and a captured baseline never changes.\<close>

theorem reconcile_phase_correct:
  assumes "evaluates env original c" "accepted env (chg_reconcile env req)"
  shows "let w = stored_window env original (chg_reconcile env req);
             passed = vrPassed (stValidation (chgStatus c)); now = weNow env;
             started = (case stStabilizationStartedAt (chgStatus original) of None \<Rightarrow> now | Some t \<Rightarrow> t)
         in stPhase (chgStatus w) =
              (if passed \<and> stab_seconds original > 0 \<and> now < started + stab_seconds original * Second
               then ''PlatformRecovering''
               else if passed then ''Succeeded''
               else if cwEndTime (chgSpec original) < now then ''TimedOut''
               else if stBaseline (chgStatus original) = None
                 \<or> stPhase (chgStatus original) \<in> {''Scheduled'', ''BaselineCaptured'', ''Pending'', ''''}
               then ''WaitingForChange'' else ''Executing'')
            \<and> woResult (chg_reconcile env req) = Inr (requeue_after
                (if stPhase (chgStatus w) \<in> {''Succeeded'', ''TimedOut''} then 60 * Second
                 else 15 * Second))
            \<and> (\<forall>b. stBaseline (chgStatus original) = Some b \<longrightarrow> stBaseline (chgStatus w) = Some b)"
proof -
  have c: "chg_pipeline env original = Inr c" using assms(1) by (simp add: evaluates_def)
  note un = untouchedD [OF pipeline_frame(1) [OF c]]
  have stab: "stab_seconds c = stab_seconds original" by (simp add: stab_seconds_def un)
  have phase: "next_phase (weNow env) c =
     (let passed = vrPassed (stValidation (chgStatus c)); now = weNow env;
          started = (case stStabilizationStartedAt (chgStatus original) of None \<Rightarrow> now | Some t \<Rightarrow> t)
      in if passed \<and> stab_seconds original > 0 \<and> now < started + stab_seconds original * Second
         then ''PlatformRecovering''
         else if passed then ''Succeeded''
         else if cwEndTime (chgSpec original) < now then ''TimedOut''
         else if stBaseline (chgStatus original) = None
           \<or> stPhase (chgStatus original) \<in> {''Scheduled'', ''BaselineCaptured'', ''Pending'', ''''}
         then ''WaitingForChange'' else ''Executing'')"
    by (simp add: next_phase_def next_stab_def stab un pipeline_frame(2) [OF c] split: option.split)
  have result: "woResult (chg_reconcile env req) = Inr (requeue_after
      (if next_phase (weNow env) c \<in> {PhaseSucceeded, PhaseTimedOut} then 60 * Second else 15 * Second))"
    using assms(2)
    by (cases "chgStatus (fst (late_window env original c)) = chgStatus original")
      (simp_all add: reconcile_evaluates [OF assms(1)] Let_def split_beta accepted_def)
  show ?thesis
    unfolding Let_def stored_evaluation [OF assms] late_window_fields result
    using pipeline_frame(4) [OF c] phase by (simp add: Let_def)
qed

lemma reconcile_phase_correct_witness:
  "stPhase (chgStatus (stored_window ((demo_env True 5 5)\<lparr>weGet := Inr demo_window\<rparr>) demo_window
     (chg_reconcile ((demo_env True 5 5)\<lparr>weGet := Inr demo_window\<rparr>) ''ns/w''))) = ''PlatformRecovering''"
proof -
  let ?env = "(demo_env True 5 5)\<lparr>weGet := Inr demo_window\<rparr>"
  have w: "stBaseline (chgStatus demo_window) = None" "stab_seconds demo_window = 60"
    "stStabilizationStartedAt (chgStatus demo_window) = None"
    by (simp_all add: demo_window_def zero_ChangeWindowStatus_def stab_seconds_def sample_spec_def
        orDefault_def)
  obtain c where c: "evaluates ?env demo_window c" "vrPassed (stValidation (chgStatus c))"
    using demo_evaluates [of 5] by auto
  have "accepted ?env (chg_reconcile ?env ''ns/w'')"
    by (simp add: accepted_def split: option.split)
  from reconcile_phase_correct [OF c(1) this] c(2) w show ?thesis
    by (simp add: Let_def Second_def)
qed

section \<open>Requeue, errors and reports\<close>

text \<open>The controller never loses sight of a live window: every reconcile of one that ends without
  an error asks to be repeated, at once or after a positive time.\<close>

theorem live_window_requeued:
  assumes "weGet env = Inr original" "\<not> chg_deleting original"
    and "woResult (chg_reconcile env req) = Inr r"
  shows "Requeue r \<or> 0 < RequeueAfter r"
proof (cases "evaluated_window env original")
  case (Some c)
  then have "evaluates env original c" using assms(1) by (simp add: evaluates_iff)
  from reconcile_evaluates [OF this] assms(3) show ?thesis
    by (auto simp: Let_def split_beta requeue_after_def requeue_now_def Second_def
        split: if_splits option.splits)
next
  case None
  then show ?thesis
    using assms unfolding chg_reconcile_def chg_deleting_def [symmetric]
    by (auto simp: evaluated_window_def chg_return_def Let_def requeue_after_def time_sub_def
        max_duration_def split: if_splits sum.splits)
qed

lemma live_window_requeued_witness:
  "\<exists>r. woResult (chg_reconcile ((demo_env True 5 5)\<lparr>weGet := Inr demo_window\<rparr>) ''ns/w'') = Inr r
     \<and> (Requeue r \<or> 0 < RequeueAfter r)"
proof -
  let ?env = "(demo_env True 5 5)\<lparr>weGet := Inr demo_window\<rparr>"
  obtain c where "evaluates ?env demo_window c" using demo_evaluates [of 5] by auto
  then have "\<exists>r. woResult (chg_reconcile ?env ''ns/w'') = Inr r"
    by (auto simp: reconcile_evaluates Let_def split_beta)
  moreover have "\<not> chg_deleting demo_window" by (simp add: chg_deleting_def demo_window_def)
  ultimately show ?thesis
    using live_window_requeued [of ?env demo_window "''ns/w''"] by auto
qed

definition window_call_errors :: "chg_env \<Rightarrow> go_error set" where
  "window_call_errors env =
     {e. weGet env = Inl e} \<union> {e. \<exists>ns n. weGetPS env ns n = Inl e} \<union> {e. \<exists>w. wePatch env w = Some e}"

lemma window_call_errorsI [intro]:
  "weGet env = Inl e \<Longrightarrow> e \<in> window_call_errors env"
  "weGetPS env ns n = Inl e \<Longrightarrow> e \<in> window_call_errors env"
  "wePatch env w = Some e \<Longrightarrow> e \<in> window_call_errors env"
  by (auto simp: window_call_errors_def)

lemma fetch_apps_error:
  "fetch_apps env as c = Inl e \<Longrightarrow>
     \<exists>m e'. e = WrapErr m e' \<and> e' \<in> window_call_errors env \<and> \<not> IsNotFound e'"
proof (induction as arbitrary: c)
  case (Cons a as)
  show ?case
  proof (cases "fetch_app env a c")
    case (Inl e2)
    with Cons.prems show ?thesis
      by (auto simp: fetch_app_def split: sum.splits list.splits if_splits)
  next
    case (Inr c')
    with Cons show ?thesis by simp
  qed
qed simp

text \<open>C39: A failed reconcile returns an error that wraps one the API server gave to a get or to the
  patch, never a missing object and never a conflict of the patch; when it fails before the
  patch it publishes and writes nothing.\<close>

theorem window_errors:
  assumes "woResult (chg_reconcile env req) = Inl e"
  shows "\<exists>m e'. e = WrapErr m e' \<and> e' \<in> window_call_errors env
      \<and> (if woPatch (chg_reconcile env req) = None
         then \<not> IsNotFound e' \<and> woReports (chg_reconcile env req) = []
         else \<not> IsConflict e')"
proof (cases "\<exists>original c. evaluates env original c")
  case True
  then obtain original c where "evaluates env original c" by blast
  from reconcile_evaluates [OF this] assms show ?thesis
    by (auto simp: Let_def split_beta split: if_splits option.splits)
next
  case False
  show ?thesis
  proof (cases "weGet env")
    case (Inl e2)
    with assms show ?thesis
      by (auto simp: chg_reconcile_def chg_return_def split: if_splits)
  next
    case (Inr original)
    then have none: "evaluated_window env original = None"
      using False evaluates_iff [OF Inr] by (cases "evaluated_window env original") auto
    have out: "chg_reconcile env req = chg_return (Inl e)" "chg_pipeline env original = Inl e"
      using assms none Inr unfolding chg_reconcile_def chg_deleting_def [symmetric]
      by (auto simp: evaluated_window_def chg_return_def Let_def split: if_splits sum.splits)
    from out(2) have "\<exists>m e'. e = WrapErr m e' \<and> e' \<in> window_call_errors env \<and> \<not> IsNotFound e'"
      by (auto simp: chg_pipeline_def split: sum.splits dest: fetch_apps_error)
    with out(1) show ?thesis by (auto simp: chg_return_def)
  qed
qed

lemma window_errors_witness:
  "OtherErr ''boom'' \<in> window_call_errors ((demo_env True 5 5)\<lparr>weGet := Inl (OtherErr ''boom'')\<rparr>)"
proof -
  let ?env = "(demo_env True 5 5)\<lparr>weGet := Inl (OtherErr ''boom'')\<rparr>"
  have "woResult (chg_reconcile ?env ''ns/w'') =
      Inl (WrapErr ''failed to get ChangeWindow ns/w'' (OtherErr ''boom''))"
    by (simp add: chg_reconcile_def chg_return_def IsNotFound_def)
  from window_errors [OF this] show ?thesis by auto
qed

lemma late_reports:
  "snd (late_window env original c) =
     (let c3 = timeline_step (weNow env) (stPhase (chgStatus c))
           (sign_step env (fst (phase_step (weNow env) c)))
      in if report_due (weNow env) (stPhase (chgStatus c)) original c3
         then (case weKafka env of None \<Rightarrow> []
               | Some b \<Rightarrow> [(cwCHGNumber (chgSpec c),
                   BuildKafkaReportJSON (weTimeFmt env) c3 (weNow env))])
         else [])"
  by (simp add: late_window_def publish_step_def Let_def frame)

text \<open>C36: An evaluation hands one report to Kafka, under the change number, exactly when a bridge is
  configured and the phase changed, the validation changed, or the last successful report is at
  least fifteen minutes old; otherwise none.\<close>

theorem report_when_due:
  assumes "evaluates env original c"
  shows "map fst (woReports (chg_reconcile env req)) =
    (if weKafka env \<noteq> None
        \<and> (next_phase (weNow env) c \<noteq> stPhase (chgStatus c)
           \<or> stValidation (chgStatus original) \<noteq> stValidation (chgStatus c)
           \<or> (stLastReportedAt (chgStatus original) \<noteq> zero_time
              \<and> 15 * 60 * Second \<le> weNow env - stLastReportedAt (chgStatus original)))
     then [cwCHGNumber (chgSpec original)] else [])"
proof -
  have c: "chg_pipeline env original = Inr c" using assms by (simp add: evaluates_def)
  note un = untouchedD [OF pipeline_frame(1) [OF c]]
  have age: "900 * Second \<le> time_sub t u \<longleftrightarrow> 900 * Second \<le> t - u" for t u
    by (auto simp: time_sub_def max_duration_def min_duration_def Second_def)
  show ?thesis
    by (simp add: reconcile_evaluates [OF assms] Let_def split_beta late_reports report_due_def
        time_is_zero_def frame un age split: option.split)
qed

lemma report_when_due_witness:
  "map fst (woReports (chg_reconcile ((demo_env True 5 5)\<lparr>weGet := Inr demo_window\<rparr>) ''ns/w''))
     = [''CHG1'']"
proof -
  let ?env = "(demo_env True 5 5)\<lparr>weGet := Inr demo_window\<rparr>"
  obtain c where c: "evaluates ?env demo_window c" "vrPassed (stValidation (chgStatus c))"
    using demo_evaluates [of 5] by auto
  have "stValidation (chgStatus demo_window) \<noteq> stValidation (chgStatus c)"
  proof -
    have "\<not> vrPassed (stValidation (chgStatus demo_window))"
      by (simp add: demo_window_def zero_ChangeWindowStatus_def zero_ValidationResult_def)
    with c(2) show ?thesis by auto
  qed
  moreover have "weKafka ?env \<noteq> None" by (simp add: demo_env_def)
  ultimately show ?thesis
    using report_when_due [OF c(1), of "''ns/w''"]
    by (simp add: demo_window_def sample_spec_def)
qed

text \<open>A second evaluation of the demonstration window on the same observation, a little later.\<close>

lemma demo_window_fields:
  "app_states demo_window = []" "chgSpec demo_window = sample_spec"
  "chgDeletionTimestamp demo_window = None" "cwStartTime sample_spec = 0"
  "stStabilizationStartedAt (chgStatus demo_window) = None"
  "stLastReportedAt (chgStatus demo_window) = zero_time"
  by (simp_all add: demo_window_def app_states_def zero_ChangeWindowStatus_def sample_spec_def)

lemma demo_hub: "isHubCluster ((demo_env both u t)\<lparr>weGet := g\<rparr>) = False" "isHubCluster (demo_env both u t) = False"
  by (simp_all add: isHubCluster_def demo_env_def DetectClusterRole_def equal_fold_def to_lower_def
      lower_char_def)

lemma demo_second:
  fixes req :: string
  defines "env \<equiv> (demo_env True 5 5)\<lparr>weGet := Inr demo_window\<rparr>"
  assumes ev: "evaluates env demo_window c"
  defines "w \<equiv> stored_window env demo_window (chg_reconcile env req)"
  shows "\<exists>c'. evaluates ((demo_env True 5 7)\<lparr>weGet := Inr w\<rparr>) w c'
    \<and> next_phase 7 c' = stPhase (chgStatus c')
    \<and> stValidation (chgStatus c') = stValidation (chgStatus w)"
proof -
  have pc: "chg_pipeline (demo_env True 5 5) demo_window = Inr c"
    using ev by (simp add: evaluates_def env_def)
  obtain f where f: "fetch_apps (demo_env True 5 5) [''a'', ''b''] (init_maps demo_window) = Inr f"
    "app_states f = map (\<lambda>k. (k, demo_app 5)) [''a'', ''b'']"
    using demo_fetch [of demo_window 5 5] demo_window_fields(1) by blast
  have c: "vrPassed (stValidation (chgStatus c))" "app_states c = map (\<lambda>k. (k, demo_app 5)) [''a'', ''b'']"
    "stSilentClusters (chgStatus c) = []" "chgSpec c = sample_spec"
    "stStabilizationStartedAt (chgStatus c) = None"
    using demo_pipeline [OF f _ _ demo_window_fields(2)] pc demo_window_fields
      untouchedD [OF pipeline_frame(1) [OF pc]] by (auto simp: Second_def)
  let ?l = "fst (late_window env demo_window c)"
  have acc: "accepted env (chg_reconcile env req)"
    by (simp add: accepted_def env_def split: option.split)
  have st: "chgStatus w = chgStatus ?l"
    unfolding w_def by (rule stored_evaluation [OF ev acc])
  have "w = demo_window \<or> w = ?l"
    by (simp add: w_def reconcile_evaluates [OF ev] stored_window_def Let_def split_beta)
  then have wm: "chgSpec w = sample_spec" "chgDeletionTimestamp w = None"
    using untouchedD(1,6) [OF pipeline_frame(1) [OF pc]] demo_window_fields(2,3)
    by (auto simp: late_window_fields)
  have now: "weNow env = 5" by (simp add: env_def)
  have stab: "next_stab 5 c = Some 5" "next_phase 5 c = PhasePlatformRecovering"
    using c by (simp_all add: next_stab_def next_phase_def demo_stab Second_def)
  have apps: "app_states w = map (\<lambda>k. (k, demo_app 5)) [''a'', ''b'']"
    using late_window_fields(9) [of env demo_window c] st c(2) by (simp add: app_states_def)
  have "\<exists>x y. app_states w = [(''a'', x), (''b'', y)]" using apps by simp
  then obtain f' where f': "fetch_apps (demo_env True 5 7) [''a'', ''b''] (init_maps w) = Inr f'"
    "app_states f' = map (\<lambda>k. (k, demo_app 5)) [''a'', ''b'']"
    using demo_fetch [of w 5 7] by blast
  obtain c' where c': "chg_pipeline (demo_env True 5 7) w = Inr c'" "vrPassed (stValidation (chgStatus c'))"
    "app_states c' = map (\<lambda>k. (k, demo_app 5)) [''a'', ''b'']" "stSilentClusters (chgStatus c') = []"
    using demo_pipeline [OF f' _ _ wm(1)] by (auto simp: Second_def)
  note un = untouchedD [OF pipeline_frame(1) [OF c'(1)]]
  obtain d where d: "stValidation (chgStatus c) = fst (evaluateGates False (\<lambda>ks. ks) d 5)"
    "chgSpec d = chgSpec c" "app_states d = app_states c"
    "stSilentClusters (chgStatus d) = stSilentClusters (chgStatus c)"
    using pipeline_validation [OF pc] by (auto simp: demo_hub)
  obtain d' where d': "stValidation (chgStatus c') = fst (evaluateGates False (\<lambda>ks. ks) d' 7)"
    "chgSpec d' = chgSpec c'" "app_states d' = app_states c'"
    "stSilentClusters (chgStatus d') = stSilentClusters (chgStatus c')"
    "stValidation (chgStatus d') = stValidation (chgStatus w)"
    using pipeline_validation [OF c'(1)] by (auto simp: demo_hub)
  have vw: "stValidation (chgStatus w) = stValidation (chgStatus c)"
    by (simp add: st late_window_fields)
  have "evaluateGates False (\<lambda>ks. ks) d' 7 =
      evaluateGates False (\<lambda>ks. ks) (store_validation d (fst (evaluateGates False (\<lambda>ks. ks) d 5))) 7"
    by (rule evaluateGates_cong)
      (simp_all add: d' d(2-4) c(2-4) c'(3,4) un wm vw d(1) [symmetric] store_validation_def app_states_def [of "d\<lparr>chgStatus := _\<rparr>"] app_states_def [symmetric])
  also have "\<dots> = evaluateGates False (\<lambda>ks. ks) d 5"
    by (rule evaluate_again) (simp add: time_is_zero_def zero_time_def)
  finally have "stValidation (chgStatus c') = stValidation (chgStatus w)"
    by (simp add: d'(1) d(1) vw)
  moreover have "stStabilizationStartedAt (chgStatus c') = Some 5"
    by (simp add: un st late_window_fields now stab)
  then have "next_phase 7 c' = PhasePlatformRecovering"
    using c'(2) un wm by (simp add: next_phase_def next_stab_def demo_stab Second_def)
  moreover have "stBaseline (chgStatus w) \<noteq> None"
    using pipeline_frame(3) [OF pc] by (simp add: st late_window_fields)
  then have "stPhase (chgStatus c') = PhasePlatformRecovering"
    using pipeline_frame(2) [OF c'(1)] by (simp add: st late_window_fields now stab)
  moreover have "evaluates ((demo_env True 5 7)\<lparr>weGet := Inr w\<rparr>) w c'"
    using c'(1) by (simp add: evaluates_def chg_deleting_def wm demo_window_fields(4))
  ultimately show ?thesis by auto
qed

section \<open>Behaviours worth knowing\<close>

lemma publish_failed:
  assumes "weKafka env = Some (Some wr)" "\<And>k v. wr k v \<noteq> None"
  shows "stLastReportedAt (chgStatus (fst (late_window env original c))) = stLastReportedAt (chgStatus c)"
  by (simp add: late_window_def publish_step_def ProduceReport_def Let_def frame assms(1))
    (use assms(2) in blast)



text \<open>C38: A finished window never comes to rest: an evaluation that leaves it finished writes a new
  status whenever the signing clock has moved since the stored report, although neither phase
  nor verdict changed.\<close>

theorem finished_window_always_patched:
  assumes "evaluates env original c" "next_phase (weNow env) c \<in> {PhaseSucceeded, PhaseTimedOut}"
    and "stSignedReport (chgStatus original) = Some r" "saTimestamp r \<noteq> weSignNow env"
  shows "woPatch (chg_reconcile env req) \<noteq> None"
proof -
  have "stSignedReport (chgStatus (fst (late_window env original c))) \<noteq> Some r"
    using assms(2,4) by (auto simp: late_window_fields sign_step_def Let_def frame GenerateSignedReport_def)
  then have "chgStatus (fst (late_window env original c)) \<noteq> chgStatus original"
    using assms(3) by auto
  then show ?thesis
    by (simp add: reconcile_evaluates [OF assms(1)] Let_def split_beta)
qed

lemma finished_window_always_patched_witness:
  "\<exists>original. stPhase (chgStatus original) = ''Succeeded''
     \<and> woPatch (chg_reconcile ((demo_env True (61 * Second) (61 * Second))\<lparr>weGet := Inr original\<rparr>) ''ns/w'')
       \<noteq> None"
proof -
  let ?t = "61 * Second"
  define r where "r = GenerateSignedReport JInt 5 ''CHG1'' [] [] ''Succeeded'' []"
  have r: "saTimestamp r = 5" by (simp add: r_def GenerateSignedReport_def Let_def)
  let ?o = "demo_window\<lparr>chgStatus := zero_ChangeWindowStatus\<lparr>stPhase := ''Succeeded'',
      stBaseline := Some (empty_baseline 5), stSignedReport := Some r,
      stStabilizationStartedAt := Some 0\<rparr>\<rparr>"
  let ?env = "(demo_env True ?t ?t)\<lparr>weGet := Inr ?o\<rparr>"
  have o: "app_states ?o = []" "chgSpec ?o = sample_spec" "chgDeletionTimestamp ?o = None"
    by (simp_all add: app_states_def zero_ChangeWindowStatus_def demo_window_fields)
  obtain f where f: "fetch_apps (demo_env True ?t ?t) [''a'', ''b''] (init_maps ?o) = Inr f"
    "app_states f = map (\<lambda>k. (k, demo_app ?t)) [''a'', ''b'']"
    using demo_fetch [of ?o ?t ?t] o(1) by blast
  obtain c where c: "chg_pipeline (demo_env True ?t ?t) ?o = Inr c" "vrPassed (stValidation (chgStatus c))"
    using demo_pipeline [OF f _ _ o(2)] by (auto simp: Second_def)
  note un = untouchedD [OF pipeline_frame(1) [OF c(1)]]
  have ev: "evaluates ?env ?o c"
    using c(1) by (simp add: evaluates_def chg_deleting_def o demo_window_fields(4) Second_def)
  have "next_phase ?t c = PhaseSucceeded"
    using c(2) un by (simp add: next_phase_def next_stab_def demo_stab o demo_window_fields Second_def)
  then have fin: "next_phase (weNow ?env) c \<in> {PhaseSucceeded, PhaseTimedOut}" by simp
  have signed: "stSignedReport (chgStatus ?o) = Some r" by simp
  have "weSignNow ?env = ?t" by (simp add: demo_env_def)
  then have "saTimestamp r \<noteq> weSignNow ?env" by (simp add: r Second_def)
  from finished_window_always_patched [OF ev fin signed this]
  have "woPatch (chg_reconcile ?env ''ns/w'') \<noteq> None" .
  then show ?thesis by (intro exI [of _ ?o]) simp
qed

text \<open>An impacted application without any \<open>PropagationStatus\<close> is not noticed: the window passes
  on the clusters of its other applications, on a spoke too, where the gate for missing
  applications is meant to catch it.\<close>

theorem untracked_app_passes:
  "\<exists>env original c. evaluates env original c \<and> \<not> isHubCluster env
     \<and> ''b'' \<in> set (cwImpactedApps (chgSpec original))
     \<and> (\<forall>ns n. weList env ns ''b'' n = Inr []) \<and> (\<forall>ns. weGetPS env ns ''b'' = Inl NotFound)
     \<and> vrPassed (stValidation (chgStatus c))"
proof -
  let ?env = "demo_env False 5 5"
  let ?genv = "?env\<lparr>weGet := Inr demo_window\<rparr>"
  have w: "app_states demo_window = []" "chgSpec demo_window = sample_spec"
    "chgDeletionTimestamp demo_window = None" "cwStartTime sample_spec = 0"
    "cwImpactedApps sample_spec = [''a'', ''b'']"
    by (simp_all add: demo_window_def app_states_def zero_ChangeWindowStatus_def sample_spec_def)
  have "\<exists>f. fetch_apps ?env [''a'', ''b''] (init_maps demo_window) = Inr f
      \<and> app_states f = map (\<lambda>k. (k, demo_app 5)) [''a'']"
    by (simp add: fetch_app_def demo_env_def store_app_def init_maps_def gm_put_def IsNotFound_def
        demo_ps_def demo_app_def w(1)) (simp add: app_states_def)
  then obtain c where c: "chg_pipeline ?env demo_window = Inr c" "vrPassed (stValidation (chgStatus c))"
    using demo_pipeline [OF _ _ _ _ w(2), of False 5 5 _ "[''a'']"] by (auto simp: Second_def)
  have "evaluates ?genv demo_window c"
    using c(1) by (simp add: evaluates_def chg_deleting_def w)
  moreover have "\<not> isHubCluster ?genv" by code_simp
  moreover have "\<forall>ns n. weList ?genv ns ''b'' n = Inr []" "\<forall>ns. weGetPS ?genv ns ''b'' = Inl NotFound"
    by (simp_all add: demo_env_def)
  ultimately show ?thesis
    using c(2) w(2,5) by (intro exI [of _ ?genv] exI [of _ demo_window] exI [of _ c]) simp
qed

end
