(* ===== verification/SystemThms.thy ===== *)
theory SystemThms
  imports System WindowThms
begin

text \<open>
  What the success of a change window means in the whole system, and a concrete run of it from
  a spoke's reconcile to the success.
\<close>

section \<open>Success of a window\<close>

lemma reported_ok:
  assumes "cluster_ok ws (reported_state c (report_spec lenv cm) st)"
  shows "spoke_ok lenv cm"
  using assms
  by (auto simp: reported_state_def cluster_ok_def spoke_ok_def ops_bad_def maint_bad_def
      report_spec_fields report_platform_fields)

text \<open>Behind the row of application \<open>a\<close> stands a reconcile of the spoke the row names: its
  descriptor belongs to the application of a status found for \<open>a\<close>, was in sync at a revision
  that a version \<open>v\<close> of this status expected, was read no longer before \<open>now\<close> than the silence threshold, and the
  spoke's API server answered well.\<close>

definition backed_row :: "sys_state \<Rightarrow> gtime \<Rightarrow> string \<Rightarrow> ClusterRevisionState \<Rightarrow> bool" where
  "backed_row s now a cs \<longleftrightarrow>
     (\<exists>lenv cm ps v. acts_on lenv = Some cm \<and> ps \<in> set (syStatuses s)
        \<and> (psName ps = a \<or> psAppName (psSpec ps) = a)
        \<and> adAppName (parseDescriptor cm) = psAppName (psSpec ps)
        \<and> v \<in> set (syStatuses s) \<and> same_object v ps
        \<and> adRevision (parseDescriptor cm) = psExpectedRevision (psSpec v)
        \<and> adSyncStatus (parseDescriptor cm) \<noteq> ''OutOfSync''
        \<and> leClusterName lenv = csClusterName cs \<and> spoke_ok lenv cm
        \<and> now - leNow lenv \<le> silence_seconds (wsWindow (syRun s)) * Second)"

text \<open>A passing evaluation in a reachable state: behind every row there is a reconcile of a spoke.\<close>

lemma converged_row:
  assumes inv: "sys_inv s" and e: "(now, c) \<in> set (syLog s)"
    and passed: "vrPassed (stValidation (chgStatus c))" and row: "window_row c a cs"
  shows "backed_row s now a cs"
proof -
  have ok: "evaluation_ok s (now, c)" and spokes: "\<forall>spec\<in>set (syReports s). from_spoke spec"
    using inv e unfolding sys_inv_def by blast+
  then have good: "cluster_ok (cwStartTime (chgSpec c)) cs" "now - csObservedAt cs \<le> silence_seconds c * Second"
    using passed row by (auto simp: evaluation_ok_def converged_def)
  have silence: "silence_seconds c = silence_seconds (wsWindow (syRun s))"
    using ok by (simp add: evaluation_ok_def silence_seconds_def)
  obtain m where m: "gm_get (app_states c) a = Some m" "cs \<in> set (acClusterStates m)"
    using row by (auto simp: window_row_def)
  then obtain ps where ps: "ps \<in> set (syStatuses s)" "psName ps = a \<or> psAppName (psSpec ps) = a"
    "sound_status (set (syReports s)) (syStatuses s) ps" "acClusterStates m = pssClusterStates (psStatus ps)"
    using ok unfolding evaluation_ok_def sound_window_def sound_entry_def by fastforce
  have "csState cs = StateInSync" using good(1) by (simp add: cluster_ok_def)
  then obtain spec v where spec: "spec \<in> set (syReports s)" "rsAppName spec = psAppName (psSpec ps)"
    "rsClusterName spec = csClusterName cs" "rsSyncStatus spec \<noteq> ''OutOfSync''"
    "cs = reported_state (csClusterName cs) spec StateInSync"
    and v: "v \<in> set (syStatuses s)" "same_object v ps" "csObservedRevision cs = psExpectedRevision (psSpec v)"
    using ps(3,4) m(2) unfolding sound_status_def sound_rows_def sound_row_def by fastforce
  obtain lenv cm where l: "acts_on lenv = Some cm" "spec = report_spec lenv cm"
    using spokes spec(1) unfolding from_spoke_def by blast
  have "csObservedRevision cs = rsObservedRevision spec" "csObservedAt cs = rsObservedAt spec"
    by (subst spec(5), simp add: reported_state_def)+
  moreover have "spoke_ok lenv cm"
    using good(1) spec(5) l(2) reported_ok by metis
  ultimately show ?thesis
    using l ps(1,2) spec(2-4) v good(2) unfolding silence backed_row_def
    by (intro exI [of _ lenv] exI [of _ cm] exI [of _ ps] exI [of _ v]) (simp add: report_spec_fields)
qed

text \<open>The evaluations that led to success: all passed, and they span the stabilisation period.\<close>

lemma success_evaluations:
  assumes inv: "sys_inv s" and phase: "stPhase (chgStatus (wsWindow (syRun s))) = PhaseSucceeded"
  obtains es rest where "syLog s = es @ rest" "es \<noteq> []"
    "\<And>e. e \<in> set es \<Longrightarrow> vrPassed (stValidation (chgStatus (snd e)))"
    "0 < stab_seconds (wsWindow (syRun s)) \<Longrightarrow>
       stab_seconds (wsWindow (syRun s)) * Second \<le> fst (hd es) - fst (last es)"
proof -
  let ?w = "wsWindow (syRun s)"
  have hist: "wsHist (syRun s) = verdicts (syLog s)" and winv: "window_inv (syRun s)"
    using inv by (auto simp: sys_inv_def)
  have ok: "success_ok ?w (verdicts (syLog s))"
    "\<And>u. stStabilizationStartedAt (chgStatus ?w) = Some u \<Longrightarrow> passed_since u (verdicts (syLog s))"
    using winv phase by (auto simp: window_inv_def Let_def hist)
  show ?thesis
  proof (cases "0 < stab_seconds ?w")
    case True
    then obtain u where u: "passed_since u (verdicts (syLog s))"
      "u + stab_seconds ?w * Second \<le> fst (hd (verdicts (syLog s)))"
      using ok by (auto simp: success_ok_def)
    then obtain ps rest where ps: "verdicts (syLog s) = ps @ rest" "ps \<noteq> []" "list_all snd ps" "fst (last ps) = u"
      unfolding passed_since_def by blast
    then obtain es fs where es: "syLog s = es @ fs" "ps = verdicts es"
      unfolding verdicts_def by (auto simp: map_eq_append_conv)
    have "fst (hd (verdicts (syLog s))) = fst (hd es)" "fst (last es) = u" "es \<noteq> []"
      using ps es by (auto simp: verdicts_def hd_map last_map hd_append)
    then show ?thesis
      using that [OF es(1)] ps(3) u(2) by (auto simp: es(2) verdicts_def list_all_iff)
  next
    case False
    obtain e es where e: "syLog s = e # es"
      using ok(1) by (cases "syLog s") (auto simp: success_ok_def verdicts_def)
    then have "vrPassed (stValidation (chgStatus (snd e)))"
      using ok(1) by (simp add: success_ok_def verdicts_def)
    then show ?thesis using that [of "[e]" es] e False by simp
  qed
qed


section \<open>A run of the system\<close>

text \<open>The spoke \<open>c1\<close> reports its healthy application, the status of the application is created
  and aggregated, and the window is evaluated after five nanoseconds and after 61 seconds.\<close>

definition run_report :: ClusterAppReport where
  "run_report = spoke_report good_local good_cm"

definition run_prop_env :: prop_env where
  "run_prop_env = (sample_env (sample_ps [''c1'']) [] 0)
     \<lparr>peList := (\<lambda>ns app n. if app = ''a'' then Inr [run_report] else Inr [])\<rparr>"

definition run_ps :: PropagationStatus where
  "run_ps = (reset_lag_clock 0 (sample_ps [''c1'']))
     \<lparr>psStatus := computed_status run_prop_env (sample_ps [''c1'']) [run_report] no_gauges\<rparr>"

definition run_row :: ClusterRevisionState where
  "run_row = reported_state ''c1'' (report_spec good_local good_cm) StateInSync"

definition run_env :: "gtime \<Rightarrow> chg_env" where
  "run_env t = (demo_env True 0 t)\<lparr>weList := (\<lambda>ns app n. if app = ''a'' then Inr [run_ps] else Inr [])\<rparr>"

definition evaluated :: "gtime \<Rightarrow> sys_state \<Rightarrow> sys_state" where
  "evaluated t s = s\<lparr>syRun := advance (run_env t) (syRun s),
     syLog := log_evaluation (run_env t) (syRun s) (syLog s)\<rparr>"

definition run_start :: sys_state where
  "run_start = \<lparr>syReports = [], syStatuses = [], syRun = demo_start, syLog = []\<rparr>"

definition run_aggregated :: sys_state where
  "run_aggregated = run_start\<lparr>syReports := [report_spec good_local good_cm],
     syStatuses := [run_ps, sample_ps [''c1'']]\<rparr>"

definition run_end :: sys_state where
  "run_end = evaluated (61 * Second) (evaluated 5 run_aggregated)"

lemma run_aggregates:
  "aggregates run_prop_env (sample_ps [''c1'']) [run_report]"
  by (simp add: aggregates_def run_prop_env_def sample_env_def sample_ps_def deleting_def)

lemma run_ps_rows: "pssClusterStates (psStatus run_ps) = [run_row]"
proof -
  have get: "gm_get (byCluster [run_report]) ''c1'' = Some run_report"
    by (simp add: byCluster_def gm_put_def gm_get_def run_report_def spoke_report_def report_spec_fields
        good_local_def sample_local_def)
  have spec: "carSpec run_report = report_spec good_local good_cm" "leNow good_local = 0"
    by (simp_all add: run_report_def spoke_report_def good_local_def)
  have "report_verdict (reset_lag_clock 0 (sample_ps [''c1''])) 0 (carSpec run_report) = StateInSync"
    by (simp add: report_verdict_def spec report_spec_fields good_cm_fields stale_seconds_def orDefault_def)
      (simp add: sample_ps_def Second_def)
  then have "row (reset_lag_clock 0 (sample_ps [''c1''])) (byCluster [run_report]) 0 ''c1'' = run_row"
    by (simp only: row_def verdict_def get option.case spec(1) run_row_def)
  moreover have "peNow run_prop_env = 0" "peMetaNow run_prop_env = 0"
    "psTargetClusters (psSpec (sample_ps [''c1''])) = [''c1'']"
    by (simp_all add: run_prop_env_def sample_ps_def)
  ultimately show ?thesis
    by (simp add: run_ps_def computed_status_fields)
qed

lemma run_row_good:
  "cluster_ok 0 run_row \<and> cv_verdict run_row = Some GateStatusTrue
   \<and> platform_verdict run_row = Some GateStatusTrue \<and> telemetry_seen [run_row]"
  unfolding run_row_def by code_simp

lemma run_to_aggregated: "sys_step\<^sup>*\<^sup>* run_start run_aggregated"
proof -
  define s1 where "s1 = run_start\<lparr>syReports := [report_spec good_local good_cm]\<rparr>"
  define s2 where "s2 = s1\<lparr>syStatuses := [sample_ps [''c1'']]\<rparr>"
  have "\<exists>w. loWrite (local_reconcile good_local ''ns/d'') = Some w
      \<and> written_spec w = report_spec good_local good_cm"
    by (simp add: local_reconcile_def upsertReport_def good_local_def sample_local_def Let_def
        local_deleting_def IsNotFound_def) (simp add: good_cm_def sample_cm_def parseDescriptor_def gm_str_def gm_get_def AppLabelKey_def)
  then have "sys_step run_start s1"
    unfolding s1_def using sys_step.spoke_writes [of good_local "''ns/d''" _ run_start]
    by (auto simp: run_start_def)
  moreover have "sys_step s1 s2"
    unfolding s2_def using sys_step.status_created [of "sample_ps [''c1'']" s1]
    by (simp add: sample_ps_def s1_def run_start_def)
  moreover have "sys_step s2 run_aggregated"
  proof -
    have "prop_reads s2 run_prop_env"
      by (auto simp: prop_reads_def run_prop_env_def sample_env_def s2_def s1_def run_report_def
          spoke_report_def report_spec_fields split: if_splits)
        (simp add: good_cm_def sample_cm_def parseDescriptor_def gm_str_def gm_get_def AppLabelKey_def)
    moreover have "psStatus run_ps \<noteq> psStatus (sample_ps [''c1''])"
      using run_ps_rows by (auto simp: sample_ps_def)
    then have "prPatch (prop_reconcile run_prop_env ''ns/p'' no_gauges) = Some run_ps"
      by (simp add: reconcile_aggregates [OF run_aggregates] Let_def run_ps_def)
        (simp add: run_prop_env_def)
    moreover have "pePatch run_prop_env run_ps = None" by (simp add: run_prop_env_def)
    moreover have "(sample_ps [''c1''])\<lparr>psStatus := psStatus run_ps\<rparr> = run_ps"
      by (simp add: run_ps_def reset_lag_clock_def)
    moreover have "peGet run_prop_env = Inr (sample_ps [''c1''])" "sample_ps [''c1''] \<in> set (syStatuses s2)"
      by (simp_all add: run_prop_env_def sample_env_def s2_def)
    moreover have "merged_status (psStatus (sample_ps [''c1''])) (psStatus run_ps) (psStatus (sample_ps [''c1''])) (psStatus run_ps)"
      "same_object (sample_ps [''c1'']) (sample_ps [''c1''])"
      by (simp_all add: merged_status_def merged_def same_object_def)
    ultimately have "sys_step s2 (s2\<lparr>syStatuses := run_ps # syStatuses s2\<rparr>)"
      using sys_step.aggregates by metis
    then show ?thesis by (simp add: s2_def s1_def run_aggregated_def)
  qed
  ultimately show ?thesis by (meson converse_rtranclp_into_rtranclp rtranclp.rtrancl_refl)
qed

definition run_entry :: AppClusterStateMap where
  "run_entry = \<lparr>acPhase = pssPhase (psStatus run_ps), acClusterStates = pssClusterStates (psStatus run_ps)\<rparr>"

lemma run_env_fields [simp]:
  "weNow (run_env t) = t" "weGateOrder (run_env t) = (\<lambda>ks. ks)" "weSilenceOrder (run_env t) = (\<lambda>ks. ks)"
  "wePatch (run_env t) w = None"
  by (simp_all add: run_env_def)

lemma run_evaluated:
  assumes ps: "run_ps \<in> set (syStatuses s)"
    and w: "app_states (wsWindow (syRun s)) = [] \<or> (\<exists>x. app_states (wsWindow (syRun s)) = [(''a'', x)])"
      "chgSpec (wsWindow (syRun s)) = sample_spec" "chgDeletionTimestamp (wsWindow (syRun s)) = None"
    and t: "0 \<le> t" "t \<le> 300 * Second" "\<not> time_is_zero t"
  shows "sys_step s (evaluated t s)"
    "\<exists>c. vrPassed (stValidation (chgStatus c)) \<and> chgSpec c = sample_spec
      \<and> stStabilizationStartedAt (chgStatus c) = stStabilizationStartedAt (chgStatus (wsWindow (syRun s)))
      \<and> (let v = wsWindow (syRun (evaluated t s)) in
           stPhase (chgStatus v) = next_phase t c \<and> stStabilizationStartedAt (chgStatus v) = next_stab t c
           \<and> app_states v = [(''a'', run_entry)] \<and> chgSpec v = sample_spec \<and> chgDeletionTimestamp v = None)"
proof -
  let ?w = "wsWindow (syRun s)"
  have app: "psAppName (psSpec run_ps) = ''a''" by (simp add: run_ps_def sample_ps_def)
  then have "window_reads s (run_env t)"
    using ps t(3)
    by (auto simp: window_reads_def status_answer_def iter_ok_def run_env_def demo_env_def split: if_splits)
  then show "sys_step s (evaluated t s)"
    unfolding evaluated_def by (rule sys_step.evaluates)
  have sp: "cwImpactedApps (chgSpec ?w) = [''a'', ''b'']" "cwStartTime (chgSpec ?w) = 0"
    "orDefault (cwStaleReportThresholdSeconds (chgSpec ?w)) 300 = 300"
    by (simp_all add: w(2) sample_spec_def orDefault_def)
  have "\<exists>f. fetch_apps (run_env t) [''a'', ''b''] (init_maps ?w) = Inr f \<and> app_states f = [(''a'', run_entry)]"
    using w(1)
    by (auto simp: fetch_app_def run_env_def demo_env_def store_app_def init_maps_def app_states_def gm_put_def
        run_entry_def IsNotFound_def)
  then obtain f where f: "fetch_apps (run_env t) (cwImpactedApps (chgSpec ?w)) (init_maps ?w) = Inr f"
    "app_states f = map (\<lambda>k. (k, run_entry)) [''a'']"
    by (auto simp: sp)
  have row: "acClusterStates run_entry = [run_row]" "csObservedAt run_row = 0"
    by (simp_all add: run_entry_def run_ps_rows run_row_def reported_state_def report_spec_fields good_local_def)
  obtain c where c: "chg_pipeline (run_env t) ?w = Inr c" "vrPassed (stValidation (chgStatus c))"
    "app_states c = [(''a'', run_entry)]"
    using one_cluster_pipeline [OF f(1) _ _ f(2) _ _ row(1)] run_row_good t(2) by (auto simp: sp row(2))
  have live: "\<not> chg_deleting ?w" "cwStartTime (chgSpec ?w) \<le> weNow (run_env t)"
    using w(3) t(1) by (simp_all add: chg_deleting_def sp(2))
  note adv = accepted_advance [OF c(1) live run_env_fields(4)]
  note un = untouchedD [OF pipeline_frame(1) [OF c(1)]]
  show "\<exists>c. vrPassed (stValidation (chgStatus c)) \<and> chgSpec c = sample_spec
      \<and> stStabilizationStartedAt (chgStatus c) = stStabilizationStartedAt (chgStatus ?w)
      \<and> (let v = wsWindow (syRun (evaluated t s)) in
           stPhase (chgStatus v) = next_phase t c \<and> stStabilizationStartedAt (chgStatus v) = next_stab t c
           \<and> app_states v = [(''a'', run_entry)] \<and> chgSpec v = sample_spec \<and> chgDeletionTimestamp v = None)"
    using adv(2-6) c(2,3) un w(2,3) by (intro exI [of _ c]) (simp add: Let_def evaluated_def)
qed

lemma run_succeeds:
  "sys_start run_start" "sys_step\<^sup>*\<^sup>* run_start run_end"
  "stPhase (chgStatus (wsWindow (syRun run_end))) = PhaseSucceeded"
  "stab_seconds (wsWindow (syRun run_end)) = 60"
proof -
  show "sys_start run_start"
    using demo_run(1) by (simp add: sys_start_def run_start_def)
  let ?s1 = "evaluated 5 run_aggregated"
  have stat: "run_ps \<in> set (syStatuses run_aggregated)" "run_ps \<in> set (syStatuses ?s1)"
    by (simp_all add: run_aggregated_def evaluated_def)
  have start: "app_states (wsWindow (syRun run_aggregated)) = []"
    "chgSpec (wsWindow (syRun run_aggregated)) = sample_spec"
    "chgDeletionTimestamp (wsWindow (syRun run_aggregated)) = None"
    "stStabilizationStartedAt (chgStatus (wsWindow (syRun run_aggregated))) = None"
    by (simp_all add: run_aggregated_def run_start_def demo_start_def demo_window_def app_states_def
        zero_ChangeWindowStatus_def)
  note five = run_evaluated [OF stat(1) disjI1 [OF start(1)] start(2,3), of 5, simplified]
  note zero = time_is_zero_def zero_time_def Second_def
  obtain c1 where c1: "vrPassed (stValidation (chgStatus c1))" "chgSpec c1 = sample_spec"
    "stStabilizationStartedAt (chgStatus c1) = None"
    "stStabilizationStartedAt (chgStatus (wsWindow (syRun ?s1))) = next_stab 5 c1"
    "app_states (wsWindow (syRun ?s1)) = [(''a'', run_entry)]"
    "chgSpec (wsWindow (syRun ?s1)) = sample_spec" "chgDeletionTimestamp (wsWindow (syRun ?s1)) = None"
    using five(2) start(4) by (auto simp: Let_def zero)
  have "next_stab 5 c1 = Some 5"
    using c1(1-3) by (simp add: next_stab_def demo_stab)
  note later = run_evaluated [OF stat(2) _ c1(6,7), of "61 * Second"]
  obtain c2 where c2: "vrPassed (stValidation (chgStatus c2))" "chgSpec c2 = sample_spec"
    "stStabilizationStartedAt (chgStatus c2) = Some 5"
    "stPhase (chgStatus (wsWindow (syRun run_end))) = next_phase (61 * Second) c2"
    "chgSpec (wsWindow (syRun run_end)) = sample_spec"
    using later(2) c1(4,5) \<open>next_stab 5 c1 = Some 5\<close> unfolding run_end_def by (auto simp: Let_def zero)
  then show "stPhase (chgStatus (wsWindow (syRun run_end))) = PhaseSucceeded"
    "stab_seconds (wsWindow (syRun run_end)) = 60"
    by (simp_all add: next_phase_def next_stab_def demo_stab Second_def)
  have "sys_step run_aggregated ?s1" using five(1) by (simp add: zero)
  moreover have "sys_step ?s1 run_end"
    unfolding run_end_def by (rule later(1)) (use c1(5) in \<open>simp_all add: zero\<close>)
  ultimately show "sys_step\<^sup>*\<^sup>* run_start run_end"
    using run_to_aggregated by (meson rtranclp.rtrancl_into_rtrancl)
qed


end
