(* ===== verification/Setup.thy ===== *)
theory Setup
  imports KafkaBridge
begin

text \<open>
  \<open>internal/controller/controllers.go\<close> and \<open>main.go\<close>: which controllers a process registers
  and how it starts. The manager of controller-runtime is reached through the answers of its
  calls; the process ends with the exit code of \<open>main\<close>.
\<close>

section \<open>SetupAllControllers\<close>

datatype controller =
    LocalAppWatchReconciler string
  | PropagationStatusReconciler
  | ChangeWindowReconciler bool

fun controller_name :: "controller \<Rightarrow> string" where
  "controller_name (LocalAppWatchReconciler c) = ''LocalAppWatch''"
| "controller_name PropagationStatusReconciler = ''PropagationStatus''"
| "controller_name (ChangeWindowReconciler b) = ''ChangeWindow''"

text \<open>The registration loop stops at the first error.\<close>

fun register_all ::
  "(controller \<Rightarrow> go_error option) \<Rightarrow> controller list \<Rightarrow> controller list \<Rightarrow> go_error option \<times> controller list" where
  "register_all setup [] done' = (None, done')"
| "register_all setup (c # cs) done' =
     (case setup c of
        Some e \<Rightarrow> (Some (WrapErr (''unable to setup controller '' @ controller_name c) e), done')
      | None \<Rightarrow> register_all setup cs (done' @ [c]))"

definition chosen_controllers :: "environ \<Rightarrow> bool \<Rightarrow> controller list" where
  "chosen_controllers env has_bridge =
     (if env ''CLUSTER_NAME'' \<noteq> '''' then [LocalAppWatchReconciler (env ''CLUSTER_NAME'')]
      else [PropagationStatusReconciler, ChangeWindowReconciler has_bridge])"

definition SetupAllControllers ::
  "environ \<Rightarrow> go_error option \<Rightarrow> (controller \<Rightarrow> go_error option) \<Rightarrow> bool \<Rightarrow>
    go_error option \<times> controller list" where
  "SetupAllControllers env clientset setup has_bridge =
     (case (if env ''CLUSTER_NAME'' \<noteq> '''' then clientset else None) of
        Some e \<Rightarrow>
          (Some (WrapErr ''unable to create typed kubernetes clientset for spoke reconciler'' e), [])
      | None \<Rightarrow> register_all setup (chosen_controllers env has_bridge) [])"

section \<open>main\<close>

definition getenv :: "environ \<Rightarrow> string \<Rightarrow> string \<Rightarrow> string" where
  "getenv env key def = (if env key \<noteq> '''' then env key else def)"

definition kafka_config :: "environ \<Rightarrow> KafkaConfig" where
  "kafka_config env =
     \<lparr>kcBrokers = split_at CHR '','' (env ''KAFKA_BROKERS''),
      kcIngestTopic = getenv env ''KAFKA_INGEST_TOPIC'' ''gitops.chg.events'',
      kcEmitTopic = getenv env ''KAFKA_EMIT_TOPIC'' ''gitops.change.validation'',
      kcSecurityProtocol = env ''KAFKA_SECURITY_PROTOCOL'',
      kcCAFilePath = env ''KAFKA_CA_FILE'', kcClientCertPath = env ''KAFKA_CLIENT_CERT_FILE'',
      kcClientKeyPath = env ''KAFKA_CLIENT_KEY_FILE'', kcServerCN = env ''KAFKA_SERVER_CN''\<rparr>"

text \<open>The answers of the manager's calls: its creation, \<open>Add\<close> of the bridge, the clientset, the
  set-up of a controller, the two probes and \<open>Start\<close>.\<close>

record 'cert main_calls =
  mcNewManager :: "go_error option"
  mcFiles :: "'cert tls_files"
  mcConnect :: "string \<Rightarrow> 'cert tls_config option \<Rightarrow> kafka_writer"
  mcAdd :: "go_error option"
  mcClientset :: "go_error option"
  mcSetup :: "controller \<Rightarrow> go_error option"
  mcHealthz :: "go_error option"
  mcReadyz :: "go_error option"
  mcStart :: "go_error option"

record 'cert main_out =
  moExit :: nat
  moBridge :: "'cert KafkaBridge option"
  moControllers :: "controller list"
  moStarted :: bool

definition main_exit :: "'cert KafkaBridge option \<Rightarrow> controller list \<Rightarrow> 'cert main_out" where
  "main_exit b cs = \<lparr>moExit = 1, moBridge = b, moControllers = cs, moStarted = False\<rparr>"

text \<open>Whether the bridge is set up: \<open>None\<close> ends the process.\<close>

definition main_bridge :: "environ \<Rightarrow> 'cert main_calls \<Rightarrow> 'cert KafkaBridge option option" where
  "main_bridge env m =
     (if env ''KAFKA_BROKERS'' \<noteq> '''' then
        (case NewKafkaBridge (mcFiles m) (mcConnect m) env (kafka_config env)
                (getenv env ''OPERATOR_NAMESPACE'' ''gitops-fleet'') of
           Inl e \<Rightarrow> Some None
         | Inr bridge \<Rightarrow> if mcAdd m \<noteq> None then None else Some (Some bridge))
      else Some None)"

definition main_run :: "environ \<Rightarrow> 'cert main_calls \<Rightarrow> 'cert main_out" where
  "main_run env m =
     (if mcNewManager m \<noteq> None then main_exit None []
      else case main_bridge env m of
        None \<Rightarrow> main_exit None []
      | Some bridge \<Rightarrow>
          (case SetupAllControllers env (mcClientset m) (mcSetup m) (bridge \<noteq> None) of
             (Some e, cs) \<Rightarrow> main_exit bridge cs
           | (None, cs) \<Rightarrow>
               if mcHealthz m \<noteq> None \<or> mcReadyz m \<noteq> None then main_exit bridge cs
               else \<lparr>moExit = (if mcStart m = None then 0 else 1), moBridge = bridge,
                     moControllers = cs, moStarted = True\<rparr>))"

section \<open>Properties\<close>

lemma register_all_ok:
  "register_all setup cs d = (None, r) \<Longrightarrow> r = d @ cs"
  by (induction cs arbitrary: d) (fastforce split: option.splits)+

text \<open>A started process runs either the local watch alone (when \<open>CLUSTER_NAME\<close> is set) or the two
  fleet controllers, never the controller of change windows on a named cluster; but its Kafka
  consumer, on a cluster that an event targets, still creates windows there, which no
  controller of the process will ever reconcile.\<close>

theorem named_cluster_has_no_window_controller:
  assumes "moStarted (main_run env m)"
  shows "(if env ''CLUSTER_NAME'' = ''''
          then \<exists>b. moControllers (main_run env m) = [PropagationStatusReconciler, ChangeWindowReconciler b]
          else moControllers (main_run env m) = [LocalAppWatchReconciler (env ''CLUSTER_NAME'')])
    \<and> (\<forall>b unmarshal msg p. moBridge (main_run env m) = Some b \<longrightarrow> unmarshal msg = Some p \<longrightarrow>
        ipCHGNumber p \<noteq> '''' \<longrightarrow> env ''CLUSTER_NAME'' \<in> set (ipTargetClusters p) \<longrightarrow>
        message_decision unmarshal (kbClusterName b) (kbNamespace b) msg
          = Some (window_of (kbNamespace b) p))"
proof -
  obtain bridge cs where bc: "main_bridge env m = Some bridge"
    "SetupAllControllers env (mcClientset m) (mcSetup m) (bridge \<noteq> None) = (None, cs)"
    "moControllers (main_run env m) = cs" "moBridge (main_run env m) = bridge"
    using assms by (auto simp: main_run_def main_exit_def split: if_splits option.splits prod.splits)
  then have cs: "cs = chosen_controllers env (bridge \<noteq> None)"
    by (auto simp: SetupAllControllers_def split: option.splits if_splits dest: register_all_ok)
  have name: "kbClusterName b = env ''CLUSTER_NAME''" if "bridge = Some b" for b
    using bc(1) that
    by (auto simp: main_bridge_def NewKafkaBridge_def split: if_splits sum.splits)
  show ?thesis
    using cs name
    by (auto simp: bc(3,4) chosen_controllers_def message_decision_def isClusterTargeted_def
        list_ex_iff split: option.split)
qed

definition sample_calls :: "string main_calls" where
  "sample_calls =
     \<lparr>mcNewManager = None,
      mcFiles = \<lparr>tfReadFile = (\<lambda>f. Inl NotFound), tfAppendCerts = (\<lambda>c. False),
        tfLoadKeyPair = (\<lambda>c k. Inl NotFound)\<rparr>,
      mcConnect = (\<lambda>t tls k v. None), mcAdd = None, mcClientset = None, mcSetup = (\<lambda>c. None),
      mcHealthz = None, mcReadyz = None, mcStart = None\<rparr>"

definition sample_environ :: environ where
  "sample_environ v =
     (if v = ''CLUSTER_NAME'' then ''c1'' else if v = ''KAFKA_BROKERS'' then ''k:9092'' else '''')"

lemma named_cluster_has_no_window_controller_witness:
  "moControllers (main_run sample_environ sample_calls) = [LocalAppWatchReconciler ''c1'']"
proof -
  have "moStarted (main_run sample_environ sample_calls)" "sample_environ ''CLUSTER_NAME'' = ''c1''"
    by code_simp+
  with named_cluster_has_no_window_controller [of sample_environ sample_calls] show ?thesis by simp
qed

text \<open>The process keeps running without Kafka when the bridge cannot be built, and ends with a
  failure when the manager, the registration of a built bridge, a controller or a probe fails;
  the broker list is the variable cut at its commas.\<close>

theorem main_run_exit:
  "(moStarted (main_run env m) \<longleftrightarrow>
      mcNewManager m = None \<and> main_bridge env m \<noteq> None
      \<and> (env ''CLUSTER_NAME'' \<noteq> '''' \<longrightarrow> mcClientset m = None)
      \<and> list_all (\<lambda>c. mcSetup m c = None)
          (chosen_controllers env (main_bridge env m \<noteq> Some None))
      \<and> mcHealthz m = None \<and> mcReadyz m = None)
   \<and> (\<not> moStarted (main_run env m) \<longrightarrow> moExit (main_run env m) = 1)
   \<and> join '','' (kcBrokers (kafka_config env)) = env ''KAFKA_BROKERS''"
proof -
  have reg: "fst (register_all s cs d) = None \<longleftrightarrow> list_all (\<lambda>c. s c = None) cs" for s cs d
    by (induction cs arbitrary: d) (auto split: option.split)
  have all_ok: "fst (SetupAllControllers env k s b) = None \<longleftrightarrow>
      (env ''CLUSTER_NAME'' \<noteq> '''' \<longrightarrow> k = None) \<and> list_all (\<lambda>c. s c = None) (chosen_controllers env b)" for k s b
    by (auto simp: SetupAllControllers_def reg split: option.split)
  have "join '','' (kcBrokers (kafka_config env)) = env ''KAFKA_BROKERS''"
    using join_split_at by (simp add: kafka_config_def)
  moreover have "moStarted (main_run env m) \<longleftrightarrow> mcNewManager m = None \<and> main_bridge env m \<noteq> None
      \<and> fst (SetupAllControllers env (mcClientset m) (mcSetup m) (main_bridge env m \<noteq> Some None)) = None
      \<and> mcHealthz m = None \<and> mcReadyz m = None"
    by (auto simp: main_run_def main_exit_def split: option.splits prod.splits)
  moreover have "\<not> moStarted (main_run env m) \<Longrightarrow> moExit (main_run env m) = 1"
    by (auto simp: main_run_def main_exit_def split: option.splits prod.splits if_splits)
  ultimately show ?thesis by (simp add: all_ok)
qed

lemma main_run_exit_witness:
  "moExit (main_run sample_environ (sample_calls\<lparr>mcAdd := Some NotFound\<rparr>)) = 1"
proof -
  have "\<not> moStarted (main_run sample_environ (sample_calls\<lparr>mcAdd := Some NotFound\<rparr>))" by code_simp
  with main_run_exit [of sample_environ "sample_calls\<lparr>mcAdd := Some NotFound\<rparr>"] show ?thesis by blast
qed

end
