(* ===== verification/Wiring.thy ===== *)
theory Wiring
  imports Setup PropagationProps WindowReconcile LocalWatch
begin

text \<open>
  \<open>SetupWithManager\<close> of the three controllers: the field indexes they register with the manager,
  what they watch, and the map functions from a changed object to the objects to reconcile. The
  manager is controller-runtime's; here it is the record of what was registered, and its answers
  are parameters. What its cached client does with a field selector is documented: the selector
  needs an index of that kind and field, and without one the call fails. \<open>serves\<close> states this
  of a list call.
\<close>

section \<open>Registration\<close>

datatype api_kind = KindConfigMap | KindClusterAppReport | KindPropagationStatus | KindChangeWindow

text \<open>A watch of another kind names the function that maps its objects to requests.\<close>

datatype watch_handler = MapClusterAppReportToPropagationStatus | MapPropagationStatusToChangeWindow

record registration =
  rgFor :: api_kind
  rgFiltered :: bool
  rgMaxConcurrentReconciles :: nat
  rgWatches :: "(api_kind \<times> watch_handler) list"

record manager =
  mgIndexes :: "(api_kind \<times> string) list"
  mgControllers :: "registration list"

record manager_calls =
  mgIndexField :: "api_kind \<Rightarrow> string \<Rightarrow> go_error option"
  mgComplete :: "registration \<Rightarrow> go_error option"

definition index_field ::
  "manager_calls \<Rightarrow> api_kind \<Rightarrow> string \<Rightarrow> manager \<Rightarrow> go_error option \<times> manager" where
  "index_field m k fld mg =
     (case mgIndexField m k fld of
        Some e \<Rightarrow> (Some (WrapErr (''indexing '' @ fld) e), mg)
      | None \<Rightarrow> (None, mg\<lparr>mgIndexes := mgIndexes mg @ [(k, fld)]\<rparr>))"

definition complete :: "manager_calls \<Rightarrow> registration \<Rightarrow> manager \<Rightarrow> go_error option \<times> manager" where
  "complete m r mg =
     (case mgComplete m r of
        Some e \<Rightarrow> (Some e, mg)
      | None \<Rightarrow> (None, mg\<lparr>mgControllers := mgControllers mg @ [r]\<rparr>))"

definition setup_propagation :: "manager_calls \<Rightarrow> manager \<Rightarrow> go_error option \<times> manager" where
  "setup_propagation m mg =
     (case index_field m KindClusterAppReport ''spec.appName'' mg of
        (Some e, mg') \<Rightarrow> (Some e, mg')
      | (None, mg') \<Rightarrow>
          complete m \<lparr>rgFor = KindPropagationStatus, rgFiltered = False,
            rgMaxConcurrentReconciles = 5,
            rgWatches = [(KindClusterAppReport, MapClusterAppReportToPropagationStatus)]\<rparr> mg')"

definition impactedApps_index :: "ChangeWindow \<Rightarrow> string list" where
  "impactedApps_index chg = cwImpactedApps (chgSpec chg)"

definition setup_window :: "manager_calls \<Rightarrow> manager \<Rightarrow> go_error option \<times> manager" where
  "setup_window m mg =
     (case index_field m KindChangeWindow ''spec.impactedApps'' mg of
        (Some e, mg') \<Rightarrow> (Some e, mg')
      | (None, mg') \<Rightarrow>
          complete m \<lparr>rgFor = KindChangeWindow, rgFiltered = False,
            rgMaxConcurrentReconciles = 5,
            rgWatches = [(KindPropagationStatus, MapPropagationStatusToChangeWindow)]\<rparr> mg')"

definition setup_local :: "manager_calls \<Rightarrow> manager \<Rightarrow> go_error option \<times> manager" where
  "setup_local m mg =
     complete m \<lparr>rgFor = KindConfigMap, rgFiltered = True, rgMaxConcurrentReconciles = 5,
       rgWatches = []\<rparr> mg"

text \<open>The method of the \<open>Controller\<close> interface.\<close>

fun SetupWithManager :: "manager_calls \<Rightarrow> controller \<Rightarrow> manager \<Rightarrow> go_error option \<times> manager" where
  "SetupWithManager m (LocalAppWatchReconciler c) mg = setup_local m mg"
| "SetupWithManager m PropagationStatusReconciler mg = setup_propagation m mg"
| "SetupWithManager m (ChangeWindowReconciler b) mg = setup_window m mg"

definition new_manager :: manager where
  "new_manager = \<lparr>mgIndexes = [], mgControllers = []\<rparr>"

text \<open>Whether a set-up fails does not depend on what is registered already.\<close>

definition setup_error :: "manager_calls \<Rightarrow> controller \<Rightarrow> go_error option" where
  "setup_error m c = fst (SetupWithManager m c new_manager)"

definition manager_of :: "manager_calls \<Rightarrow> controller list \<Rightarrow> manager" where
  "manager_of m cs = fold (\<lambda>c mg. snd (SetupWithManager m c mg)) cs new_manager"

lemma setup_error_any: "fst (SetupWithManager m c mg) = setup_error m c"
  unfolding setup_error_def
  by (cases c) (auto simp: setup_local_def setup_propagation_def setup_window_def index_field_def
      complete_def split: option.split)

section \<open>Lists by field\<close>

text \<open>A list call by namespace and field value, over the objects the server holds.\<close>

definition matching ::
  "('o \<Rightarrow> string list) \<Rightarrow> ('o \<Rightarrow> string) \<Rightarrow> 'o list \<Rightarrow> string \<Rightarrow> string \<Rightarrow> 'o set" where
  "matching idx nsOf objs ns v = {x \<in> set objs. nsOf x = ns \<and> v \<in> set (idx x)}"

definition serves ::
  "manager \<Rightarrow> api_kind \<Rightarrow> string \<Rightarrow> ('o \<Rightarrow> string list) \<Rightarrow> ('o \<Rightarrow> string) \<Rightarrow> 'o list \<Rightarrow>
    (string \<Rightarrow> string \<Rightarrow> nat \<Rightarrow> go_error + 'o list) \<Rightarrow> bool" where
  "serves mg k fld idx nsOf objs lst \<longleftrightarrow>
     (\<forall>ns v n. case lst ns v n of
        Inl e \<Rightarrow> (k, fld) \<notin> set (mgIndexes mg)
      | Inr xs \<Rightarrow> (k, fld) \<in> set (mgIndexes mg) \<and> set xs \<subseteq> matching idx nsOf objs ns v
          \<and> (card (matching idx nsOf objs ns v) \<le> n \<longrightarrow> set xs = matching idx nsOf objs ns v))"

lemma serves_unindexed:
  assumes "serves mg k fld idx nsOf objs lst" "(k, fld) \<notin> set (mgIndexes mg)"
  shows "\<exists>e. lst ns v n = Inl e"
  using assms(1) [unfolded serves_def, rule_format, of ns v n] assms(2) by (cases "lst ns v n") auto

lemma serves_indexed:
  assumes "serves mg k fld idx nsOf objs lst" "(k, fld) \<in> set (mgIndexes mg)"
  obtains xs where "lst ns v n = Inr xs" "set xs \<subseteq> matching idx nsOf objs ns v"
    "card (matching idx nsOf objs ns v) \<le> n \<Longrightarrow> set xs = matching idx nsOf objs ns v"
  using assms(1) [unfolded serves_def, rule_format, of ns v n] assms(2) that by (cases "lst ns v n") auto

section \<open>Who wakes whom\<close>

lemma register_all_set_up:
  assumes "register_all setup cs done' = (None, ds)"
  shows "ds = done' @ cs \<and> (\<forall>c\<in>set cs. setup c = None)"
  using assms
proof (induction cs arbitrary: done')
  case (Cons c cs)
  then have c: "setup c = None" "register_all setup cs (done' @ [c]) = (None, ds)"
    by (auto split: option.splits)
  from Cons.IH [OF c(2)] c(1) show ?case by simp
qed simp

text \<open>What a successful set-up adds.\<close>

lemma setup_adds:
  "setup_error m (LocalAppWatchReconciler c) = None \<Longrightarrow>
     snd (SetupWithManager m (LocalAppWatchReconciler c) mg) =
       mg\<lparr>mgControllers := mgControllers mg @ [\<lparr>rgFor = KindConfigMap, rgFiltered = True,
         rgMaxConcurrentReconciles = 5, rgWatches = []\<rparr>]\<rparr>"
  "setup_error m PropagationStatusReconciler = None \<Longrightarrow>
     snd (SetupWithManager m PropagationStatusReconciler mg) =
       mg\<lparr>mgIndexes := mgIndexes mg @ [(KindClusterAppReport, ''spec.appName'')],
         mgControllers := mgControllers mg @ [\<lparr>rgFor = KindPropagationStatus, rgFiltered = False,
         rgMaxConcurrentReconciles = 5,
         rgWatches = [(KindClusterAppReport, MapClusterAppReportToPropagationStatus)]\<rparr>]\<rparr>"
  "setup_error m (ChangeWindowReconciler b) = None \<Longrightarrow>
     snd (SetupWithManager m (ChangeWindowReconciler b) mg) =
       mg\<lparr>mgIndexes := mgIndexes mg @ [(KindChangeWindow, ''spec.impactedApps'')],
         mgControllers := mgControllers mg @ [\<lparr>rgFor = KindChangeWindow, rgFiltered = False,
         rgMaxConcurrentReconciles = 5,
         rgWatches = [(KindPropagationStatus, MapPropagationStatusToChangeWindow)]\<rparr>]\<rparr>"
  by (auto simp: setup_error_def setup_local_def setup_propagation_def setup_window_def
      index_field_def complete_def split: option.splits)

lemma manager_indexes:
  assumes "SetupAllControllers env cl (setup_error m) b = (None, cs)"
  shows "mgIndexes (manager_of m cs) =
      (if env ''CLUSTER_NAME'' \<noteq> '''' then []
       else [(KindClusterAppReport, ''spec.appName''), (KindChangeWindow, ''spec.impactedApps'')])"
    "map rgFor (mgControllers (manager_of m cs)) =
      (if env ''CLUSTER_NAME'' \<noteq> '''' then [KindConfigMap] else [KindPropagationStatus, KindChangeWindow])"
proof -
  have cs: "cs = chosen_controllers env b" and ok: "\<forall>c\<in>set cs. setup_error m c = None"
    using assms register_all_set_up [of "setup_error m" "chosen_controllers env b" "[]" cs]
    by (auto simp: SetupAllControllers_def split: option.splits)
  show "mgIndexes (manager_of m cs) =
      (if env ''CLUSTER_NAME'' \<noteq> '''' then []
       else [(KindClusterAppReport, ''spec.appName''), (KindChangeWindow, ''spec.impactedApps'')])"
    "map rgFor (mgControllers (manager_of m cs)) =
      (if env ''CLUSTER_NAME'' \<noteq> '''' then [KindConfigMap] else [KindPropagationStatus, KindChangeWindow])"
    using ok unfolding cs
    by (simp_all add: chosen_controllers_def manager_of_def setup_adds new_manager_def
        del: SetupWithManager.simps)
qed

text \<open>C33: What a fleet process (no \<open>CLUSTER_NAME\<close>) really wakes up, given the indexes that its set-up
  registers: a changed status wakes exactly the windows of its namespace that list its
  application (up to a hundred), and the aggregation can list the reports of its application;
  but no index exists for statuses, so a changed report wakes no aggregation at all, and a
  window finds a status only under the application's own name, never by its \<open>appName\<close>.\<close>

theorem wakeups_correct:
  assumes "SetupAllControllers env cl (setup_error m) b = (None, cs)" "env ''CLUSTER_NAME'' = ''''"
    and reps: "serves (manager_of m cs) KindClusterAppReport ''spec.appName'' appName_index carNamespace
      reports lstReports"
    and stats: "serves (manager_of m cs) KindPropagationStatus ''spec.appName''
      (\<lambda>ps. [psAppName (psSpec ps)]) psNamespace statuses lstStatuses"
    and wins: "serves (manager_of m cs) KindChangeWindow ''spec.impactedApps'' impactedApps_index
      chgNamespace windows lstWindows"
  shows "map rgFor (mgControllers (manager_of m cs)) = [KindPropagationStatus, KindChangeWindow]
    \<and> (psAppName (psSpec ps) \<noteq> ''''
        \<and> card (matching impactedApps_index chgNamespace windows (psNamespace ps) (psAppName (psSpec ps))) \<le> 100
        \<longrightarrow> set (mapPropagationStatusToChangeWindow lstWindows ps) =
              (\<lambda>w. (chgNamespace w, chgName w)) `
                {w \<in> set windows. chgNamespace w = psNamespace ps
                   \<and> psAppName (psSpec ps) \<in> set (cwImpactedApps (chgSpec w))})
    \<and> (peGet penv = Inr ps \<and> \<not> deleting ps \<and> peList penv = lstReports \<longrightarrow>
         (\<exists>rs. aggregates penv ps rs \<and> (\<forall>r\<in>set rs. r \<in> set reports
            \<and> carNamespace r = psNamespace ps \<and> rsAppName (carSpec r) = psAppName (psSpec ps))))
    \<and> mapClusterAppReportToPropagationStatus lstStatuses rep = []
    \<and> (weList wenv = lstStatuses \<longrightarrow>
         fetch_app wenv a chg =
           (case weGetPS wenv (chgNamespace chg) a of
              Inl e \<Rightarrow> if IsNotFound e then Inr chg
                else Inl (WrapErr (''failed to get PropagationStatus '' @ chgNamespace chg @ ''/'' @ a) e)
            | Inr ps' \<Rightarrow> Inr (store_app a ps' chg)))"
proof -
  let ?mg = "manager_of m cs"
  have idx: "mgIndexes ?mg = [(KindClusterAppReport, ''spec.appName''), (KindChangeWindow, ''spec.impactedApps'')]"
    and kinds: "map rgFor (mgControllers ?mg) = [KindPropagationStatus, KindChangeWindow]"
    using manager_indexes [OF assms(1)] assms(2) by simp_all
  have none: "\<exists>e. lstStatuses ns v n = Inl e" for ns v n
    using serves_unindexed [OF stats] by (simp add: idx)
  have wake: "set (mapPropagationStatusToChangeWindow lstWindows ps) =
      (\<lambda>w. (chgNamespace w, chgName w)) ` {w \<in> set windows. chgNamespace w = psNamespace ps
         \<and> psAppName (psSpec ps) \<in> set (cwImpactedApps (chgSpec w))}"
    if named: "psAppName (psSpec ps) \<noteq> ''''"
      and few: "card (matching impactedApps_index chgNamespace windows (psNamespace ps) (psAppName (psSpec ps))) \<le> 100"
  proof -
    obtain xs where "lstWindows (psNamespace ps) (psAppName (psSpec ps)) 100 = Inr xs"
      "set xs = matching impactedApps_index chgNamespace windows (psNamespace ps) (psAppName (psSpec ps))"
      using serves_indexed [OF wins] few by (simp add: idx) metis
    then show ?thesis
      using named by (simp add: mapPropagationStatusToChangeWindow_def matching_def impactedApps_index_def)
  qed
  have agg: "\<exists>rs. aggregates penv ps rs \<and> (\<forall>r\<in>set rs. r \<in> set reports
      \<and> carNamespace r = psNamespace ps \<and> rsAppName (carSpec r) = psAppName (psSpec ps))"
    if "peGet penv = Inr ps" "\<not> deleting ps" "peList penv = lstReports"
  proof -
    obtain rs where "lstReports (psNamespace ps) (psAppName (psSpec ps)) 100 = Inr rs"
      "set rs \<subseteq> matching appName_index carNamespace reports (psNamespace ps) (psAppName (psSpec ps))"
      using serves_indexed [OF reps] by (simp add: idx) metis
    then show ?thesis
      using that by (intro exI [of _ rs]) (auto simp: aggregates_def matching_def appName_index_def split: if_splits)
  qed
  obtain e where e: "lstStatuses (chgNamespace chg) a 100 = Inl e" using none by blast
  obtain e' where e': "lstStatuses (carNamespace rep) (rsAppName (carSpec rep)) 100 = Inl e'" using none by blast
  show ?thesis
    using kinds wake agg by (simp add: mapClusterAppReportToPropagationStatus_def fetch_app_def e e')
qed

text \<open>A server that answers list calls by the registered indexes.\<close>

definition index_list ::
  "manager \<Rightarrow> api_kind \<Rightarrow> string \<Rightarrow> ('o \<Rightarrow> string list) \<Rightarrow> ('o \<Rightarrow> string) \<Rightarrow> 'o list \<Rightarrow>
    string \<Rightarrow> string \<Rightarrow> nat \<Rightarrow> go_error + 'o list" where
  "index_list mg k fld idx nsOf objs ns v n =
     (if (k, fld) \<in> set (mgIndexes mg)
      then Inr (take n (remdups (filter (\<lambda>x. nsOf x = ns \<and> v \<in> set (idx x)) objs)))
      else Inl (OtherErr (''Index with name field:'' @ fld @ '' does not exist'')))"

lemma index_list_serves: "serves mg k fld idx nsOf objs (index_list mg k fld idx nsOf objs)"
proof -
  have "set (take n (remdups (filter (\<lambda>x. nsOf x = ns \<and> v \<in> set (idx x)) objs))) \<subseteq> matching idx nsOf objs ns v"
    for ns v n
    by (auto simp: matching_def dest: in_set_takeD)
  moreover have "take n (remdups (filter (\<lambda>x. nsOf x = ns \<and> v \<in> set (idx x)) objs)) =
      remdups (filter (\<lambda>x. nsOf x = ns \<and> v \<in> set (idx x)) objs)"
    if "card (matching idx nsOf objs ns v) \<le> n" for ns v n
    using that by (simp add: matching_def length_remdups_card_conv)
  ultimately show ?thesis
    by (auto simp: serves_def index_list_def matching_def)
qed

lemma wakeups_correct_witness:
  "set (mapPropagationStatusToChangeWindow
      (index_list (manager_of \<lparr>mgIndexField = (\<lambda>k fld. None), mgComplete = (\<lambda>r. None)\<rparr>
         [PropagationStatusReconciler, ChangeWindowReconciler False])
         KindChangeWindow ''spec.impactedApps'' impactedApps_index chgNamespace [good_window])
      (sample_ps [''c1''])) = {(''ns'', ''w'')}"
proof -
  let ?m = "\<lparr>mgIndexField = (\<lambda>k fld. None), mgComplete = (\<lambda>r. None)\<rparr>"
  let ?cs = "[PropagationStatusReconciler, ChangeWindowReconciler False]"
  let ?mg = "manager_of ?m ?cs"
  have started: "SetupAllControllers (\<lambda>v. '''') None (setup_error ?m) False = (None, ?cs)"
    by (simp add: SetupAllControllers_def chosen_controllers_def setup_error_def setup_propagation_def
        setup_window_def index_field_def complete_def)
  have "card (matching impactedApps_index chgNamespace [good_window] ''ns'' ''a'') \<le> card {good_window}"
    by (intro card_mono) (auto simp: matching_def)
  then have "card (matching impactedApps_index chgNamespace [good_window] ''ns'' ''a'') \<le> 100" by simp
  moreover have "{x \<in> set [good_window]. chgNamespace x = ''ns'' \<and> ''a'' \<in> set (cwImpactedApps (chgSpec x))} =
      {good_window}"
    by (auto simp: good_window_def sample_window_def sample_spec_def)
  ultimately show ?thesis
    using wakeups_correct [OF started _ index_list_serves [of ?mg _ _ _ _ "[]"]
        index_list_serves [of ?mg _ _ _ _ "[]"] index_list_serves [of ?mg _ _ _ _ "[good_window]"],
        of "sample_ps [''c1'']"]
    by (simp add: sample_ps_def) (simp add: good_window_def sample_window_def)
qed

end
