(* ===== verification/GoHeap.thy ===== *)
theory GoHeap
  imports Prelude
begin

text \<open>
  Go values with references. Elsewhere in the development a struct is a value and a copy of it
  is the value; this theory has what that rests on: a store of cells, types that say where a
  struct holds slices, maps and pointers, and what it means that a copy function returns an
  equal value and which cells the copy still shares with the original. A cell is a backing
  array, a map or the target of a pointer. Cells are only added, so a later store extends an
  earlier one.
\<close>

section \<open>Values, types and stores\<close>

datatype gv = Scalar string | Struct "(string \<times> gv) list" | NilRef | Ref nat

type_synonym cell = "(string \<times> gv) list"
type_synonym store = "cell list"
type_synonym copier = "gv \<Rightarrow> store \<Rightarrow> gv \<times> store"

datatype ref_kind = Slice | Map | Pointer

text \<open>A type without references inside is \<open>Basic\<close>: strings, numbers, booleans and times.\<close>

datatype gtype = Basic | StructOf "(string \<times> gtype) list" | RefTo ref_kind gtype

text \<open>Entries of a slice and the target of a pointer have fixed keys.\<close>

fun shaped :: "ref_kind \<Rightarrow> cell \<Rightarrow> bool" where
  "shaped Slice c = list_all (\<lambda>e. fst e = ''[]'') c"
| "shaped Map c = distinct (map fst c)"
| "shaped Pointer c = (map fst c = [''*''])"

definition field :: "gv \<Rightarrow> string \<Rightarrow> gv" where
  "field v n = (case v of Struct fs \<Rightarrow> (case map_of fs n of Some w \<Rightarrow> w | None \<Rightarrow> NilRef) | _ \<Rightarrow> NilRef)"

definition set_field :: "string \<Rightarrow> gv \<Rightarrow> gv \<Rightarrow> gv" where
  "set_field n w v =
     (case v of Struct fs \<Rightarrow> Struct (map (\<lambda>e. if fst e = n then (n, w) else e) fs) | _ \<Rightarrow> v)"

definition load :: "store \<Rightarrow> nat \<Rightarrow> cell" where
  "load s a = (if a < length s then s ! a else [])"

definition deref :: "store \<Rightarrow> gv \<Rightarrow> gv" where
  "deref s r = (case r of Ref a \<Rightarrow> (case load s a of e # _ \<Rightarrow> snd e | [] \<Rightarrow> NilRef) | _ \<Rightarrow> NilRef)"

fun conf :: "store \<Rightarrow> gtype \<Rightarrow> gv \<Rightarrow> bool" where
  "conf s Basic v = (case v of Scalar x \<Rightarrow> True | _ \<Rightarrow> False)"
| "conf s (StructOf fs) v =
     (case v of Struct vs \<Rightarrow> map fst vs = map fst fs \<and> (\<forall>x\<in>set fs. conf s (snd x) (field v (fst x)))
      | _ \<Rightarrow> False)"
| "conf s (RefTo k T) v =
     (case v of NilRef \<Rightarrow> True
      | Ref a \<Rightarrow> a < length s \<and> shaped k (load s a) \<and> (\<forall>e\<in>set (load s a). conf s T (snd e))
      | _ \<Rightarrow> False)"

text \<open>What a value denotes, and the cells it is made of with the field path to each.\<close>

datatype tree = Leaf string | Absent | Node "(string \<times> tree) list"

fun reify :: "store \<Rightarrow> gtype \<Rightarrow> gv \<Rightarrow> tree" where
  "reify s Basic v = (case v of Scalar x \<Rightarrow> Leaf x | _ \<Rightarrow> Absent)"
| "reify s (StructOf fs) v = Node (map (\<lambda>x. (fst x, reify s (snd x) (field v (fst x)))) fs)"
| "reify s (RefTo k T) v =
     (case v of Ref a \<Rightarrow> Node (map (\<lambda>e. (fst e, reify s T (snd e))) (load s a)) | _ \<Rightarrow> Absent)"

fun refs :: "store \<Rightarrow> gtype \<Rightarrow> gv \<Rightarrow> (string list \<times> nat) list" where
  "refs s Basic v = []"
| "refs s (StructOf fs) v =
     concat (map (\<lambda>x. map (\<lambda>r. (fst x # fst r, snd r)) (refs s (snd x) (field v (fst x)))) fs)"
| "refs s (RefTo k T) v =
     (case v of
        Ref a \<Rightarrow> ([], a) # concat (map (\<lambda>e. map (\<lambda>r. (''[]'' # fst r, snd r)) (refs s T (snd e))) (load s a))
      | _ \<Rightarrow> [])"

fun ref_free :: "gtype \<Rightarrow> bool" where
  "ref_free Basic = True"
| "ref_free (StructOf fs) = (\<forall>x\<in>set fs. ref_free (snd x))"
| "ref_free (RefTo k T) = False"

lemma load_append [simp]: "a < length s \<Longrightarrow> load (s @ t) a = load s a"
  by (simp add: load_def nth_append)

lemma load_new [simp]: "load (s @ [c]) (length s) = c"
  by (simp add: load_def)

lemma refs_ref_free [simp]: "ref_free T \<Longrightarrow> refs s T v = []"
  by (induction T arbitrary: v) (auto simp: concat_eq_Nil_conv)

lemma conf_append:
  "conf s T v \<Longrightarrow> conf (s @ t) T v \<and> reify (s @ t) T v = reify s T v \<and> refs (s @ t) T v = refs s T v"
proof (induction T arbitrary: v)
  case (StructOf fs)
  then show ?case
    by (auto split: gv.splits intro!: arg_cong [where f = concat] map_cong simp: snds.simps)
next
  case (RefTo k T)
  then show ?case
    by (auto split: gv.splits intro!: arg_cong [where f = concat] map_cong)
qed (auto split: gv.splits)

lemma refs_allocated: "conf s T v \<Longrightarrow> (p, a) \<in> set (refs s T v) \<Longrightarrow> a < length s"
proof (induction T arbitrary: v p)
  case (StructOf fs)
  then show ?case by (fastforce split: gv.splits simp: snds.simps)
next
  case (RefTo k T)
  then show ?case by (fastforce split: gv.splits)
qed simp

section \<open>Copy functions\<close>

text \<open>The shapes in which the generated functions copy: an assignment, a copy of every entry of a
  cell into a new cell after the check for nil (\<open>make\<close> and a loop, or \<open>copy\<close>), and a struct that
  is assigned as a whole before some fields are copied again. The order in which the cells are
  allocated cannot be observed.\<close>

definition plain :: copier where
  "plain v s = (v, s)"

fun copy_entries :: "copier \<Rightarrow> cell \<Rightarrow> store \<Rightarrow> cell \<times> store" where
  "copy_entries f [] s = ([], s)"
| "copy_entries f (e # es) s =
     (let (w, s1) = f (snd e) s; (es', s2) = copy_entries f es s1 in ((fst e, w) # es', s2))"

definition make_copy :: "copier \<Rightarrow> copier" where
  "make_copy f v s =
     (case v of
        Ref a \<Rightarrow> (let (es, s') = copy_entries f (load s a) s in (Ref (length s'), s' @ [es]))
      | _ \<Rightarrow> (v, s))"

definition struct_copy :: "(string \<times> copier) list \<Rightarrow> copier" where
  "struct_copy acts v s =
     fold (\<lambda>act (out, s). let (w, s') = snd act (field v (fst act)) s in (set_field (fst act) w out, s'))
       acts (v, s)"

text \<open>\<open>DeepCopy\<close> of a pointer, nil included; and \<open>*val.DeepCopy()\<close> of a variable.\<close>

definition new_copy :: "copier \<Rightarrow> copier" where
  "new_copy into v s = (let (w, s') = into v s in (Ref (length s'), s' @ [[(''*'', w)]]))"

definition DeepCopy :: "copier \<Rightarrow> copier" where
  "DeepCopy into r s = (case r of Ref a \<Rightarrow> new_copy into (deref s r) s | _ \<Rightarrow> (NilRef, s))"

definition deref_copy :: "copier \<Rightarrow> copier" where
  "deref_copy into v s = (let (r, s') = new_copy into v s in (deref s' r, s'))"

section \<open>What a copy shares\<close>

text \<open>The paths of a list of prefixes stay shared, every other cell of the copy is new.\<close>

definition leaky :: "string list list \<Rightarrow> string list \<Rightarrow> bool" where
  "leaky L p = list_ex (\<lambda>l. prefix l p) L"

definition copied ::
  "store \<Rightarrow> gtype \<Rightarrow> string list list \<Rightarrow> gv \<Rightarrow> store \<Rightarrow> gv \<Rightarrow> bool" where
  "copied s T L v s' v' \<longleftrightarrow> conf s' T v' \<and> reify s' T v' = reify s T v
     \<and> (\<forall>p a. leaky L p \<longrightarrow> ((p, a) \<in> set (refs s' T v') \<longleftrightarrow> (p, a) \<in> set (refs s T v)))
     \<and> (\<forall>p a. (p, a) \<in> set (refs s' T v') \<and> \<not> leaky L p \<longrightarrow> length s \<le> a)"

definition copies :: "gtype \<Rightarrow> string list list \<Rightarrow> copier \<Rightarrow> bool" where
  "copies T L f \<longleftrightarrow> (\<forall>v s. conf s T v \<longrightarrow>
     prefix s (snd (f v s)) \<and> copied s T L v (snd (f v s)) (fst (f v s)))"

lemma leaky_simps [simp]:
  "\<not> leaky [] p" "leaky ([] # L) p" "leaky (l # L) p \<longleftrightarrow> prefix l p \<or> leaky L p"
  "leaky (L @ L') p \<longleftrightarrow> leaky L p \<or> leaky L' p"
  by (simp_all add: leaky_def)

lemma leaky_map_Cons [simp]: "leaky (map ((#) x) L) p \<longleftrightarrow> (\<exists>q. p = x # q \<and> leaky L q)"
  by (cases p) (auto simp: leaky_def list_ex_iff)

lemma copiesD:
  assumes "copies T L f" "conf s T v" "f v s = (v', s')"
  shows "prefix s s'" "copied s T L v s' v'"
  using assms by (auto simp: copies_def dest!: spec [of _ v] spec [of _ s])

lemma copiesI:
  assumes "\<And>v s v' s'. conf s T v \<Longrightarrow> f v s = (v', s') \<Longrightarrow> prefix s s' \<and> copied s T L v s' v'"
  shows "copies T L f"
  unfolding copies_def using assms by (metis prod.collapse)

text \<open>A copy stays one when the store grows, before or after it.\<close>

lemma copied_later:
  assumes "copied s T L v s1 v'" "prefix s1 s2"
  shows "copied s T L v s2 v'"
  using assms conf_append [of s1 T v'] by (auto simp: copied_def prefix_def)

lemma copied_earlier:
  assumes "copied s1 T L v s2 v'" "prefix s s1" "conf s T v"
  shows "copied s T L v s2 v'"
proof -
  obtain t where s1: "s1 = s @ t" using assms(2) by (auto simp: prefix_def)
  show ?thesis
    using assms(1) conf_append [OF assms(3), of t] unfolding copied_def s1
    by (metis (no_types, lifting) add_leD1 length_append)
qed

lemma conf_later: "conf s T v \<Longrightarrow> prefix s s' \<Longrightarrow> conf s' T v"
  using conf_append by (auto simp: prefix_def)

lemma copied_refl: "conf s T v \<Longrightarrow> copied s T [[]] v s v"
  by (simp add: copied_def)

lemma copies_plain: "copies T [[]] plain"
  by (auto simp: copies_def plain_def copied_refl)

lemma copies_plain_free [simp]: "ref_free T \<Longrightarrow> copies T [] plain"
  by (auto simp: copies_def plain_def copied_def)

lemma copy_entries_copied:
  assumes "copies T L f" "\<forall>e\<in>set es. conf s T (snd e)" "copy_entries f es s = (es', s')"
  shows "prefix s s' \<and> list_all2 (\<lambda>e e'. fst e' = fst e \<and> copied s T L (snd e) s' (snd e')) es es'"
  using assms(2,3)
proof (induction es arbitrary: s es')
  case (Cons e es)
  obtain w s1 where w: "f (snd e) s = (w, s1)" by force
  obtain es1 s2 where es1: "copy_entries f es s1 = (es1, s2)" by force
  have out: "es' = (fst e, w) # es1" "s' = s2" using Cons.prems(2) by (simp_all add: w es1)
  have head: "prefix s s1" "copied s T L (snd e) s1 w"
    using copiesD [OF assms(1) _ w] Cons.prems(1) by simp_all
  have conf: "\<forall>e\<in>set es. conf s1 T (snd e)"
    using Cons.prems(1) head(1) by (auto intro: conf_later)
  have tail: "prefix s1 s2 \<and> list_all2 (\<lambda>e e'. fst e' = fst e \<and> copied s1 T L (snd e) s2 (snd e')) es es1"
    using Cons.IH [OF conf] es1 out(2) by simp
  then have "list_all2 (\<lambda>e e'. fst e' = fst e \<and> copied s T L (snd e) s2 (snd e')) es es1"
    using Cons.prems(1) head(1)
    by (auto elim!: list.rel_mono_strong intro: copied_earlier)
  then show ?case
    using tail head out by (auto intro: prefix_order.trans copied_later)
qed simp

section \<open>Rules for the shapes\<close>

lemma shaped_keys: "map fst es' = map fst es \<Longrightarrow> shaped k es \<Longrightarrow> shaped k es'"
proof -
  have "list_all (\<lambda>e. fst e = ''[]'') xs \<longleftrightarrow> list_all (\<lambda>x. x = ''[]'') (map fst xs)" for xs :: cell
    by (simp add: list_all_iff)
  then show "map fst es' = map fst es \<Longrightarrow> shaped k es \<Longrightarrow> shaped k es'" by (cases k) simp_all
qed

lemma copied_entries:
  assumes "list_all2 (\<lambda>e e'. fst e' = fst e \<and> copied s T L (snd e) s' (snd e')) es es'"
  shows "map fst es' = map fst es"
    "map (\<lambda>e. (fst e, reify s' T (snd e))) es' = map (\<lambda>e. (fst e, reify s T (snd e))) es"
    "\<forall>e'\<in>set es'. conf s' T (snd e')"
    "\<forall>p b. leaky L p \<longrightarrow> (\<exists>e'\<in>set es'. (p, b) \<in> set (refs s' T (snd e'))) =
      (\<exists>e\<in>set es. (p, b) \<in> set (refs s T (snd e)))"
    "\<forall>p b. \<not> leaky L p \<longrightarrow> (\<exists>e'\<in>set es'. (p, b) \<in> set (refs s' T (snd e'))) \<longrightarrow> length s \<le> b"
  using assms by (induction rule: list_all2_induct) (auto simp: copied_def)

lemma copied_cell:
  assumes es: "list_all2 (\<lambda>e e'. fst e' = fst e \<and> copied s T L (snd e) s1 (snd e')) (load s a) es"
    and shape: "shaped k (load s a)" and grow: "prefix s s1"
  shows "copied s (RefTo k T) (map ((#) ''[]'') L) (Ref a) (s1 @ [es]) (Ref (length s1))"
proof -
  have "list_all2 (\<lambda>e e'. fst e' = fst e \<and> copied s T L (snd e) (s1 @ [es]) (snd e')) (load s a) es"
    by (rule list.rel_mono_strong [OF es]) (auto intro: copied_later)
  note entries = copied_entries [OF this]
  have elem: "(''[]'' # p, b) \<in> set (refs s' (RefTo k T) (Ref c)) \<longleftrightarrow>
      (\<exists>e\<in>set (load s' c). (p, b) \<in> set (refs s' T (snd e)))" for s' c p b
    by force
  have path: "p = [] \<and> b = c \<or> (\<exists>q. p = ''[]'' # q)" if "(p, b) \<in> set (refs s' (RefTo k T) (Ref c))" for s' c p b
    using that by auto
  have "length s \<le> b" if "(p, b) \<in> set (refs (s1 @ [es]) (RefTo k T) (Ref (length s1)))"
    "\<not> leaky (map ((#) ''[]'') L) p" for p b
    using path [OF that(1)]
  proof
    assume "p = [] \<and> b = length s1"
    then show ?thesis using prefix_length_le [OF grow] by simp
  next
    assume "\<exists>q. p = ''[]'' # q"
    then obtain q where "p = ''[]'' # q" by blast
    with that have "\<not> leaky L q" "\<exists>e\<in>set es. (q, b) \<in> set (refs (s1 @ [es]) T (snd e))"
      by (auto simp: elem simp del: refs.simps)
    then show ?thesis using entries(5) by blast
  qed
  moreover have "(p, b) \<in> set (refs (s1 @ [es]) (RefTo k T) (Ref (length s1))) \<longleftrightarrow>
      (p, b) \<in> set (refs s (RefTo k T) (Ref a))" if leak: "leaky (map ((#) ''[]'') L) p" for p b
  proof -
    obtain q where q: "p = ''[]'' # q" "leaky L q" using leak by auto
    show ?thesis unfolding q(1) elem using entries(4) q(2) by simp
  qed
  ultimately show ?thesis
    unfolding copied_def using entries(2,3) shaped_keys [OF entries(1) shape]
    by (simp del: refs.simps leaky_map_Cons) blast
qed

lemma copies_make:
  assumes "copies T L f"
  shows "copies (RefTo k T) (map ((#) ''[]'') L) (make_copy f)"
proof (rule copiesI)
  fix v s v' s'
  assume conf: "conf s (RefTo k T) v" and run: "make_copy f v s = (v', s')"
  show "prefix s s' \<and> copied s (RefTo k T) (map ((#) ''[]'') L) v s' v'"
  proof (cases v)
    case (Ref a)
    obtain es s1 where es: "copy_entries f (load s a) s = (es, s1)" by force
    have "\<forall>e\<in>set (load s a). conf s T (snd e)" using conf Ref by simp
    then have "prefix s s1 \<and> list_all2 (\<lambda>e e'. fst e' = fst e \<and> copied s T L (snd e) s1 (snd e')) (load s a) es"
      using copy_entries_copied [OF assms _ es] by blast
    moreover have "s' = s1 @ [es]" "v' = Ref (length s1)" using run Ref es by (simp_all add: make_copy_def)
    ultimately show ?thesis using conf copied_cell Ref by auto
  qed (use conf run in \<open>auto simp: make_copy_def copied_def\<close>)
qed

lemma copies_make_free [simp]: "copies T [] f \<Longrightarrow> copies (RefTo k T) [] (make_copy f)"
  using copies_make [of T "[]" f k] by simp

lemma new_copy_copied:
  assumes "copies T L into" "conf s T v" "new_copy into v s = (r, s')"
  obtains w s1 where "s' = s1 @ [[(''*'', w)]]" "r = Ref (length s1)" "prefix s s1" "copied s T L v s1 w"
  using assms(3) copiesD [OF assms(1,2)] by (cases "into v s") (auto simp: new_copy_def)

lemma copies_deref_copy:
  assumes "copies T L into"
  shows "copies T L (deref_copy into)"
proof (rule copiesI)
  fix v s v' s'
  assume conf: "conf s T v" and run: "deref_copy into v s = (v', s')"
  obtain r where r: "new_copy into v s = (r, s')" "v' = deref s' r"
    using run by (cases "new_copy into v s") (auto simp: deref_copy_def)
  obtain w s1 where "s' = s1 @ [[(''*'', w)]]" "r = Ref (length s1)" "prefix s s1" "copied s T L v s1 w"
    using new_copy_copied [OF assms conf r(1)] .
  then show "prefix s s' \<and> copied s T L v s' v'"
    using r(2) by (auto simp: deref_def intro: copied_later)
qed

lemma copies_DeepCopy:
  assumes "copies T L into"
  shows "copies (RefTo Pointer T) (map ((#) ''[]'') L) (DeepCopy into)"
proof (rule copiesI)
  fix v s v' s'
  assume conf: "conf s (RefTo Pointer T) v" and run: "DeepCopy into v s = (v', s')"
  show "prefix s s' \<and> copied s (RefTo Pointer T) (map ((#) ''[]'') L) v s' v'"
  proof (cases v)
    case (Ref a)
    then obtain x where x: "load s a = [(''*'', x)]" "conf s T x"
      using conf by (auto simp: map_eq_Cons_conv)
    then have "new_copy into x s = (v', s')" using run Ref by (simp add: DeepCopy_def deref_def)
    from new_copy_copied [OF assms x(2) this] obtain w s1
      where "s' = s1 @ [[(''*'', w)]]" "v' = Ref (length s1)" "prefix s s1" "copied s T L x s1 w" .
    moreover then have "copied s (RefTo Pointer T) (map ((#) ''[]'') L) (Ref a) s' v'"
      by (auto intro!: copied_cell simp: x)
    ultimately show ?thesis by (auto simp: Ref)
  qed (use conf run in \<open>auto simp: DeepCopy_def copied_def\<close>)
qed

lemma copies_DeepCopy_free [simp]: "copies T [] into \<Longrightarrow> copies (RefTo Pointer T) [] (DeepCopy into)"
  using copies_DeepCopy [of T "[]" into] by simp

text \<open>For a struct, \<open>leaks_at\<close> gives what the copy of each field shares; a field that is not copied
  again shares everything.\<close>

definition copier_at :: "(string \<times> copier) list \<Rightarrow> string \<Rightarrow> copier" where
  "copier_at acts n = (case map_of acts n of Some f \<Rightarrow> f | None \<Rightarrow> plain)"

definition leaks_at :: "(string \<times> string list list) list \<Rightarrow> string \<Rightarrow> string list list" where
  "leaks_at ls n = (case map_of ls n of Some L \<Rightarrow> L | None \<Rightarrow> [])"

definition struct_leaks :: "(string \<times> gtype) list \<Rightarrow> (string \<times> string list list) list \<Rightarrow> string list list" where
  "struct_leaks fs ls = concat (map (\<lambda>x. map ((#) (fst x)) (leaks_at ls (fst x))) fs)"

lemma map_of_upd_all:
  "map_of (map (\<lambda>e. if fst e = n then (n, w) else e) vs) m =
    (if m = n then map_option (\<lambda>_. w) (map_of vs n) else map_of vs m)"
  by (induction vs) auto

lemma field_set_field:
  assumes "v = Struct vs" "n \<in> fst ` set vs"
  shows "field (set_field n w v) m = (if m = n then w else field v m)"
proof -
  obtain x where "map_of vs n = Some x" using assms(2) by (cases "map_of vs n") (auto simp: map_of_eq_None_iff)
  then show ?thesis by (simp add: assms(1) field_def set_field_def map_of_upd_all)
qed

lemma set_field_names: "set_field n w (Struct vs) = Struct vs' \<Longrightarrow> map fst vs' = map fst vs"
  by (auto simp: set_field_def comp_def cong: map_cong)

text \<open>After some fields have been copied again, these are copies and the others are as before.\<close>

definition partly_copied ::
  "store \<Rightarrow> (string \<times> gtype) list \<Rightarrow> (string \<times> string list list) list \<Rightarrow> gv \<Rightarrow> string set \<Rightarrow> gv \<times> store \<Rightarrow> bool" where
  "partly_copied s fs ls v done' r \<longleftrightarrow> prefix s (snd r)
     \<and> (\<exists>vs. fst r = Struct vs \<and> map fst vs = map fst fs)
     \<and> (\<forall>x\<in>set fs. if fst x \<in> done'
          then copied s (snd x) (leaks_at ls (fst x)) (field v (fst x)) (snd r) (field (fst r) (fst x))
          else field (fst r) (fst x) = field v (fst x))"

lemma partly_copied_step:
  assumes conf: "conf s (StructOf fs) v" and names: "distinct (map fst fs)"
    and x: "(n, T) \<in> set fs" "copies T (leaks_at ls n) f"
    and before: "partly_copied s fs ls v done' (out, s1)" and run: "f (field v n) s1 = (w, s2)"
  shows "partly_copied s fs ls v (insert n done') (set_field n w out, s2)"
proof -
  obtain vs where vs: "out = Struct vs" "map fst vs = map fst fs"
    using before by (auto simp: partly_copied_def)
  have cf: "conf s T (field v n)" using conf x(1) by (auto split: gv.splits)
  have pre: "prefix s s1" using before by (simp add: partly_copied_def)
  have step: "prefix s1 s2" "copied s1 T (leaks_at ls n) (field v n) s2 w"
    using copiesD [OF x(2) conf_later [OF cf pre] run] .
  then have w: "copied s T (leaks_at ls n) (field v n) s2 w"
    using copied_earlier pre cf by blast
  have "n \<in> fst ` set vs" using x(1) arg_cong [OF vs(2), of set] by (force simp: image_iff)
  note get = field_set_field [OF vs(1) this, of w]
  have T: "snd y = T" if "y \<in> set fs" "fst y = n" for y
    using names x(1) that by (metis eq_key_imp_eq_value prod.collapse)
  obtain vs' where vs': "set_field n w out = Struct vs'" by (simp add: vs(1) set_field_def)
  have each: "if fst y \<in> insert n done'
      then copied s (snd y) (leaks_at ls (fst y)) (field v (fst y)) s2 (field (set_field n w out) (fst y))
      else field (set_field n w out) (fst y) = field v (fst y)" if y: "y \<in> set fs" for y
  proof (cases "fst y = n")
    case True
    then show ?thesis using w T [OF y] by (simp add: get)
  next
    case False
    moreover have "if fst y \<in> done'
        then copied s (snd y) (leaks_at ls (fst y)) (field v (fst y)) s1 (field out (fst y))
        else field out (fst y) = field v (fst y)"
      using before y unfolding partly_copied_def fst_conv snd_conv by (elim conjE) (drule (1) bspec)
    ultimately show ?thesis using copied_later [OF _ step(1)] by (auto simp: get split: if_splits)
  qed
  moreover have "map fst vs' = map fst fs"
    using set_field_names [of n w vs vs'] vs vs' by simp
  moreover have "prefix s s2" using pre step(1) by (rule prefix_order.trans)
  ultimately show ?thesis
    using vs' unfolding partly_copied_def fst_conv snd_conv by blast
qed

lemma struct_copy_partly:
  assumes conf: "conf s (StructOf fs) v" and names: "distinct (map fst fs)"
    and acts: "\<forall>act\<in>set acts. \<exists>T. (fst act, T) \<in> set fs \<and> copies T (leaks_at ls (fst act)) (snd act)"
  shows "partly_copied s fs ls v (fst ` set acts) (struct_copy acts v s)"
  using acts
proof (induction acts rule: rev_induct)
  case Nil
  then show ?case using conf by (auto simp: struct_copy_def partly_copied_def split: gv.splits)
next
  case (snoc act acts)
  obtain T where T: "(fst act, T) \<in> set fs" "copies T (leaks_at ls (fst act)) (snd act)"
    using snoc.prems by auto
  obtain out s1 where out: "struct_copy acts v s = (out, s1)" by force
  obtain w s2 where w: "snd act (field v (fst act)) s1 = (w, s2)" by force
  have "partly_copied s fs ls v (fst ` set acts) (out, s1)" using snoc by (simp add: out)
  from partly_copied_step [OF conf names T this w]
  show ?case using out w by (simp add: struct_copy_def)
qed


lemma copied_struct:
  assumes conf: "conf s (StructOf fs) v" and names: "distinct (map fst fs)"
    and out: "out = Struct vs" "map fst vs = map fst fs"
    and each: "\<And>x. x \<in> set fs \<Longrightarrow>
      copied s (snd x) (leaks_at ls (fst x)) (field v (fst x)) s' (field out (fst x))"
  shows "copied s (StructOf fs) (struct_leaks fs ls) v s' out"
proof -
  have inside: "(p, a) \<in> set (refs t (StructOf fs) u) \<longleftrightarrow>
      (\<exists>x\<in>set fs. \<exists>q. p = fst x # q \<and> (q, a) \<in> set (refs t (snd x) (field u (fst x))))" for t u p a
    by force
  have leak: "leaky (struct_leaks fs ls) (fst x # q) \<longleftrightarrow> leaky (leaks_at ls (fst x)) q" if "x \<in> set fs" for x q
    using that by (auto simp: struct_leaks_def leaky_def list_ex_iff)
  have "(p, a) \<in> set (refs s' (StructOf fs) out) \<longleftrightarrow> (p, a) \<in> set (refs s (StructOf fs) v)"
    if "leaky (struct_leaks fs ls) p" for p a
    using that each leak unfolding inside copied_def by (intro bex_cong ex_cong1 refl conj_cong) auto
  moreover have "length s \<le> a"
    if "(p, a) \<in> set (refs s' (StructOf fs) out)" "\<not> leaky (struct_leaks fs ls) p" for p a
    using that each leak unfolding inside copied_def by (auto simp del: refs.simps)
  moreover have "conf s' (StructOf fs) out" "reify s' (StructOf fs) out = reify s (StructOf fs) v"
    using out(2) each by (auto simp: out(1) copied_def)
  ultimately show ?thesis unfolding copied_def by blast
qed

lemma copies_struct:
  assumes names: "distinct (map fst fs)" and acts: "fst ` set acts \<subseteq> fst ` set fs"
    and each: "\<forall>x\<in>set fs. copies (snd x) (leaks_at ls (fst x)) (copier_at acts (fst x))"
    and once: "distinct (map fst acts)" and L: "struct_leaks fs ls = L"
  shows "copies (StructOf fs) L (struct_copy acts)"
proof (rule copiesI)
  fix v s v' s'
  assume conf: "conf s (StructOf fs) v" and run: "struct_copy acts v s = (v', s')"
  have "\<exists>T. (fst act, T) \<in> set fs \<and> copies T (leaks_at ls (fst act)) (snd act)" if act: "act \<in> set acts" for act
  proof -
    obtain x where x: "x \<in> set fs" "fst x = fst act" using acts act by (force simp: image_iff)
    moreover have "copier_at acts (fst act) = snd act"
      using map_of_is_SomeI [OF once, of "fst act" "snd act"] act by (simp add: copier_at_def)
    ultimately show ?thesis using each by (intro exI [of _ "snd x"]) (metis prod.collapse)
  qed
  then have part: "partly_copied s fs ls v (fst ` set acts) (v', s')"
    using struct_copy_partly [OF conf names, of acts ls] run by simp
  then obtain vs where vs: "v' = Struct vs" "map fst vs = map fst fs" and grow: "prefix s s'"
    by (auto simp: partly_copied_def)
  have "copied s (snd x) (leaks_at ls (fst x)) (field v (fst x)) s' (field v' (fst x))"
    if x: "x \<in> set fs" for x
  proof (cases "fst x \<in> fst ` set acts")
    case True
    then show ?thesis using part x unfolding partly_copied_def fst_conv snd_conv by auto
  next
    case False
    then have "copier_at acts (fst x) = plain" by (simp add: copier_at_def map_of_eq_None_iff [THEN iffD2])
    moreover have "conf s (snd x) (field v (fst x))" using conf x by (auto split: gv.splits)
    ultimately have "copied s (snd x) (leaks_at ls (fst x)) (field v (fst x)) s (field v (fst x))"
      using each x by (auto simp: copies_def plain_def)
    moreover have "field v' (fst x) = field v (fst x)"
      using part x False unfolding partly_copied_def fst_conv snd_conv by auto
    ultimately show ?thesis using copied_later grow by simp
  qed
  then show "prefix s s' \<and> copied s (StructOf fs) L v s' v'"
    using copied_struct [OF conf names vs] grow L by blast
qed

section \<open>Writes after a copy\<close>

text \<open>What a program does to the store: it allocates cells and it writes cells, as an assignment to a
  field behind a pointer, to an entry of a map or to an element of a slice does.\<close>

datatype heap_op = Alloc cell | Write nat cell

fun run_op :: "heap_op \<Rightarrow> store \<Rightarrow> store" where
  "run_op (Alloc c) s = s @ [c]"
| "run_op (Write a c) s = s[a := c]"

fun written :: "heap_op \<Rightarrow> nat set" where
  "written (Alloc c) = {}"
| "written (Write a c) = {a}"

definition same_at :: "gtype \<Rightarrow> gv \<Rightarrow> store \<Rightarrow> store \<Rightarrow> bool" where
  "same_at T v s s' \<longleftrightarrow> conf s' T v \<and> reify s' T v = reify s T v \<and> refs s' T v = refs s T v"

lemma same_at_update:
  "conf s T v \<Longrightarrow> a \<notin> snd ` set (refs s T v) \<Longrightarrow> same_at T v s (s[a := c])"
proof (induction T arbitrary: v)
  case (StructOf fs)
  have "same_at (snd x) (field v (fst x)) s (s[a := c])" if "x \<in> set fs" for x
    using that StructOf.prems by (intro StructOf.IH [of x]) (force simp: snds.simps split: gv.splits)+
  with StructOf.prems(1) show ?case
    by (auto simp: same_at_def split: gv.splits intro!: arg_cong [where f = concat] map_cong)
next
  case (RefTo k T)
  have "same_at T (snd e) s (s[a := c])" if "v = Ref b" "e \<in> set (load s b)" for b e
    using that RefTo.prems by (intro RefTo.IH) force+
  moreover have "load (s[a := c]) b = load s b" if "v = Ref b" for b
    using that RefTo.prems by (auto simp: load_def)
  ultimately show ?case using RefTo.prems(1)
    by (auto simp: same_at_def split: gv.splits intro!: arg_cong [where f = concat] map_cong)
qed (auto simp: same_at_def split: gv.splits)

lemma same_at_run:
  assumes "conf s T v" "\<forall>op\<in>set ops. \<forall>a\<in>written op. a \<notin> snd ` set (refs s T v)"
  shows "same_at T v s (fold run_op ops s)"
  using assms(2)
proof (induction ops rule: rev_induct)
  case Nil
  then show ?case using assms(1) by (simp add: same_at_def)
next
  case (snoc op ops)
  then have IH: "same_at T v s (fold run_op ops s)" by simp
  show ?case
  proof (cases op)
    case (Alloc c)
    then show ?thesis using IH conf_append [of "fold run_op ops s" T v "[c]"] by (auto simp: same_at_def)
  next
    case (Write a c)
    then show ?thesis
      using IH snoc.prems same_at_update [of "fold run_op ops s" T v a c] by (auto simp: same_at_def)
  qed
qed

text \<open>An object that a decoder made: no cell is reached on two paths.\<close>

definition tree_shaped :: "store \<Rightarrow> gtype \<Rightarrow> gv \<Rightarrow> bool" where
  "tree_shaped s T v \<longleftrightarrow> distinct (map snd (refs s T v))"

lemma copy_unaffected:
  assumes f: "copies T L f" and conf: "conf s T v" and run: "f v s = (v', s')"
    and tree: "tree_shaped s T v"
    and ops: "\<forall>op\<in>set ops. \<forall>a\<in>written op.
      length s' \<le> a \<or> (\<exists>p. (p, a) \<in> set (refs s T v) \<and> \<not> leaky L p)"
  shows "reify (fold run_op ops s') T v' = reify s T v"
proof -
  have c: "copied s T L v s' v'" using copiesD [OF f conf run] by simp
  have "a \<notin> snd ` set (refs s' T v')" if w: "op \<in> set ops" "a \<in> written op" for op a
  proof
    assume "a \<in> snd ` set (refs s' T v')"
    then obtain q where q: "(q, a) \<in> set (refs s' T v')" by auto
    then have "a < length s'" using c refs_allocated by (auto simp: copied_def)
    then obtain p where p: "(p, a) \<in> set (refs s T v)" "\<not> leaky L p" using ops w by fastforce
    then have "a < length s" using refs_allocated conf by blast
    then have "leaky L q" using c q by (auto simp: copied_def not_le [symmetric])
    then have "(q, a) \<in> set (refs s T v)" using c q by (auto simp: copied_def)
    then have "q = p" using tree p(1) by (auto simp: tree_shaped_def distinct_map dest: inj_onD [of snd _ "(q, a)" "(p, a)"])
    then show False using p(2) \<open>leaky L q\<close> by simp
  qed
  then have "same_at T v' s' (fold run_op ops s')" using c by (intro same_at_run) (auto simp: copied_def)
  then show ?thesis using c by (simp add: same_at_def copied_def)
qed

lemma original_unaffected:
  assumes f: "copies T L f" and conf: "conf s T v" and run: "f v s = (v', s')"
    and ops: "\<forall>op\<in>set ops. \<forall>a\<in>written op. length s \<le> a"
  shows "reify (fold run_op ops s') T v = reify s T v"
proof -
  obtain t where t: "s' = s @ t" using copiesD(1) [OF f conf run] by (auto simp: prefix_def)
  have "same_at T v s' (fold run_op ops s')"
    using conf_append [OF conf, of t] ops refs_allocated [OF conf]
    by (intro same_at_run) (fastforce simp: t)+
  then show ?thesis using conf_append [OF conf, of t] by (simp add: same_at_def t)
qed

text \<open>Go's zero value of a type.\<close>

fun zero_value :: "gtype \<Rightarrow> gv" where
  "zero_value Basic = Scalar ''''"
| "zero_value (StructOf fs) = Struct (map (\<lambda>x. (fst x, zero_value (snd x))) fs)"
| "zero_value (RefTo k T) = NilRef"

end
