(* ===== verification/ApiCopy.thy ===== *)
theory ApiCopy
  imports GoHeap
begin

text \<open>
  \<open>api/v1alpha1/zz_generated.deepcopy.go\<close>: the copy functions of the API types, over the
  types of \<open>api/v1alpha1/propagationstatus_types.go\<close> with their slices, maps and pointers. The
  copy functions of \<open>metav1\<close> are parameters; \<open>metav1_deep\<close> is what apimachinery documents of
  them: they copy deeply. The generated functions are not as deep as the types: fields added to
  a type later are only assigned with the struct, so the copy keeps their cells. What each
  function shares is part of its lemma.
\<close>

section \<open>Types\<close>

record metav1 =
  ObjectMetaT :: gtype
  ListMetaT :: gtype
  ConditionT :: gtype
  Time_DeepCopyInto :: copier
  ObjectMeta_DeepCopyInto :: copier
  ListMeta_DeepCopyInto :: copier
  Condition_DeepCopyInto :: copier

definition metav1_deep :: "metav1 \<Rightarrow> bool" where
  "metav1_deep m \<longleftrightarrow> copies Basic [] (Time_DeepCopyInto m)
     \<and> copies (ObjectMetaT m) [] (ObjectMeta_DeepCopyInto m)
     \<and> copies (ListMetaT m) [] (ListMeta_DeepCopyInto m)
     \<and> copies (ConditionT m) [] (Condition_DeepCopyInto m)"

definition TypeMetaT :: gtype where
  "TypeMetaT = StructOf [(''Kind'', Basic), (''APIVersion'', Basic)]"

definition EventSummaryT :: "gtype" where
  "EventSummaryT = StructOf [
     (''Reason'', Basic), (''Message'', Basic), (''Count'', Basic),
     (''LastObservedAt'', Basic), (''InvolvedObject'', Basic)]"

definition ObjectChangeSummaryT :: "gtype" where
  "ObjectChangeSummaryT = StructOf [
     (''Kind'', Basic), (''Name'', Basic), (''ChangeType'', Basic),
     (''ChangedFields'', RefTo Slice Basic)]"

definition DependencyRefT :: "gtype" where
  "DependencyRefT = StructOf [
     (''Kind'', Basic), (''Name'', Basic), (''Ready'', Basic), (''Note'', Basic)]"

definition EvidenceRefT :: "gtype" where
  "EvidenceRefT = StructOf [
     (''Source'', Basic), (''URI'', Basic), (''SHA256'', Basic), (''CapturedAt'', Basic),
     (''WindowStart'', Basic), (''WindowEnd'', Basic), (''ContentType'', Basic),
     (''Query'', Basic), (''CollectionID'', Basic)]"

definition GateResultT :: "gtype" where
  "GateResultT = StructOf [
     (''Name'', Basic), (''Status'', Basic), (''Reason'', Basic), (''Message'', Basic),
     (''ObservedAt'', Basic), (''Evidence'', RefTo Slice EvidenceRefT)]"

definition VirtualizationImpactStatusT :: "gtype" where
  "VirtualizationImpactStatusT = StructOf [
     (''HyperConvergedHealth'', Basic), (''VirtHandlerReady'', Basic),
     (''ActiveMigrations'', Basic), (''StalledMigrations'', Basic),
     (''UnmigratableVMIs'', Basic)]"

definition MachineConfigPoolStatusT :: "metav1 \<Rightarrow> gtype" where
  "MachineConfigPoolStatusT m = StructOf [
     (''Name'', Basic), (''MachineCount'', Basic), (''ReadyMachineCount'', Basic),
     (''UpdatedNodeCount'', Basic), (''UpdatingNodeCount'', Basic),
     (''UnavailableNodeCount'', Basic), (''DegradedNodeCount'', Basic),
     (''CurrentRenderedConfig'', Basic), (''DesiredRenderedConfig'', Basic),
     (''Paused'', Basic), (''Phase'', Basic), (''Conditions'', RefTo Slice (ConditionT m))]"

definition ClusterOperatorStatusT :: "gtype" where
  "ClusterOperatorStatusT = StructOf [
     (''Name'', Basic), (''Available'', Basic), (''Degraded'', Basic),
     (''Progressing'', Basic), (''Version'', Basic)]"

definition VirtualizationWorkloadSummaryT :: "gtype" where
  "VirtualizationWorkloadSummaryT = StructOf [
     (''TotalVMIs'', Basic), (''RunningVMIs'', Basic), (''LiveMigratableVMIs'', Basic),
     (''ActiveMigrations'', Basic), (''StalledMigrations'', Basic),
     (''UnmigratableVMIs'', Basic)]"

definition CorrelatedEvidenceT :: "gtype" where
  "CorrelatedEvidenceT = StructOf [
     (''Timestamp'', Basic), (''Component'', Basic), (''ObjectID'', Basic),
     (''EventType'', Basic), (''Message'', Basic), (''Severity'', Basic), (''Source'', Basic)]"

definition ResourceNodeStatusT :: "gtype" where
  "ResourceNodeStatusT = StructOf [
     (''ID'', Basic), (''Kind'', Basic), (''Namespace'', Basic), (''Name'', Basic),
     (''State'', Basic), (''ParentIDs'', RefTo Slice Basic), (''BlockedBy'', Basic)]"

definition TopologicalDAGResultT :: "gtype" where
  "TopologicalDAGResultT = StructOf [
     (''Evaluated'', Basic), (''Healthy'', Basic), (''BlockedReason'', Basic),
     (''Nodes'', RefTo Slice ResourceNodeStatusT)]"

definition CausalNodeT :: "gtype" where
  "CausalNodeT = StructOf [
     (''Stage'', Basic), (''Resource'', Basic), (''Status'', Basic),
     (''RootCauseOf'', RefTo Slice Basic), (''ImpactedBy'', Basic)]"

definition DependencyGraphResultT :: "gtype" where
  "DependencyGraphResultT = StructOf [
     (''Healthy'', Basic), (''RootCauseResource'', Basic), (''RootCauseSummary'', Basic),
     (''Nodes'', RefTo Slice CausalNodeT)]"

definition ClusterVersionStatusT :: "gtype" where
  "ClusterVersionStatusT = StructOf [
     (''Version'', Basic), (''DesiredVersion'', Basic), (''Progressing'', Basic),
     (''Available'', Basic), (''Channel'', Basic)]"

definition KubeVirtOperatorStatusT :: "gtype" where
  "KubeVirtOperatorStatusT = StructOf [
     (''Phase'', Basic), (''TargetVersion'', Basic), (''ObservedVersion'', Basic),
     (''Ready'', Basic)]"

definition CDIOperatorStatusT :: "gtype" where
  "CDIOperatorStatusT = StructOf [
     (''Phase'', Basic), (''TargetVersion'', Basic), (''ObservedVersion'', Basic),
     (''Ready'', Basic)]"

definition SSPOperatorStatusT :: "gtype" where
  "SSPOperatorStatusT = StructOf [
     (''Phase'', Basic), (''TargetVersion'', Basic), (''ObservedVersion'', Basic),
     (''Ready'', Basic)]"

definition NodeMaintenanceStatusT :: "gtype" where
  "NodeMaintenanceStatusT = StructOf [
     (''ActiveMaintenanceNodes'', Basic), (''MaintenanceNodeNames'', RefTo Slice Basic)]"

definition MigrationPolicyStatusT :: "gtype" where
  "MigrationPolicyStatusT = StructOf [
     (''Name'', Basic), (''BandwidthPerMigration'', Basic), (''AllowAutoConverge'', Basic)]"

definition PlatformObservationStatusT :: "metav1 \<Rightarrow> gtype" where
  "PlatformObservationStatusT m = StructOf [
     (''ClusterOperators'', RefTo Slice ClusterOperatorStatusT),
     (''MachineConfigPools'', RefTo Slice (MachineConfigPoolStatusT m)),
     (''VirtHealth'', VirtualizationImpactStatusT),
     (''VirtWorkloads'', VirtualizationWorkloadSummaryT),
     (''ClusterVersion'', ClusterVersionStatusT), (''KubeVirt'', KubeVirtOperatorStatusT),
     (''CDI'', CDIOperatorStatusT), (''SSP'', SSPOperatorStatusT),
     (''NodeMaintenance'', NodeMaintenanceStatusT),
     (''MigrationPolicies'', RefTo Slice MigrationPolicyStatusT),
     (''DependencyGraph'', DependencyGraphResultT),
     (''TopologicalDAG'', TopologicalDAGResultT),
     (''CorrelatedEvidence'', RefTo Slice CorrelatedEvidenceT), (''ObservedAt'', Basic)]"

definition BaselineSnapshotT :: "gtype" where
  "BaselineSnapshotT = StructOf [
     (''CapturedAt'', Basic), (''ClusterVersion'', Basic), (''MachineConfigPoolHash'', Basic),
     (''KubeVirtVersion'', Basic), (''CDIVersion'', Basic), (''SSPVersion'', Basic),
     (''ClusterOperatorDigest'', Basic)]"

definition ClusterAppReportSpecT :: "metav1 \<Rightarrow> gtype" where
  "ClusterAppReportSpecT m = StructOf [
     (''ClusterName'', Basic), (''AppName'', Basic), (''AppNamespace'', Basic),
     (''ObservedRevision'', Basic), (''SyncStatus'', Basic), (''Health'', Basic),
     (''MCPStatus'', MachineConfigPoolStatusT m),
     (''VirtStatus'', VirtualizationImpactStatusT),
     (''PlatformObservation'', PlatformObservationStatusT m), (''ObservedAt'', Basic),
     (''RecentEvents'', RefTo Slice EventSummaryT), (''TailLogs'', RefTo Slice Basic),
     (''ObjectChanges'', RefTo Slice ObjectChangeSummaryT),
     (''Dependencies'', RefTo Slice DependencyRefT)]"

definition ClusterAppReportT :: "metav1 \<Rightarrow> gtype" where
  "ClusterAppReportT m = StructOf [
     (''TypeMeta'', TypeMetaT), (''ObjectMeta'', ObjectMetaT m),
     (''Spec'', ClusterAppReportSpecT m)]"

definition ClusterAppReportListT :: "metav1 \<Rightarrow> gtype" where
  "ClusterAppReportListT m = StructOf [
     (''TypeMeta'', TypeMetaT), (''ListMeta'', ListMetaT m),
     (''Items'', RefTo Slice (ClusterAppReportT m))]"

definition PropagationStatusSpecT :: "gtype" where
  "PropagationStatusSpecT = StructOf [
     (''AppName'', Basic), (''AppNamespace'', Basic), (''ExpectedRevision'', Basic),
     (''TargetClusters'', RefTo Slice Basic), (''LagThresholdSeconds'', Basic),
     (''StaleReportThresholdSeconds'', Basic), (''ParentApp'', Basic), (''RootApp'', Basic)]"

definition ClusterRevisionStateT :: "metav1 \<Rightarrow> gtype" where
  "ClusterRevisionStateT m = StructOf [
     (''ClusterName'', Basic), (''AppNamespace'', Basic), (''ObservedRevision'', Basic),
     (''SyncStatus'', Basic), (''Health'', Basic), (''ObservedAt'', Basic),
     (''SawReportSinceChgStart'', Basic), (''MCPStatus'', MachineConfigPoolStatusT m),
     (''VirtStatus'', VirtualizationImpactStatusT),
     (''PlatformObservation'', PlatformObservationStatusT m), (''State'', Basic),
     (''RecentEvents'', RefTo Slice EventSummaryT),
     (''ObjectChanges'', RefTo Slice ObjectChangeSummaryT),
     (''Dependencies'', RefTo Slice DependencyRefT)]"

definition PropagationStatusStatusT :: "metav1 \<Rightarrow> gtype" where
  "PropagationStatusStatusT m = StructOf [
     (''Phase'', Basic), (''ClusterStates'', RefTo Slice (ClusterRevisionStateT m)),
     (''ExpectedRevisionSince'', Basic), (''LastExpectedRevision'', Basic),
     (''DivergedClusters'', RefTo Slice Basic), (''LaggingClusters'', RefTo Slice Basic),
     (''StaleClusters'', RefTo Slice Basic), (''MissingClusters'', RefTo Slice Basic),
     (''ObservedGeneration'', Basic), (''Conditions'', RefTo Slice (ConditionT m))]"

definition PropagationStatusT :: "metav1 \<Rightarrow> gtype" where
  "PropagationStatusT m = StructOf [
     (''TypeMeta'', TypeMetaT), (''ObjectMeta'', ObjectMetaT m),
     (''Spec'', PropagationStatusSpecT), (''Status'', PropagationStatusStatusT m)]"

definition PropagationStatusListT :: "metav1 \<Rightarrow> gtype" where
  "PropagationStatusListT m = StructOf [
     (''TypeMeta'', TypeMetaT), (''ListMeta'', ListMetaT m),
     (''Items'', RefTo Slice (PropagationStatusT m))]"

definition HardRefreshConfigT :: "gtype" where
  "HardRefreshConfigT = StructOf [
     (''MaxAttempts'', Basic), (''WaitBetweenSeconds'', Basic),
     (''ActionExecutionMode'', Basic)]"

definition ChangeWindowSpecT :: "gtype" where
  "ChangeWindowSpecT = StructOf [
     (''CHGNumber'', Basic), (''ReleaseTag'', Basic), (''BaselineRevision'', Basic),
     (''ExpectedRevision'', Basic), (''RootApp'', Basic),
     (''ImpactedApps'', RefTo Slice Basic), (''TargetNamespaces'', RefTo Slice Basic),
     (''StartTime'', Basic), (''EndTime'', Basic), (''StabilizationPeriodSeconds'', Basic),
     (''StaleReportThresholdSeconds'', Basic), (''EvidenceRepoURL'', Basic),
     (''HardRefresh'', HardRefreshConfigT)]"

definition SilentClusterStateT :: "gtype" where
  "SilentClusterStateT = StructOf [
     (''App'', Basic), (''Cluster'', Basic), (''State'', Basic), (''LastSeenAt'', Basic),
     (''SilentForSeconds'', Basic)]"

definition ActionAttemptHistoryT :: "gtype" where
  "ActionAttemptHistoryT = StructOf [
     (''Attempt'', Basic), (''Type'', Basic), (''TriggeredAt'', Basic),
     (''TriggerResult'', Basic), (''LogRef'', Basic), (''LogSummary'', Basic),
     (''TailLogs'', RefTo Slice Basic)]"

definition ActionRecordT :: "gtype" where
  "ActionRecordT = StructOf [
     (''App'', Basic), (''Cluster'', Basic), (''Attempts'', Basic), (''MaxAttempts'', Basic),
     (''Result'', Basic), (''LastAttemptAt'', Basic), (''NextEligibleAt'', Basic),
     (''History'', RefTo Slice ActionAttemptHistoryT)]"

definition ValidationResultT :: "gtype" where
  "ValidationResultT = StructOf [
     (''AllChangesApplied'', Basic), (''HealthCheckPassed'', Basic),
     (''MCPUpdatedOnTime'', Basic), (''EventsClean'', Basic), (''ObjectsConverged'', Basic),
     (''DependenciesReady'', Basic), (''VirtImpactPassed'', Basic),
     (''ClusterOperatorsHealthy'', Basic), (''GateResults'', RefTo Slice GateResultT),
     (''IssuesFound'', RefTo Slice Basic), (''Passed'', Basic)]"

definition TimelineEntryT :: "gtype" where
  "TimelineEntryT = StructOf [
     (''Timestamp'', Basic), (''Stage'', Basic), (''Category'', Basic), (''Resource'', Basic),
     (''Event'', Basic), (''Description'', Basic), (''CausalImpact'', Basic)]"

definition SignedAuditReportT :: "gtype" where
  "SignedAuditReportT = StructOf [
     (''ReportID'', Basic), (''WindowID'', Basic), (''Timestamp'', Basic),
     (''BaselineDigest'', Basic), (''EvidenceChecksumSHA256'', Basic),
     (''HMACSignature'', Basic), (''OverallResult'', Basic),
     (''GateResults'', RefTo Slice GateResultT)]"

definition AppClusterStateMapT :: "metav1 \<Rightarrow> gtype" where
  "AppClusterStateMapT m = StructOf [
     (''Phase'', Basic), (''ClusterStates'', RefTo Slice (ClusterRevisionStateT m))]"

definition ChangeWindowStatusT :: "metav1 \<Rightarrow> gtype" where
  "ChangeWindowStatusT m = StructOf [
     (''Phase'', Basic), (''OverallStatus'', Basic),
     (''SilentClusters'', RefTo Slice SilentClusterStateT),
     (''Actions'', RefTo Map ActionRecordT), (''Validation'', ValidationResultT),
     (''StabilizationStartedAt'', RefTo Pointer Basic), (''LastReportedAt'', Basic),
     (''AppStates'', RefTo Map (AppClusterStateMapT m)),
     (''Baseline'', RefTo Pointer BaselineSnapshotT),
     (''SignedReport'', RefTo Pointer SignedAuditReportT),
     (''Timeline'', RefTo Slice TimelineEntryT)]"

definition ChangeWindowT :: "metav1 \<Rightarrow> gtype" where
  "ChangeWindowT m = StructOf [
     (''TypeMeta'', TypeMetaT), (''ObjectMeta'', ObjectMetaT m), (''Spec'', ChangeWindowSpecT),
     (''Status'', ChangeWindowStatusT m)]"

definition ChangeWindowListT :: "metav1 \<Rightarrow> gtype" where
  "ChangeWindowListT m = StructOf [
     (''TypeMeta'', TypeMetaT), (''ListMeta'', ListMetaT m),
     (''Items'', RefTo Slice (ChangeWindowT m))]"

section \<open>Copy functions\<close>

text \<open>\<open>DeepCopyObject\<close> returns the copy as a \<open>runtime.Object\<close> unless it is nil.\<close>

definition object_copy :: "copier \<Rightarrow> copier" where
  "object_copy copy v s = (let (c, s') = copy v s in if c \<noteq> NilRef then (c, s') else (NilRef, s'))"

definition ActionAttemptHistory_DeepCopyInto :: "metav1 \<Rightarrow> copier" where
  "ActionAttemptHistory_DeepCopyInto m = struct_copy [
     (''TriggeredAt'', Time_DeepCopyInto m), (''TailLogs'', make_copy plain)]"

definition ActionAttemptHistory_DeepCopy :: "metav1 \<Rightarrow> copier" where
  "ActionAttemptHistory_DeepCopy m = DeepCopy (ActionAttemptHistory_DeepCopyInto m)"

definition ActionRecord_DeepCopyInto :: "metav1 \<Rightarrow> copier" where
  "ActionRecord_DeepCopyInto m = struct_copy [
     (''LastAttemptAt'', Time_DeepCopyInto m), (''NextEligibleAt'', Time_DeepCopyInto m),
     (''History'', make_copy (ActionAttemptHistory_DeepCopyInto m))]"

definition ActionRecord_DeepCopy :: "metav1 \<Rightarrow> copier" where
  "ActionRecord_DeepCopy m = DeepCopy (ActionRecord_DeepCopyInto m)"

definition EventSummary_DeepCopyInto :: "metav1 \<Rightarrow> copier" where
  "EventSummary_DeepCopyInto m = struct_copy [
     (''LastObservedAt'', Time_DeepCopyInto m)]"

definition EventSummary_DeepCopy :: "metav1 \<Rightarrow> copier" where
  "EventSummary_DeepCopy m = DeepCopy (EventSummary_DeepCopyInto m)"

definition ObjectChangeSummary_DeepCopyInto :: "copier" where
  "ObjectChangeSummary_DeepCopyInto = struct_copy [
     (''ChangedFields'', make_copy plain)]"

definition ObjectChangeSummary_DeepCopy :: "copier" where
  "ObjectChangeSummary_DeepCopy = DeepCopy ObjectChangeSummary_DeepCopyInto"

definition ClusterRevisionState_DeepCopyInto :: "metav1 \<Rightarrow> copier" where
  "ClusterRevisionState_DeepCopyInto m = struct_copy [
     (''ObservedAt'', Time_DeepCopyInto m), (''MCPStatus'', plain),
     (''RecentEvents'', make_copy (EventSummary_DeepCopyInto m)),
     (''ObjectChanges'', make_copy ObjectChangeSummary_DeepCopyInto),
     (''Dependencies'', make_copy plain)]"

definition ClusterRevisionState_DeepCopy :: "metav1 \<Rightarrow> copier" where
  "ClusterRevisionState_DeepCopy m = DeepCopy (ClusterRevisionState_DeepCopyInto m)"

definition AppClusterStateMap_DeepCopyInto :: "metav1 \<Rightarrow> copier" where
  "AppClusterStateMap_DeepCopyInto m = struct_copy [
     (''ClusterStates'', make_copy (ClusterRevisionState_DeepCopyInto m))]"

definition AppClusterStateMap_DeepCopy :: "metav1 \<Rightarrow> copier" where
  "AppClusterStateMap_DeepCopy m = DeepCopy (AppClusterStateMap_DeepCopyInto m)"

definition ChangeWindowSpec_DeepCopyInto :: "metav1 \<Rightarrow> copier" where
  "ChangeWindowSpec_DeepCopyInto m = struct_copy [
     (''ImpactedApps'', make_copy plain), (''StartTime'', Time_DeepCopyInto m),
     (''EndTime'', Time_DeepCopyInto m), (''HardRefresh'', plain)]"

definition ChangeWindowSpec_DeepCopy :: "metav1 \<Rightarrow> copier" where
  "ChangeWindowSpec_DeepCopy m = DeepCopy (ChangeWindowSpec_DeepCopyInto m)"

definition SilentClusterState_DeepCopyInto :: "metav1 \<Rightarrow> copier" where
  "SilentClusterState_DeepCopyInto m = struct_copy [
     (''LastSeenAt'', Time_DeepCopyInto m)]"

definition SilentClusterState_DeepCopy :: "metav1 \<Rightarrow> copier" where
  "SilentClusterState_DeepCopy m = DeepCopy (SilentClusterState_DeepCopyInto m)"

definition ValidationResult_DeepCopyInto :: "copier" where
  "ValidationResult_DeepCopyInto = struct_copy [
     (''IssuesFound'', make_copy plain)]"

definition ValidationResult_DeepCopy :: "copier" where
  "ValidationResult_DeepCopy = DeepCopy ValidationResult_DeepCopyInto"

definition EvidenceRef_DeepCopyInto :: "metav1 \<Rightarrow> copier" where
  "EvidenceRef_DeepCopyInto m = struct_copy [
     (''CapturedAt'', Time_DeepCopyInto m), (''WindowStart'', Time_DeepCopyInto m),
     (''WindowEnd'', Time_DeepCopyInto m)]"

definition EvidenceRef_DeepCopy :: "metav1 \<Rightarrow> copier" where
  "EvidenceRef_DeepCopy m = DeepCopy (EvidenceRef_DeepCopyInto m)"

definition GateResult_DeepCopyInto :: "metav1 \<Rightarrow> copier" where
  "GateResult_DeepCopyInto m = struct_copy [
     (''ObservedAt'', Time_DeepCopyInto m),
     (''Evidence'', make_copy (EvidenceRef_DeepCopyInto m))]"

definition GateResult_DeepCopy :: "metav1 \<Rightarrow> copier" where
  "GateResult_DeepCopy m = DeepCopy (GateResult_DeepCopyInto m)"

definition SignedAuditReport_DeepCopyInto :: "metav1 \<Rightarrow> copier" where
  "SignedAuditReport_DeepCopyInto m = struct_copy [
     (''Timestamp'', Time_DeepCopyInto m),
     (''GateResults'', make_copy (GateResult_DeepCopyInto m))]"

definition SignedAuditReport_DeepCopy :: "metav1 \<Rightarrow> copier" where
  "SignedAuditReport_DeepCopy m = DeepCopy (SignedAuditReport_DeepCopyInto m)"

definition ChangeWindowStatus_DeepCopyInto :: "metav1 \<Rightarrow> copier" where
  "ChangeWindowStatus_DeepCopyInto m = struct_copy [
     (''SilentClusters'', make_copy (SilentClusterState_DeepCopyInto m)),
     (''Actions'', make_copy (deref_copy (ActionRecord_DeepCopyInto m))),
     (''Validation'', ValidationResult_DeepCopyInto),
     (''LastReportedAt'', Time_DeepCopyInto m),
     (''AppStates'', make_copy (deref_copy (AppClusterStateMap_DeepCopyInto m))),
     (''SignedReport'', SignedAuditReport_DeepCopy m)]"

definition ChangeWindowStatus_DeepCopy :: "metav1 \<Rightarrow> copier" where
  "ChangeWindowStatus_DeepCopy m = DeepCopy (ChangeWindowStatus_DeepCopyInto m)"

definition ChangeWindow_DeepCopyInto :: "metav1 \<Rightarrow> copier" where
  "ChangeWindow_DeepCopyInto m = struct_copy [
     (''TypeMeta'', plain), (''ObjectMeta'', ObjectMeta_DeepCopyInto m),
     (''Spec'', ChangeWindowSpec_DeepCopyInto m),
     (''Status'', ChangeWindowStatus_DeepCopyInto m)]"

definition ChangeWindow_DeepCopy :: "metav1 \<Rightarrow> copier" where
  "ChangeWindow_DeepCopy m = DeepCopy (ChangeWindow_DeepCopyInto m)"

definition ChangeWindow_DeepCopyObject :: "metav1 \<Rightarrow> copier" where
  "ChangeWindow_DeepCopyObject m = object_copy (ChangeWindow_DeepCopy m)"

definition ChangeWindowList_DeepCopyInto :: "metav1 \<Rightarrow> copier" where
  "ChangeWindowList_DeepCopyInto m = struct_copy [
     (''TypeMeta'', plain), (''ListMeta'', ListMeta_DeepCopyInto m),
     (''Items'', make_copy (ChangeWindow_DeepCopyInto m))]"

definition ChangeWindowList_DeepCopy :: "metav1 \<Rightarrow> copier" where
  "ChangeWindowList_DeepCopy m = DeepCopy (ChangeWindowList_DeepCopyInto m)"

definition ChangeWindowList_DeepCopyObject :: "metav1 \<Rightarrow> copier" where
  "ChangeWindowList_DeepCopyObject m = object_copy (ChangeWindowList_DeepCopy m)"

definition ClusterAppReportSpec_DeepCopyInto :: "metav1 \<Rightarrow> copier" where
  "ClusterAppReportSpec_DeepCopyInto m = struct_copy [
     (''MCPStatus'', plain), (''ObservedAt'', Time_DeepCopyInto m),
     (''RecentEvents'', make_copy (EventSummary_DeepCopyInto m)),
     (''TailLogs'', make_copy plain),
     (''ObjectChanges'', make_copy ObjectChangeSummary_DeepCopyInto),
     (''Dependencies'', make_copy plain)]"

definition ClusterAppReportSpec_DeepCopy :: "metav1 \<Rightarrow> copier" where
  "ClusterAppReportSpec_DeepCopy m = DeepCopy (ClusterAppReportSpec_DeepCopyInto m)"

definition ClusterAppReport_DeepCopyInto :: "metav1 \<Rightarrow> copier" where
  "ClusterAppReport_DeepCopyInto m = struct_copy [
     (''TypeMeta'', plain), (''ObjectMeta'', ObjectMeta_DeepCopyInto m),
     (''Spec'', ClusterAppReportSpec_DeepCopyInto m)]"

definition ClusterAppReport_DeepCopy :: "metav1 \<Rightarrow> copier" where
  "ClusterAppReport_DeepCopy m = DeepCopy (ClusterAppReport_DeepCopyInto m)"

definition ClusterAppReport_DeepCopyObject :: "metav1 \<Rightarrow> copier" where
  "ClusterAppReport_DeepCopyObject m = object_copy (ClusterAppReport_DeepCopy m)"

definition ClusterAppReportList_DeepCopyInto :: "metav1 \<Rightarrow> copier" where
  "ClusterAppReportList_DeepCopyInto m = struct_copy [
     (''TypeMeta'', plain), (''ListMeta'', ListMeta_DeepCopyInto m),
     (''Items'', make_copy (ClusterAppReport_DeepCopyInto m))]"

definition ClusterAppReportList_DeepCopy :: "metav1 \<Rightarrow> copier" where
  "ClusterAppReportList_DeepCopy m = DeepCopy (ClusterAppReportList_DeepCopyInto m)"

definition ClusterAppReportList_DeepCopyObject :: "metav1 \<Rightarrow> copier" where
  "ClusterAppReportList_DeepCopyObject m = object_copy (ClusterAppReportList_DeepCopy m)"

definition DependencyRef_DeepCopyInto :: copier where
  "DependencyRef_DeepCopyInto = struct_copy []"

definition DependencyRef_DeepCopy :: "copier" where
  "DependencyRef_DeepCopy = DeepCopy DependencyRef_DeepCopyInto"

definition HardRefreshConfig_DeepCopyInto :: copier where
  "HardRefreshConfig_DeepCopyInto = struct_copy []"

definition HardRefreshConfig_DeepCopy :: "copier" where
  "HardRefreshConfig_DeepCopy = DeepCopy HardRefreshConfig_DeepCopyInto"

definition MachineConfigPoolStatus_DeepCopyInto :: copier where
  "MachineConfigPoolStatus_DeepCopyInto = struct_copy []"

definition MachineConfigPoolStatus_DeepCopy :: "copier" where
  "MachineConfigPoolStatus_DeepCopy = DeepCopy MachineConfigPoolStatus_DeepCopyInto"

definition PropagationStatusSpec_DeepCopyInto :: "copier" where
  "PropagationStatusSpec_DeepCopyInto = struct_copy [
     (''TargetClusters'', make_copy plain)]"

definition PropagationStatusSpec_DeepCopy :: "copier" where
  "PropagationStatusSpec_DeepCopy = DeepCopy PropagationStatusSpec_DeepCopyInto"

definition PropagationStatusStatus_DeepCopyInto :: "metav1 \<Rightarrow> copier" where
  "PropagationStatusStatus_DeepCopyInto m = struct_copy [
     (''ClusterStates'', make_copy (ClusterRevisionState_DeepCopyInto m)),
     (''ExpectedRevisionSince'', Time_DeepCopyInto m), (''DivergedClusters'', make_copy plain),
     (''LaggingClusters'', make_copy plain), (''StaleClusters'', make_copy plain),
     (''MissingClusters'', make_copy plain),
     (''Conditions'', make_copy (Condition_DeepCopyInto m))]"

definition PropagationStatusStatus_DeepCopy :: "metav1 \<Rightarrow> copier" where
  "PropagationStatusStatus_DeepCopy m = DeepCopy (PropagationStatusStatus_DeepCopyInto m)"

definition PropagationStatus_DeepCopyInto :: "metav1 \<Rightarrow> copier" where
  "PropagationStatus_DeepCopyInto m = struct_copy [
     (''TypeMeta'', plain), (''ObjectMeta'', ObjectMeta_DeepCopyInto m),
     (''Spec'', PropagationStatusSpec_DeepCopyInto),
     (''Status'', PropagationStatusStatus_DeepCopyInto m)]"

definition PropagationStatus_DeepCopy :: "metav1 \<Rightarrow> copier" where
  "PropagationStatus_DeepCopy m = DeepCopy (PropagationStatus_DeepCopyInto m)"

definition PropagationStatus_DeepCopyObject :: "metav1 \<Rightarrow> copier" where
  "PropagationStatus_DeepCopyObject m = object_copy (PropagationStatus_DeepCopy m)"

definition PropagationStatusList_DeepCopyInto :: "metav1 \<Rightarrow> copier" where
  "PropagationStatusList_DeepCopyInto m = struct_copy [
     (''TypeMeta'', plain), (''ListMeta'', ListMeta_DeepCopyInto m),
     (''Items'', make_copy (PropagationStatus_DeepCopyInto m))]"

definition PropagationStatusList_DeepCopy :: "metav1 \<Rightarrow> copier" where
  "PropagationStatusList_DeepCopy m = DeepCopy (PropagationStatusList_DeepCopyInto m)"

definition PropagationStatusList_DeepCopyObject :: "metav1 \<Rightarrow> copier" where
  "PropagationStatusList_DeepCopyObject m = object_copy (PropagationStatusList_DeepCopy m)"

section \<open>What they share\<close>

lemma metav1_copies [simp]:
  assumes "metav1_deep m"
  shows "copies Basic [] (Time_DeepCopyInto m)" "copies (ObjectMetaT m) [] (ObjectMeta_DeepCopyInto m)"
    "copies (ListMetaT m) [] (ListMeta_DeepCopyInto m)" "copies (ConditionT m) [] (Condition_DeepCopyInto m)"
  using assms by (simp_all add: metav1_deep_def)

lemma ref_free_types [simp]:
  "ref_free TypeMetaT"
  "ref_free EventSummaryT"
  "ref_free DependencyRefT"
  "ref_free EvidenceRefT"
  "ref_free VirtualizationImpactStatusT"
  "ref_free ClusterOperatorStatusT"
  "ref_free VirtualizationWorkloadSummaryT"
  "ref_free CorrelatedEvidenceT"
  "ref_free ClusterVersionStatusT"
  "ref_free KubeVirtOperatorStatusT"
  "ref_free CDIOperatorStatusT"
  "ref_free SSPOperatorStatusT"
  "ref_free MigrationPolicyStatusT"
  "ref_free BaselineSnapshotT"
  "ref_free HardRefreshConfigT"
  "ref_free SilentClusterStateT"
  "ref_free TimelineEntryT"
  by (simp_all add: TypeMetaT_def EventSummaryT_def DependencyRefT_def EvidenceRefT_def VirtualizationImpactStatusT_def ClusterOperatorStatusT_def VirtualizationWorkloadSummaryT_def CorrelatedEvidenceT_def ClusterVersionStatusT_def KubeVirtOperatorStatusT_def CDIOperatorStatusT_def SSPOperatorStatusT_def MigrationPolicyStatusT_def BaselineSnapshotT_def HardRefreshConfigT_def SilentClusterStateT_def TimelineEntryT_def)

lemmas fields = leaks_at_def copier_at_def struct_leaks_def copies_plain copies_deref_copy

lemma ActionAttemptHistory_copies [simp]:
  "metav1_deep m \<Longrightarrow> copies ActionAttemptHistoryT
     []
     (ActionAttemptHistory_DeepCopyInto m)"
  unfolding ActionAttemptHistoryT_def ActionAttemptHistory_DeepCopyInto_def
  by (rule copies_struct [where ls = "[]"])
    (simp_all add: fields)

lemma ActionRecord_copies [simp]:
  "metav1_deep m \<Longrightarrow> copies ActionRecordT
     []
     (ActionRecord_DeepCopyInto m)"
  unfolding ActionRecordT_def ActionRecord_DeepCopyInto_def
  by (rule copies_struct [where ls = "[]"])
    (simp_all add: fields)

lemma EventSummary_copies [simp]:
  "metav1_deep m \<Longrightarrow> copies EventSummaryT
     []
     (EventSummary_DeepCopyInto m)"
  unfolding EventSummaryT_def EventSummary_DeepCopyInto_def
  by (rule copies_struct [where ls = "[]"])
    (simp_all add: fields)

lemma ObjectChangeSummary_copies [simp]:
  "copies ObjectChangeSummaryT
     []
     ObjectChangeSummary_DeepCopyInto"
  unfolding ObjectChangeSummaryT_def ObjectChangeSummary_DeepCopyInto_def
  by (rule copies_struct [where ls = "[]"])
    (simp_all add: fields)

lemma ClusterRevisionState_copies [simp]:
  "metav1_deep m \<Longrightarrow> copies (ClusterRevisionStateT m)
     [[''MCPStatus''], [''PlatformObservation'']]
     (ClusterRevisionState_DeepCopyInto m)"
  unfolding ClusterRevisionStateT_def ClusterRevisionState_DeepCopyInto_def
  by (rule copies_struct [where ls = "[(''MCPStatus'', [[]]), (''PlatformObservation'', [[]])]"])
    (simp_all add: fields)

lemma ClusterRevisionState_items [simp]:
  "metav1_deep m \<Longrightarrow> copies (RefTo Slice (ClusterRevisionStateT m))
     [[''[]'', ''MCPStatus''], [''[]'', ''PlatformObservation'']]
     (make_copy (ClusterRevisionState_DeepCopyInto m))"
  using copies_make [OF ClusterRevisionState_copies, of m Slice] by simp

lemma AppClusterStateMap_copies [simp]:
  "metav1_deep m \<Longrightarrow> copies (AppClusterStateMapT m)
     [[''ClusterStates'', ''[]'', ''MCPStatus''],
      [''ClusterStates'', ''[]'', ''PlatformObservation'']]
     (AppClusterStateMap_DeepCopyInto m)"
  unfolding AppClusterStateMapT_def AppClusterStateMap_DeepCopyInto_def
  by (rule copies_struct [where ls = "[(''ClusterStates'', [[''[]'', ''MCPStatus''], [''[]'', ''PlatformObservation'']])]"])
    (simp_all add: fields)

lemma AppClusterStateMap_items [simp]:
  "metav1_deep m \<Longrightarrow> copies (RefTo Map (AppClusterStateMapT m))
     [[''[]'', ''ClusterStates'', ''[]'', ''MCPStatus''],
      [''[]'', ''ClusterStates'', ''[]'', ''PlatformObservation'']]
     (make_copy (deref_copy (AppClusterStateMap_DeepCopyInto m)))"
  using copies_make [OF copies_deref_copy [OF AppClusterStateMap_copies], of m Map] by simp

lemma ChangeWindowSpec_copies [simp]:
  "metav1_deep m \<Longrightarrow> copies ChangeWindowSpecT
     [[''TargetNamespaces'']]
     (ChangeWindowSpec_DeepCopyInto m)"
  unfolding ChangeWindowSpecT_def ChangeWindowSpec_DeepCopyInto_def
  by (rule copies_struct [where ls = "[(''TargetNamespaces'', [[]])]"])
    (simp_all add: fields)

lemma SilentClusterState_copies [simp]:
  "metav1_deep m \<Longrightarrow> copies SilentClusterStateT
     []
     (SilentClusterState_DeepCopyInto m)"
  unfolding SilentClusterStateT_def SilentClusterState_DeepCopyInto_def
  by (rule copies_struct [where ls = "[]"])
    (simp_all add: fields)

lemma ValidationResult_copies [simp]:
  "copies ValidationResultT
     [[''GateResults'']]
     ValidationResult_DeepCopyInto"
  unfolding ValidationResultT_def ValidationResult_DeepCopyInto_def
  by (rule copies_struct [where ls = "[(''GateResults'', [[]])]"])
    (simp_all add: fields)

lemma EvidenceRef_copies [simp]:
  "metav1_deep m \<Longrightarrow> copies EvidenceRefT
     []
     (EvidenceRef_DeepCopyInto m)"
  unfolding EvidenceRefT_def EvidenceRef_DeepCopyInto_def
  by (rule copies_struct [where ls = "[]"])
    (simp_all add: fields)

lemma GateResult_copies [simp]:
  "metav1_deep m \<Longrightarrow> copies GateResultT
     []
     (GateResult_DeepCopyInto m)"
  unfolding GateResultT_def GateResult_DeepCopyInto_def
  by (rule copies_struct [where ls = "[]"])
    (simp_all add: fields)

lemma SignedAuditReport_copies [simp]:
  "metav1_deep m \<Longrightarrow> copies SignedAuditReportT
     []
     (SignedAuditReport_DeepCopyInto m)"
  unfolding SignedAuditReportT_def SignedAuditReport_DeepCopyInto_def
  by (rule copies_struct [where ls = "[]"])
    (simp_all add: fields)

lemma ChangeWindowStatus_copies [simp]:
  "metav1_deep m \<Longrightarrow> copies (ChangeWindowStatusT m)
     [[''Validation'', ''GateResults''], [''StabilizationStartedAt''],
      [''AppStates'', ''[]'', ''ClusterStates'', ''[]'', ''MCPStatus''],
      [''AppStates'', ''[]'', ''ClusterStates'', ''[]'', ''PlatformObservation''],
      [''Baseline''], [''Timeline'']]
     (ChangeWindowStatus_DeepCopyInto m)"
  unfolding ChangeWindowStatusT_def ChangeWindowStatus_DeepCopyInto_def
  by (rule copies_struct [where ls = "[(''Validation'', [[''GateResults'']]), (''StabilizationStartedAt'', [[]]),
      (''AppStates'', [[''[]'', ''ClusterStates'', ''[]'', ''MCPStatus''], [''[]'', ''ClusterStates'', ''[]'', ''PlatformObservation'']]),
      (''Baseline'', [[]]), (''Timeline'', [[]])]"])
    (simp_all add: fields SignedAuditReport_DeepCopy_def)

lemma ChangeWindow_copies [simp]:
  "metav1_deep m \<Longrightarrow> copies (ChangeWindowT m)
     [[''Spec'', ''TargetNamespaces''], [''Status'', ''Validation'', ''GateResults''],
      [''Status'', ''StabilizationStartedAt''],
      [''Status'', ''AppStates'', ''[]'', ''ClusterStates'', ''[]'', ''MCPStatus''],
      [''Status'', ''AppStates'', ''[]'', ''ClusterStates'', ''[]'', ''PlatformObservation''],
      [''Status'', ''Baseline''], [''Status'', ''Timeline'']]
     (ChangeWindow_DeepCopyInto m)"
  unfolding ChangeWindowT_def ChangeWindow_DeepCopyInto_def
  by (rule copies_struct [where ls = "[(''Spec'', [[''TargetNamespaces'']]),
      (''Status'', [[''Validation'', ''GateResults''], [''StabilizationStartedAt''], [''AppStates'', ''[]'', ''ClusterStates'', ''[]'', ''MCPStatus''], [''AppStates'', ''[]'', ''ClusterStates'', ''[]'', ''PlatformObservation''], [''Baseline''], [''Timeline'']])]"])
    (simp_all add: fields)

lemma ChangeWindow_items [simp]:
  "metav1_deep m \<Longrightarrow> copies (RefTo Slice (ChangeWindowT m))
     [[''[]'', ''Spec'', ''TargetNamespaces''],
      [''[]'', ''Status'', ''Validation'', ''GateResults''],
      [''[]'', ''Status'', ''StabilizationStartedAt''],
      [''[]'', ''Status'', ''AppStates'', ''[]'', ''ClusterStates'', ''[]'', ''MCPStatus''],
      [''[]'', ''Status'', ''AppStates'', ''[]'', ''ClusterStates'', ''[]'', ''PlatformObservation''],
      [''[]'', ''Status'', ''Baseline''], [''[]'', ''Status'', ''Timeline'']]
     (make_copy (ChangeWindow_DeepCopyInto m))"
  using copies_make [OF ChangeWindow_copies, of m Slice] by simp

lemma ChangeWindowList_copies [simp]:
  "metav1_deep m \<Longrightarrow> copies (ChangeWindowListT m)
     [[''Items'', ''[]'', ''Spec'', ''TargetNamespaces''],
      [''Items'', ''[]'', ''Status'', ''Validation'', ''GateResults''],
      [''Items'', ''[]'', ''Status'', ''StabilizationStartedAt''],
      [''Items'', ''[]'', ''Status'', ''AppStates'', ''[]'', ''ClusterStates'', ''[]'', ''MCPStatus''],
      [''Items'', ''[]'', ''Status'', ''AppStates'', ''[]'', ''ClusterStates'', ''[]'', ''PlatformObservation''],
      [''Items'', ''[]'', ''Status'', ''Baseline''],
      [''Items'', ''[]'', ''Status'', ''Timeline'']]
     (ChangeWindowList_DeepCopyInto m)"
  unfolding ChangeWindowListT_def ChangeWindowList_DeepCopyInto_def
  by (rule copies_struct [where ls = "[(''Items'', [[''[]'', ''Spec'', ''TargetNamespaces''], [''[]'', ''Status'', ''Validation'', ''GateResults''], [''[]'', ''Status'', ''StabilizationStartedAt''], [''[]'', ''Status'', ''AppStates'', ''[]'', ''ClusterStates'', ''[]'', ''MCPStatus''], [''[]'', ''Status'', ''AppStates'', ''[]'', ''ClusterStates'', ''[]'', ''PlatformObservation''], [''[]'', ''Status'', ''Baseline''], [''[]'', ''Status'', ''Timeline'']])]"])
    (simp_all add: fields)

lemma ClusterAppReportSpec_copies [simp]:
  "metav1_deep m \<Longrightarrow> copies (ClusterAppReportSpecT m)
     [[''MCPStatus''], [''PlatformObservation'']]
     (ClusterAppReportSpec_DeepCopyInto m)"
  unfolding ClusterAppReportSpecT_def ClusterAppReportSpec_DeepCopyInto_def
  by (rule copies_struct [where ls = "[(''MCPStatus'', [[]]), (''PlatformObservation'', [[]])]"])
    (simp_all add: fields)

lemma ClusterAppReport_copies [simp]:
  "metav1_deep m \<Longrightarrow> copies (ClusterAppReportT m)
     [[''Spec'', ''MCPStatus''], [''Spec'', ''PlatformObservation'']]
     (ClusterAppReport_DeepCopyInto m)"
  unfolding ClusterAppReportT_def ClusterAppReport_DeepCopyInto_def
  by (rule copies_struct [where ls = "[(''Spec'', [[''MCPStatus''], [''PlatformObservation'']])]"])
    (simp_all add: fields)

lemma ClusterAppReport_items [simp]:
  "metav1_deep m \<Longrightarrow> copies (RefTo Slice (ClusterAppReportT m))
     [[''[]'', ''Spec'', ''MCPStatus''], [''[]'', ''Spec'', ''PlatformObservation'']]
     (make_copy (ClusterAppReport_DeepCopyInto m))"
  using copies_make [OF ClusterAppReport_copies, of m Slice] by simp

lemma ClusterAppReportList_copies [simp]:
  "metav1_deep m \<Longrightarrow> copies (ClusterAppReportListT m)
     [[''Items'', ''[]'', ''Spec'', ''MCPStatus''],
      [''Items'', ''[]'', ''Spec'', ''PlatformObservation'']]
     (ClusterAppReportList_DeepCopyInto m)"
  unfolding ClusterAppReportListT_def ClusterAppReportList_DeepCopyInto_def
  by (rule copies_struct [where ls = "[(''Items'', [[''[]'', ''Spec'', ''MCPStatus''], [''[]'', ''Spec'', ''PlatformObservation'']])]"])
    (simp_all add: fields)

lemma DependencyRef_copies [simp]:
  "copies DependencyRefT
     []
     DependencyRef_DeepCopyInto"
  unfolding DependencyRefT_def DependencyRef_DeepCopyInto_def
  by (rule copies_struct [where ls = "[]"])
    (simp_all add: fields)

lemma HardRefreshConfig_copies [simp]:
  "copies HardRefreshConfigT
     []
     HardRefreshConfig_DeepCopyInto"
  unfolding HardRefreshConfigT_def HardRefreshConfig_DeepCopyInto_def
  by (rule copies_struct [where ls = "[]"])
    (simp_all add: fields)

lemma MachineConfigPoolStatus_copies [simp]:
  "copies (MachineConfigPoolStatusT m)
     [[''Conditions'']]
     MachineConfigPoolStatus_DeepCopyInto"
  unfolding MachineConfigPoolStatusT_def MachineConfigPoolStatus_DeepCopyInto_def
  by (rule copies_struct [where ls = "[(''Conditions'', [[]])]"])
    (simp_all add: fields)

lemma PropagationStatusSpec_copies [simp]:
  "copies PropagationStatusSpecT
     []
     PropagationStatusSpec_DeepCopyInto"
  unfolding PropagationStatusSpecT_def PropagationStatusSpec_DeepCopyInto_def
  by (rule copies_struct [where ls = "[]"])
    (simp_all add: fields)

lemma PropagationStatusStatus_copies [simp]:
  "metav1_deep m \<Longrightarrow> copies (PropagationStatusStatusT m)
     [[''ClusterStates'', ''[]'', ''MCPStatus''],
      [''ClusterStates'', ''[]'', ''PlatformObservation'']]
     (PropagationStatusStatus_DeepCopyInto m)"
  unfolding PropagationStatusStatusT_def PropagationStatusStatus_DeepCopyInto_def
  by (rule copies_struct [where ls = "[(''ClusterStates'', [[''[]'', ''MCPStatus''], [''[]'', ''PlatformObservation'']])]"])
    (simp_all add: fields)

lemma PropagationStatus_copies [simp]:
  "metav1_deep m \<Longrightarrow> copies (PropagationStatusT m)
     [[''Status'', ''ClusterStates'', ''[]'', ''MCPStatus''],
      [''Status'', ''ClusterStates'', ''[]'', ''PlatformObservation'']]
     (PropagationStatus_DeepCopyInto m)"
  unfolding PropagationStatusT_def PropagationStatus_DeepCopyInto_def
  by (rule copies_struct [where ls = "[(''Status'', [[''ClusterStates'', ''[]'', ''MCPStatus''], [''ClusterStates'', ''[]'', ''PlatformObservation'']])]"])
    (simp_all add: fields)

lemma PropagationStatus_items [simp]:
  "metav1_deep m \<Longrightarrow> copies (RefTo Slice (PropagationStatusT m))
     [[''[]'', ''Status'', ''ClusterStates'', ''[]'', ''MCPStatus''],
      [''[]'', ''Status'', ''ClusterStates'', ''[]'', ''PlatformObservation'']]
     (make_copy (PropagationStatus_DeepCopyInto m))"
  using copies_make [OF PropagationStatus_copies, of m Slice] by simp

lemma PropagationStatusList_copies [simp]:
  "metav1_deep m \<Longrightarrow> copies (PropagationStatusListT m)
     [[''Items'', ''[]'', ''Status'', ''ClusterStates'', ''[]'', ''MCPStatus''],
      [''Items'', ''[]'', ''Status'', ''ClusterStates'', ''[]'', ''PlatformObservation'']]
     (PropagationStatusList_DeepCopyInto m)"
  unfolding PropagationStatusListT_def PropagationStatusList_DeepCopyInto_def
  by (rule copies_struct [where ls = "[(''Items'', [[''[]'', ''Status'', ''ClusterStates'', ''[]'', ''MCPStatus''], [''[]'', ''Status'', ''ClusterStates'', ''[]'', ''PlatformObservation'']])]"])
    (simp_all add: fields)

end
