(* ===== verification/ApiCopyProps.thy ===== *)
theory ApiCopyProps
  imports ApiCopy
begin

text \<open>
  The table of all copy functions of the API types with what each shares, and what this means
  for the three \<open>DeepCopy\<close> calls of the reconcilers: the base of a merge patch does not see what a
  reconcile writes, although some cells are shared. So a struct can be modelled by its value,
  as the other theories do.
\<close>

section \<open>All copy functions\<close>

definition deep_copies :: "metav1 \<Rightarrow> (gtype \<times> string list list \<times> copier \<times> copier list) list" where
  "deep_copies m = [
     (ActionAttemptHistoryT, [],
      ActionAttemptHistory_DeepCopyInto m, [ActionAttemptHistory_DeepCopy m]),
     (ActionRecordT, [],
      ActionRecord_DeepCopyInto m, [ActionRecord_DeepCopy m]),
     (EventSummaryT, [],
      EventSummary_DeepCopyInto m, [EventSummary_DeepCopy m]),
     (ObjectChangeSummaryT, [],
      ObjectChangeSummary_DeepCopyInto, [ObjectChangeSummary_DeepCopy]),
     (ClusterRevisionStateT m, [[''MCPStatus''], [''PlatformObservation'']],
      ClusterRevisionState_DeepCopyInto m, [ClusterRevisionState_DeepCopy m]),
     (AppClusterStateMapT m, [[''ClusterStates'', ''[]'', ''MCPStatus''],
       [''ClusterStates'', ''[]'', ''PlatformObservation'']],
      AppClusterStateMap_DeepCopyInto m, [AppClusterStateMap_DeepCopy m]),
     (ChangeWindowSpecT, [[''TargetNamespaces'']],
      ChangeWindowSpec_DeepCopyInto m, [ChangeWindowSpec_DeepCopy m]),
     (SilentClusterStateT, [],
      SilentClusterState_DeepCopyInto m, [SilentClusterState_DeepCopy m]),
     (ValidationResultT, [[''GateResults'']],
      ValidationResult_DeepCopyInto, [ValidationResult_DeepCopy]),
     (EvidenceRefT, [],
      EvidenceRef_DeepCopyInto m, [EvidenceRef_DeepCopy m]),
     (GateResultT, [],
      GateResult_DeepCopyInto m, [GateResult_DeepCopy m]),
     (SignedAuditReportT, [],
      SignedAuditReport_DeepCopyInto m, [SignedAuditReport_DeepCopy m]),
     (ChangeWindowStatusT m, [[''Validation'', ''GateResults''], [''StabilizationStartedAt''],
       [''AppStates'', ''[]'', ''ClusterStates'', ''[]'', ''MCPStatus''],
       [''AppStates'', ''[]'', ''ClusterStates'', ''[]'', ''PlatformObservation''],
       [''Baseline''], [''Timeline'']],
      ChangeWindowStatus_DeepCopyInto m, [ChangeWindowStatus_DeepCopy m]),
     (ChangeWindowT m, [[''Spec'', ''TargetNamespaces''], [''Status'', ''Validation'', ''GateResults''],
       [''Status'', ''StabilizationStartedAt''],
       [''Status'', ''AppStates'', ''[]'', ''ClusterStates'', ''[]'', ''MCPStatus''],
       [''Status'', ''AppStates'', ''[]'', ''ClusterStates'', ''[]'', ''PlatformObservation''],
       [''Status'', ''Baseline''], [''Status'', ''Timeline'']],
      ChangeWindow_DeepCopyInto m, [ChangeWindow_DeepCopy m, ChangeWindow_DeepCopyObject m]),
     (ChangeWindowListT m, [[''Items'', ''[]'', ''Spec'', ''TargetNamespaces''],
       [''Items'', ''[]'', ''Status'', ''Validation'', ''GateResults''],
       [''Items'', ''[]'', ''Status'', ''StabilizationStartedAt''],
       [''Items'', ''[]'', ''Status'', ''AppStates'', ''[]'', ''ClusterStates'', ''[]'', ''MCPStatus''],
       [''Items'', ''[]'', ''Status'', ''AppStates'', ''[]'', ''ClusterStates'', ''[]'', ''PlatformObservation''],
       [''Items'', ''[]'', ''Status'', ''Baseline''],
       [''Items'', ''[]'', ''Status'', ''Timeline'']],
      ChangeWindowList_DeepCopyInto m, [ChangeWindowList_DeepCopy m, ChangeWindowList_DeepCopyObject m]),
     (ClusterAppReportSpecT m, [[''MCPStatus''], [''PlatformObservation'']],
      ClusterAppReportSpec_DeepCopyInto m, [ClusterAppReportSpec_DeepCopy m]),
     (ClusterAppReportT m, [[''Spec'', ''MCPStatus''], [''Spec'', ''PlatformObservation'']],
      ClusterAppReport_DeepCopyInto m, [ClusterAppReport_DeepCopy m, ClusterAppReport_DeepCopyObject m]),
     (ClusterAppReportListT m, [[''Items'', ''[]'', ''Spec'', ''MCPStatus''],
       [''Items'', ''[]'', ''Spec'', ''PlatformObservation'']],
      ClusterAppReportList_DeepCopyInto m, [ClusterAppReportList_DeepCopy m, ClusterAppReportList_DeepCopyObject m]),
     (DependencyRefT, [],
      DependencyRef_DeepCopyInto, [DependencyRef_DeepCopy]),
     (HardRefreshConfigT, [],
      HardRefreshConfig_DeepCopyInto, [HardRefreshConfig_DeepCopy]),
     (MachineConfigPoolStatusT m, [[''Conditions'']],
      MachineConfigPoolStatus_DeepCopyInto, [MachineConfigPoolStatus_DeepCopy]),
     (PropagationStatusSpecT, [],
      PropagationStatusSpec_DeepCopyInto, [PropagationStatusSpec_DeepCopy]),
     (PropagationStatusStatusT m, [[''ClusterStates'', ''[]'', ''MCPStatus''],
       [''ClusterStates'', ''[]'', ''PlatformObservation'']],
      PropagationStatusStatus_DeepCopyInto m, [PropagationStatusStatus_DeepCopy m]),
     (PropagationStatusT m, [[''Status'', ''ClusterStates'', ''[]'', ''MCPStatus''],
       [''Status'', ''ClusterStates'', ''[]'', ''PlatformObservation'']],
      PropagationStatus_DeepCopyInto m, [PropagationStatus_DeepCopy m, PropagationStatus_DeepCopyObject m]),
     (PropagationStatusListT m, [[''Items'', ''[]'', ''Status'', ''ClusterStates'', ''[]'', ''MCPStatus''],
       [''Items'', ''[]'', ''Status'', ''ClusterStates'', ''[]'', ''PlatformObservation'']],
      PropagationStatusList_DeepCopyInto m, [PropagationStatusList_DeepCopy m, PropagationStatusList_DeepCopyObject m])]"

lemma object_copy_id [simp]: "object_copy copy = copy"
  by (simp add: object_copy_def fun_eq_iff Let_def split: prod.split)

lemma deep_copies_rows:
  assumes "metav1_deep m"
  shows "\<forall>(T, L, into, cps)\<in>set (deep_copies m). copies T L into \<and> (\<forall>c\<in>set cps. c = DeepCopy into)"
  using assms
  by (simp add: deep_copies_def ActionAttemptHistory_DeepCopy_def ActionRecord_DeepCopy_def EventSummary_DeepCopy_def ObjectChangeSummary_DeepCopy_def ClusterRevisionState_DeepCopy_def AppClusterStateMap_DeepCopy_def ChangeWindowSpec_DeepCopy_def SilentClusterState_DeepCopy_def ValidationResult_DeepCopy_def EvidenceRef_DeepCopy_def GateResult_DeepCopy_def SignedAuditReport_DeepCopy_def ChangeWindowStatus_DeepCopy_def ChangeWindow_DeepCopy_def ChangeWindow_DeepCopyObject_def ChangeWindowList_DeepCopy_def ChangeWindowList_DeepCopyObject_def ClusterAppReportSpec_DeepCopy_def ClusterAppReport_DeepCopy_def ClusterAppReport_DeepCopyObject_def ClusterAppReportList_DeepCopy_def ClusterAppReportList_DeepCopyObject_def DependencyRef_DeepCopy_def HardRefreshConfig_DeepCopy_def MachineConfigPoolStatus_DeepCopy_def PropagationStatusSpec_DeepCopy_def PropagationStatusStatus_DeepCopy_def PropagationStatus_DeepCopy_def PropagationStatus_DeepCopyObject_def PropagationStatusList_DeepCopy_def PropagationStatusList_DeepCopyObject_def)

text \<open>C32: Every generated copy function is right about values and exact about sharing. \<open>DeepCopyInto\<close>
  and \<open>DeepCopy\<close> (and \<open>DeepCopyObject\<close>) of each type return an equal value, write no cell that
  exists, and give the copy new cells except on the paths of the table, whose cells it shares
  with the original; nil is copied to nil. The table has a path for each reference field that
  was added to a type after its copy function was generated.\<close>

theorem deep_copies_correct:
  assumes "metav1_deep m" "(T, L, into, cps) \<in> set (deep_copies m)" "copy \<in> set cps"
  shows "copies T L into \<and> copies (RefTo Pointer T) (map ((#) ''[]'') L) copy \<and> copy NilRef s = (NilRef, s)"
proof -
  have "copies T L into" "copy = DeepCopy into"
    using deep_copies_rows [OF assms(1)] assms(2,3) by auto
  then show ?thesis using copies_DeepCopy [of T L into] by (simp add: DeepCopy_def)
qed

definition sample_metav1 :: metav1 where
  "sample_metav1 = \<lparr>ObjectMetaT = StructOf [(''Name'', Basic), (''Labels'', RefTo Map Basic)],
     ListMetaT = StructOf [(''ResourceVersion'', Basic)],
     ConditionT = StructOf [(''Type'', Basic), (''Status'', Basic)],
     Time_DeepCopyInto = plain, ObjectMeta_DeepCopyInto = struct_copy [(''Labels'', make_copy plain)],
     ListMeta_DeepCopyInto = plain, Condition_DeepCopyInto = plain\<rparr>"

lemma sample_metav1_deep: "metav1_deep sample_metav1"
  unfolding metav1_deep_def sample_metav1_def
  by (simp, rule copies_struct [where ls = "[]"]) (simp_all add: fields)

lemma deep_copies_correct_witness:
  "copies ActionRecordT [] (ActionRecord_DeepCopyInto sample_metav1)
    \<and> ActionRecord_DeepCopy sample_metav1 NilRef [] = (NilRef, [])"
  using deep_copies_correct [OF sample_metav1_deep, of ActionRecordT "[]"
      "ActionRecord_DeepCopyInto sample_metav1" "[ActionRecord_DeepCopy sample_metav1]"
      "ActionRecord_DeepCopy sample_metav1" "[]"]
  by (simp add: deep_copies_def)

section \<open>The copies of the reconcilers\<close>

text \<open>\<open>original := chg.DeepCopy()\<close>, \<open>original := ps.DeepCopy()\<close> and \<open>updated := existing.DeepCopy()\<close>.\<close>

definition window_shares :: "string list list" where
  "window_shares = [[''[]'', ''Spec'', ''TargetNamespaces''],
      [''[]'', ''Status'', ''Validation'', ''GateResults''],
      [''[]'', ''Status'', ''StabilizationStartedAt''],
      [''[]'', ''Status'', ''AppStates'', ''[]'', ''ClusterStates'', ''[]'', ''MCPStatus''],
      [''[]'', ''Status'', ''AppStates'', ''[]'', ''ClusterStates'', ''[]'', ''PlatformObservation''],
      [''[]'', ''Status'', ''Baseline''], [''[]'', ''Status'', ''Timeline'']]"

definition status_shares :: "string list list" where
  "status_shares = [[''[]'', ''Status'', ''ClusterStates'', ''[]'', ''MCPStatus''],
      [''[]'', ''Status'', ''ClusterStates'', ''[]'', ''PlatformObservation'']]"

definition report_shares :: "string list list" where
  "report_shares = [[''[]'', ''Spec'', ''MCPStatus''], [''[]'', ''Spec'', ''PlatformObservation'']]"

definition reconciler_copies :: "metav1 \<Rightarrow> (gtype \<times> string list list \<times> copier) list" where
  "reconciler_copies m = [
     (RefTo Pointer (ChangeWindowT m), window_shares, ChangeWindow_DeepCopy m),
     (RefTo Pointer (PropagationStatusT m), status_shares, PropagationStatus_DeepCopy m),
     (RefTo Pointer (ClusterAppReportT m), report_shares, ClusterAppReport_DeepCopy m)]"

lemma reconciler_copies_rows:
  assumes "metav1_deep m" "(T, L, copy) \<in> set (reconciler_copies m)"
  shows "copies T L copy"
  using assms copies_DeepCopy [OF ChangeWindow_copies [OF assms(1)]]
    copies_DeepCopy [OF PropagationStatus_copies [OF assms(1)]]
    copies_DeepCopy [OF ClusterAppReport_copies [OF assms(1)]]
  by (auto simp: reconciler_copies_def window_shares_def status_shares_def report_shares_def
      ChangeWindow_DeepCopy_def PropagationStatus_DeepCopy_def ClusterAppReport_DeepCopy_def)

text \<open>C31: A reconciler may write in place. Whatever a program does after the copy, in any order: as
  long as it writes cells it allocated itself or cells of the object that are not on the shared
  paths (the object behind the pointer, the maps \<open>appStates\<close> and \<open>actions\<close>, the conditions), the copy
  that serves as the base of the merge patch still denotes the object as it was read; and as
  long as it writes new cells only, so does the object. The cells on the shared paths (gate
  results, timeline, baseline, stabilisation start, target namespaces, and platform
  observations) are those of the object.\<close>

theorem patch_base_unaffected:
  assumes "metav1_deep m" "(T, L, copy) \<in> set (reconciler_copies m)"
    and "conf s T r" "tree_shaped s T r" "copy r s = (base, s')"
  shows "((\<forall>op\<in>set ops. \<forall>a\<in>written op.
        length s' \<le> a \<or> (\<exists>p. (p, a) \<in> set (refs s T r) \<and> \<not> leaky L p))
      \<longrightarrow> reify (fold run_op ops s') T base = reify s T r)
    \<and> ((\<forall>op\<in>set ops. \<forall>a\<in>written op. length s \<le> a)
      \<longrightarrow> reify (fold run_op ops s') T r = reify s T r)
    \<and> (\<forall>p a. leaky L p \<longrightarrow> ((p, a) \<in> set (refs s' T base) \<longleftrightarrow> (p, a) \<in> set (refs s T r)))"
  using copy_unaffected [OF reconciler_copies_rows [OF assms(1,2)] assms(3,5,4), of ops]
    original_unaffected [OF reconciler_copies_rows [OF assms(1,2)] assms(3,5), of ops]
    copiesD(2) [OF reconciler_copies_rows [OF assms(1,2)] assms(3,5)]
  unfolding copied_def by blast

text \<open>A window with an action and a timeline of one entry.\<close>

fun put :: "string list \<Rightarrow> gv \<Rightarrow> gv \<Rightarrow> gv" where
  "put [] w v = w"
| "put (n # ns) w v = set_field n (put ns w (field v n)) v"

definition heap_window :: "string \<Rightarrow> gv" where
  "heap_window phase = put [''Status'', ''Actions''] (Ref 0) (put [''Status'', ''Timeline''] (Ref 1)
     (put [''Status'', ''Phase''] (Scalar phase) (zero_value (ChangeWindowT sample_metav1))))"

definition window_store :: store where
  "window_store = [[(''a/c1'', zero_value ActionRecordT)], [(''[]'', zero_value TimelineEntryT)],
     [(''*'', heap_window ''Executing'')]]"

text \<open>The base does not see a new phase and an emptied action map; its timeline is the window's.\<close>

lemma patch_base_unaffected_witness:
  "reify (fold run_op [Write 2 [(''*'', heap_window ''Succeeded'')], Write 0 []]
       (snd (ChangeWindow_DeepCopy sample_metav1 (Ref 2) window_store)))
     (RefTo Pointer (ChangeWindowT sample_metav1))
     (fst (ChangeWindow_DeepCopy sample_metav1 (Ref 2) window_store))
   = reify window_store (RefTo Pointer (ChangeWindowT sample_metav1)) (Ref 2)
   \<and> ([''[]'', ''Status'', ''Timeline''], 1) \<in>
      set (refs (snd (ChangeWindow_DeepCopy sample_metav1 (Ref 2) window_store))
        (RefTo Pointer (ChangeWindowT sample_metav1))
        (fst (ChangeWindow_DeepCopy sample_metav1 (Ref 2) window_store)))"
proof -
  let ?T = "RefTo Pointer (ChangeWindowT sample_metav1)"
  have row: "(?T, window_shares, ChangeWindow_DeepCopy sample_metav1) \<in> set (reconciler_copies sample_metav1)"
    by (simp add: reconciler_copies_def)
  have refs: "refs window_store ?T (Ref 2) =
      [([], 2), ([''[]'', ''Status'', ''Actions''], 0), ([''[]'', ''Status'', ''Timeline''], 1)]"
    by code_simp
  have conf: "conf window_store ?T (Ref 2)" by code_simp
  have tree: "tree_shaped window_store ?T (Ref 2)" by (simp only: tree_shaped_def refs) simp
  have leak: "leaky window_shares [''[]'', ''Status'', ''Timeline'']" "\<not> leaky window_shares []"
    "\<not> leaky window_shares [''[]'', ''Status'', ''Actions'']"
    by (simp_all add: window_shares_def)
  show ?thesis
    using patch_base_unaffected [OF sample_metav1_deep row conf tree prod.collapse [symmetric],
        of "[Write 2 [(''*'', heap_window ''Succeeded'')], Write 0 []]"] leak
    by (auto simp: refs simp del: refs.simps reify.simps)
qed

end
