(* ===== verification/Spec2Isabelle.thy ===== *)
theory Spec2Isabelle
  imports GateIssues GateStability PropagationProps ActionRun CausalGraph SystemThms Wiring ApiCopyProps
begin

text \<open>
  A verification development of the drift operator: a Kubernetes operator that watches how an
  application's revision propagates over a fleet of OpenShift clusters and validates change
  windows on them.

  The program. On every spoke, \<open>LocalAppWatchReconciler\<close> reads an application descriptor (a
  ConfigMap) and the platform around it and writes one \<open>ClusterAppReport\<close>. On the hub,
  \<open>PropagationStatusReconciler\<close> aggregates the reports of an application into the rows and the
  phase of its \<open>PropagationStatus\<close>, and publishes gauges. \<open>ChangeWindowReconciler\<close> copies the
  rows of the impacted applications into the status of a \<open>ChangeWindow\<close>, evaluates eleven gates
  on them, drives the phase of the window, parks hard refreshes, signs a report of a finished
  window and publishes reports to Kafka. The Kafka bridge creates windows from messages.
  \<open>main.go\<close> and \<open>controllers.go\<close> decide which of these a process runs.

  Theories and sources (paths below \<open>src/\<close>).

  \<^item> \<open>Prelude\<close>, \<open>GoText\<close>, \<open>Float64\<close>: the fragment of Go the code uses. Integers are words,
    times and durations are integers with the saturation of \<open>Time.Sub\<close>, maps are association
    lists with the interface \<open>keyed_store\<close>, \<open>range\<close> over a map takes the order as an oracle
    (\<open>iter_order\<close>, \<open>iter_ok\<close>), transition systems with invariants are \<open>invariant_system\<close>; the
    operations of \<open>fmt\<close>, \<open>strings\<close> and \<open>sort\<close>; doubles as rationals with explicit rounding.
  \<^item> \<open>ApiTypes\<close>, \<open>Samples\<close>: \<open>api/v1alpha1/propagationstatus_types.go\<close>, one record per struct with
    its zero value, and concrete resources for the witnesses.
  \<^item> \<open>Gates\<close>: \<open>evaluateGates\<close> of \<open>internal/controller/changewindow_controller.go\<close>, one
    definition per block. \<open>GateSpec\<close>: the loop-free specification, over the locales
    \<open>gate_fold\<close>, \<open>sticky_gate\<close>, \<open>failing_gate\<close>, \<open>last_wins_gate\<close> and \<open>observed_flag\<close> that say how a
    gate's status evolves over the loop. \<open>GateProps\<close>: the gates refine it and the exact condition
    for passing. \<open>GateIssues\<close>: the issues list, and when it disagrees with the verdict.
    \<open>GateStability\<close>: evaluating a stored result again, and that the release a window names is
    not looked at.
  \<^item> \<open>Window\<close>, \<open>WindowReconcile\<close>: the helpers and \<open>Reconcile\<close> of the same file; \<open>chg_reconcile\<close> is the
    whole handler, the answers it gets in \<open>chg_env\<close> and its effects (patch and Kafka reports) in
    \<open>chg_out\<close>. \<open>WindowProps\<close>: silence, parked refreshes. \<open>ActionRun\<close>: a refresh over many visits.
    \<open>WindowFrame\<close>: what each step leaves alone and the closed form of a reconcile.
    \<open>WindowRun\<close>: the step relation \<open>window_step\<close> over the stored object and its invariant.
    \<open>WindowThms\<close>: the properties of one reconcile and of a window's life.
  \<^item> \<open>Propagation\<close>, \<open>Metrics\<close>: \<open>internal/controller/propagationstatus_controller.go\<close> and
    \<open>internal/metrics/metrics.go\<close>; \<open>PropagationSpec\<close> says what a row and the phase mean,
    \<open>PropagationProps\<close> relates reconciles, gauges, limits, errors and the lag clock to it.
  \<^item> \<open>Digest\<close>, \<open>Json\<close>, \<open>Evidence\<close>: \<open>internal/validator/evidence.go\<close> with SHA-256, HMAC and the
    encoder written out; the interface \<open>report_signer\<close>.
  \<^item> \<open>KafkaBridge\<close>: \<open>internal/kafka/kafka_bridge.go\<close>; the consumer is the step relation
    \<open>consumer_step\<close>. \<open>ClusterRole\<close>, \<open>Setup\<close>: \<open>internal/controller/cluster_detector.go\<close>,
    \<open>internal/controller/controllers.go\<close> and \<open>main.go\<close>.
  \<^item> \<open>KubeApi\<close>: the untyped client calls and the loop over conditions that all readers share.
    \<open>PlatformRead\<close>, \<open>Platform\<close>: the readers and the evaluators of
    \<open>internal/controller/platform_validator.go\<close>; \<open>PlatformProps\<close>: which stage fails, what it
    blames, what blocks what, and the error of the predicted time.
  \<^item> \<open>LocalCollect\<close>, \<open>LocalWatch\<close>: \<open>internal/controller/localwatch_controller.go\<close>;
    \<open>local_reconcile\<close> is the handler, \<open>report_spec\<close> the report it writes. \<open>LocalCollectProps\<close>:
    events, logs and annotations (the interface \<open>line_codec\<close>). \<open>LocalWatchProps\<close>: counts,
    shape of the report, and the report store over a run of reconciles.
  \<^item> \<open>CausalGraph\<close>: \<open>internal/validator/graph.go\<close>.
  \<^item> \<open>Wiring\<close>: the three \<open>SetupWithManager\<close> methods: indexes, watches and event filter as
    registered with the manager. \<open>wakeups_correct\<close> says which change wakes which reconciler,
    given that the cached client serves a field selector exactly when its index exists (\<open>serves\<close>).
  \<^item> \<open>GoHeap\<close>, \<open>ApiCopy\<close>, \<open>ApiCopyProps\<close>: \<open>api/v1alpha1/zz_generated.deepcopy.go\<close> over a store of
    cells: which slices, maps and pointers a copy shares with the original, and that the base of
    a merge patch is not changed by the reconciler's writes. This is why the other theories
    may take a copy of a value to be the value.
  \<^item> \<open>SpokeHub\<close> and this theory: one spoke report, one aggregation and one window composed.
    \<open>passing_window_is_synced\<close> follows a passing window back to the aggregation,
    \<open>passing_window_reaches_spokes\<close> further to what each spoke read from its own API server.
  \<^item> \<open>System\<close>, \<open>SystemThms\<close>: the whole system. \<open>sys_step\<close> interleaves the reconciles of any number
    of spokes, of the aggregation and of one window, with edits of the statuses, refused patches,
    reads of any earlier version of an object, and merge patches of a status against such a read; \<open>sys_inv\<close> is its invariant, an instance of
    \<open>invariant_system\<close>, and \<open>success_reaches_spokes\<close> the end-to-end guarantee of a succeeded window.

  Parameters and what is assumed of them. The API server's answers, the clocks, Kafka's replies
  and the log streams are arguments, and nothing is assumed of them unless a theorem says so.
  Within one spoke reconcile a repeated call with the same arguments gets the same answer, apart
  from the second read of the machine config pool. Map orders are any permutation (\<open>iter_ok\<close>);
  the order in which \<open>collectWarningEvents\<close> meets its groups also covers what the unstable
  \<open>sort.Slice\<close> does to equal counts. \<open>meta.SetStatusCondition\<close>, the JSON form of
  \<open>metav1.Time\<close>, \<open>json.Unmarshal\<close> of a message and the Kafka client are parameters. Untyped
  resources are known by what apimachinery's accessors return on them. In \<open>System\<close> a spoke
  patches the latest version of its report and the window's reconciler reads the latest version
  of its window, so these two patches store what was computed; a status that is created again
  under a used name keeps its application.

  Bounds. No definition takes fuel: every loop of the program is over a finite list or map and
  is a structural recursion or a fold. Counters are 32-bit words and wrap; \<open>status.timeline\<close> is
  cut at 50 entries, list calls at 100 objects, logs at 50 lines and events at 20 groups, as in
  the code.

  Simplifications. Case mapping and trimming know ASCII only. Nil and empty slices are
  one value; a map that the code compares with nil is an option. The conversion of a
  double to \<open>int64\<close> is taken in range. A string is a list of bytes.

  Not modelled: the scheme registration in \<open>groupversion_info.go\<close>; the manager's work queue and
  caches, which controller-runtime implements; spare capacity behind the end of a slice; logging
  and flag parsing; \<open>ImmutableEvidenceSnapshot\<close>, a type nothing uses.
\<close>

section \<open>From the aggregation to the gates\<close>

text \<open>The states of the application are the rows of the stored status, so every row of a target
  cluster satisfies the per-cluster conditions of a passing window.\<close>

lemma passing_rows:
  assumes "aggregates env ps reports" "\<forall>p. pePatch env p = None"
    and "gm_get (app_states chg) app = Some m"
    and "acClusterStates m = pssClusterStates (psStatus (stored_after env ps (prop_reconcile env req g)))"
    and "iter_ok it" "vrPassed (fst (evaluateGates isHub it chg now))"
    and c: "c \<in> set (psTargetClusters (psSpec ps))"
  shows "cluster_ok (cwStartTime (chgSpec chg))
    (row (reset_lag_clock (peMetaNow env) ps) (byCluster reports) (peNow env) c)"
proof -
  have "acClusterStates m = map (row (reset_lag_clock (peMetaNow env) ps) (byCluster reports) (peNow env))
      (psTargetClusters (psSpec ps))"
    by (simp only: assms(4) stored_status [OF assms(1,2)] computed_status_fields)
  moreover have "cluster_ok (cwStartTime (chgSpec chg)) cs" if "cs \<in> set (acClusterStates m)" for cs
    using assms(6) window_clusters_mem [OF assms(5,3) that] by (simp add: passed_iff list_all_iff)
  ultimately show ?thesis using c by simp
qed

text \<open>C3: A change window can only pass on what the aggregation calls converged: when the states of
  an application are those of a stored reconcile of its \<open>PropagationStatus\<close>, a passing window
  implies that the phase stored there is \<open>Synced\<close> and that every target cluster reported,
  freshly, the expected revision without a local divergence.\<close>

theorem passing_window_is_synced:
  assumes "aggregates env ps reports" "\<forall>p. pePatch env p = None"
    and "gm_get (app_states chg) app = Some m"
    and "acClusterStates m = pssClusterStates (psStatus (stored_after env ps (prop_reconcile env req g)))"
    and "iter_ok it" "vrPassed (fst (evaluateGates isHub it chg now))"
  shows "pssPhase (psStatus (stored_after env ps (prop_reconcile env req g))) = ''Synced''
    \<and> (\<forall>c\<in>set (psTargetClusters (psSpec ps)). \<exists>r\<in>set reports. rsClusterName (carSpec r) = c
         \<and> peNow env - rsObservedAt (carSpec r) \<le> stale_seconds ps * Second
         \<and> rsSyncStatus (carSpec r) \<noteq> ''OutOfSync''
         \<and> rsObservedRevision (carSpec r) = psExpectedRevision (psSpec ps))"
proof -
  let ?ps0 = "reset_lag_clock (peMetaNow env) ps"
  let ?v = "verdict ?ps0 (byCluster reports) (peNow env)"
  let ?T = "psTargetClusters (psSpec ps)"
  note ok = passing_rows [OF assms]
  have v: "?v c = StateInSync" if "c \<in> set ?T" for c
    using ok [OF that] by (simp add: cluster_ok_def row_state)
  have "worst_phase (map ?v ?T) = ''Synced''"
    using v by (subst worst_phase_synced) (auto simp: list_all_iff possibleStates_def)
  moreover have "\<exists>r\<in>set reports. rsClusterName (carSpec r) = c
         \<and> peNow env - rsObservedAt (carSpec r) \<le> stale_seconds ps * Second
         \<and> rsSyncStatus (carSpec r) \<noteq> ''OutOfSync''
         \<and> rsObservedRevision (carSpec r) = psExpectedRevision (psSpec ps)" if c: "c \<in> set ?T" for c
  proof -
    obtain r where r: "gm_get (byCluster reports) c = Some r"
      using v [OF c] by (cases "gm_get (byCluster reports) c") (auto simp: verdict_def)
    then have "r \<in> set reports" "rsClusterName (carSpec r) = c"
      using byCluster_Some by auto
    with v [OF c] r show ?thesis
      by (auto simp: verdict_def report_verdict_def stale_seconds_def split: if_splits)
  qed
  ultimately show ?thesis
    by (simp only: stored_status [OF assms(1,2)] computed_status_fields) blast
qed

definition good_report :: ClusterAppReport where
  "good_report = (sample_report ''c1'' ''r1'' 0)
     \<lparr>carSpec := (carSpec (sample_report ''c1'' ''r1'' 0))
        \<lparr>rsMCPStatus := csMCPStatus good_cluster, rsVirtStatus := csVirtStatus good_cluster,
         rsPlatformObservation := good_platform\<rparr>\<rparr>"

lemma passing_window_is_synced_witness:
  "pssPhase (psStatus (stored_after (sample_env (sample_ps [''c1'']) [good_report] 0)
     (sample_ps [''c1''])
     (prop_reconcile (sample_env (sample_ps [''c1'']) [good_report] 0) ''ns/p'' no_gauges))) = ''Synced''"
proof -
  let ?row = "row (reset_lag_clock 0 (sample_ps [''c1''])) (byCluster [good_report]) 0 ''c1''"
  let ?chg = "sample_window [(''a'', app_of [?row])]"
  have agg: "aggregates (sample_env (sample_ps [''c1'']) [good_report] 0) (sample_ps [''c1'']) [good_report]"
    by (rule sample_aggregates) simp
  have targets: "psTargetClusters (psSpec (sample_ps [''c1''])) = [''c1'']"
    by (simp add: sample_ps_def)
  have "vrPassed (fst (evaluateGates False (\<lambda>ks. ks) ?chg 5))" by code_simp
  moreover have "gm_get (app_states ?chg) ''a'' = Some (app_of [?row])"
    by (simp add: gm_get_def app_states_def sample_window_def)
  moreover have "\<forall>p. pePatch (sample_env (sample_ps [''c1'']) [good_report] 0) p = None" by simp
  moreover have "acClusterStates (app_of [?row]) = pssClusterStates (psStatus (stored_after
      (sample_env (sample_ps [''c1'']) [good_report] 0) (sample_ps [''c1''])
      (prop_reconcile (sample_env (sample_ps [''c1'']) [good_report] 0) ''ns/p'' no_gauges)))"
    by (simp add: stored_status [OF agg] computed_status_fields targets app_of_def)
  ultimately show ?thesis
    using passing_window_is_synced [OF agg _ _ _ iter_ok_id] by blast
qed

text \<open>When every report was written by a spoke, a passing window reaches down to what the spokes
  read: for each target cluster some spoke of that name reported, no longer ago than the
  staleness threshold, a descriptor at the expected revision that was not out of sync and
  healthy, and its own API server showed no failing cluster operator, a converged pool, no node
  under maintenance, and neither degraded virtualization, nor a lagging handler, nor stalled
  migrations, nor VMIs that cannot migrate.\<close>

theorem passing_window_reaches_spokes:
  assumes "aggregates env ps reports" "\<forall>p. pePatch env p = None"
    and "gm_get (app_states chg) app = Some m"
    and "acClusterStates m = pssClusterStates (psStatus (stored_after env ps (prop_reconcile env req g)))"
    and "iter_ok it" "vrPassed (fst (evaluateGates isHub it chg now))"
    and spokes: "\<forall>r\<in>set reports. \<exists>lenv cm. carSpec r = report_spec lenv cm"
  shows "\<forall>c\<in>set (psTargetClusters (psSpec ps)). \<exists>r\<in>set reports. \<exists>lenv cm.
      carSpec r = report_spec lenv cm \<and> leClusterName lenv = c
      \<and> peNow env - leNow lenv \<le> stale_seconds ps * Second
      \<and> adSyncStatus (parseDescriptor cm) \<noteq> ''OutOfSync''
      \<and> adRevision (parseDescriptor cm) = psExpectedRevision (psSpec ps) \<and> spoke_ok lenv cm"
proof
  fix c
  let ?ps0 = "reset_lag_clock (peMetaNow env) ps"
  assume c: "c \<in> set (psTargetClusters (psSpec ps))"
  have ok: "cluster_ok (cwStartTime (chgSpec chg)) (row ?ps0 (byCluster reports) (peNow env) c)"
    using passing_rows [OF assms(1-6) c] .
  then have v: "verdict ?ps0 (byCluster reports) (peNow env) c = StateInSync"
    by (simp add: cluster_ok_def row_state)
  then obtain r where r: "gm_get (byCluster reports) c = Some r"
    by (cases "gm_get (byCluster reports) c") (auto simp: verdict_def)
  then have mem: "r \<in> set reports" "rsClusterName (carSpec r) = c"
    using byCluster_Some by auto
  then obtain lenv cm where spec: "carSpec r = report_spec lenv cm" using spokes by blast
  have "stale_seconds ?ps0 = stale_seconds ps" "psSpec ?ps0 = psSpec ps"
    by (simp_all add: stale_seconds_def reset_lag_clock_def)
  then show "\<exists>r\<in>set reports. \<exists>lenv cm. carSpec r = report_spec lenv cm \<and> leClusterName lenv = c
      \<and> peNow env - leNow lenv \<le> stale_seconds ps * Second
      \<and> adSyncStatus (parseDescriptor cm) \<noteq> ''OutOfSync''
      \<and> adRevision (parseDescriptor cm) = psExpectedRevision (psSpec ps) \<and> spoke_ok lenv cm"
    using verdict_InSync [OF r v] spoke_row [OF r spec] ok mem spec
    by (intro bexI [of _ r] exI [of _ lenv] exI [of _ cm]) (simp_all add: report_spec_fields)
qed

lemma passing_window_reaches_spokes_witness:
  "\<exists>lenv cm. leClusterName lenv = ''c1'' \<and> spoke_ok lenv cm"
proof -
  let ?rep = "spoke_report good_local good_cm"
  let ?ps = "sample_ps [''c1'']"
  let ?env = "sample_env ?ps [?rep] 0"
  let ?row = "row (reset_lag_clock 0 ?ps) (byCluster [?rep]) 0 ''c1''"
  let ?chg = "sample_window [(''a'', app_of [?row])]"
  have agg: "aggregates ?env ?ps [?rep]" by (rule sample_aggregates) simp
  have targets: "psTargetClusters (psSpec ?ps) = [''c1'']" by (simp add: sample_ps_def)
  have "vrPassed (fst (evaluateGates False (\<lambda>ks. ks) ?chg 5))" by code_simp
  moreover have "gm_get (app_states ?chg) ''a'' = Some (app_of [?row])"
    by (simp add: gm_get_def app_states_def sample_window_def)
  moreover have "\<forall>p. pePatch ?env p = None" by simp
  moreover have "acClusterStates (app_of [?row]) = pssClusterStates (psStatus (stored_after ?env ?ps
      (prop_reconcile ?env ''ns/p'' no_gauges)))"
    by (simp add: stored_status [OF agg] computed_status_fields targets app_of_def)
  moreover have "\<forall>r\<in>set [?rep]. \<exists>lenv cm. carSpec r = report_spec lenv cm"
    by (auto simp: spoke_report_def)
  ultimately show ?thesis
    using passing_window_reaches_spokes [OF agg _ _ _ iter_ok_id, of ?chg "''a''" "app_of [?row]"
        "''ns/p''" no_gauges False 5] by (auto simp: targets)
qed

end
